(* ===== verification/Prelude.thy ===== *)
theory Prelude
  imports Main "HOL-Library.Word"
begin

text \<open>
  Shared vocabulary of the development: the machine types of the Rust code, the result type
  with which every fallible function is modelled (a value, an \<open>Err\<close> or a panic), the
  standard-library operations whose panics matter (\<open>unwrap\<close>, indexing, \<open>usize\<close>
  subtraction), \<open>iter().enumerate().map(..).collect::<Result<Vec<_>>>()\<close>, the decimal
  formatting used by \<open>format!\<close>, and the interface of a validation function.
\<close>

named_theorems outcome_iffs \<open>equations that decide when a sequence of fallible steps returns Ok\<close>
named_theorems no_panic_intros \<open>introduction rules for panic freedom\<close>
named_theorems only_errs_intros \<open>introduction rules for the kinds of error a step can return\<close>

section \<open>Machine types\<close>

type_synonym byte = "8 word"
type_synonym bytes = "byte list"
type_synonym u8 = "8 word"
type_synonym u32 = "32 word"
type_synonym u64 = "64 word"

text \<open>An \<open>i64\<close> is a 64-bit word read with \<open>sint\<close>.\<close>

type_synonym i64 = "64 word"

section \<open>Results, errors and panics\<close>

text \<open>
  \<open>Ok\<close> and \<open>Err\<close> are the two constructors of Rust's \<open>Result\<close>. \<open>Panic\<close> is the
  abnormal end of the computation (\<open>unwrap\<close> on \<open>None\<close>, a failed \<open>assert!\<close>, an
  index out of range), carried as a third case so that panic freedom is a theorem.
\<close>

datatype (errs: 'e, oks: 'a) outcome = Ok 'a | Err 'e | Panic string

primrec and_then :: "('e, 'a) outcome \<Rightarrow> ('a \<Rightarrow> ('e, 'b) outcome) \<Rightarrow> ('e, 'b) outcome" where
  "and_then (Ok x) f = f x"
| "and_then (Err e) f = Err e"
| "and_then (Panic m) f = Panic m"

lemma and_then_Ok_iff [outcome_iffs]:
  "and_then r f = Ok y \<longleftrightarrow> (\<exists>x. r = Ok x \<and> f x = Ok y)"
  by (cases r) auto

lemma and_then_Err_iff:
  "and_then r f = Err e \<longleftrightarrow> r = Err e \<or> (\<exists>x. r = Ok x \<and> f x = Err e)"
  by (cases r) auto

lemma and_then_Ok_right [simp]: "and_then r Ok = r"
  by (cases r) auto

lemma and_then_unit [simp]: "and_then r (\<lambda>_. Ok ()) = r"
  by (cases r) auto

lemma and_then_assoc: "and_then (and_then r f) g = and_then r (\<lambda>x. and_then (f x) g)"
  by (cases r) auto

text \<open>
  A library call returns a \<open>Result\<close> and never panics: it is a value of a sum type, with
  the library's error given by its \<open>Display\<close> text. \<open>map_err\<close> turns it into the crate's
  own result.
\<close>

primrec map_err :: "('x \<Rightarrow> 'e) \<Rightarrow> 'x + 'a \<Rightarrow> ('e, 'a) outcome" where
  "map_err f (Inl x) = Err (f x)"
| "map_err f (Inr a) = Ok a"

lemma map_err_Ok_iff [outcome_iffs]: "map_err f r = Ok y \<longleftrightarrow> r = Inr y"
  by (cases r) auto

primrec ok_or :: "'e \<Rightarrow> 'a option \<Rightarrow> ('e, 'a) outcome" where
  "ok_or e None = Err e"
| "ok_or e (Some x) = Ok x"

lemma ok_or_Ok_iff [outcome_iffs]: "ok_or e r = Ok y \<longleftrightarrow> r = Some y"
  by (cases r) auto

text \<open>\<open>Result::expect\<close>: the error becomes a panic.\<close>

primrec expect_ok :: "string \<Rightarrow> ('e, 'a) outcome \<Rightarrow> ('f, 'a) outcome" where
  "expect_ok msg (Ok x) = Ok x"
| "expect_ok msg (Err e) = Panic msg"
| "expect_ok msg (Panic m) = Panic m"

lemma expect_ok_Ok_iff [outcome_iffs]: "expect_ok msg r = Ok y \<longleftrightarrow> r = Ok y"
  by (cases r) auto

lemma expect_ok_neq_Err [simp]: "expect_ok msg r \<noteq> Err e"
  by (cases r) auto

text \<open>The implicit conversion of \<open>?\<close> from one error type to another.\<close>

primrec convert_err :: "('e \<Rightarrow> 'f) \<Rightarrow> ('e, 'a) outcome \<Rightarrow> ('f, 'a) outcome" where
  "convert_err f (Ok x) = Ok x"
| "convert_err f (Err e) = Err (f e)"
| "convert_err f (Panic m) = Panic m"

lemma convert_err_Ok_iff [outcome_iffs]: "convert_err f r = Ok y \<longleftrightarrow> r = Ok y"
  by (cases r) auto

text \<open>\<open>assert!(c, msg)\<close>\<close>

definition assert_that :: "bool \<Rightarrow> string \<Rightarrow> ('e, unit) outcome" where
  "assert_that c msg = (if c then Ok () else Panic msg)"

lemma assert_that_Ok_iff [outcome_iffs]: "assert_that c msg = Ok u \<longleftrightarrow> c"
  by (auto simp: assert_that_def)

lemma if_Err_Ok_iff [outcome_iffs]: "(if c then Err e else r) = Ok y \<longleftrightarrow> \<not> c \<and> r = Ok y"
  by auto

section \<open>Panic freedom\<close>

definition no_panic :: "('e, 'a) outcome \<Rightarrow> bool" where
  "no_panic r \<longleftrightarrow> (\<forall>m. r \<noteq> Panic m)"

lemma no_panic_simps [simp]:
  "no_panic (Ok x)" "no_panic (Err e)" "\<not> no_panic (Panic m)"
  by (simp_all add: no_panic_def)

lemma no_panic_cases:
  assumes "no_panic r"
  obtains x where "r = Ok x" | e where "r = Err e"
  using assms by (cases r) auto

lemma no_panic_Err_iff: "no_panic r \<Longrightarrow> (\<exists>e. r = Err e) \<longleftrightarrow> (\<forall>x. r \<noteq> Ok x)"
  by (cases r) auto

lemma no_panic_and_then [no_panic_intros]:
  "no_panic r \<Longrightarrow> (\<And>x. r = Ok x \<Longrightarrow> no_panic (f x)) \<Longrightarrow> no_panic (and_then r f)"
  by (cases r) auto

lemma no_panic_map_err [simp, no_panic_intros]: "no_panic (map_err f r)"
  by (cases r) auto

lemma no_panic_ok_or [simp, no_panic_intros]: "no_panic (ok_or e r)"
  by (cases r) auto

lemma no_panic_if [no_panic_intros]:
  "(c \<Longrightarrow> no_panic r) \<Longrightarrow> (\<not> c \<Longrightarrow> no_panic s) \<Longrightarrow> no_panic (if c then r else s)"
  by simp

section \<open>Which errors\<close>

definition only_errs :: "('e \<Rightarrow> bool) \<Rightarrow> ('e, 'a) outcome \<Rightarrow> bool" where
  "only_errs P r \<longleftrightarrow> (\<forall>e. r = Err e \<longrightarrow> P e)"

lemma only_errs_simps [simp]:
  "only_errs P (Ok x)" "only_errs P (Err e) \<longleftrightarrow> P e" "only_errs P (Panic m)"
  by (simp_all add: only_errs_def)

lemma only_errs_and_then [only_errs_intros]:
  "only_errs P r \<Longrightarrow> (\<And>x. only_errs P (f x)) \<Longrightarrow> only_errs P (and_then r f)"
  by (cases r) auto

lemma only_errs_map_err [only_errs_intros]: "(\<And>x. P (f x)) \<Longrightarrow> only_errs P (map_err f r)"
  by (cases r) auto

lemma only_errs_ok_or [only_errs_intros]: "P e \<Longrightarrow> only_errs P (ok_or e r)"
  by (cases r) auto

lemma only_errs_if [only_errs_intros]:
  "only_errs P r \<Longrightarrow> only_errs P s \<Longrightarrow> only_errs P (if c then r else s)"
  by simp

lemma only_errs_expect [only_errs_intros]: "only_errs P (expect_ok msg r)"
  by (cases r) auto

lemma only_errs_weaken: "only_errs P r \<Longrightarrow> (\<And>e. P e \<Longrightarrow> Q e) \<Longrightarrow> only_errs Q r"
  by (simp add: only_errs_def)

lemma only_errsD: "only_errs P r \<Longrightarrow> r = Err e \<Longrightarrow> P e"
  by (simp add: only_errs_def)

section \<open>Standard-library operations that panic\<close>

text \<open>\<open>Iterator::next().unwrap()\<close> on the iterator over a vector: the element and the rest.\<close>

primrec next_unwrap :: "'a list \<Rightarrow> ('e, 'a \<times> 'a list) outcome" where
  "next_unwrap [] = Panic ''called `Option::unwrap()` on a `None` value''"
| "next_unwrap (x # xs) = Ok (x, xs)"

lemma next_unwrap_Ok_iff [outcome_iffs]: "next_unwrap xs = Ok p \<longleftrightarrow> xs = fst p # snd p"
  by (cases xs; cases p) auto

lemma no_panic_next_unwrap [simp]: "no_panic (next_unwrap xs) \<longleftrightarrow> xs \<noteq> []"
  by (cases xs) auto

lemma only_errs_next_unwrap [only_errs_intros]: "only_errs P (next_unwrap xs)"
  by (cases xs) auto

text \<open>\<open>xs[i]\<close>\<close>

definition index :: "'a list \<Rightarrow> nat \<Rightarrow> ('e, 'a) outcome" where
  "index xs i = (if i < length xs then Ok (xs ! i) else Panic ''index out of bounds'')"

lemma index_in_range [simp]: "i < length xs \<Longrightarrow> index xs i = Ok (xs ! i)"
  by (simp add: index_def)

lemma only_errs_index [only_errs_intros]: "only_errs P (index xs i)"
  by (simp add: index_def)

text \<open>
  \<open>a - b\<close> on \<open>usize\<close>: a panic on underflow, as in a build with overflow checks. Where the
  subtraction is proved not to panic, builds with and without the checks agree.
\<close>

definition usize_sub :: "nat \<Rightarrow> nat \<Rightarrow> ('e, nat) outcome" where
  "usize_sub a b = (if b \<le> a then Ok (a - b) else Panic ''attempt to subtract with overflow'')"

lemma usize_sub_in_range [simp]: "b \<le> a \<Longrightarrow> usize_sub a b = Ok (a - b)"
  by (simp add: usize_sub_def)

lemma only_errs_usize_sub [only_errs_intros]: "only_errs P (usize_sub a b)"
  by (simp add: usize_sub_def)

section \<open>Collecting results\<close>

text \<open>
  \<open>xs.iter().enumerate().map(|(i, x)| f(i, x)).collect::<Result<Vec<_>>>()\<close>: elements are
  visited in order and the first error ends the iteration.
\<close>

fun collect_enumerated ::
  "(nat \<Rightarrow> 'a \<Rightarrow> ('e, 'b) outcome) \<Rightarrow> nat \<Rightarrow> 'a list \<Rightarrow> ('e, 'b list) outcome" where
  "collect_enumerated f i [] = Ok []"
| "collect_enumerated f i (x # xs) =
     and_then (f i x) (\<lambda>y. and_then (collect_enumerated f (Suc i) xs) (\<lambda>ys. Ok (y # ys)))"

lemma collect_enumerated_Ok_iff:
  "collect_enumerated f i xs = Ok ys \<longleftrightarrow>
     length ys = length xs \<and> (\<forall>k < length xs. f (i + k) (xs ! k) = Ok (ys ! k))"
proof (induction xs arbitrary: i ys)
  case Nil
  then show ?case by auto
next
  case (Cons x xs)
  have "collect_enumerated f i (x # xs) = Ok ys \<longleftrightarrow>
      (\<exists>y zs. f i x = Ok y \<and> collect_enumerated f (Suc i) xs = Ok zs \<and> ys = y # zs)"
    by (auto simp: outcome_iffs)
  also have "\<dots> \<longleftrightarrow> length ys = length (x # xs) \<and>
      (\<forall>k < length (x # xs). f (i + k) ((x # xs) ! k) = Ok (ys ! k))"
    by (cases ys) (auto simp: Cons.IH All_less_Suc2)
  finally show ?case .
qed

lemma no_panic_collect_enumerated [no_panic_intros]:
  "(\<And>k. k < length xs \<Longrightarrow> no_panic (f (i + k) (xs ! k))) \<Longrightarrow> no_panic (collect_enumerated f i xs)"
proof (induction xs arbitrary: i)
  case Nil
  then show ?case by simp
next
  case (Cons x xs)
  from Cons.prems [of 0] have "no_panic (f i x)" by simp
  moreover have "no_panic (collect_enumerated f (Suc i) xs)"
    using Cons.prems [of "Suc _"] by (intro Cons.IH) auto
  ultimately show ?case by (auto intro!: no_panic_intros)
qed

lemma only_errs_collect_enumerated [only_errs_intros]:
  "(\<And>i x. only_errs P (f i x)) \<Longrightarrow> only_errs P (collect_enumerated f i xs)"
  by (induction xs arbitrary: i) (auto intro!: only_errs_intros)

lemma collect_enumerated_list_all2:
  assumes "\<And>i x y. f i x = Ok y \<longleftrightarrow> P x y"
  shows "collect_enumerated f i xs = Ok ys \<longleftrightarrow> list_all2 P xs ys"
  by (auto simp: collect_enumerated_Ok_iff assms list_all2_conv_all_nth)

text \<open>The error returned is the one of the first failing element.\<close>

lemma collect_enumerated_Err_iff:
  "collect_enumerated f i xs = Err e \<longleftrightarrow>
     (\<exists>k < length xs. f (i + k) (xs ! k) = Err e \<and> (\<forall>l < k. \<exists>y. f (i + l) (xs ! l) = Ok y))"
proof (induction xs arbitrary: i)
  case Nil
  then show ?case by simp
next
  case (Cons x xs)
  have "collect_enumerated f i (x # xs) = Err e \<longleftrightarrow>
      f i x = Err e \<or> (\<exists>y. f i x = Ok y) \<and> collect_enumerated f (Suc i) xs = Err e"
    by (auto simp: and_then_Err_iff)
  also have "\<dots> \<longleftrightarrow> (\<exists>k < length (x # xs). f (i + k) ((x # xs) ! k) = Err e \<and>
      (\<forall>l < k. \<exists>y. f (i + l) ((x # xs) ! l) = Ok y))"
    by (auto simp: Cons.IH Ex_less_Suc2 All_less_Suc2)
  finally show ?case .
qed

text \<open>The same iteration written as a \<open>for\<close> loop that pushes onto a vector.\<close>

fun push_loop ::
  "(nat \<Rightarrow> 'a \<Rightarrow> ('e, 'b) outcome) \<Rightarrow> nat \<Rightarrow> 'b list \<Rightarrow> 'a list \<Rightarrow> ('e, 'b list) outcome" where
  "push_loop f i acc [] = Ok acc"
| "push_loop f i acc (x # xs) = and_then (f i x) (\<lambda>y. push_loop f (Suc i) (acc @ [y]) xs)"

lemma push_loop_collect:
  "push_loop f i acc xs = and_then (collect_enumerated f i xs) (\<lambda>ys. Ok (acc @ ys))"
  by (induction xs arbitrary: i acc) (simp_all add: and_then_assoc)

section \<open>Narrowing casts\<close>

text \<open>\<open>n as u32\<close> keeps the low 32 bits.\<close>

lemma u32_of_nat_greater_iff: "(of_nat n :: u32) > w \<longleftrightarrow> unat w < n mod 2 ^ 32"
  by (simp add: word_less_nat_alt unat_of_nat)

text \<open>A non-negative \<open>i64\<close> is the same number as a \<open>u64\<close>.\<close>

lemma nonneg_i64_bound: "0 \<le> sint (w :: i64) \<Longrightarrow> uint w < 2 ^ 63"
proof (rule ccontr)
  assume "0 \<le> sint w" and "\<not> uint w < 2 ^ 63"
  then have "2 ^ 63 \<le> uint w" and "uint w < 2 ^ 64"
    using unsigned_less [of w, where ?'a = int] by simp_all
  then have "uint w div 2 ^ 63 = 1" by simp
  then have "bit (uint w) 63" by (simp add: bit_iff_odd)
  then have "sint w < 0" by (simp add: sint_uint)
  with \<open>0 \<le> sint w\<close> show False by simp
qed

lemma nonneg_i64_unat: "0 \<le> sint (w :: i64) \<Longrightarrow> unat w < 2 ^ 63"
proof -
  assume "0 \<le> sint w"
  then have "int (unat w) < int (2 ^ 63)"
    using nonneg_i64_bound [of w] by (simp only: of_nat_unat) simp
  then show ?thesis by (simp only: of_nat_less_iff)
qed

lemma nonneg_i64_eq: "0 \<le> sint (w :: i64) \<Longrightarrow> sint w = int (unat w)"
proof -
  assume "0 \<le> sint w"
  then have "uint w < 2 ^ 63" by (rule nonneg_i64_bound)
  moreover have "- (2 ^ 63) \<le> uint w"
    by (rule order_trans [OF _ uint_ge_0]) simp
  ultimately show ?thesis
    using signed_take_bit_int_eq_self [of 63 "uint w"] by (simp add: sint_uint)
qed

section \<open>Decimal formatting\<close>

definition digit :: "nat \<Rightarrow> char" where
  "digit d = char_of (48 + d)"

fun show_nat :: "nat \<Rightarrow> string" where
  "show_nat n = (if n < 10 then [digit n] else show_nat (n div 10) @ [digit (n mod 10)])"

declare show_nat.simps [simp del]

definition show_int :: "int \<Rightarrow> string" where
  "show_int z = (if z < 0 then CHR ''-'' # show_nat (nat (- z)) else show_nat (nat z))"

section \<open>The interface of a validation function\<close>

text \<open>
  Several functions of the program return \<open>Result<()>\<close>: they accept or reject their input.
  The contract is the predicate they decide; a caller that runs one with \<open>?\<close> and goes on
  needs no more than that.
\<close>

locale validator =
  fixes run :: "'a \<Rightarrow> ('e, unit) outcome"
    and accepts :: "'a \<Rightarrow> bool"
  assumes run_Ok_iff: "run x = Ok () \<longleftrightarrow> accepts x"
    and run_no_panic: "no_panic (run x)"
begin

lemma then_Ok_iff: "and_then (run x) (\<lambda>_. k) = Ok y \<longleftrightarrow> accepts x \<and> k = Ok y"
  using run_Ok_iff [of x] by (auto simp: outcome_iffs)

lemma rejects_iff: "(\<exists>e. run x = Err e) \<longleftrightarrow> \<not> accepts x"
  using run_Ok_iff [of x] run_no_panic [of x] by (cases "run x") auto

lemma then_no_panic: "no_panic k \<Longrightarrow> no_panic (and_then (run x) (\<lambda>_. k))"
  by (intro no_panic_and_then run_no_panic)

end

end
