(* ===== verification/Byte_Arrays.thy ===== *)
theory Byte_Arrays
  imports Prelude "HOL-Library.Type_Length" "HOL-Library.Numeral_Type"
begin

text \<open>
  Fixed-size byte arrays. The Rust code uses \<open>ByteArray<48>\<close>, \<open>B256\<close>, \<open>B128\<close> and
  \<open>Address\<close>, all of them a \<open>[u8; N]\<close> whose length is part of the type; here the length
  is \<open>LENGTH('n)\<close> of the type argument, so \<open>48 byte_array\<close> is \<open>ByteArray<48>\<close> and
  \<open>32 byte_array\<close> is \<open>B256\<close>. The theory also holds the interface of an encoding of
  constant width, whose client lemmas the digest and PCR proofs use.
\<close>

section \<open>The type\<close>

typedef (overloaded) 'n byte_array = "{xs :: bytes. length xs = LENGTH('n::len)}"
  morphisms as_slice Byte_Array
  by (rule exI [of _ "replicate LENGTH('n) 0"]) simp

type_synonym B128 = "16 byte_array"
type_synonym B256 = "32 byte_array"
type_synonym Address = "20 byte_array"

lemma length_as_slice [simp]: "length (as_slice (a :: 'n::len byte_array)) = LENGTH('n)"
  using as_slice [of a] by simp

lemma as_slice_Byte_Array [simp]:
  "length xs = LENGTH('n::len) \<Longrightarrow> as_slice (Byte_Array xs :: 'n byte_array) = xs"
  by (simp add: Byte_Array_inverse)

lemma as_slice_eq_iff [simp]: "as_slice a = as_slice b \<longleftrightarrow> a = b"
  by (simp add: as_slice_inject)

instantiation byte_array :: (len) equal
begin

definition equal_byte_array :: "'a byte_array \<Rightarrow> 'a byte_array \<Rightarrow> bool" where
  "equal_byte_array a b \<longleftrightarrow> as_slice a = as_slice b"

instance
  by standard (simp add: equal_byte_array_def)

end

instantiation byte_array :: (len) size
begin

definition size_byte_array :: "'a byte_array \<Rightarrow> nat" where
  "size_byte_array a = length (as_slice a)"

instance ..

end

section \<open>Operations\<close>

text \<open>\<open>[b; N]\<close>: \<open>FixedBytes::repeat_byte\<close>, \<open>B256::ZERO\<close>, \<open>ByteArray::new([b; N])\<close>.\<close>

definition repeat_byte :: "byte \<Rightarrow> 'n::len byte_array" where
  "repeat_byte b = Byte_Array (replicate LENGTH('n) b)"

text \<open>\<open>FixedBytes::from_slice\<close> panics when the slice has the wrong length.\<close>

definition from_slice :: "bytes \<Rightarrow> ('e, 'n::len byte_array) outcome" where
  "from_slice xs = (if length xs = LENGTH('n) then Ok (Byte_Array xs)
     else Panic ''slice with incorrect length'')"

definition is_zero :: "'n::len byte_array \<Rightarrow> bool" where
  "is_zero a \<longleftrightarrow> list_all (\<lambda>b. b = 0) (as_slice a)"

text \<open>\<open>buf[lo..lo + src.len()].copy_from_slice(src)\<close>\<close>

definition copy_into :: "bytes \<Rightarrow> nat \<Rightarrow> bytes \<Rightarrow> bytes" where
  "copy_into buf lo src = take lo buf @ src @ drop (lo + length src) buf"

lemma as_slice_repeat_byte [simp]:
  "as_slice (repeat_byte b :: 'n::len byte_array) = replicate LENGTH('n) b"
  by (simp add: repeat_byte_def)

lemma repeat_byte_eq_iff [simp]: "(repeat_byte b :: 'n::len byte_array) = repeat_byte c \<longleftrightarrow> b = c"
  by (simp flip: as_slice_eq_iff add: replicate_eq_replicate)

lemma from_slice_Ok [simp]:
  "length xs = LENGTH('n::len) \<Longrightarrow> from_slice xs = Ok (Byte_Array xs :: 'n byte_array)"
  by (simp add: from_slice_def)

lemma from_slice_as_slice [simp]: "from_slice (as_slice a) = Ok a"
  by (simp add: from_slice_def as_slice_inverse)

lemma is_zero_iff: "is_zero (a :: 'n::len byte_array) \<longleftrightarrow> a = repeat_byte 0"
proof -
  have "is_zero a \<longleftrightarrow> as_slice a = replicate LENGTH('n) 0"
    by (auto simp: is_zero_def list_all_iff replicate_eqI)
  also have "\<dots> \<longleftrightarrow> a = repeat_byte 0"
    by (simp flip: as_slice_repeat_byte)
  finally show ?thesis .
qed

section \<open>Encodings of constant width\<close>

text \<open>
  An injective encoding whose output always has the same length can be concatenated with
  anything, and repeated, without losing information.
\<close>

locale fixed_width =
  fixes enc :: "'a \<Rightarrow> bytes"
    and width :: nat
  assumes length_enc: "length (enc x) = width"
    and enc_inject: "enc x = enc y \<Longrightarrow> x = y"
begin

lemma enc_eq_iff: "enc x = enc y \<longleftrightarrow> x = y"
  using enc_inject by blast

lemma enc_append_eq_iff: "enc x @ bs = enc y @ cs \<longleftrightarrow> x = y \<and> bs = cs"
  by (simp add: append_eq_append_conv length_enc enc_eq_iff)

lemma enc_take: "take width (enc x @ bs) = enc x"
  by (simp add: length_enc)

lemma length_concat_enc: "length (concat (map enc xs)) = width * length xs"
  by (induction xs) (simp_all add: length_enc)

end

locale nonempty_fixed_width = fixed_width +
  assumes width_pos: "0 < width"
begin

lemma enc_not_Nil: "enc x \<noteq> []"
  using length_enc [of x] width_pos by auto

lemma concat_enc_inject: "concat (map enc xs) = concat (map enc ys) \<longleftrightarrow> xs = ys"
proof (induction xs arbitrary: ys)
  case Nil
  then show ?case by (cases ys) (auto simp: enc_not_Nil)
next
  case (Cons x xs)
  then show ?case by (cases ys) (auto simp: enc_not_Nil enc_append_eq_iff)
qed

end

interpretation slice: nonempty_fixed_width
  "as_slice :: 'n::len byte_array \<Rightarrow> bytes" "LENGTH('n)"
  by unfold_locales auto

end
