(* ===== verification/Btree_Map.thy ===== *)
theory Btree_Map
  imports Prelude
begin

text \<open>
  The standard library's \<open>BTreeMap<K, V>\<close>, as far as the attestation document uses it:
  a finite map that iterates in strictly ascending key order. A map is represented by the
  list of its entries in that order, and the ordering is part of the type. The interface
  \<open>ordered_map\<close> states what the verifier relies on.
\<close>

section \<open>The type and its operations\<close>

fun insert_entry :: "'k::linorder \<Rightarrow> 'v \<Rightarrow> ('k \<times> 'v) list \<Rightarrow> ('k \<times> 'v) list" where
  "insert_entry k v [] = [(k, v)]"
| "insert_entry k v (e # es) =
     (if fst e < k then e # insert_entry k v es
      else if fst e = k then (k, v) # es
      else (k, v) # e # es)"

lemma keys_insert_entry: "fst ` set (insert_entry k v es) = insert k (fst ` set es)"
  by (induction es) auto

lemma sorted_insert_entry:
  "sorted_wrt (<) (map fst es) \<Longrightarrow> sorted_wrt (<) (map fst (insert_entry k v es))"
proof (induction es)
  case Nil
  then show ?case by simp
next
  case (Cons e es)
  have "\<forall>l \<in> fst ` set (insert_entry k v es). fst e < l" if "fst e < k"
    using Cons.prems that by (auto simp: keys_insert_entry)
  with Cons show ?case by auto
qed

lemma map_of_insert_entry:
  "sorted_wrt (<) (map fst es) \<Longrightarrow> map_of (insert_entry k v es) = (map_of es)(k \<mapsto> v)"
  by (induction es) (auto simp: fun_eq_iff)

typedef (overloaded) ('k, 'v) btree_map =
  "{es :: ('k::linorder \<times> 'v) list. sorted_wrt (<) (map fst es)}"
  morphisms entries Btree_Map
  by (rule exI [of _ "[]"]) simp

setup_lifting type_definition_btree_map

lift_definition btree_new :: "('k::linorder, 'v) btree_map" is "[]"
  by simp

lift_definition btree_insert ::
  "'k::linorder \<Rightarrow> 'v \<Rightarrow> ('k, 'v) btree_map \<Rightarrow> ('k, 'v) btree_map" is insert_entry
  by (rule sorted_insert_entry)

definition btree_get :: "('k::linorder, 'v) btree_map \<Rightarrow> 'k \<Rightarrow> 'v option" where
  "btree_get m k = map_of (entries m) k"

definition btree_len :: "('k::linorder, 'v) btree_map \<Rightarrow> nat" where
  "btree_len m = length (entries m)"

definition btree_keys :: "('k::linorder, 'v) btree_map \<Rightarrow> 'k list" where
  "btree_keys m = map fst (entries m)"

definition btree_values :: "('k::linorder, 'v) btree_map \<Rightarrow> 'v list" where
  "btree_values m = map snd (entries m)"

lemma entries_btree_new [simp]: "entries btree_new = []"
  by transfer simp

lemma entries_btree_insert [simp]:
  "entries (btree_insert k v m) = insert_entry k v (entries m)"
  by transfer simp

lemma sorted_entries: "sorted_wrt (<) (map fst (entries m))"
  by transfer simp

lemma entries_eq_iff: "entries m = entries n \<longleftrightarrow> m = n"
  by (rule entries_inject)

lemma btree_len_keys: "length (btree_keys m) = btree_len m"
  by (simp add: btree_keys_def btree_len_def)

instantiation btree_map :: (linorder, equal) equal
begin

definition equal_btree_map :: "('a, 'b) btree_map \<Rightarrow> ('a, 'b) btree_map \<Rightarrow> bool" where
  "equal_btree_map m n \<longleftrightarrow> entries m = entries n"

instance
  by standard (simp add: equal_btree_map_def entries_eq_iff)

end

section \<open>The interface of an ordered map\<close>

locale ordered_map =
  fixes new :: "'m"
    and ins :: "'k::linorder \<Rightarrow> 'v \<Rightarrow> 'm \<Rightarrow> 'm"
    and get :: "'m \<Rightarrow> 'k \<Rightarrow> 'v option"
    and iter :: "'m \<Rightarrow> ('k \<times> 'v) list"
  assumes iter_ascending: "sorted_wrt (<) (map fst (iter m))"
    and get_iter: "get m k = map_of (iter m) k"
    and get_new: "get new k = None"
    and get_ins: "get (ins k v m) l = (if l = k then Some v else get m l)"
begin

lemma distinct_keys: "distinct (map fst (iter m))"
  using iter_ascending [of m] by (simp add: strict_sorted_iff)

lemma iter_mem_iff: "(k, v) \<in> set (iter m) \<longleftrightarrow> get m k = Some v"
  by (simp add: get_iter map_of_eq_Some_iff distinct_keys)

lemma length_iter: "length (iter m) = card (dom (get m))"
proof -
  have "dom (get m) = set (map fst (iter m))"
    using dom_map_of_conv_image_fst [of "iter m"] by (simp add: dom_def get_iter)
  then show ?thesis
    using distinct_card [OF distinct_keys [of m]] by simp
qed

lemma iter_new: "iter new = []"
  by (metis get_new iter_mem_iff list.set_intros(1) option.discI surj_pair neq_Nil_conv)

text \<open>Two maps with the same lookups iterate identically: insertion order leaves no trace.\<close>

lemma iter_ext: "(\<And>k. get m k = get n k) \<Longrightarrow> iter m = iter n"
proof -
  assume same: "\<And>k. get m k = get n k"
  have sets: "set (iter m) = set (iter n)"
    using same by (auto simp: iter_mem_iff)
  have keys: "map fst (iter m) = map fst (iter n)"
    using sets by (metis iter_ascending set_map strict_sorted_equal)
  show ?thesis
  proof (rule nth_equalityI)
    show len: "length (iter m) = length (iter n)"
      using keys by (rule map_eq_imp_length_eq)
    fix i assume i: "i < length (iter m)"
    have "fst (iter m ! i) = fst (iter n ! i)"
      using keys i len by (metis nth_map)
    moreover have "iter n ! i \<in> set (iter m)"
      using i len sets nth_mem [of i "iter n"] by simp
    moreover have "iter m ! i \<in> set (iter m)"
      using i by simp
    ultimately show "iter m ! i = iter n ! i"
      by (metis iter_mem_iff option.inject prod.exhaust_sel)
  qed
qed

end

interpretation btree: ordered_map btree_new btree_insert btree_get entries
  by unfold_locales
    (simp_all add: sorted_entries btree_get_def map_of_insert_entry)

end
