(* ===== verification/Errors.thy ===== *)
theory Errors
  imports Prelude
begin

text \<open>
  The error types of the two crates, \<open>VerifierError\<close> (verifier/src/error.rs) and
  \<open>ProverError\<close> (src/error.rs), with the \<open>Display\<close> texts their \<open>#[error(..)]\<close>
  attributes generate and the \<open>#[from]\<close> conversion between them.
\<close>

section \<open>VerifierError\<close>

datatype VerifierError =
    is_Cbor: Cbor string
  | is_CoseFormat: CoseFormat string
  | is_AttestationFormat: AttestationFormat string
  | is_X509Parse: X509Parse string
  | is_CertificateVerification: CertificateVerification string
  | is_SignatureVerification: SignatureVerification string
  | is_ContentValidation: ContentValidation string

lemma Err_ContentValidation_iff:
  "only_errs is_ContentValidation r \<Longrightarrow>
     (\<exists>m. r = Err (ContentValidation m)) \<longleftrightarrow> (\<exists>e. r = Err e)"
  by (auto simp: only_errs_def is_ContentValidation_def)

lemma Err_CertificateVerification_iff:
  "only_errs is_CertificateVerification r \<Longrightarrow>
     (\<exists>m. r = Err (CertificateVerification m)) \<longleftrightarrow> (\<exists>e. r = Err e)"
  by (auto simp: only_errs_def is_CertificateVerification_def)

type_synonym 'a verifier_result = "(VerifierError, 'a) outcome"

primrec display_verifier_error :: "VerifierError \<Rightarrow> string" where
  "display_verifier_error (Cbor m) = ''CBOR error: '' @ m"
| "display_verifier_error (CoseFormat m) = ''COSE format error: '' @ m"
| "display_verifier_error (AttestationFormat m) = ''attestation format error: '' @ m"
| "display_verifier_error (X509Parse m) = ''x509 parse error: '' @ m"
| "display_verifier_error (CertificateVerification m) =
     ''certificate verification error: '' @ m"
| "display_verifier_error (SignatureVerification m) = ''signature verification error: '' @ m"
| "display_verifier_error (ContentValidation m) = ''content validation error: '' @ m"

section \<open>ProverError\<close>

datatype ProverError =
    is_Verifier: Verifier VerifierError
  | is_Sp1: Sp1 string
  | is_Boundless: Boundless string
  | is_Config: Config string
  | is_ImageId: ImageId string

type_synonym 'a prover_result = "(ProverError, 'a) outcome"

primrec display_prover_error :: "ProverError \<Rightarrow> string" where
  "display_prover_error (Verifier e) = ''verifier error: '' @ display_verifier_error e"
| "display_prover_error (Sp1 m) = ''sp1 error: '' @ m"
| "display_prover_error (Boundless m) = ''boundless error: '' @ m"
| "display_prover_error (Config m) = ''config error: '' @ m"
| "display_prover_error (ImageId m) = ''image ID error: '' @ m"

text \<open>\<open>impl From<VerifierError> for ProverError\<close>, generated by \<open>#[from]\<close>.\<close>

definition prover_error_from :: "VerifierError \<Rightarrow> ProverError" where
  "prover_error_from e = Verifier e"

section \<open>The texts determine the errors\<close>

lemma display_verifier_error_inject:
  "display_verifier_error e = display_verifier_error f \<longleftrightarrow> e = f"
  by (cases e; cases f) simp_all

text \<open>
  The \<open>Display\<close> text of a prover error determines the error, its variant and
  its message, through the nesting of a verifier error in a prover error; the conversion
  \<open>From<VerifierError>\<close> keeps the whole verifier text behind its own prefix.
\<close>

theorem display_prover_error_inject:
  "(display_prover_error e = display_prover_error f \<longleftrightarrow> e = f)
   \<and> display_prover_error (prover_error_from v) = ''verifier error: '' @ display_verifier_error v"
  by (cases e; cases f)
    (simp_all add: prover_error_from_def display_verifier_error_inject)

end
