(* ===== verification/Sol_Types.thy ===== *)
theory Sol_Types
  imports Byte_Arrays Errors
begin

text \<open>
  The Solidity-aligned types of verifier/src/types.rs: the enums with their discriminants,
  the structs as records, the 48-byte PCR value split into a \<open>bytes32\<close> and a \<open>bytes16\<close>,
  and the ABI codec wrappers of the macro \<open>impl_abi_codec!\<close>. The ABI encoding itself is
  code of the alloy crates and a parameter here.
\<close>

section \<open>Enums\<close>

datatype ZkCoProcessorType = ZkUnknown | RiscZero | Succinct

datatype VerificationResult =
    Unknown
  | Success
  | RootCertNotTrusted
  | IntermediateCertsNotTrusted
  | InvalidTimestamp

text \<open>A Solidity enum is a \<open>uint8\<close> that numbers the variants in the order of declaration.\<close>

primrec zk_co_processor_discriminant :: "ZkCoProcessorType \<Rightarrow> u8" where
  "zk_co_processor_discriminant ZkUnknown = 0"
| "zk_co_processor_discriminant RiscZero = 1"
| "zk_co_processor_discriminant Succinct = 2"

primrec verification_result_discriminant :: "VerificationResult \<Rightarrow> u8" where
  "verification_result_discriminant Unknown = 0"
| "verification_result_discriminant Success = 1"
| "verification_result_discriminant RootCertNotTrusted = 2"
| "verification_result_discriminant IntermediateCertsNotTrusted = 3"
| "verification_result_discriminant InvalidTimestamp = 4"

section \<open>Structs\<close>

record ZkCoProcessorConfig =
  verifierId :: B256
  aggregatorId :: B256
  zkVerifier :: Address

record VerifierInput =
  vi_trustedCertsPrefixLen :: u8
  vi_attestationReport :: bytes

record Bytes48 =
  first :: B256
  second :: B128

record Pcr =
  pcr_index :: u64
  pcr_value :: Bytes48

record VerifierJournal =
  vj_result :: VerificationResult
  vj_trustedCertsPrefixLen :: u8
  vj_timestamp :: u64
  vj_certs :: "B256 list"
  vj_certExpiries :: "u64 list"
  vj_userData :: bytes
  vj_nonce :: bytes
  vj_publicKey :: bytes
  vj_pcrs :: "Pcr list"
  vj_moduleId :: string

record BatchVerifierJournal =
  verifierVk :: B256
  outputs :: "VerifierJournal list"

section \<open>Bytes48\<close>

definition Bytes48_is_zero :: "Bytes48 \<Rightarrow> bool" where
  "Bytes48_is_zero b \<longleftrightarrow> is_zero (first b) \<and> is_zero (second b)"

definition Bytes48_to_bytes :: "Bytes48 \<Rightarrow> bytes" where
  "Bytes48_to_bytes b =
     (let buf = replicate 48 0;
          buf = copy_into buf 0 (as_slice (first b));
          buf = copy_into buf 32 (as_slice (second b))
      in buf)"

text \<open>\<open>From<&ByteArray<48>>\<close>: the two \<open>from_slice\<close> calls panic on a wrong length.\<close>

definition Bytes48_from :: "48 byte_array \<Rightarrow> ('e, Bytes48) outcome" where
  "Bytes48_from input =
     and_then (from_slice (take 32 (as_slice input))) (\<lambda>f.
     and_then (from_slice (drop 32 (as_slice input))) (\<lambda>s.
     Ok \<lparr>first = f, second = s\<rparr>))"

text \<open>The total function it computes.\<close>

definition split48 :: "48 byte_array \<Rightarrow> Bytes48" where
  "split48 a = \<lparr>first = Byte_Array (take 32 (as_slice a)),
                second = Byte_Array (drop 32 (as_slice a))\<rparr>"

lemma Bytes48_from_Ok [simp]: "Bytes48_from a = Ok (split48 a)"
  by (simp add: Bytes48_from_def split48_def)

lemma Bytes48_to_bytes_append:
  "Bytes48_to_bytes b = as_slice (first b) @ as_slice (second b)"
  by (simp add: Bytes48_to_bytes_def copy_into_def)

interpretation bytes48: nonempty_fixed_width Bytes48_to_bytes 48
proof unfold_locales
  fix x y :: Bytes48
  show "length (Bytes48_to_bytes x) = 48"
    by (simp add: Bytes48_to_bytes_append)
  assume "Bytes48_to_bytes x = Bytes48_to_bytes y"
  then have "first x = first y \<and> second x = second y"
    by (simp add: Bytes48_to_bytes_append slice.enc_append_eq_iff)
  then show "x = y" by simp
qed simp

lemma Bytes48_to_bytes_split48 [simp]: "Bytes48_to_bytes (split48 a) = as_slice a"
  by (simp add: Bytes48_to_bytes_append split48_def)

lemma split48_eq_iff [simp]: "split48 a = split48 b \<longleftrightarrow> a = b"
  by (metis Bytes48_to_bytes_split48 as_slice_eq_iff)

text \<open>
  Property C38: splitting a 48-byte PCR into \<open>Bytes48\<close> never panics and loses nothing:
  \<open>to_bytes\<close> gives the 48 bytes back, and \<open>is_zero\<close> holds exactly when all of them are zero.
\<close>

theorem Bytes48_roundtrip:
  "\<exists>b. Bytes48_from a = Ok b
     \<and> Bytes48_to_bytes b = as_slice a
     \<and> (Bytes48_is_zero b \<longleftrightarrow> list_all (\<lambda>x. x = 0) (as_slice a))"
proof -
  have "list_all (\<lambda>x. x = 0) (as_slice a) \<longleftrightarrow> Bytes48_is_zero (split48 a)"
    using list_all_append [of "\<lambda>x. x = 0" "take 32 (as_slice a)" "drop 32 (as_slice a)"]
    by (simp add: Bytes48_is_zero_def is_zero_def split48_def)
  then show ?thesis by simp
qed

text \<open>
  Every 48-byte value of the on-chain struct comes from exactly one PCR value, so
  the list of PCR values is determined by the concatenation of the structs' bytes.
\<close>

theorem Bytes48_concat_inject:
  "concat (map Bytes48_to_bytes bs) = concat (map Bytes48_to_bytes cs) \<longleftrightarrow> bs = cs"
  by (rule bytes48.concat_enc_inject)

section \<open>The ABI codec\<close>

text \<open>
  \<open>SolValue::abi_encode\<close> and \<open>SolValue::abi_decode_validate\<close> of the alloy crates; the error
  is its \<open>to_string()\<close>.
\<close>

record 'a sol_value =
  abi_encode :: "'a \<Rightarrow> bytes"
  abi_decode_validate :: "bytes \<Rightarrow> string + 'a"

text \<open>\<open>encode\<close> and \<open>decode\<close>, the two methods that \<open>impl_abi_codec!\<close> gives each type.\<close>

definition encode :: "'a sol_value \<Rightarrow> 'a \<Rightarrow> bytes" where
  "encode abi x = abi_encode abi x"

definition decode :: "'a sol_value \<Rightarrow> bytes \<Rightarrow> 'a verifier_result" where
  "decode abi buf = map_err AttestationFormat (abi_decode_validate abi buf)"

text \<open>The documented behaviour of an ABI codec: decoding inverts encoding.\<close>

definition abi_lossless :: "'a sol_value \<Rightarrow> bool" where
  "abi_lossless abi \<longleftrightarrow> (\<forall>x. abi_decode_validate abi (abi_encode abi x) = Inr x)"

lemma decode_encode: "abi_lossless abi \<Longrightarrow> decode abi (encode abi x) = Ok x"
  by (simp add: abi_lossless_def decode_def encode_def)

lemma encode_eq_iff: "abi_lossless abi \<Longrightarrow> encode abi x = encode abi y \<longleftrightarrow> x = y"
  by (metis decode_encode outcome.inject(1))

lemma no_panic_decode [simp, no_panic_intros]: "no_panic (decode abi buf)"
  by (simp add: decode_def)

end
