(* ===== verification/Cose.thy ===== *)
theory Cose
  imports Errors Byte_Arrays Btree_Map
begin

text \<open>
  verifier/src/attestation.rs: parsing of the \<open>COSE_Sign1\<close> envelope, the to-be-signed
  \<open>Sig_structure\<close>, the attestation document and the chain of certificates it carries.
  The CBOR codec (crate \<open>ciborium\<close>) is a parameter.
\<close>

section \<open>CBOR values and the codec\<close>

text \<open>
  \<open>ciborium::Value\<close>: the variants the code names, and one for all the others of this
  non-exhaustive enum, whose content \<open>'o\<close> the code never looks at.
\<close>

datatype 'o CborValue =
    CborBytes bytes
  | CborText string
  | CborArray "'o CborValue list"
  | CborTag u64 "'o CborValue"
  | CborOther 'o

text \<open>\<open>AttestationDocument\<close>, as serde deserialises it; \<open>pcrs\<close> is a \<open>BTreeMap<u64, ByteArray<48>>\<close>.\<close>

type_synonym pcr_map = "(u64, 48 byte_array) btree_map"

record AttestationDocument =
  module_id :: string
  timestamp :: u64
  digest :: string
  pcrs :: pcr_map
  certificate :: bytes
  cabundle :: "bytes list"
  public_key :: "bytes option"
  user_data :: "bytes option"
  nonce :: "bytes option"

text \<open>
  \<open>ciborium::de::from_reader\<close> at its two types and \<open>ciborium::ser::into_writer\<close>; errors are
  given by their display text.
\<close>

record 'o ciborium =
  value_from_reader :: "bytes \<Rightarrow> string + 'o CborValue"
  document_from_reader :: "bytes \<Rightarrow> string + AttestationDocument"
  into_writer :: "'o CborValue \<Rightarrow> string + bytes"

section \<open>CoseSign1\<close>

record CoseSign1 =
  protected :: bytes
  payload :: bytes
  signature :: bytes

definition extract_bytes :: "'o CborValue \<Rightarrow> string \<Rightarrow> bytes verifier_result" where
  "extract_bytes value field =
     (case value of
        CborBytes b \<Rightarrow> Ok b
      | _ \<Rightarrow> Err (CoseFormat (field @ '' is not a byte string'')))"

text \<open>The \<open>match\<close> that unwraps the optional tag 18.\<close>

definition unwrap_tag18 :: "'o CborValue \<Rightarrow> 'o CborValue list verifier_result" where
  "unwrap_tag18 value =
     (case value of
        CborTag t inner \<Rightarrow>
          (if t = 18 then
             (case inner of
                CborArray a \<Rightarrow> Ok a
              | _ \<Rightarrow> Err (CoseFormat ''tagged value is not an array''))
           else Err (CoseFormat ''expected array or tag 18''))
      | CborArray a \<Rightarrow> Ok a
      | _ \<Rightarrow> Err (CoseFormat ''expected array or tag 18''))"

text \<open>The part of \<open>from_bytes\<close> after CBOR decoding.\<close>

definition cose_from_value :: "'o CborValue \<Rightarrow> CoseSign1 verifier_result" where
  "cose_from_value value =
     and_then (unwrap_tag18 value) (\<lambda>array.
     if length array \<noteq> 4 then
       Err (CoseFormat (''expected 4 elements, got '' @ show_nat (length array)))
     else
       and_then (next_unwrap array) (\<lambda>(v, iter).
       and_then (extract_bytes v ''protected'') (\<lambda>protected.
       and_then (next_unwrap iter) (\<lambda>(unprotected, iter).
       and_then (next_unwrap iter) (\<lambda>(v, iter).
       and_then (extract_bytes v ''payload'') (\<lambda>payload.
       and_then (next_unwrap iter) (\<lambda>(v, iter).
       and_then (extract_bytes v ''signature'') (\<lambda>signature.
       Ok \<lparr>protected = protected, payload = payload, signature = signature\<rparr>))))))))"

definition from_bytes :: "'o ciborium \<Rightarrow> bytes \<Rightarrow> CoseSign1 verifier_result" where
  "from_bytes c bs =
     and_then (map_err (\<lambda>e. Cbor (''`COSE_Sign1`: '' @ e)) (value_from_reader c bs))
       cose_from_value"

definition sig_structure_value :: "CoseSign1 \<Rightarrow> 'o CborValue" where
  "sig_structure_value cose =
     CborArray [CborText ''Signature1'', CborBytes (protected cose), CborBytes [],
                CborBytes (payload cose)]"

definition sig_structure :: "'o ciborium \<Rightarrow> CoseSign1 \<Rightarrow> bytes verifier_result" where
  "sig_structure c cose =
     map_err (\<lambda>e. Cbor (''sig_structure encode: '' @ e)) (into_writer c (sig_structure_value cose))"

section \<open>AttestationReport\<close>

record AttestationReport =
  rep_cose :: CoseSign1
  rep_doc :: AttestationDocument

definition parse_report :: "'o ciborium \<Rightarrow> bytes \<Rightarrow> AttestationReport verifier_result" where
  "parse_report c data =
     and_then (from_bytes c data) (\<lambda>cose.
     and_then (map_err (\<lambda>e. AttestationFormat (''attestation document decode: '' @ e))
                 (document_from_reader c (payload cose))) (\<lambda>doc.
     Ok \<lparr>rep_cose = cose, rep_doc = doc\<rparr>))"

definition cert_chain_der :: "AttestationReport \<Rightarrow> bytes list" where
  "cert_chain_der report = cabundle (rep_doc report) @ [certificate (rep_doc report)]"

section \<open>The envelope parser accepts exactly the envelopes\<close>

text \<open>The shape of an accepted value, tag stripped.\<close>

definition is_cose_sign1 :: "'o CborValue \<Rightarrow> CoseSign1 \<Rightarrow> bool" where
  "is_cose_sign1 value c \<longleftrightarrow>
     (\<exists>unprotected.
        let envelope = CborArray [CborBytes (protected c), unprotected,
                                  CborBytes (payload c), CborBytes (signature c)]
        in value = envelope \<or> value = CborTag 18 envelope)"

lemma extract_bytes_Ok_iff [outcome_iffs]: "extract_bytes v f = Ok b \<longleftrightarrow> v = CborBytes b"
  by (cases v) (auto simp: extract_bytes_def)

lemma unwrap_tag18_Ok_iff [outcome_iffs]:
  "unwrap_tag18 v = Ok a \<longleftrightarrow> v = CborArray a \<or> v = CborTag 18 (CborArray a)"
  by (auto simp: unwrap_tag18_def split: CborValue.splits)

lemma length_4_iff: "length xs = 4 \<longleftrightarrow> (\<exists>a b c d. xs = [a, b, c, d])"
  by (auto simp: numeral_eq_Suc length_Suc_conv)

lemma cose_from_value_Ok_iff:
  "cose_from_value v = Ok c \<longleftrightarrow> is_cose_sign1 v c"
proof -
  have "cose_from_value v = Ok c \<longleftrightarrow>
      (\<exists>u. unwrap_tag18 v = Ok [CborBytes (protected c), u, CborBytes (payload c),
                                 CborBytes (signature c)])"
    by (cases c) (auto simp: cose_from_value_def outcome_iffs length_4_iff)
  then show ?thesis
    by (auto simp: is_cose_sign1_def outcome_iffs Let_def)
qed

lemma no_panic_extract_bytes [simp, no_panic_intros]: "no_panic (extract_bytes v f)"
  by (simp add: extract_bytes_def split: CborValue.splits)

lemma no_panic_unwrap_tag18 [simp, no_panic_intros]: "no_panic (unwrap_tag18 v)"
  by (simp add: unwrap_tag18_def split: CborValue.splits)

text \<open>The three \<open>unwrap\<close> calls are guarded by the length check.\<close>

lemma no_panic_cose_from_value [simp, no_panic_intros]: "no_panic (cose_from_value v)"
  unfolding cose_from_value_def
  by (intro no_panic_and_then no_panic_unwrap_tag18)
    (auto simp: outcome_iffs intro!: no_panic_intros)

lemma no_panic_from_bytes [simp, no_panic_intros]: "no_panic (from_bytes c bs)"
  unfolding from_bytes_def by (rule no_panic_and_then) simp_all

lemma no_panic_parse_report [simp, no_panic_intros]: "no_panic (parse_report c bs)"
  unfolding parse_report_def by (intro no_panic_intros) simp

lemma no_panic_sig_structure [simp, no_panic_intros]: "no_panic (sig_structure c cose)"
  by (simp add: sig_structure_def)

lemma parse_report_Ok_iff:
  "parse_report c bs = Ok r \<longleftrightarrow>
     (\<exists>v. value_from_reader c bs = Inr v \<and> is_cose_sign1 v (rep_cose r))
     \<and> document_from_reader c (payload (rep_cose r)) = Inr (rep_doc r)"
  by (cases r) (auto simp: parse_report_def from_bytes_def outcome_iffs cose_from_value_Ok_iff)

text \<open>
  Property C20: \<open>CoseSign1::from_bytes\<close> accepts exactly the byte strings that decode to a
  four-element array, bare or under tag 18, whose elements 0, 2 and 3 are byte strings, and it
  returns those three; it never panics, although it unwraps the iterator three times.
\<close>

theorem from_bytes_Ok_iff:
  "(from_bytes c bs = Ok s \<longleftrightarrow> (\<exists>v. value_from_reader c bs = Inr v \<and> is_cose_sign1 v s))
   \<and> no_panic (from_bytes c bs)"
proof
  show "from_bytes c bs = Ok s \<longleftrightarrow> (\<exists>v. value_from_reader c bs = Inr v \<and> is_cose_sign1 v s)"
    by (auto simp: from_bytes_def outcome_iffs cose_from_value_Ok_iff)
qed simp

text \<open>The unprotected header and the tag leave no trace in the result.\<close>

lemma unprotected_header_ignored:
  "cose_from_value (CborTag 18 (CborArray [p, u, m, s])) = cose_from_value (CborArray [p, u', m, s])"
  by (simp add: cose_from_value_def unwrap_tag18_def)

section \<open>What the signature covers\<close>

text \<open>
  The documented behaviour of a CBOR codec: what was written reads back. It is asked only for
  values of the shape that the program writes: a flat array of text and byte strings, as the
  \<open>Sig_structure\<close> is. Nothing is asked of nested values, which a reader may refuse at some depth.
\<close>

fun string_value :: "'o CborValue \<Rightarrow> bool" where
  "string_value (CborBytes b) \<longleftrightarrow> True"
| "string_value (CborText t) \<longleftrightarrow> True"
| "string_value _ \<longleftrightarrow> False"

definition cbor_lossless :: "'o ciborium \<Rightarrow> bool" where
  "cbor_lossless c \<longleftrightarrow>
     (\<forall>vs bs. list_all string_value vs \<longrightarrow> into_writer c (CborArray vs) = Inr bs \<longrightarrow>
        value_from_reader c bs = Inr (CborArray vs))"

lemma sig_structure_value_read:
  assumes "cbor_lossless c" and "into_writer c (sig_structure_value s) = Inr tbs"
  shows "value_from_reader c tbs = Inr (sig_structure_value s)"
  using assms unfolding cbor_lossless_def sig_structure_value_def by simp

lemma sig_structure_Ok_iff [outcome_iffs]:
  "sig_structure c s = Ok tbs \<longleftrightarrow> into_writer c (sig_structure_value s) = Inr tbs"
  by (simp add: sig_structure_def outcome_iffs)

text \<open>
  Property C21: the to-be-signed bytes determine the protected header and the payload: two
  envelopes with equal \<open>Sig_structure\<close> bytes agree on both, so a signature over one
  attestation document is never a signature over another.
\<close>

theorem sig_structure_binding:
  assumes "cbor_lossless c"
    and "sig_structure c s = Ok tbs"
    and "sig_structure c s' = Ok tbs"
  shows "protected s = protected s' \<and> payload s = payload s'"
proof -
  have "value_from_reader c tbs = Inr (sig_structure_value s)"
    using assms(1,2) by (simp add: sig_structure_value_read outcome_iffs)
  moreover have "value_from_reader c tbs = Inr (sig_structure_value s')"
    using assms(1,3) by (simp add: sig_structure_value_read outcome_iffs)
  ultimately have "(sig_structure_value s :: 'a CborValue) = sig_structure_value s'"
    by simp
  then show ?thesis by (simp add: sig_structure_value_def)
qed

end
