(* ===== verification/Content.thy ===== *)
theory Content
  imports Cose
begin

text \<open>
  \<open>AttestationVerifier::validate_attestation_content\<close> of verifier/src/verify.rs: the M-02
  checks of an attestation document and the predicate they decide.
\<close>

section \<open>The checks\<close>

text \<open>The \<open>for\<close> loop over the PCR indices.\<close>

fun check_pcr_indices :: "u64 list \<Rightarrow> unit verifier_result" where
  "check_pcr_indices [] = Ok ()"
| "check_pcr_indices (i # is) =
     (if i > 31 then
        Err (ContentValidation
          (''PCR index '' @ show_nat (unat i) @ '' out of range (must be 0-31)''))
      else check_pcr_indices is)"

definition check_optional_fields :: "AttestationDocument \<Rightarrow> unit verifier_result" where
  "check_optional_fields d =
     (if (case public_key d of Some pk \<Rightarrow> pk = [] \<or> length pk > 1024 | None \<Rightarrow> False) then
        Err (ContentValidation
          (''public_key length '' @ show_nat (length (the (public_key d))) @
           '' out of range (1-1024)''))
      else if (case user_data d of Some ud \<Rightarrow> length ud > 512 | None \<Rightarrow> False) then
        Err (ContentValidation
          (''user_data length '' @ show_nat (length (the (user_data d))) @
           '' exceeds maximum (512)''))
      else if (case nonce d of Some n \<Rightarrow> length n > 512 | None \<Rightarrow> False) then
        Err (ContentValidation
          (''nonce length '' @ show_nat (length (the (nonce d))) @ '' exceeds maximum (512)''))
      else Ok ())"

definition check_pcrs :: "pcr_map \<Rightarrow> unit verifier_result" where
  "check_pcrs m =
     (let pcr_count = btree_len m in
      if pcr_count = 0 \<or> pcr_count > 32 then
        Err (ContentValidation
          (''PCR count '' @ show_nat pcr_count @ '' out of range (must be 1-32)''))
      else
        and_then (check_pcr_indices (btree_keys m)) (\<lambda>_.
        if list_all (\<lambda>pcr. list_all (\<lambda>b. b = 0) (as_slice pcr)) (btree_values m) then
          Err (ContentValidation ''all PCRs are zero (Nitro debug mode)'')
        else Ok ()))"

definition validate_attestation_content :: "AttestationDocument \<Rightarrow> unit verifier_result" where
  "validate_attestation_content d =
     (if module_id d = [] then Err (ContentValidation ''module_id is empty'')
      else if timestamp d = 0 then Err (ContentValidation ''timestamp is zero'')
      else if digest d \<noteq> ''SHA384'' then
        Err (ContentValidation
          (''unsupported digest algorithm: '' @ [CHR 0x27] @ digest d @ [CHR 0x27] @
           '' (expected '' @ [CHR 0x27] @ ''SHA384'' @ [CHR 0x27] @ '')''))
      else if cabundle d = [] then Err (ContentValidation ''cabundle is empty'')
      else
        and_then (check_pcrs (pcrs d)) (\<lambda>_.
        check_optional_fields d))"

section \<open>The contract\<close>

definition pcrs_ok :: "pcr_map \<Rightarrow> bool" where
  "pcrs_ok m \<longleftrightarrow> (\<forall>(i, v) \<in> set (entries m). i \<le> 31) \<and> (\<exists>(i, v) \<in> set (entries m). v \<noteq> repeat_byte 0)"

definition length_within :: "nat \<Rightarrow> nat \<Rightarrow> bytes option \<Rightarrow> bool" where
  "length_within lo hi field \<longleftrightarrow> (\<forall>bs. field = Some bs \<longrightarrow> lo \<le> length bs \<and> length bs \<le> hi)"

definition doc_ok :: "AttestationDocument \<Rightarrow> bool" where
  "doc_ok d \<longleftrightarrow>
     module_id d \<noteq> [] \<and> timestamp d \<noteq> 0 \<and> digest d = ''SHA384'' \<and> cabundle d \<noteq> []
     \<and> pcrs_ok (pcrs d)
     \<and> length_within 1 1024 (public_key d)
     \<and> length_within 0 512 (user_data d)
     \<and> length_within 0 512 (nonce d)"

lemma check_pcr_indices_Ok_iff [outcome_iffs]:
  "check_pcr_indices is = Ok u \<longleftrightarrow> (\<forall>i \<in> set is. i \<le> 31)"
  by (induction "is") auto

lemma check_optional_fields_Ok_iff [outcome_iffs]:
  "check_optional_fields d = Ok u \<longleftrightarrow>
     length_within 1 1024 (public_key d) \<and> length_within 0 512 (user_data d)
     \<and> length_within 0 512 (nonce d)"
  by (auto simp: check_optional_fields_def length_within_def Suc_le_eq split: option.splits)

text \<open>
  The keys are distinct, so indices up to 31 leave room for at most 32 of them: the upper bound
  on the count follows from the bound on the indices.
\<close>

lemma keys_le_31_count:
  assumes "\<forall>i \<in> set (btree_keys m). (i :: u64) \<le> 31"
  shows "btree_len m \<le> 32"
proof -
  have "unat ` set (btree_keys m) \<subseteq> {..31}"
    using assms by (auto simp: word_le_nat_alt)
  then have "card (unat ` set (btree_keys m)) \<le> 32"
    using card_mono [of "{..31 :: nat}"] by fastforce
  moreover have "card (unat ` set (btree_keys m)) = card (set (btree_keys m))"
    by (intro card_image) (simp add: inj_on_def word_unat_eq_iff)
  moreover have "card (set (btree_keys m)) = btree_len m"
    using distinct_card [OF btree.distinct_keys [of m]] by (simp add: btree_keys_def btree_len_def)
  ultimately show ?thesis by simp
qed

lemma pcrs_ok_count: "pcrs_ok m \<Longrightarrow> 1 \<le> btree_len m \<and> btree_len m \<le> 32"
proof
  assume ok: "pcrs_ok m"
  then have "\<forall>i \<in> set (btree_keys m). i \<le> 31"
    by (force simp: pcrs_ok_def btree_keys_def)
  then show "btree_len m \<le> 32" by (rule keys_le_31_count)
  have "entries m \<noteq> []" using ok by (auto simp: pcrs_ok_def)
  then show "1 \<le> btree_len m" by (simp add: btree_len_def Suc_le_eq)
qed

lemma check_pcrs_Ok_iff [outcome_iffs]: "check_pcrs m = Ok u \<longleftrightarrow> pcrs_ok m"
proof -
  have zero: "list_all (\<lambda>b. b = 0) (as_slice v) \<longleftrightarrow> v = repeat_byte 0" for v :: "48 byte_array"
    using is_zero_iff [of v] by (simp add: is_zero_def)
  have keys: "(\<forall>i \<in> set (btree_keys m). i \<le> 31) \<longleftrightarrow> (\<forall>(i, v) \<in> set (entries m). i \<le> 31)"
    by (force simp: btree_keys_def)
  have vals: "list_all (\<lambda>v. v = repeat_byte 0) (btree_values m) \<longleftrightarrow>
      \<not> (\<exists>(i, v) \<in> set (entries m). v \<noteq> repeat_byte 0)"
    by (force simp: btree_values_def list_all_iff)
  have "check_pcrs m = Ok u \<longleftrightarrow> btree_len m \<noteq> 0 \<and> btree_len m \<le> 32 \<and> pcrs_ok m"
    by (auto simp: check_pcrs_def pcrs_ok_def outcome_iffs zero keys vals Let_def)
  then show ?thesis using pcrs_ok_count [of m] by auto
qed

lemma validate_attestation_content_Ok_iff [outcome_iffs]:
  "validate_attestation_content d = Ok u \<longleftrightarrow> doc_ok d"
  by (auto simp: validate_attestation_content_def doc_ok_def outcome_iffs)

lemma no_panic_check_pcr_indices: "no_panic (check_pcr_indices is)"
  by (induction "is") auto

lemma no_panic_validate_attestation_content [simp, no_panic_intros]:
  "no_panic (validate_attestation_content d)"
  unfolding validate_attestation_content_def check_pcrs_def check_optional_fields_def Let_def
  by (auto intro!: no_panic_intros no_panic_check_pcr_indices)

interpretation m02: validator validate_attestation_content doc_ok
  by unfold_locales (auto simp: outcome_iffs)

lemma only_errs_check_pcr_indices: "only_errs is_ContentValidation (check_pcr_indices is)"
  by (induction "is") auto

lemma only_errs_validate_attestation_content:
  "only_errs is_ContentValidation (validate_attestation_content d)"
  unfolding validate_attestation_content_def check_pcrs_def check_optional_fields_def Let_def
  by (auto intro!: only_errs_intros only_errs_check_pcr_indices)

text \<open>
  Property C19: the M-02 validation accepts exactly the documents with a non-empty module id, a
  non-zero timestamp, digest SHA384, a non-empty CA bundle, PCR indices up to 31, at least
  one PCR that is not all zero, a public key of 1 to 1024 bytes and user data and nonce of at
  most 512 bytes where present; everything else is a content validation error, never a panic.
  The check that there are at most 32 PCRs never decides: it follows from the others.
\<close>

theorem validate_attestation_content_correct:
  "(validate_attestation_content d = Ok () \<longleftrightarrow> doc_ok d)
   \<and> ((\<exists>msg. validate_attestation_content d = Err (ContentValidation msg)) \<longleftrightarrow> \<not> doc_ok d)
   \<and> (doc_ok d \<longrightarrow> 1 \<le> btree_len (pcrs d) \<and> btree_len (pcrs d) \<le> 32)"
  using m02.rejects_iff [of d] pcrs_ok_count [of "pcrs d"]
    Err_ContentValidation_iff [OF only_errs_validate_attestation_content, of d]
  by (simp add: validate_attestation_content_Ok_iff doc_ok_def)

end
