(* ===== verification/Path_Digest.thy ===== *)
theory Path_Digest
  imports Byte_Arrays
begin

text \<open>
  \<open>compute_path_digests\<close> of verifier/src/x509.rs: the accumulated digests of a chain of
  DER certificates, by which the on-chain verifier caches trusted prefixes. SHA-256 (crate
  \<open>sha2\<close>) is the parameter \<open>sha\<close>; its output type \<open>GenericArray<u8, U32>\<close> makes every
  \<open>B256::from_slice\<close> of a digest total, and hashing two slices with one \<open>Sha256\<close> is
  hashing their concatenation.
\<close>

section \<open>The loop\<close>

fun path_digest_loop ::
  "(bytes \<Rightarrow> B256) \<Rightarrow> nat \<Rightarrow> B256 \<Rightarrow> B256 list \<Rightarrow> bytes list \<Rightarrow> B256 list" where
  "path_digest_loop sha i path_digest digests [] = digests"
| "path_digest_loop sha i path_digest digests (der # ders) =
     (let cert_digest = sha der;
          path_digest = (if i = 0 then cert_digest
                         else sha (as_slice path_digest @ as_slice cert_digest))
      in path_digest_loop sha (Suc i) path_digest (digests @ [path_digest]) ders)"

definition compute_path_digests :: "(bytes \<Rightarrow> B256) \<Rightarrow> bytes list \<Rightarrow> B256 list" where
  "compute_path_digests sha certs_der = path_digest_loop sha 0 (repeat_byte 0) [] certs_der"

section \<open>The recurrence\<close>

definition link :: "(bytes \<Rightarrow> B256) \<Rightarrow> B256 \<Rightarrow> bytes \<Rightarrow> B256" where
  "link sha d der = sha (as_slice d @ as_slice (sha der))"

fun links_from :: "(bytes \<Rightarrow> B256) \<Rightarrow> B256 \<Rightarrow> bytes list \<Rightarrow> B256 list" where
  "links_from sha d [] = []"
| "links_from sha d (der # ders) = link sha d der # links_from sha (link sha d der) ders"

lemma path_digest_loop_Suc:
  "path_digest_loop sha (Suc i) d acc ders = acc @ links_from sha d ders"
  by (induction ders arbitrary: i d acc) (simp_all add: link_def Let_def)

lemma compute_path_digests_simps [simp]:
  "compute_path_digests sha [] = []"
  "compute_path_digests sha (der # ders) = sha der # links_from sha (sha der) ders"
  by (simp_all add: compute_path_digests_def path_digest_loop_Suc Let_def)

lemma length_links_from [simp]: "length (links_from sha d ders) = length ders"
  by (induction ders arbitrary: d) simp_all

lemma links_from_append:
  "links_from sha d (xs @ ys) =
     links_from sha d xs @ links_from sha (last (d # links_from sha d xs)) ys"
  by (induction xs arbitrary: d) simp_all

lemma nth_links_from:
  "k < length ders \<Longrightarrow>
     links_from sha d ders ! k = link sha ((d # links_from sha d ders) ! k) (ders ! k)"
proof (induction ders arbitrary: d k)
  case Nil
  then show ?case by simp
next
  case (Cons der ders)
  then show ?case by (cases k) simp_all
qed

lemma length_compute_path_digests [simp]:
  "length (compute_path_digests sha ders) = length ders"
  by (cases ders) simp_all

text \<open>
  Property C18: \<open>compute_path_digests\<close> returns one digest per certificate; the first is the
  SHA-256 of the first certificate, and each later one is the SHA-256 of the digest before it
  followed by the SHA-256 of its certificate, as the on-chain accumulation is documented.
\<close>

theorem path_digests_recurrence:
  "length (compute_path_digests sha certs) = length certs
   \<and> (certs \<noteq> [] \<longrightarrow> compute_path_digests sha certs ! 0 = sha (certs ! 0))
   \<and> (\<forall>i. Suc i < length certs \<longrightarrow>
        compute_path_digests sha certs ! Suc i =
          sha (as_slice (compute_path_digests sha certs ! i) @ as_slice (sha (certs ! Suc i))))"
  by (cases certs) (auto simp: nth_links_from link_def)

lemma take_compute_append:
  "take (length xs) (compute_path_digests sha (xs @ ys)) = compute_path_digests sha xs"
  by (cases xs) (simp_all add: links_from_append)

text \<open>
  Digests are stable under extension: the digests of a prefix of a chain are the
  prefix of the chain's digests, whatever certificates follow. A cached prefix digest
  therefore stays valid for every longer chain.
\<close>

theorem path_digests_prefix:
  "compute_path_digests sha (take n certs) = take n (compute_path_digests sha certs)"
  using take_compute_append [of "take n certs" sha "drop n certs"]
  by (cases "n \<le> length certs") simp_all

section \<open>Binding\<close>

text \<open>The last digest, and every byte string that is hashed on the way to it.\<close>

definition path_digest :: "(bytes \<Rightarrow> B256) \<Rightarrow> bytes list \<Rightarrow> B256" where
  "path_digest sha certs = last (compute_path_digests sha certs)"

fun link_inputs :: "(bytes \<Rightarrow> B256) \<Rightarrow> B256 \<Rightarrow> bytes list \<Rightarrow> bytes list" where
  "link_inputs sha d [] = []"
| "link_inputs sha d (der # ders) =
     der # (as_slice d @ as_slice (sha der)) # link_inputs sha (link sha d der) ders"

fun hashed_inputs :: "(bytes \<Rightarrow> B256) \<Rightarrow> bytes list \<Rightarrow> bytes list" where
  "hashed_inputs sha [] = []"
| "hashed_inputs sha (der # ders) = der # link_inputs sha (sha der) ders"

lemma path_digest_single [simp]: "path_digest sha [c] = sha c"
  by (simp add: path_digest_def)

lemma path_digest_snoc [simp]:
  "xs \<noteq> [] \<Longrightarrow> path_digest sha (xs @ [c]) = link sha (path_digest sha xs) c"
  by (cases xs) (simp_all add: path_digest_def links_from_append)

lemma link_inputs_append:
  "link_inputs sha d (xs @ ys) =
     link_inputs sha d xs @ link_inputs sha (last (d # links_from sha d xs)) ys"
  by (induction xs arbitrary: d) simp_all

lemma hashed_inputs_snoc:
  "xs \<noteq> [] \<Longrightarrow> hashed_inputs sha (xs @ [c]) =
     hashed_inputs sha xs @ [c, as_slice (path_digest sha xs) @ as_slice (sha c)]"
  by (cases xs) (simp_all add: path_digest_def link_inputs_append)

lemma link_eqD:
  assumes inj: "inj_on sha I"
    and "as_slice d @ as_slice (sha c) \<in> I" and "as_slice e @ as_slice (sha b) \<in> I"
    and "c \<in> I" and "b \<in> I" and "link sha d c = link sha e b"
  shows "d = e \<and> c = b"
proof -
  have "as_slice d @ as_slice (sha c) = as_slice e @ as_slice (sha b)"
    by (rule inj_onD [OF inj]) (use assms in \<open>simp_all add: link_def\<close>)
  then have "d = e" and sha_eq: "sha c = sha b"
    by (simp_all add: slice.enc_append_eq_iff)
  moreover have "c = b"
    by (rule inj_onD [OF inj sha_eq]) (use assms in simp_all)
  ultimately show ?thesis by simp
qed

lemma link_neq_sha:
  assumes inj: "inj_on sha I"
    and "as_slice d @ as_slice (sha c) \<in> I" and "b \<in> I" and "length b \<noteq> 64"
  shows "link sha d c \<noteq> sha b"
proof
  assume eq: "link sha d c = sha b"
  have "as_slice d @ as_slice (sha c) = b"
    by (rule inj_onD [OF inj]) (use assms eq in \<open>simp_all add: link_def\<close>)
  then have "length b = 64" by auto
  with \<open>length b \<noteq> 64\<close> show False by simp
qed

lemma path_digest_eqD:
  assumes "inj_on sha I" and "set (hashed_inputs sha xs) \<subseteq> I" and "set (hashed_inputs sha ys) \<subseteq> I"
    and "xs \<noteq> []" and "ys \<noteq> []" and "length (hd xs) \<noteq> 64" and "length (hd ys) \<noteq> 64"
    and "path_digest sha xs = path_digest sha ys"
  shows "xs = ys"
  using assms(2-)
proof (induction xs arbitrary: ys rule: rev_induct)
  case Nil
  then show ?case by simp
next
  case (snoc c xs)
  obtain zs b where ys: "ys = zs @ [b]"
    using \<open>ys \<noteq> []\<close> by (cases ys rule: rev_cases) auto
  show ?case
  proof (cases "xs = []"; cases "zs = []")
    assume "xs = []" "zs = []"
    with snoc.prems ys assms(1) show ?thesis by (auto dest: inj_onD)
  next
    assume "xs = []" "zs \<noteq> []"
    with snoc.prems ys show ?thesis
      using link_neq_sha [OF assms(1), of "path_digest sha zs" b c]
      by (auto simp: hashed_inputs_snoc)
  next
    assume "xs \<noteq> []" "zs = []"
    with snoc.prems ys show ?thesis
      using link_neq_sha [OF assms(1), of "path_digest sha xs" c b]
      by (auto simp: hashed_inputs_snoc)
  next
    assume ne: "xs \<noteq> []" "zs \<noteq> []"
    then have "path_digest sha xs = path_digest sha zs \<and> c = b"
      using snoc.prems ys link_eqD [OF assms(1), of "path_digest sha xs" c "path_digest sha zs" b]
      by (auto simp: hashed_inputs_snoc)
    with ne snoc.prems ys show ?thesis
      using snoc.IH [of zs] by (auto simp: hashed_inputs_snoc)
  qed
qed

text \<open>
  Property C17: a path digest binds the whole certificate prefix. If SHA-256 has no collision
  among the strings hashed for the two chains, and neither root is a 64-byte string (the size
  of the concatenation of two digests), equal digests mean equal chains, also for chains of
  different lengths. The cached digest of one prefix is never the digest of another.
\<close>

theorem path_digest_binding:
  assumes "inj_on sha (set (hashed_inputs sha xs) \<union> set (hashed_inputs sha ys))"
    and "xs \<noteq> []" and "ys \<noteq> []"
    and "length (hd xs) \<noteq> 64" and "length (hd ys) \<noteq> 64"
    and "last (compute_path_digests sha xs) = last (compute_path_digests sha ys)"
  shows "xs = ys"
  using path_digest_eqD [OF assms(1)] assms(2-) by (simp add: path_digest_def)

end
