(* ===== verification/X509.thy ===== *)
theory X509
  imports Errors
begin

text \<open>
  The per-certificate checks of verifier/src/x509.rs: the view the code has of a parsed
  certificate, \<open>validate_cert_content\<close>, \<open>check_validity\<close> and \<open>verify_signature\<close>, each with
  the predicate it decides. The X.509 parser (crate \<open>x509_parser\<close>) and ECDSA over P-384
  (crate \<open>p384\<close>) are parameters.
\<close>

section \<open>Certificates\<close>

text \<open>An object identifier, with its dotted \<open>Display\<close>.\<close>

type_synonym oid = "nat list"

fun show_oid :: "oid \<Rightarrow> string" where
  "show_oid [] = []"
| "show_oid [n] = show_nat n"
| "show_oid (n # ns) = show_nat n @ ''.'' @ show_oid ns"

text \<open>
  The registry constants the code compares with; the DER encodings of all three occur in the
  fixtures of verifier/src/x509.rs (06082a8648ce3d040303, 06072a8648ce3d0201, 06052b81040022).
\<close>

definition OID_SIG_ECDSA_WITH_SHA384 :: oid where
  "OID_SIG_ECDSA_WITH_SHA384 = [1, 2, 840, 10045, 4, 3, 3]"

definition OID_KEY_TYPE_EC_PUBLIC_KEY :: oid where
  "OID_KEY_TYPE_EC_PUBLIC_KEY = [1, 2, 840, 10045, 2, 1]"

definition OID_NIST_EC_P384 :: oid where
  "OID_NIST_EC_P384 = [1, 3, 132, 0, 34]"

record BasicConstraints =
  bc_ca :: bool
  path_len_constraint :: "u32 option"

record KeyUsage =
  digital_signature :: bool
  key_cert_sign :: bool

text \<open>
  What the code reads of an \<open>X509Certificate\<close>: one field per accessor. Distinguished names
  are only compared, so their type \<open>'n\<close> is a parameter. \<open>basic_constraints()\<close> and
  \<open>key_usage()\<close> return \<open>Result<Option<_>, _>\<close>; \<open>pk_parameters\<close> is \<open>as_oid()\<close> of the optional
  algorithm parameters; times are \<open>timestamp()\<close>, an \<open>i64\<close> of seconds.
\<close>

record 'n X509Certificate =
  issuer :: 'n
  subject :: 'n
  not_before :: i64
  not_after :: i64
  signature_algorithm :: oid
  pk_algorithm :: oid
  pk_parameters :: "(string + oid) option"
  subject_public_key :: bytes
  basic_constraints :: "string + BasicConstraints option"
  key_usage :: "string + KeyUsage option"
  signature_value :: bytes
  tbs_certificate :: bytes

text \<open>\<open>X509Certificate::from_der\<close>: the remaining input and the certificate.\<close>

type_synonym 'n x509_from_der = "bytes \<Rightarrow> string + bytes \<times> 'n X509Certificate"

text \<open>The operations of \<open>p384::ecdsa\<close> on a verifying key \<open>'k\<close> and a signature \<open>'s\<close>.\<close>

record ('k, 's) p384 =
  from_sec1_bytes :: "bytes \<Rightarrow> string + 'k"
  signature_from_der :: "bytes \<Rightarrow> string + 's"
  signature_from_slice :: "bytes \<Rightarrow> string + 's"
  ecdsa_verify :: "'k \<Rightarrow> bytes \<Rightarrow> 's \<Rightarrow> string + unit"

definition cert_msg :: "nat \<Rightarrow> string \<Rightarrow> string" where
  "cert_msg i msg = ''certificate '' @ show_nat i @ '': '' @ msg"

section \<open>Content (M-01)\<close>

text \<open>The algorithm and curve checks that precede the extension checks.\<close>

definition check_algorithms :: "'n X509Certificate \<Rightarrow> unit verifier_result" where
  "check_algorithms cert =
     (if signature_algorithm cert \<noteq> OID_SIG_ECDSA_WITH_SHA384 then
        Err (CertificateVerification
          (''unsupported signature algorithm: '' @ show_oid (signature_algorithm cert)))
      else if pk_algorithm cert \<noteq> OID_KEY_TYPE_EC_PUBLIC_KEY then
        Err (CertificateVerification
          (''unsupported public key algorithm: '' @ show_oid (pk_algorithm cert)))
      else
        and_then
          (ok_or (CertificateVerification ''EC public key missing curve parameters OID'')
             (Option.bind (pk_parameters cert)
               (\<lambda>p. case p of Inl _ \<Rightarrow> None | Inr curve \<Rightarrow> Some curve)))
          (\<lambda>curve_oid.
             if curve_oid \<noteq> OID_NIST_EC_P384 then
               Err (CertificateVerification
                 (''unsupported EC curve: '' @ show_oid curve_oid @ '' (expected P-384)''))
             else Ok ()))"

definition check_leaf_extensions ::
  "BasicConstraints option \<Rightarrow> KeyUsage option \<Rightarrow> unit verifier_result" where
  "check_leaf_extensions bc ku =
     (if (case bc of Some b \<Rightarrow> bc_ca b | None \<Rightarrow> False) then
        Err (CertificateVerification ''leaf certificate has cA=true'')
      else if (case ku of Some k \<Rightarrow> \<not> digital_signature k | None \<Rightarrow> False) then
        Err (CertificateVerification ''leaf certificate keyUsage missing digitalSignature'')
      else Ok ())"

definition check_ca_extensions ::
  "BasicConstraints option \<Rightarrow> KeyUsage option \<Rightarrow> unit verifier_result" where
  "check_ca_extensions bc ku =
     and_then (ok_or (CertificateVerification ''CA certificate missing basicConstraints'') bc)
       (\<lambda>bc. if \<not> bc_ca bc then
               Err (CertificateVerification ''CA certificate has cA=false'')
             else
               and_then (ok_or (CertificateVerification ''CA certificate missing keyUsage'') ku)
                 (\<lambda>ku. if \<not> key_cert_sign ku then
                         Err (CertificateVerification
                           ''CA certificate keyUsage missing keyCertSign'')
                       else Ok ()))"

definition validate_cert_content :: "'n X509Certificate \<Rightarrow> bool \<Rightarrow> unit verifier_result" where
  "validate_cert_content cert is_leaf =
     and_then (check_algorithms cert) (\<lambda>_.
     and_then (map_err (\<lambda>e. CertificateVerification (''basicConstraints parse: '' @ e))
                 (basic_constraints cert)) (\<lambda>bc.
     and_then (map_err (\<lambda>e. CertificateVerification (''keyUsage parse: '' @ e))
                 (key_usage cert)) (\<lambda>ku.
     if is_leaf then check_leaf_extensions bc ku else check_ca_extensions bc ku)))"

text \<open>The contract.\<close>

definition p384_certificate :: "'n X509Certificate \<Rightarrow> bool" where
  "p384_certificate c \<longleftrightarrow>
     signature_algorithm c = OID_SIG_ECDSA_WITH_SHA384
     \<and> pk_algorithm c = OID_KEY_TYPE_EC_PUBLIC_KEY
     \<and> pk_parameters c = Some (Inr OID_NIST_EC_P384)"

definition ca_certificate :: "'n X509Certificate \<Rightarrow> bool" where
  "ca_certificate c \<longleftrightarrow> p384_certificate c
     \<and> (\<exists>b. basic_constraints c = Inr (Some b) \<and> bc_ca b)
     \<and> (\<exists>k. key_usage c = Inr (Some k) \<and> key_cert_sign k)"

definition leaf_certificate :: "'n X509Certificate \<Rightarrow> bool" where
  "leaf_certificate c \<longleftrightarrow> p384_certificate c
     \<and> (\<exists>bc. basic_constraints c = Inr bc \<and> (\<forall>b. bc = Some b \<longrightarrow> \<not> bc_ca b))
     \<and> (\<exists>ku. key_usage c = Inr ku \<and> (\<forall>k. ku = Some k \<longrightarrow> digital_signature k))"

definition content_ok :: "bool \<Rightarrow> 'n X509Certificate \<Rightarrow> bool" where
  "content_ok is_leaf c \<longleftrightarrow> (if is_leaf then leaf_certificate c else ca_certificate c)"

lemma check_algorithms_Ok_iff [outcome_iffs]:
  "check_algorithms c = Ok u \<longleftrightarrow> p384_certificate c"
  by (cases "pk_parameters c")
    (auto simp: check_algorithms_def p384_certificate_def outcome_iffs split: sum.splits)

lemma check_leaf_extensions_Ok_iff [outcome_iffs]:
  "check_leaf_extensions bc ku = Ok u \<longleftrightarrow>
     (\<forall>b. bc = Some b \<longrightarrow> \<not> bc_ca b) \<and> (\<forall>k. ku = Some k \<longrightarrow> digital_signature k)"
  by (auto simp: check_leaf_extensions_def split: option.splits)

lemma check_ca_extensions_Ok_iff [outcome_iffs]:
  "check_ca_extensions bc ku = Ok u \<longleftrightarrow>
     (\<exists>b. bc = Some b \<and> bc_ca b) \<and> (\<exists>k. ku = Some k \<and> key_cert_sign k)"
  by (auto simp: check_ca_extensions_def outcome_iffs)

lemma validate_cert_content_Ok_iff [outcome_iffs]:
  "validate_cert_content c is_leaf = Ok u \<longleftrightarrow> content_ok is_leaf c"
  by (cases is_leaf)
    (auto simp: validate_cert_content_def content_ok_def leaf_certificate_def
      ca_certificate_def outcome_iffs)

lemma no_panic_validate_cert_content [simp]: "no_panic (validate_cert_content c is_leaf)"
proof -
  have "no_panic (check_algorithms c)" "no_panic (check_leaf_extensions bc ku)"
    "no_panic (check_ca_extensions bc ku)" for bc ku
    by (auto simp: check_algorithms_def check_leaf_extensions_def check_ca_extensions_def
        intro!: no_panic_intros)
  then show ?thesis
    unfolding validate_cert_content_def by (auto intro!: no_panic_intros)
qed

interpretation content: validator
  "\<lambda>(c :: 'n X509Certificate, is_leaf). validate_cert_content c is_leaf"
  "\<lambda>(c, is_leaf). content_ok is_leaf c"
  by unfold_locales (auto simp: outcome_iffs)

section \<open>Validity period\<close>

text \<open>
  \<open>(timestamp_ms / 1000) as i64\<close>: unsigned division, then the same 64 bits read as signed.
\<close>

definition timestamp_secs :: "u64 \<Rightarrow> i64" where
  "timestamp_secs timestamp_ms = timestamp_ms div 1000"

definition check_validity ::
  "'n X509Certificate \<Rightarrow> u64 \<Rightarrow> nat \<Rightarrow> unit verifier_result" where
  "check_validity cert timestamp_ms cert_index =
     (let secs = timestamp_secs timestamp_ms in
      if sint secs < sint (not_before cert) then
        Err (CertificateVerification (cert_msg cert_index
          (''not yet valid (notBefore='' @ show_int (sint (not_before cert)) @
           '', timestamp='' @ show_int (sint secs) @ '')'')))
      else if sint secs > sint (not_after cert) then
        Err (CertificateVerification (cert_msg cert_index
          (''expired (notAfter='' @ show_int (sint (not_after cert)) @
           '', timestamp='' @ show_int (sint secs) @ '')'')))
      else Ok ())"

text \<open>The contract, in unbounded integers.\<close>

definition valid_at :: "'n X509Certificate \<Rightarrow> u64 \<Rightarrow> bool" where
  "valid_at c ts \<longleftrightarrow>
     sint (not_before c) \<le> int (unat ts div 1000) \<and> int (unat ts div 1000) \<le> sint (not_after c)"

lemma sint_timestamp_secs: "sint (timestamp_secs ts) = int (unat ts div 1000)"
proof -
  have "uint ts < 2 ^ 64"
    using unsigned_less [of ts, where ?'a = int] by simp
  then have bound: "uint (ts div 1000) < 2 ^ 63"
    by (simp add: uint_div_distrib)
  have "uint (ts div 1000) = int (unat ts div 1000)"
    by (simp add: uint_div_distrib zdiv_int)
  moreover have "- (2 ^ 63) \<le> uint (ts div 1000)"
    by (rule order_trans [OF _ uint_ge_0]) simp
  then have "sint (ts div 1000) = uint (ts div 1000)"
    using signed_take_bit_int_eq_self [OF _ bound] by (simp add: sint_uint)
  ultimately show ?thesis
    by (simp add: timestamp_secs_def)
qed

lemma check_validity_Ok_iff [outcome_iffs]: "check_validity c ts i = Ok u \<longleftrightarrow> valid_at c ts"
  by (auto simp: check_validity_def valid_at_def sint_timestamp_secs Let_def)

lemma no_panic_check_validity [simp]: "no_panic (check_validity c ts i)"
  by (simp add: check_validity_def Let_def)

interpretation validity: validator
  "\<lambda>(c :: 'n X509Certificate, ts, i). check_validity c ts i"
  "\<lambda>(c, ts, i). valid_at c ts"
  by unfold_locales (auto simp: outcome_iffs)

section \<open>Signatures\<close>

definition verify_signature ::
  "('k, 's) p384 \<Rightarrow> 'n X509Certificate \<Rightarrow> 'n X509Certificate \<Rightarrow> nat \<Rightarrow> unit verifier_result" where
  "verify_signature ec parent child child_index =
     and_then (map_err (\<lambda>e. SignatureVerification
                 (cert_msg child_index (''invalid parent public key: '' @ e)))
                 (from_sec1_bytes ec (subject_public_key parent))) (\<lambda>verifying_key.
     and_then (map_err (\<lambda>e. SignatureVerification
                 (cert_msg child_index (''invalid DER signature: '' @ e)))
                 (signature_from_der ec (signature_value child))) (\<lambda>sig.
     map_err (\<lambda>e. SignatureVerification
                 (cert_msg child_index (''signature verification failed: '' @ e)))
       (ecdsa_verify ec verifying_key (tbs_certificate child) sig)))"

definition signs :: "('k, 's) p384 \<Rightarrow> 'n X509Certificate \<Rightarrow> 'n X509Certificate \<Rightarrow> bool" where
  "signs ec parent child \<longleftrightarrow>
     (\<exists>k s. from_sec1_bytes ec (subject_public_key parent) = Inr k
          \<and> signature_from_der ec (signature_value child) = Inr s
          \<and> ecdsa_verify ec k (tbs_certificate child) s = Inr ())"

lemma verify_signature_Ok_iff [outcome_iffs]:
  "verify_signature ec p c i = Ok u \<longleftrightarrow> signs ec p c"
  by (auto simp: verify_signature_def signs_def outcome_iffs)

lemma no_panic_verify_signature [simp]: "no_panic (verify_signature ec p c i)"
  unfolding verify_signature_def by (intro no_panic_intros)

interpretation sig_check: validator
  "\<lambda>(p :: 'n X509Certificate, c, i). verify_signature ec p c i"
  "\<lambda>(p, c, i). signs ec p c"
  for ec
  by unfold_locales (auto simp: outcome_iffs)

end
