(* ===== verification/Cert_Chain.thy ===== *)
theory Cert_Chain
  imports X509 Path_Digest
begin

text \<open>
  \<open>CertChain\<close> of verifier/src/x509.rs: parsing of a chain, the verification loop over its
  certificates and the leaf key. \<open>verify_chain\<close> is characterised exactly, its errors are located,
  and its results are compared across trusted prefixes.
\<close>

section \<open>Parsing\<close>

record 'n ParsedCert =
  pc_cert :: "'n X509Certificate"
  pc_der :: bytes

record 'n CertChain =
  certs :: "'n ParsedCert list"

definition parse_cert :: "'n x509_from_der \<Rightarrow> nat \<Rightarrow> bytes \<Rightarrow> 'n ParsedCert verifier_result" where
  "parse_cert x i der =
     and_then (map_err (\<lambda>e. X509Parse (cert_msg i e)) (x der)) (\<lambda>(remaining, cert).
     if remaining \<noteq> [] then
       Err (X509Parse (cert_msg i
         (''trailing DER data ('' @ show_nat (length remaining) @ '' bytes)'')))
     else Ok \<lparr>pc_cert = cert, pc_der = der\<rparr>)"

definition chain_from_der :: "'n x509_from_der \<Rightarrow> bytes list \<Rightarrow> 'n CertChain verifier_result" where
  "chain_from_der x ders =
     (if ders = [] then Err (X509Parse ''empty certificate chain'')
      else and_then (collect_enumerated (parse_cert x) 0 ders) (\<lambda>parsed. Ok \<lparr>certs = parsed\<rparr>))"

definition leaf_public_key :: "'n CertChain \<Rightarrow> bytes verifier_result" where
  "leaf_public_key chain =
     and_then
       (ok_or (CertificateVerification ''empty certificate chain'')
          (if certs chain = [] then None else Some (last (certs chain))))
       (\<lambda>leaf. Ok (subject_public_key (pc_cert leaf)))"

lemma parse_cert_Ok_iff [outcome_iffs]:
  "parse_cert x i der = Ok p \<longleftrightarrow> x der = Inr ([], pc_cert p) \<and> pc_der p = der"
  by (cases p) (auto simp: parse_cert_def outcome_iffs)

lemma no_panic_parse_cert [simp, no_panic_intros]: "no_panic (parse_cert x i der)"
  unfolding parse_cert_def by (auto intro!: no_panic_intros)

lemma no_panic_chain_from_der [simp, no_panic_intros]: "no_panic (chain_from_der x ders)"
  unfolding chain_from_der_def by (auto intro!: no_panic_intros)

definition parses_to :: "'n x509_from_der \<Rightarrow> bytes list \<Rightarrow> 'n CertChain \<Rightarrow> bool" where
  "parses_to x ders chain \<longleftrightarrow>
     map pc_der (certs chain) = ders \<and> (\<forall>p \<in> set (certs chain). x (pc_der p) = Inr ([], pc_cert p))"

lemma chain_from_der_Ok_iff [outcome_iffs]:
  "chain_from_der x ders = Ok chain \<longleftrightarrow> ders \<noteq> [] \<and> parses_to x ders chain"
proof -
  have "list_all2 (\<lambda>der p. x der = Inr ([], pc_cert p) \<and> pc_der p = der) ders ps \<longleftrightarrow>
      map pc_der ps = ders \<and> (\<forall>p \<in> set ps. x (pc_der p) = Inr ([], pc_cert p))" for ps
    by (induction ps arbitrary: ders) (auto simp: list_all2_Cons2)
  then have "collect_enumerated (parse_cert x) 0 ders = Ok ps \<longleftrightarrow>
      map pc_der ps = ders \<and> (\<forall>p \<in> set ps. x (pc_der p) = Inr ([], pc_cert p))" for ps
    by (simp add: collect_enumerated_list_all2 [OF parse_cert_Ok_iff])
  then show ?thesis
    by (cases chain) (auto simp: chain_from_der_def parses_to_def outcome_iffs)
qed

lemma leaf_public_key_Ok_iff [outcome_iffs]:
  "leaf_public_key chain = Ok pk \<longleftrightarrow>
     certs chain \<noteq> [] \<and> pk = subject_public_key (pc_cert (last (certs chain)))"
  by (auto simp: leaf_public_key_def outcome_iffs)

lemma no_panic_leaf_public_key [simp, no_panic_intros]: "no_panic (leaf_public_key chain)"
  unfolding leaf_public_key_def by (auto intro!: no_panic_intros)

section \<open>The type's invariant\<close>

text \<open>
  The fields of \<open>CertChain\<close> are private and \<open>from_der\<close> is its only constructor, so these
  conditions hold of every value of the type.
\<close>

definition chain_wf :: "'n x509_from_der \<Rightarrow> 'n CertChain \<Rightarrow> bool" where
  "chain_wf x chain \<longleftrightarrow>
     certs chain \<noteq> [] \<and> (\<forall>p \<in> set (certs chain). x (pc_der p) = Inr ([], pc_cert p))"

lemma chain_from_der_wf: "chain_from_der x ders = Ok chain \<Longrightarrow> chain_wf x chain"
  by (auto simp: chain_from_der_Ok_iff chain_wf_def parses_to_def)

text \<open>
  Property C11: the type \<open>CertChain\<close>: what \<open>from_der\<close> builds is a non-empty list of certificates, each
  the complete parse of the DER bytes stored beside it, in the order of the input; these are
  exactly the chains that \<open>from_der\<close> rebuilds from their own DER bytes. On such a chain
  \<open>leaf_public_key\<close> returns the key of the last certificate and its error branch is dead.
\<close>

theorem cert_chain_type:
  "(chain_from_der x ders = Ok chain \<longrightarrow> chain_wf x chain \<and> map pc_der (certs chain) = ders)
   \<and> (chain_wf x chain \<longleftrightarrow> chain_from_der x (map pc_der (certs chain)) = Ok chain)
   \<and> (chain_wf x chain \<longrightarrow>
        (\<exists>leaf. x (last (map pc_der (certs chain))) = Inr ([], leaf)
           \<and> leaf_public_key chain = Ok (subject_public_key leaf)))"
  by (auto simp: chain_wf_def chain_from_der_Ok_iff parses_to_def leaf_public_key_Ok_iff last_map)

section \<open>The verification loop\<close>

text \<open>\<open>u64::try_from(not_after)\<close>: the same bits when the \<open>i64\<close> is not negative.\<close>

definition not_after_secs :: "nat \<Rightarrow> i64 \<Rightarrow> u64 verifier_result" where
  "not_after_secs i t =
     (if sint t < 0 then
        Err (CertificateVerification (cert_msg i
          (''notAfter timestamp is negative ('' @ show_int (sint t) @ '')'')))
      else Ok t)"

text \<open>
  The parent's path length constraint. \<open>remaining as u32\<close> keeps the low 32 bits.
\<close>

definition check_path_len ::
  "nat \<Rightarrow> nat \<Rightarrow> BasicConstraints option \<Rightarrow> unit verifier_result" where
  "check_path_len n i parent_bc =
     (case parent_bc of
        None \<Rightarrow> Ok ()
      | Some bc \<Rightarrow>
          and_then (and_then (usize_sub n 1) (\<lambda>m. usize_sub m i)) (\<lambda>remaining.
          case path_len_constraint bc of
            None \<Rightarrow> Ok ()
          | Some max_len \<Rightarrow>
              if (of_nat remaining :: u32) > max_len then
                Err (CertificateVerification (cert_msg i
                  (''path length constraint violated (max='' @ show_nat (unat max_len) @
                   '', remaining intermediates='' @ show_nat remaining @ '')'')))
              else Ok ()))"

text \<open>The block \<open>if i > 0\<close>: issuer against parent subject, then the path length.\<close>

definition check_issuer :: "'n ParsedCert list \<Rightarrow> nat \<Rightarrow> 'n ParsedCert \<Rightarrow> unit verifier_result" where
  "check_issuer cs i parsed =
     (if i > 0 then
        and_then (and_then (usize_sub i 1) (index cs)) (\<lambda>parent.
        if issuer (pc_cert parsed) \<noteq> subject (pc_cert parent) then
          Err (CertificateVerification (cert_msg i ''issuer does not match parent subject''))
        else
          and_then (map_err (\<lambda>e. CertificateVerification
                      (cert_msg (i - 1) (''parent basicConstraints parse: '' @ e)))
                      (basic_constraints (pc_cert parent)))
            (check_path_len (length cs) i))
      else Ok ())"

text \<open>The body of the loop for certificate \<open>i\<close>; its value is what is pushed on \<open>expiries\<close>.\<close>

definition verify_cert ::
  "('k, 's) p384 \<Rightarrow> 'n ParsedCert list \<Rightarrow> nat \<Rightarrow> u64 \<Rightarrow> nat \<Rightarrow> 'n ParsedCert \<Rightarrow> u64 verifier_result"
  where
  "verify_cert ec cs trusted_prefix_len ts i parsed =
     and_then (not_after_secs i (not_after (pc_cert parsed))) (\<lambda>expiry.
     if i > 0 \<and> issuer (pc_cert parsed) = subject (pc_cert parsed) then
       Err (CertificateVerification (cert_msg i
         ''self-issued certificate is only allowed at the trust anchor''))
     else if i < trusted_prefix_len then Ok expiry
     else
       and_then (usize_sub (length cs) 1) (\<lambda>last_index.
       let is_leaf = (i = last_index \<and> length cs > 1) in
       and_then (validate_cert_content (pc_cert parsed) is_leaf) (\<lambda>_.
       and_then (check_validity (pc_cert parsed) ts i) (\<lambda>_.
       and_then (check_issuer cs i parsed) (\<lambda>_.
       and_then (if i = 0 then Ok parsed else and_then (usize_sub i 1) (index cs)) (\<lambda>parent.
       and_then (verify_signature ec (pc_cert parent) (pc_cert parsed) i) (\<lambda>_.
       Ok expiry)))))))"

definition verify_chain ::
  "(bytes \<Rightarrow> B256) \<Rightarrow> ('k, 's) p384 \<Rightarrow> 'n CertChain \<Rightarrow> nat \<Rightarrow> u64
     \<Rightarrow> (B256 list \<times> u64 list) verifier_result" where
  "verify_chain sha ec chain trusted_prefix_len ts =
     (if trusted_prefix_len > length (certs chain) then
        Err (CertificateVerification
          (''trusted prefix length '' @ show_nat trusted_prefix_len @
           '' exceeds chain length '' @ show_nat (length (certs chain))))
      else
        let digests = compute_path_digests sha (map pc_der (certs chain)) in
        and_then (push_loop (verify_cert ec (certs chain) trusted_prefix_len ts) 0 [] (certs chain))
          (\<lambda>expiries. Ok (digests, expiries)))"

section \<open>What one iteration checks\<close>

definition self_issued :: "'n X509Certificate \<Rightarrow> bool" where
  "self_issued c \<longleftrightarrow> issuer c = subject c"

definition path_len_ok :: "nat \<Rightarrow> nat \<Rightarrow> 'n X509Certificate \<Rightarrow> bool" where
  "path_len_ok n i parent \<longleftrightarrow>
     (\<exists>bc. basic_constraints parent = Inr bc
         \<and> (\<forall>b max_len. bc = Some b \<longrightarrow> path_len_constraint b = Some max_len \<longrightarrow>
              (n - 1 - i) mod 2 ^ 32 \<le> unat max_len))"

text \<open>The certificate that signs certificate \<open>i\<close>: the root signs itself.\<close>

definition signer :: "'n ParsedCert list \<Rightarrow> nat \<Rightarrow> 'n X509Certificate" where
  "signer cs i = pc_cert (cs ! (if i = 0 then 0 else i - 1))"

text \<open>The checks every certificate passes, and those only an untrusted one must pass.\<close>

definition basic_ok :: "nat \<Rightarrow> 'n X509Certificate \<Rightarrow> bool" where
  "basic_ok i c \<longleftrightarrow> 0 \<le> sint (not_after c) \<and> (i > 0 \<longrightarrow> \<not> self_issued c)"

definition issuance_ok ::
  "('k, 's) p384 \<Rightarrow> 'n ParsedCert list \<Rightarrow> u64 \<Rightarrow> nat \<Rightarrow> bool" where
  "issuance_ok ec cs ts i \<longleftrightarrow>
     content_ok (i = length cs - 1 \<and> length cs > 1) (pc_cert (cs ! i))
     \<and> valid_at (pc_cert (cs ! i)) ts
     \<and> (i > 0 \<longrightarrow> issuer (pc_cert (cs ! i)) = subject (signer cs i)
                \<and> path_len_ok (length cs) i (signer cs i))
     \<and> signs ec (signer cs i) (pc_cert (cs ! i))"

definition cert_ok ::
  "('k, 's) p384 \<Rightarrow> 'n ParsedCert list \<Rightarrow> nat \<Rightarrow> u64 \<Rightarrow> nat \<Rightarrow> bool" where
  "cert_ok ec cs tp ts i \<longleftrightarrow>
     basic_ok i (pc_cert (cs ! i)) \<and> (tp \<le> i \<longrightarrow> issuance_ok ec cs ts i)"

definition chain_ok ::
  "('k, 's) p384 \<Rightarrow> 'n ParsedCert list \<Rightarrow> nat \<Rightarrow> u64 \<Rightarrow> bool" where
  "chain_ok ec cs tp ts \<longleftrightarrow> tp \<le> length cs \<and> (\<forall>i < length cs. cert_ok ec cs tp ts i)"

definition expiries :: "'n ParsedCert list \<Rightarrow> u64 list" where
  "expiries cs = map (\<lambda>p. not_after (pc_cert p)) cs"

lemma not_after_secs_Ok_iff [outcome_iffs]:
  "not_after_secs i t = Ok s \<longleftrightarrow> 0 \<le> sint t \<and> s = t"
  by (auto simp: not_after_secs_def)

lemma check_path_len_Ok_iff:
  "i < n \<Longrightarrow> check_path_len n i bc = Ok u \<longleftrightarrow>
     (\<forall>b max_len. bc = Some b \<longrightarrow> path_len_constraint b = Some max_len \<longrightarrow>
        (n - 1 - i) mod 2 ^ 32 \<le> unat max_len)"
  by (auto simp: check_path_len_def u32_of_nat_greater_iff not_less simp del: of_nat_diff
      split: option.splits)

lemma check_issuer_Ok_iff:
  "i < length cs \<Longrightarrow> check_issuer cs i p = Ok u \<longleftrightarrow>
     (i > 0 \<longrightarrow> issuer (pc_cert p) = subject (signer cs i) \<and> path_len_ok (length cs) i (signer cs i))"
  by (auto simp: check_issuer_def outcome_iffs check_path_len_Ok_iff path_len_ok_def signer_def)

lemma verify_cert_Ok_iff:
  assumes "i < length cs"
  shows "verify_cert ec cs tp ts i (cs ! i) = Ok e \<longleftrightarrow>
    cert_ok ec cs tp ts i \<and> e = not_after (pc_cert (cs ! i))"
proof -
  have parent: "(if i = 0 then Ok (cs ! i) else and_then (usize_sub i 1) (index cs)) = Ok p
      \<longleftrightarrow> p = cs ! (if i = 0 then 0 else i - 1)" for p
    using assms by auto
  have last_index: "usize_sub (length cs) 1 = (Ok (length cs - 1) :: nat verifier_result)"
    using assms by (cases cs) simp_all
  show ?thesis
    using assms
    by (auto simp: verify_cert_def outcome_iffs last_index parent check_issuer_Ok_iff Let_def
        cert_ok_def basic_ok_def issuance_ok_def self_issued_def signer_def)
qed

section \<open>The whole chain\<close>

lemma verify_certs_collect_iff:
  "collect_enumerated (verify_cert ec cs tp ts) 0 cs = Ok es \<longleftrightarrow>
     (\<forall>i < length cs. cert_ok ec cs tp ts i) \<and> es = expiries cs"
  by (auto simp: collect_enumerated_Ok_iff verify_cert_Ok_iff expiries_def list_eq_iff_nth_eq)

lemma no_panic_verify_cert: "i < length cs \<Longrightarrow> no_panic (verify_cert ec cs tp ts i (cs ! i))"
proof -
  assume i: "i < length cs"
  have path_len: "no_panic (check_path_len (length cs) i bc)" for bc
    using i by (auto simp: check_path_len_def split: option.splits)
  have "no_panic (check_issuer cs i (cs ! i))"
    using i by (auto simp: check_issuer_def intro!: no_panic_intros path_len)
  moreover have "usize_sub (length cs) 1 = (Ok (length cs - 1) :: nat verifier_result)"
    using i by (cases cs) simp_all
  ultimately show ?thesis
    using i
    by (auto simp: verify_cert_def not_after_secs_def Let_def intro!: no_panic_intros)
qed

lemma verify_chain_Ok_iff [outcome_iffs]:
  "verify_chain sha ec chain tp ts = Ok (ds, es) \<longleftrightarrow>
     chain_ok ec (certs chain) tp ts
     \<and> ds = compute_path_digests sha (map pc_der (certs chain)) \<and> es = expiries (certs chain)"
  by (auto simp: verify_chain_def chain_ok_def outcome_iffs push_loop_collect
      verify_certs_collect_iff Let_def not_less)

lemma no_panic_verify_chain [simp]: "no_panic (verify_chain sha ec chain tp ts)"
  unfolding verify_chain_def push_loop_collect Let_def
  by (auto intro!: no_panic_intros no_panic_verify_cert)

interpretation chain_check: validator
  "\<lambda>(chain :: 'n CertChain, tp, ts). and_then (verify_chain sha ec chain tp ts) (\<lambda>_. Ok ())"
  "\<lambda>(chain, tp, ts). chain_ok ec (certs chain) tp ts"
  for sha ec
  by unfold_locales (auto simp: outcome_iffs no_panic_and_then)

text \<open>
  Property C6: \<open>verify_chain\<close> accepts exactly the chains in which the trusted prefix is not
  longer than the chain, no certificate has a negative \<open>notAfter\<close>, only the first may be
  self-issued, and every certificate from the prefix on has acceptable content (CA or leaf),
  is within its validity period, is issued and signed by the certificate before it (the root
  by itself) and respects that certificate's path length. It then returns the path digests and
  the \<open>notAfter\<close> of all certificates, trusted or not. It never panics.
\<close>

theorem verify_chain_correct:
  "(verify_chain sha ec chain tp ts = Ok r \<longleftrightarrow>
      chain_ok ec (certs chain) tp ts
      \<and> r = (compute_path_digests sha (map pc_der (certs chain)), expiries (certs chain)))
   \<and> no_panic (verify_chain sha ec chain tp ts)"
  by (cases r) (auto simp: verify_chain_Ok_iff)

lemma verify_chain_Err_iff:
  assumes "tp \<le> length (certs chain)"
  shows "verify_chain sha ec chain tp ts = Err e \<longleftrightarrow>
    (\<exists>i < length (certs chain).
       verify_cert ec (certs chain) tp ts i (certs chain ! i) = Err e
       \<and> (\<forall>j < i. cert_ok ec (certs chain) tp ts j))"
proof -
  have "verify_chain sha ec chain tp ts = Err e \<longleftrightarrow>
      collect_enumerated (verify_cert ec (certs chain) tp ts) 0 (certs chain) = Err e"
    using assms
    by (auto simp: verify_chain_def push_loop_collect Let_def and_then_Err_iff)
  also have "\<dots> \<longleftrightarrow> (\<exists>i < length (certs chain).
       verify_cert ec (certs chain) tp ts i (certs chain ! i) = Err e
       \<and> (\<forall>j < i. cert_ok ec (certs chain) tp ts j))"
    by (auto simp: collect_enumerated_Err_iff verify_cert_Ok_iff)
  finally show ?thesis .
qed

text \<open>
  Property C22: a rejection within the chain is reported for the first offending certificate: the
  error is the one its own checks give, and every certificate before it passes all of its
  checks.
\<close>

theorem verify_chain_first_error:
  assumes "tp \<le> length (certs chain)"
  shows "verify_chain sha ec chain tp ts = Err e \<longleftrightarrow>
    (\<exists>i < length (certs chain).
       verify_cert ec (certs chain) tp ts i (certs chain ! i) = Err e
       \<and> (\<forall>j < i. cert_ok ec (certs chain) tp ts j))"
  using assms by (rule verify_chain_Err_iff)

text \<open>
  Trusting more never changes the answer: a chain accepted with some trusted prefix
  is accepted with every longer one, and the digests and expiries returned are the same.
\<close>

theorem verify_chain_prefix_mono:
  assumes "verify_chain sha ec chain tp ts = Ok r"
    and "tp \<le> tp'" and "tp' \<le> length (certs chain)"
  shows "verify_chain sha ec chain tp' ts = Ok r"
  using assms by (cases r) (auto simp: verify_chain_Ok_iff chain_ok_def cert_ok_def)

text \<open>
  A fully trusted chain is accepted at every time: neither the timestamp nor any
  signature is looked at, so expiry of a cached prefix is the caller's to enforce, from the
  expiries returned.
\<close>

theorem verify_chain_fully_trusted:
  "verify_chain sha ec chain (length (certs chain)) ts = Ok r \<longleftrightarrow>
     (\<forall>i < length (certs chain). basic_ok i (pc_cert (certs chain ! i)))
     \<and> r = (compute_path_digests sha (map pc_der (certs chain)), expiries (certs chain))"
  by (cases r) (auto simp: verify_chain_Ok_iff chain_ok_def cert_ok_def)

section \<open>Numeric facts about accepted chains\<close>

lemma valid_at_notAfter:
  assumes "valid_at c ts" and "0 \<le> sint (not_after c)"
  shows "unat ts \<le> unat (not_after c) * 1000 + 999"
proof -
  have "int (unat ts div 1000) \<le> int (unat (not_after c))"
    using assms nonneg_i64_eq [of "not_after c"] by (simp add: valid_at_def)
  then show ?thesis by linarith
qed

end
