(* ===== verification/Cert_Trust.thy ===== *)
theory Cert_Trust
  imports Cert_Chain
begin

text \<open>
  What an accepted chain means: an abstract relation of trust, which grows from a set of
  anchors by issuing certificates, and the refinement of \<open>verify_chain\<close> to it; the numeric
  meaning of the expiries it returns and of the path length check.
\<close>

section \<open>Trust\<close>

text \<open>
  \<open>issues ec ts p c\<close>: at time \<open>ts\<close> the certificate \<open>p\<close> vouches for \<open>c\<close>.
\<close>

definition issues ::
  "('k, 's) p384 \<Rightarrow> u64 \<Rightarrow> 'n X509Certificate \<Rightarrow> 'n X509Certificate \<Rightarrow> bool" where
  "issues ec ts p c \<longleftrightarrow>
     issuer c = subject p \<and> signs ec p c \<and> valid_at c ts \<and> p384_certificate c \<and> \<not> self_issued c"

text \<open>
  A certificate is trusted when it is an anchor, or issued by a trusted certificate that is an
  anchor or a CA.
\<close>

inductive trusted ::
  "('k, 's) p384 \<Rightarrow> u64 \<Rightarrow> 'n X509Certificate set \<Rightarrow> 'n X509Certificate \<Rightarrow> bool"
  for ec :: "('k, 's) p384" and ts :: u64 and anchors :: "'n X509Certificate set" where
  anchor: "c \<in> anchors \<Longrightarrow> trusted ec ts anchors c"
| issued: "trusted ec ts anchors p \<Longrightarrow> p \<in> anchors \<or> ca_certificate p \<Longrightarrow> issues ec ts p c
     \<Longrightarrow> trusted ec ts anchors c"

inductive_cases trusted_cases: "trusted ec ts anchors c"

lemma trusted_not_anchor:
  "trusted ec ts anchors c \<Longrightarrow> c \<notin> anchors \<Longrightarrow>
     \<exists>p. trusted ec ts anchors p \<and> (p \<in> anchors \<or> ca_certificate p) \<and> issues ec ts p c"
  by (auto elim: trusted_cases)

text \<open>Trust comes from somewhere, and grows with the anchors.\<close>

lemma trusted_needs_anchor: "trusted ec ts anchors c \<Longrightarrow> anchors \<noteq> {}"
  by (induction rule: trusted.induct) auto

lemma trusted_mono: "trusted ec ts A c \<Longrightarrow> A \<subseteq> B \<Longrightarrow> trusted ec ts B c"
  by (induction rule: trusted.induct) (auto intro: trusted.intros)

lemma content_ok_p384: "content_ok l c \<Longrightarrow> p384_certificate c"
  by (auto simp: content_ok_def leaf_certificate_def ca_certificate_def split: if_splits)

section \<open>Accepted chains are trusted\<close>

text \<open>The anchors of a run: the trusted prefix, or the root alone when nothing is trusted.\<close>

definition anchors_of :: "'n ParsedCert list \<Rightarrow> nat \<Rightarrow> 'n X509Certificate set" where
  "anchors_of cs tp = pc_cert ` set (take (max 1 tp) cs)"

lemma anchors_ofI: "i < length cs \<Longrightarrow> i < max 1 tp \<Longrightarrow> pc_cert (cs ! i) \<in> anchors_of cs tp"
  by (force simp: anchors_of_def in_set_conv_nth)

lemma chain_ok_issues:
  assumes "chain_ok ec cs tp ts" and "Suc i < length cs" and "tp \<le> Suc i"
  shows "issues ec ts (pc_cert (cs ! i)) (pc_cert (cs ! Suc i))"
  using assms
  by (auto simp: chain_ok_def cert_ok_def issuance_ok_def basic_ok_def issues_def signer_def
      dest!: spec [of _ "Suc i"] intro: content_ok_p384)

lemma chain_ok_ca:
  assumes "chain_ok ec cs tp ts" and "Suc i < length cs" and "tp \<le> i"
  shows "ca_certificate (pc_cert (cs ! i))"
  using assms
  by (auto simp: chain_ok_def cert_ok_def issuance_ok_def content_ok_def
      dest!: spec [of _ i] split: if_splits)

lemma chain_ok_trusted:
  assumes "chain_ok ec cs tp ts" and "i < length cs"
  shows "trusted ec ts (anchors_of cs tp) (pc_cert (cs ! i))"
  using assms(2)
proof (induction i)
  case 0
  then show ?case by (intro trusted.anchor anchors_ofI) auto
next
  case (Suc i)
  show ?case
  proof (cases "Suc i < max 1 tp")
    case True
    with Suc.prems show ?thesis by (intro trusted.anchor anchors_ofI)
  next
    case False
    then have "tp \<le> Suc i" by simp
    with assms(1) Suc.prems have "issues ec ts (pc_cert (cs ! i)) (pc_cert (cs ! Suc i))"
      by (intro chain_ok_issues)
    moreover have "pc_cert (cs ! i) \<in> anchors_of cs tp \<or> ca_certificate (pc_cert (cs ! i))"
      using chain_ok_ca [OF assms(1) Suc.prems] anchors_ofI [of i cs tp] Suc.prems
      by (cases "tp \<le> i") auto
    ultimately show ?thesis
      using Suc.IH Suc.prems by (auto intro: trusted.issued)
  qed
qed

lemma chain_ok_leaf_trusted:
  "chain_ok ec cs tp ts \<Longrightarrow> cs \<noteq> [] \<Longrightarrow> trusted ec ts (anchors_of cs tp) (pc_cert (last cs))"
  using chain_ok_trusted [of ec cs tp ts "length cs - 1"] by (simp add: last_conv_nth)

text \<open>
  Property C7: acceptance implements trust: when \<open>verify_chain\<close> accepts, every certificate of
  the chain, the leaf among them, is trusted from the anchors of the run, that is, from the
  trusted prefix, or from the root alone if the prefix is empty; in that case the root is a
  CA certificate valid at the time and signed by its own key.
\<close>

theorem verify_chain_trusted:
  assumes "verify_chain sha ec chain tp ts = Ok r"
  shows "(\<forall>p \<in> set (certs chain). trusted ec ts (anchors_of (certs chain) tp) (pc_cert p))
    \<and> (\<forall>root rest. certs chain = root # rest \<longrightarrow> tp = 0 \<longrightarrow>
         ca_certificate (pc_cert root) \<and> valid_at (pc_cert root) ts
         \<and> signs ec (pc_cert root) (pc_cert root))"
proof -
  have ok: "chain_ok ec (certs chain) tp ts"
    using assms by (cases r) (simp add: verify_chain_Ok_iff)
  have "ca_certificate (pc_cert root) \<and> valid_at (pc_cert root) ts
      \<and> signs ec (pc_cert root) (pc_cert root)" if "certs chain = root # rest" "tp = 0" for root rest
    using ok that
    by (auto simp: chain_ok_def cert_ok_def issuance_ok_def content_ok_def signer_def
        dest!: spec [of _ 0] split: if_splits)
  moreover have "trusted ec ts (anchors_of (certs chain) tp) (pc_cert p)"
    if "p \<in> set (certs chain)" for p
    using chain_ok_trusted [OF ok] that by (auto simp: in_set_conv_nth)
  ultimately show ?thesis by blast
qed

section \<open>Expiries and path lengths\<close>

lemma valid_at_between:
  "valid_at c ts \<Longrightarrow> valid_at c ts'' \<Longrightarrow> ts \<le> ts' \<Longrightarrow> ts' \<le> ts'' \<Longrightarrow> valid_at c ts'"
  by (auto simp: valid_at_def word_le_nat_alt)

text \<open>
  The times at which a chain is accepted form an interval: a chain accepted at two
  timestamps is accepted at every timestamp between them, with the same digests and expiries.
\<close>

theorem verify_chain_time_interval:
  assumes "verify_chain sha ec chain tp ts = Ok r" and "verify_chain sha ec chain tp ts'' = Ok r''"
    and "ts \<le> ts'" and "ts' \<le> ts''"
  shows "verify_chain sha ec chain tp ts' = Ok r \<and> r'' = r"
  using assms
  by (cases r; cases r'')
    (auto simp: verify_chain_Ok_iff chain_ok_def cert_ok_def issuance_ok_def
      intro: valid_at_between [of _ ts ts'' ts'])

text \<open>
  Property C40: the timestamp (milliseconds) of an accepted chain lies before the end of the last
  second of validity of every certificate that was not trusted beforehand, as the returned
  expiry (seconds) says; no cast on the way loses a value.
\<close>

theorem verify_chain_expiry_bound:
  assumes "verify_chain sha ec chain tp ts = Ok (ds, es)"
    and "tp \<le> i" and "i < length (certs chain)"
  shows "unat ts \<le> unat (es ! i) * 1000 + 999"
proof -
  have "basic_ok i (pc_cert (certs chain ! i))" and "valid_at (pc_cert (certs chain ! i)) ts"
    and "es ! i = not_after (pc_cert (certs chain ! i))"
    using assms
    by (auto simp: verify_chain_Ok_iff chain_ok_def cert_ok_def issuance_ok_def expiries_def)
  then show ?thesis
    using valid_at_notAfter [of "pc_cert (certs chain ! i)" ts] by (simp add: basic_ok_def)
qed

text \<open>
  Property C27: path lengths bound the intermediates: in an accepted chain of fewer than \<open>2^32\<close>
  certificates, a certificate with a path length constraint that is not strictly inside the
  trusted prefix has at most that many intermediate certificates between it and the leaf.
\<close>

theorem verify_chain_path_length:
  assumes "verify_chain sha ec chain tp ts = Ok r"
    and "length (certs chain) < 2 ^ 32"
    and "Suc i < length (certs chain)" and "tp \<le> Suc i"
    and "basic_constraints (pc_cert (certs chain ! i)) = Inr (Some b)"
    and "path_len_constraint b = Some max_len"
  shows "length (drop (Suc i) (butlast (certs chain))) \<le> unat max_len"
proof -
  have "path_len_ok (length (certs chain)) (Suc i) (pc_cert (certs chain ! i))"
    using assms(1,3,4)
    by (cases r) (auto simp: verify_chain_Ok_iff chain_ok_def cert_ok_def issuance_ok_def
        signer_def dest!: spec [of _ "Suc i"])
  then have "(length (certs chain) - 1 - Suc i) mod 2 ^ 32 \<le> unat max_len"
    using assms(5,6) by (simp add: path_len_ok_def)
  then show ?thesis using assms(2) by simp
qed

section \<open>Content and validity of a single certificate\<close>

text \<open>
  Property C25: \<open>validate_cert_content\<close> accepts exactly the certificates that are signed with
  ECDSA-SHA384, hold an EC key on P-384, and, as a CA, have \<open>cA=true\<close> and \<open>keyCertSign\<close>, or,
  as a leaf, have neither \<open>cA=true\<close> nor a key usage without \<open>digitalSignature\<close>; in all other
  cases it returns a certificate verification error, and never panics.
\<close>

theorem validate_cert_content_correct:
  "(validate_cert_content c is_leaf = Ok () \<longleftrightarrow>
      (if is_leaf then leaf_certificate c else ca_certificate c))
   \<and> ((\<exists>msg. validate_cert_content c is_leaf = Err (CertificateVerification msg)) \<longleftrightarrow>
      \<not> (if is_leaf then leaf_certificate c else ca_certificate c))"
proof -
  have "only_errs is_CertificateVerification (validate_cert_content c is_leaf)"
    unfolding validate_cert_content_def check_algorithms_def check_leaf_extensions_def
      check_ca_extensions_def
    by (auto intro!: only_errs_intros)
  then have "(\<exists>msg. validate_cert_content c is_leaf = Err (CertificateVerification msg)) \<longleftrightarrow>
      (\<exists>e. validate_cert_content c is_leaf = Err e)"
    by (rule Err_CertificateVerification_iff)
  also have "\<dots> \<longleftrightarrow> \<not> content_ok is_leaf c"
    using content.rejects_iff [of "(c, is_leaf)"] by simp
  finally show ?thesis
    by (auto simp: validate_cert_content_Ok_iff content_ok_def)
qed

text \<open>
  Property C26: \<open>check_validity\<close> decides \<open>notBefore \<le> \<lfloor>timestamp / 1000\<rfloor> \<le> notAfter\<close> in unbounded
  integers for every 64-bit timestamp: the cast of the quotient to \<open>i64\<close> never changes its
  value, so no timestamp wraps around into a validity period.
\<close>

theorem check_validity_correct:
  "check_validity c ts i = Ok () \<longleftrightarrow>
     sint (not_before c) \<le> int (unat ts) div 1000 \<and> int (unat ts) div 1000 \<le> sint (not_after c)"
  by (simp add: check_validity_Ok_iff valid_at_def zdiv_int)

end
