(* ===== verification/Verify.thy ===== *)
theory Verify
  imports Sol_Types Content Cert_Trust
begin

text \<open>
  \<open>AttestationVerifier\<close> of verifier/src/verify.rs: the end-to-end verification of an
  attestation report step by step, the predicate it decides and the journal it builds, and the
  exact characterisation that the theories after it rest on.
\<close>

section \<open>Verification\<close>

text \<open>The third-party code the verifier runs on.\<close>

record ('o, 'n, 'k, 's) deps =
  dep_cbor :: "'o ciborium"
  dep_x509 :: "'n x509_from_der"
  dep_p384 :: "('k, 's) p384"
  dep_sha256 :: "bytes \<Rightarrow> B256"

definition verify_cose_signature ::
  "('k, 's) p384 \<Rightarrow> bytes \<Rightarrow> bytes \<Rightarrow> bytes \<Rightarrow> unit verifier_result" where
  "verify_cose_signature ec leaf_pk_bytes tbs signature_bytes =
     and_then (map_err (\<lambda>e. SignatureVerification (''invalid leaf public key: '' @ e))
                 (from_sec1_bytes ec leaf_pk_bytes)) (\<lambda>verifying_key.
     and_then (map_err (\<lambda>e. SignatureVerification (''invalid COSE signature: '' @ e))
                 (signature_from_slice ec signature_bytes)) (\<lambda>sig.
     map_err (\<lambda>e. SignatureVerification (''COSE signature verification failed: '' @ e))
       (ecdsa_verify ec verifying_key tbs sig)))"

definition optional_bytes :: "bytes option \<Rightarrow> bytes" where
  "optional_bytes opt = (case opt of None \<Rightarrow> [] | Some b \<Rightarrow> b)"

text \<open>The closure that turns an entry of the PCR map into a \<open>Pcr\<close>.\<close>

definition pcr_of_entry :: "u64 \<times> 48 byte_array \<Rightarrow> ('e, Pcr) outcome" where
  "pcr_of_entry entry =
     and_then (Bytes48_from (snd entry)) (\<lambda>v. Ok \<lparr>pcr_index = fst entry, pcr_value = v\<rparr>)"

definition verify ::
  "('o, 'n, 'k, 's) deps \<Rightarrow> VerifierInput \<Rightarrow> VerifierJournal verifier_result" where
  "verify deps input =
     and_then (parse_report (dep_cbor deps) (vi_attestationReport input)) (\<lambda>report.
     and_then (validate_attestation_content (rep_doc report)) (\<lambda>_.
     and_then (chain_from_der (dep_x509 deps) (cert_chain_der report)) (\<lambda>chain.
     let trusted_prefix_len = unat (vi_trustedCertsPrefixLen input) in
     and_then (verify_chain (dep_sha256 deps) (dep_p384 deps) chain trusted_prefix_len
                 (timestamp (rep_doc report))) (\<lambda>(certs, cert_expiries).
     and_then (leaf_public_key chain) (\<lambda>leaf_pk_bytes.
     and_then (sig_structure (dep_cbor deps) (rep_cose report)) (\<lambda>tbs.
     and_then (verify_cose_signature (dep_p384 deps) leaf_pk_bytes tbs
                 (signature (rep_cose report))) (\<lambda>_.
     and_then (collect_enumerated (\<lambda>_. pcr_of_entry) 0 (entries (pcrs (rep_doc report)))) (\<lambda>pcr_list.
     Ok \<lparr>vj_result = Success,
         vj_trustedCertsPrefixLen = vi_trustedCertsPrefixLen input,
         vj_timestamp = timestamp (rep_doc report),
         vj_certs = certs,
         vj_certExpiries = cert_expiries,
         vj_userData = optional_bytes (user_data (rep_doc report)),
         vj_nonce = optional_bytes (nonce (rep_doc report)),
         vj_publicKey = optional_bytes (public_key (rep_doc report)),
         vj_pcrs = pcr_list,
         vj_moduleId = module_id (rep_doc report)\<rparr>))))))))"

section \<open>What acceptance means\<close>

definition cose_signed_by ::
  "('o, 'n, 'k, 's) deps \<Rightarrow> bytes \<Rightarrow> CoseSign1 \<Rightarrow> bool" where
  "cose_signed_by deps pk c \<longleftrightarrow>
     (\<exists>tbs k s. into_writer (dep_cbor deps) (sig_structure_value c) = Inr tbs
        \<and> from_sec1_bytes (dep_p384 deps) pk = Inr k
        \<and> signature_from_slice (dep_p384 deps) (signature c) = Inr s
        \<and> ecdsa_verify (dep_p384 deps) k tbs s = Inr ())"

definition report_of ::
  "('o, 'n, 'k, 's) deps \<Rightarrow> bytes \<Rightarrow> AttestationReport \<Rightarrow> bool" where
  "report_of deps bs report \<longleftrightarrow>
     (\<exists>v. value_from_reader (dep_cbor deps) bs = Inr v \<and> is_cose_sign1 v (rep_cose report))
     \<and> document_from_reader (dep_cbor deps) (payload (rep_cose report)) = Inr (rep_doc report)"

definition accepts ::
  "('o, 'n, 'k, 's) deps \<Rightarrow> VerifierInput \<Rightarrow> AttestationReport \<Rightarrow> 'n CertChain \<Rightarrow> bool" where
  "accepts deps input report chain \<longleftrightarrow>
     report_of deps (vi_attestationReport input) report
     \<and> doc_ok (rep_doc report)
     \<and> parses_to (dep_x509 deps) (cert_chain_der report) chain
     \<and> chain_ok (dep_p384 deps) (certs chain) (unat (vi_trustedCertsPrefixLen input))
         (timestamp (rep_doc report))
     \<and> cose_signed_by deps (subject_public_key (pc_cert (last (certs chain)))) (rep_cose report)"

definition journal_of ::
  "('o, 'n, 'k, 's) deps \<Rightarrow> VerifierInput \<Rightarrow> AttestationReport \<Rightarrow> 'n CertChain \<Rightarrow> VerifierJournal"
  where
  "journal_of deps input report chain =
     \<lparr>vj_result = Success,
      vj_trustedCertsPrefixLen = vi_trustedCertsPrefixLen input,
      vj_timestamp = timestamp (rep_doc report),
      vj_certs = compute_path_digests (dep_sha256 deps) (cert_chain_der report),
      vj_certExpiries = expiries (certs chain),
      vj_userData = optional_bytes (user_data (rep_doc report)),
      vj_nonce = optional_bytes (nonce (rep_doc report)),
      vj_publicKey = optional_bytes (public_key (rep_doc report)),
      vj_pcrs = map (\<lambda>(i, v). \<lparr>pcr_index = i, pcr_value = split48 v\<rparr>)
                  (entries (pcrs (rep_doc report))),
      vj_moduleId = module_id (rep_doc report)\<rparr>"

lemma verify_cose_signature_Ok_iff [outcome_iffs]:
  "verify_cose_signature ec pk tbs sg = Ok u \<longleftrightarrow>
     (\<exists>k s. from_sec1_bytes ec pk = Inr k \<and> signature_from_slice ec sg = Inr s
        \<and> ecdsa_verify ec k tbs s = Inr ())"
  by (auto simp: verify_cose_signature_def outcome_iffs)

lemma no_panic_verify_cose_signature [simp]: "no_panic (verify_cose_signature ec pk tbs sg)"
  unfolding verify_cose_signature_def by (intro no_panic_intros)

lemma pcr_of_entry_Ok [simp]:
  "pcr_of_entry e = Ok \<lparr>pcr_index = fst e, pcr_value = split48 (snd e)\<rparr>"
  by (simp add: pcr_of_entry_def)

lemma collect_pcrs [simp]:
  "collect_enumerated (\<lambda>_. pcr_of_entry) i es =
     Ok (map (\<lambda>(k, v). \<lparr>pcr_index = k, pcr_value = split48 v\<rparr>) es)"
  by (induction es arbitrary: i) auto

lemma cert_chain_der_not_Nil [simp]: "cert_chain_der report \<noteq> []"
  by (simp add: cert_chain_der_def)

lemma parses_to_Nil_iff: "parses_to x ders chain \<Longrightarrow> certs chain = [] \<longleftrightarrow> ders = []"
  by (auto simp: parses_to_def)

text \<open>One run, step by step.\<close>

lemma verify_Ok_stepsI:
  assumes "parse_report (dep_cbor deps) (vi_attestationReport input) = Ok report"
    and "validate_attestation_content (rep_doc report) = Ok ()"
    and "chain_from_der (dep_x509 deps) (cert_chain_der report) = Ok chain"
    and "verify_chain (dep_sha256 deps) (dep_p384 deps) chain
           (unat (vi_trustedCertsPrefixLen input)) (timestamp (rep_doc report)) = Ok (ds, es)"
    and "leaf_public_key chain = Ok pk"
    and "sig_structure (dep_cbor deps) (rep_cose report) = Ok tbs"
    and "verify_cose_signature (dep_p384 deps) pk tbs (signature (rep_cose report)) = Ok ()"
  shows "verify deps input =
    Ok (journal_of deps input report chain \<lparr>vj_certs := ds, vj_certExpiries := es\<rparr>)"
  unfolding verify_def Let_def by (simp add: assms journal_of_def)

lemma verify_Ok_stepsE:
  assumes "verify deps input = Ok j"
  obtains report chain ds es pk tbs where
    "parse_report (dep_cbor deps) (vi_attestationReport input) = Ok report"
    "validate_attestation_content (rep_doc report) = Ok ()"
    "chain_from_der (dep_x509 deps) (cert_chain_der report) = Ok chain"
    "verify_chain (dep_sha256 deps) (dep_p384 deps) chain
       (unat (vi_trustedCertsPrefixLen input)) (timestamp (rep_doc report)) = Ok (ds, es)"
    "leaf_public_key chain = Ok pk"
    "sig_structure (dep_cbor deps) (rep_cose report) = Ok tbs"
    "verify_cose_signature (dep_p384 deps) pk tbs (signature (rep_cose report)) = Ok ()"
    "j = journal_of deps input report chain \<lparr>vj_certs := ds, vj_certExpiries := es\<rparr>"
  using assms
  unfolding verify_def Let_def and_then_Ok_iff split_paired_Ex case_prod_conv collect_pcrs
    outcome.inject
  by (elim exE conjE, intro that) (assumption | simp add: journal_of_def)+

lemma parses_to_certs_not_Nil:
  "parses_to x (cert_chain_der report) chain \<Longrightarrow> certs chain \<noteq> []"
  using parses_to_Nil_iff by fastforce

lemma verify_Ok_iff [outcome_iffs]:
  "verify deps input = Ok j \<longleftrightarrow>
     (\<exists>report chain. accepts deps input report chain \<and> j = journal_of deps input report chain)"
proof
  assume "verify deps input = Ok j"
  then show "\<exists>report chain. accepts deps input report chain \<and> j = journal_of deps input report chain"
  proof (rule verify_Ok_stepsE)
    fix report chain ds es pk tbs
    assume steps: "parse_report (dep_cbor deps) (vi_attestationReport input) = Ok report"
      "validate_attestation_content (rep_doc report) = Ok ()"
      "chain_from_der (dep_x509 deps) (cert_chain_der report) = Ok chain"
      "verify_chain (dep_sha256 deps) (dep_p384 deps) chain
         (unat (vi_trustedCertsPrefixLen input)) (timestamp (rep_doc report)) = Ok (ds, es)"
      "leaf_public_key chain = Ok pk"
      "sig_structure (dep_cbor deps) (rep_cose report) = Ok tbs"
      "verify_cose_signature (dep_p384 deps) pk tbs (signature (rep_cose report)) = Ok ()"
      and j: "j = journal_of deps input report chain \<lparr>vj_certs := ds, vj_certExpiries := es\<rparr>"
    have "accepts deps input report chain"
      using steps by (auto simp: accepts_def report_of_def cose_signed_by_def outcome_iffs
          parse_report_Ok_iff)
    moreover have "j = journal_of deps input report chain"
      using steps j by (simp add: journal_of_def verify_chain_Ok_iff chain_from_der_Ok_iff
          parses_to_def)
    ultimately show ?thesis by blast
  qed
next
  assume "\<exists>report chain. accepts deps input report chain \<and> j = journal_of deps input report chain"
  then obtain report chain where acc: "accepts deps input report chain"
    and j: "j = journal_of deps input report chain" by blast
  then obtain tbs where "sig_structure (dep_cbor deps) (rep_cose report) = Ok tbs"
    and "verify_cose_signature (dep_p384 deps)
           (subject_public_key (pc_cert (last (certs chain)))) tbs (signature (rep_cose report)) = Ok ()"
    by (auto simp: accepts_def cose_signed_by_def outcome_iffs)
  moreover have "leaf_public_key chain = Ok (subject_public_key (pc_cert (last (certs chain))))"
    using acc parses_to_certs_not_Nil by (auto simp: accepts_def leaf_public_key_Ok_iff)
  moreover have "verify_chain (dep_sha256 deps) (dep_p384 deps) chain
      (unat (vi_trustedCertsPrefixLen input)) (timestamp (rep_doc report)) =
      Ok (vj_certs j, vj_certExpiries j)"
    using acc by (simp add: j journal_of_def verify_chain_Ok_iff accepts_def parses_to_def)
  ultimately have "verify deps input = Ok (journal_of deps input report chain
      \<lparr>vj_certs := vj_certs j, vj_certExpiries := vj_certExpiries j\<rparr>)"
    using acc
    by (intro verify_Ok_stepsI)
      (auto simp: accepts_def report_of_def parse_report_Ok_iff validate_attestation_content_Ok_iff
        chain_from_der_Ok_iff)
  then show "verify deps input = Ok j" by (simp add: j)
qed

lemma no_panic_verify: "no_panic (verify deps input)"
  unfolding verify_def Let_def
  by (intro no_panic_and_then) (auto intro!: no_panic_intros)

text \<open>
  Property C1: end-to-end correctness: \<open>verify\<close> returns a journal exactly when the report parses,
  its document passes the M-02 checks, the CA bundle and leaf parse as certificates without
  trailing bytes and form an acceptable chain at the document's time, and the leaf's key
  verifies the signature over the \<open>Sig_structure\<close>; the journal is then the one built from
  exactly that report and chain. In all other cases it returns an error; it never panics.
\<close>

theorem verify_correct:
  "(verify deps input = Ok j \<longleftrightarrow>
      (\<exists>report chain. accepts deps input report chain \<and> j = journal_of deps input report chain))
   \<and> ((\<exists>e. verify deps input = Err e) \<longleftrightarrow> \<not> (\<exists>report chain. accepts deps input report chain))"
  using no_panic_Err_iff [OF no_panic_verify, of deps input] by (auto simp: verify_Ok_iff)

end
