(* ===== verification/Journal.thy ===== *)
theory Journal
  imports Verify
begin

text \<open>
  Consequences of the end-to-end characterisation of \<open>verify\<close>: the invariant of every journal,
  authenticity of its content, the meaning of the trusted prefix, malleability of the report,
  and the stage at which a report is rejected.
\<close>

section \<open>Well-formed journals\<close>

definition pcrs_wf :: "Pcr list \<Rightarrow> bool" where
  "pcrs_wf ps \<longleftrightarrow>
     1 \<le> length ps \<and> length ps \<le> 32
     \<and> sorted_wrt (<) (map pcr_index ps)
     \<and> (\<forall>p \<in> set ps. pcr_index p \<le> 31)
     \<and> (\<exists>p \<in> set ps. \<not> Bytes48_is_zero (pcr_value p))"

definition expiries_wf :: "VerifierJournal \<Rightarrow> bool" where
  "expiries_wf j \<longleftrightarrow>
     length (vj_certExpiries j) = length (vj_certs j)
     \<and> (\<forall>e \<in> set (vj_certExpiries j). unat e < 2 ^ 63)
     \<and> (\<forall>i. unat (vj_trustedCertsPrefixLen j) \<le> i \<and> i < length (vj_certs j) \<longrightarrow>
          unat (vj_timestamp j) \<le> unat (vj_certExpiries j ! i) * 1000 + 999)"

definition journal_wf :: "VerifierJournal \<Rightarrow> bool" where
  "journal_wf j \<longleftrightarrow>
     vj_result j = Success
     \<and> 2 \<le> length (vj_certs j)
     \<and> unat (vj_trustedCertsPrefixLen j) \<le> length (vj_certs j)
     \<and> expiries_wf j
     \<and> vj_timestamp j \<noteq> 0
     \<and> vj_moduleId j \<noteq> []
     \<and> pcrs_wf (vj_pcrs j)
     \<and> length (vj_publicKey j) \<le> 1024
     \<and> length (vj_userData j) \<le> 512
     \<and> length (vj_nonce j) \<le> 512"

lemma Bytes48_is_zero_split48: "Bytes48_is_zero (split48 v) \<longleftrightarrow> v = repeat_byte 0"
proof -
  have "Bytes48_is_zero (split48 v) \<longleftrightarrow> is_zero v"
    using list_all_append [of "\<lambda>x. x = 0" "take 32 (as_slice v)" "drop 32 (as_slice v)"]
    by (simp add: Bytes48_is_zero_def is_zero_def split48_def)
  then show ?thesis by (simp add: is_zero_iff)
qed

lemma pcrs_wf_journal: "pcrs_ok m \<Longrightarrow>
  pcrs_wf (map (\<lambda>(i, v). \<lparr>pcr_index = i, pcr_value = split48 v\<rparr>) (entries m))"
  using pcrs_ok_count [of m] sorted_entries [of m]
  by (force simp: pcrs_wf_def pcrs_ok_def btree_len_def Bytes48_is_zero_split48 comp_def
      case_prod_beta)

lemma length_optional_bytes: "length_within lo hi b \<Longrightarrow> length (optional_bytes b) \<le> hi"
  by (auto simp: length_within_def optional_bytes_def split: option.splits)

lemma accepts_length:
  "accepts deps input report chain \<Longrightarrow> length (cert_chain_der report) = length (certs chain)"
  unfolding accepts_def parses_to_def by (metis length_map)

lemma expiries_wf_journal:
  assumes "accepts deps input report chain"
  shows "expiries_wf (journal_of deps input report chain)"
proof -
  let ?cs = "certs chain"
  have len: "length (cert_chain_der report) = length ?cs"
    using assms by (rule accepts_length)
  have ok: "cert_ok (dep_p384 deps) ?cs (unat (vi_trustedCertsPrefixLen input))
      (timestamp (rep_doc report)) i" if "i < length ?cs" for i
    using assms that by (simp add: accepts_def chain_ok_def)
  have "unat (not_after (pc_cert (?cs ! i))) < 2 ^ 63" if "i < length ?cs" for i
    using ok [OF that] by (intro nonneg_i64_unat) (simp add: cert_ok_def basic_ok_def)
  moreover have "unat (timestamp (rep_doc report)) \<le>
      unat (not_after (pc_cert (?cs ! i))) * 1000 + 999"
    if "i < length ?cs" "unat (vi_trustedCertsPrefixLen input) \<le> i" for i
    using ok [OF that(1)] that(2) valid_at_notAfter
    by (auto simp: cert_ok_def basic_ok_def issuance_ok_def)
  ultimately show ?thesis
    by (auto simp: expiries_wf_def journal_of_def expiries_def len in_set_conv_nth)
qed

lemma journal_wf_journal_of:
  assumes "accepts deps input report chain"
  shows "journal_wf (journal_of deps input report chain)"
proof -
  have "length (cert_chain_der report) = length (certs chain)"
    using assms by (rule accepts_length)
  then have "unat (vi_trustedCertsPrefixLen input) \<le> length (cert_chain_der report)"
    using assms by (simp add: accepts_def chain_ok_def)
  moreover have "2 \<le> length (cert_chain_der report)"
    using assms by (cases "cabundle (rep_doc report)")
      (auto simp: accepts_def doc_ok_def cert_chain_der_def)
  moreover have "doc_ok (rep_doc report)"
    using assms by (simp add: accepts_def)
  ultimately show ?thesis
    using expiries_wf_journal [OF assms]
    by (auto simp: journal_wf_def journal_of_def doc_ok_def intro: pcrs_wf_journal
        length_optional_bytes)
qed

lemma verify_Ok_wf: "verify deps input = Ok j \<Longrightarrow> journal_wf j"
  by (auto simp: verify_Ok_iff intro: journal_wf_journal_of)

text \<open>
  Property C5: every journal the verifier returns is well formed: result \<open>Success\<close>, at least two
  certificates, as many expiries as digests, each a number below \<open>2^63\<close>, none of an untrusted
  certificate before the timestamp, a prefix no longer than the chain, 1 to 32 PCRs in
  strictly ascending index order with indices up to 31 and not all zero, and the length limits
  of the optional fields.
\<close>

theorem verify_journal_wf: "verify deps input = Ok j \<Longrightarrow> journal_wf j"
  by (rule verify_Ok_wf)

text \<open>
  Property C2: authenticity: the content of a returned journal is that of one document which was
  signed, as the COSE payload, under the key of a leaf certificate; the leaf is trusted from
  the run's anchors at the document's time, and the journal's digests are those of the chain
  that ends in it.
\<close>

theorem verify_authentic:
  assumes "verify deps input = Ok j"
  shows "\<exists>c d chain leaf.
    document_from_reader (dep_cbor deps) (payload c) = Inr d
    \<and> cose_signed_by deps (subject_public_key (pc_cert leaf)) c
    \<and> parses_to (dep_x509 deps) (cabundle d @ [certificate d]) chain
    \<and> leaf = last (certs chain) \<and> pc_der leaf = certificate d
    \<and> trusted (dep_p384 deps) (timestamp d)
        (anchors_of (certs chain) (unat (vi_trustedCertsPrefixLen input))) (pc_cert leaf)
    \<and> vj_certs j = compute_path_digests (dep_sha256 deps) (cabundle d @ [certificate d])
    \<and> vj_timestamp j = timestamp d \<and> vj_moduleId j = module_id d
    \<and> vj_userData j = optional_bytes (user_data d) \<and> vj_nonce j = optional_bytes (nonce d)
    \<and> vj_publicKey j = optional_bytes (public_key d)
    \<and> map (\<lambda>p. (pcr_index p, Bytes48_to_bytes (pcr_value p))) (vj_pcrs j)
        = map (\<lambda>(i, v). (i, as_slice v)) (entries (pcrs d))"
proof -
  obtain report chain where acc: "accepts deps input report chain"
    and j: "j = journal_of deps input report chain"
    using assms by (auto simp: verify_Ok_iff)
  let ?leaf = "last (certs chain)"
  have ders: "map pc_der (certs chain) = cert_chain_der report"
    using acc by (simp add: accepts_def parses_to_def)
  have ne: "certs chain \<noteq> []"
    using acc parses_to_certs_not_Nil by (auto simp: accepts_def)
  then have "pc_der ?leaf = certificate (rep_doc report)"
    using ders by (metis cert_chain_der_def last_map last_snoc)
  moreover have "trusted (dep_p384 deps) (timestamp (rep_doc report))
      (anchors_of (certs chain) (unat (vi_trustedCertsPrefixLen input))) (pc_cert ?leaf)"
    using acc ne by (intro chain_ok_leaf_trusted) (simp_all add: accepts_def)
  moreover have "map (\<lambda>p. (pcr_index p, Bytes48_to_bytes (pcr_value p))) (vj_pcrs j)
      = map (\<lambda>(i, v). (i, as_slice v)) (entries (pcrs (rep_doc report)))"
    by (simp add: j journal_of_def case_prod_beta)
  ultimately show ?thesis
    using acc ne
    by (intro exI [of _ "rep_cose report"] exI [of _ "rep_doc report"] exI [of _ chain]
        exI [of _ ?leaf])
      (simp add: accepts_def report_of_def j journal_of_def cert_chain_der_def)
qed

text \<open>
  Property C37: a longer trusted prefix never changes what is attested: if a report verifies with
  some prefix length it verifies with every longer one that the chain allows, and the journal
  differs only in the echoed prefix length.
\<close>

theorem verify_prefix_mono:
  assumes "verify deps input = Ok j"
    and "vi_trustedCertsPrefixLen input \<le> tp" and "unat tp \<le> length (vj_certs j)"
  shows "verify deps (input\<lparr>vi_trustedCertsPrefixLen := tp\<rparr>) =
    Ok (j\<lparr>vj_trustedCertsPrefixLen := tp\<rparr>)"
proof -
  obtain report chain where acc: "accepts deps input report chain"
    and j: "j = journal_of deps input report chain"
    using assms by (auto simp: verify_Ok_iff)
  have "length (cert_chain_der report) = length (certs chain)"
    using acc by (rule accepts_length)
  then have "accepts deps (input\<lparr>vi_trustedCertsPrefixLen := tp\<rparr>) report chain"
    using acc assms(2,3) by (auto simp: accepts_def chain_ok_def cert_ok_def j journal_of_def
        word_le_nat_alt)
  then show ?thesis
    by (auto simp: verify_Ok_iff j journal_of_def)
qed

text \<open>
  Property C36: the unprotected header and the tag are outside the signed content and outside the
  result: two reports whose envelopes differ only there get the same verdict and the same
  journal, so a report can be re-encoded without breaking it.
\<close>

theorem verify_ignores_unprotected:
  assumes "value_from_reader (dep_cbor deps) bs = Inr (CborArray [p, u, m, s])"
    and "value_from_reader (dep_cbor deps) bs' = Inr (CborTag 18 (CborArray [p, u', m, s]))"
  shows "verify deps \<lparr>vi_trustedCertsPrefixLen = tp, vi_attestationReport = bs\<rparr> =
    verify deps \<lparr>vi_trustedCertsPrefixLen = tp, vi_attestationReport = bs'\<rparr>"
proof -
  have "parse_report (dep_cbor deps) bs = parse_report (dep_cbor deps) bs'"
    using assms by (simp add: parse_report_def from_bytes_def unprotected_header_ignored [of p u' m s u])
  then show ?thesis by (simp add: verify_def)
qed

section \<open>One document, one journal\<close>

lemma accepts_parse: "accepts deps input report chain \<Longrightarrow>
  parse_report (dep_cbor deps) (vi_attestationReport input) = Ok report"
  by (simp add: accepts_def report_of_def parse_report_Ok_iff)

lemma parses_to_unique: "parses_to x ders chain \<Longrightarrow> parses_to x ders chain' \<Longrightarrow> chain = chain'"
proof -
  assume "parses_to x ders chain" and "parses_to x ders chain'"
  then have "chain_from_der x ders = Ok chain \<and> chain_from_der x ders = Ok chain' \<or> ders = []"
    by (auto simp: chain_from_der_Ok_iff)
  then show ?thesis
    using \<open>parses_to x ders chain\<close> \<open>parses_to x ders chain'\<close>
    by (auto simp: parses_to_def)
qed

text \<open>
  Property C13: the signed payload and the prefix length determine the journal: two accepted reports
  with the same payload, whatever their envelopes and signatures, give the same journal. A
  signature that is altered and still verifies cannot change what is attested.
\<close>

theorem verify_determined_by_payload:
  assumes "verify deps input = Ok j" and "verify deps input' = Ok j'"
    and "parse_report (dep_cbor deps) (vi_attestationReport input) = Ok report"
    and "parse_report (dep_cbor deps) (vi_attestationReport input') = Ok report'"
    and "payload (rep_cose report) = payload (rep_cose report')"
    and "vi_trustedCertsPrefixLen input = vi_trustedCertsPrefixLen input'"
  shows "j = j'"
proof -
  obtain r chain where acc: "accepts deps input r chain" and j: "j = journal_of deps input r chain"
    using assms(1) by (auto simp: verify_Ok_iff)
  obtain r' chain' where acc': "accepts deps input' r' chain'"
    and j': "j' = journal_of deps input' r' chain'"
    using assms(2) by (auto simp: verify_Ok_iff)
  have "r = report" and "r' = report'"
    using accepts_parse [OF acc] accepts_parse [OF acc'] assms(3,4) by simp_all
  with acc acc' assms(5) have doc: "rep_doc r = rep_doc r'"
    by (simp add: accepts_def report_of_def)
  then have ders: "cert_chain_der r = cert_chain_der r'"
    by (simp add: cert_chain_der_def)
  with acc acc' have "chain = chain'"
    by (auto simp: accepts_def intro: parses_to_unique)
  with doc ders assms(6) show ?thesis
    by (simp add: j j' journal_of_def)
qed

section \<open>The on-chain cache of trusted prefixes\<close>

text \<open>
  The consumer of a journal knows the digest of a list of certificates it trusts and compares
  it with the journal's digest at the end of the claimed prefix.
\<close>

lemma path_digest_take:
  assumes "0 < n" and "n \<le> length ders"
  shows "compute_path_digests sha ders ! (n - 1) = path_digest sha (take n ders)"
proof -
  have "compute_path_digests sha (take n ders) = take n (compute_path_digests sha ders)"
    using take_compute_append [of "take n ders" sha "drop n ders"] assms by simp
  moreover have "take n (compute_path_digests sha ders) \<noteq> []"
    using assms by (cases ders) auto
  ultimately show ?thesis
    using assms by (simp add: path_digest_def last_conv_nth)
qed

text \<open>
  Property C3: the trusted prefix is what the cache says: if the journal's digest at the end of
  its trusted prefix is the path digest of a list of cached certificates, and SHA-256 has no
  collision among the strings hashed for the two, then the certificates the run trusted
  without checking are exactly the cached ones, and the leaf is trusted from them. A report
  cannot have certificates of its own choice taken for the cached ones.
\<close>

theorem verify_trusts_cached_prefix:
  fixes deps :: "('o, 'n, 'k, 's) deps"
  assumes "verify deps input = Ok j"
    and "parse_report (dep_cbor deps) (vi_attestationReport input) = Ok report"
    and "tp = unat (vj_trustedCertsPrefixLen j)" and "0 < tp"
    and "cached \<noteq> []" and "vj_certs j ! (tp - 1) = last (compute_path_digests (dep_sha256 deps) cached)"
    and "inj_on (dep_sha256 deps)
      (set (hashed_inputs (dep_sha256 deps) (take tp (cert_chain_der report)))
       \<union> set (hashed_inputs (dep_sha256 deps) cached))"
    and "length (hd (cert_chain_der report)) \<noteq> 64" and "length (hd cached) \<noteq> 64"
  shows "\<exists>chain :: 'n CertChain. parses_to (dep_x509 deps) (cert_chain_der report) chain
    \<and> map pc_der (take tp (certs chain)) = cached
    \<and> trusted (dep_p384 deps) (vj_timestamp j) (pc_cert ` set (take tp (certs chain)))
        (pc_cert (last (certs chain)))"
proof -
  obtain report' chain where acc: "accepts deps input report' chain"
    and j: "j = journal_of deps input report' chain"
    using assms(1) by (auto simp: verify_Ok_iff)
  have "parse_report (dep_cbor deps) (vi_attestationReport input) = Ok report'"
    using acc by (rule accepts_parse)
  then have report: "report' = report" using assms(2) by simp
  have parses: "parses_to (dep_x509 deps) (cert_chain_der report) chain"
    and chain: "chain_ok (dep_p384 deps) (certs chain) tp (vj_timestamp j)"
    using acc assms(3) by (simp_all add: accepts_def report j journal_of_def)
  have ders: "map pc_der (certs chain) = cert_chain_der report"
    using parses by (simp add: parses_to_def)
  then have "length (cert_chain_der report) = length (certs chain)"
    by (metis length_map)
  then have len: "tp \<le> length (cert_chain_der report)"
    using chain by (simp add: chain_ok_def)
  have "take tp (cert_chain_der report) = cached"
  proof (rule path_digest_eqD [OF assms(7)])
    show "path_digest (dep_sha256 deps) (take tp (cert_chain_der report)) =
        path_digest (dep_sha256 deps) cached"
      using path_digest_take [OF assms(4) len, of "dep_sha256 deps"] assms(6)
      by (simp add: j journal_of_def report path_digest_def)
  qed (use assms(4-) cert_chain_der_not_Nil in \<open>simp_all add: hd_take\<close>)
  moreover have "trusted (dep_p384 deps) (vj_timestamp j) (anchors_of (certs chain) tp)
      (pc_cert (last (certs chain)))"
    using chain parses_to_certs_not_Nil [OF parses] by (rule chain_ok_leaf_trusted)
  moreover have "max 1 tp = tp" using assms(4) by simp
  ultimately show ?thesis
    using parses by (auto simp: anchors_of_def simp flip: ders take_map)
qed

section \<open>Where a report is rejected\<close>

lemma only_errs_cose_from_value: "only_errs is_CoseFormat (cose_from_value v)"
  unfolding cose_from_value_def unwrap_tag18_def extract_bytes_def
  by (auto intro!: only_errs_intros split: CborValue.splits)

lemma only_errs_from_bytes: "only_errs (\<lambda>e. is_Cbor e \<or> is_CoseFormat e) (from_bytes c bs)"
  unfolding from_bytes_def
  by (auto intro!: only_errs_intros intro: only_errs_weaken [OF only_errs_cose_from_value])

lemma only_errs_parse_report:
  "only_errs (\<lambda>e. is_Cbor e \<or> is_CoseFormat e \<or> is_AttestationFormat e) (parse_report c bs)"
  unfolding parse_report_def
  by (auto intro!: only_errs_intros intro: only_errs_weaken [OF only_errs_from_bytes])

lemma only_errs_chain_from_der: "only_errs is_X509Parse (chain_from_der x ders)"
  unfolding chain_from_der_def parse_cert_def by (auto intro!: only_errs_intros)

abbreviation chain_error :: "VerifierError \<Rightarrow> bool" where
  "chain_error e \<equiv> is_CertificateVerification e \<or> is_SignatureVerification e"

lemma only_errs_validate_cert_content:
  "only_errs is_CertificateVerification (validate_cert_content c l)"
  unfolding validate_cert_content_def check_algorithms_def check_leaf_extensions_def
    check_ca_extensions_def
  by (auto intro!: only_errs_intros)

lemma only_errs_verify_cert: "only_errs chain_error (verify_cert ec cs tp ts i p)"
proof -
  have "only_errs chain_error (check_validity c ts i)" for c :: "'c X509Certificate"
    by (simp add: check_validity_def Let_def)
  moreover have "only_errs chain_error (check_path_len n i bc)" for n bc
    by (auto simp: check_path_len_def intro!: only_errs_intros split: option.splits)
  moreover have "only_errs chain_error (verify_signature ec q c i)" for q c :: "'c X509Certificate"
    unfolding verify_signature_def by (auto intro!: only_errs_intros)
  ultimately show ?thesis
    unfolding verify_cert_def check_issuer_def not_after_secs_def Let_def
    by (auto intro!: only_errs_intros
        intro: only_errs_weaken [OF only_errs_validate_cert_content])
qed

lemma only_errs_verify_chain: "only_errs chain_error (verify_chain sha ec chain tp ts)"
  unfolding verify_chain_def push_loop_collect Let_def
  by (auto intro!: only_errs_intros only_errs_verify_cert)

lemma only_errs_verify_cose_signature:
  "only_errs is_SignatureVerification (verify_cose_signature ec pk tbs sg)"
  unfolding verify_cose_signature_def by (auto intro!: only_errs_intros)

lemma verify_error_chain:
  assumes "verify deps input = Err e"
    and "parse_report (dep_cbor deps) (vi_attestationReport input) = Ok report"
    and "validate_attestation_content (rep_doc report) = Ok ()"
    and "chain_from_der (dep_x509 deps) (cert_chain_der report) = Ok chain"
  shows "if chain_ok (dep_p384 deps) (certs chain) (unat (vi_trustedCertsPrefixLen input))
           (timestamp (rep_doc report))
    then is_Cbor e \<or> is_SignatureVerification e else chain_error e"
proof -
  let ?run = "verify_chain (dep_sha256 deps) (dep_p384 deps) chain
    (unat (vi_trustedCertsPrefixLen input)) (timestamp (rep_doc report))"
  have pk: "leaf_public_key chain = Ok (subject_public_key (pc_cert (last (certs chain))))"
    using assms(4) parses_to_certs_not_Nil
    by (auto simp: leaf_public_key_Ok_iff chain_from_der_Ok_iff)
  have sig: "only_errs is_Cbor (sig_structure (dep_cbor deps) (rep_cose report))"
    unfolding sig_structure_def by (auto intro!: only_errs_intros)
  note steps = assms(2-) pk
  have "is_Cbor e \<or> is_SignatureVerification e" if "?run = Ok r" for r
    using assms(1) that
    by (cases r) (auto simp: verify_def steps and_then_Err_iff Let_def
        dest: only_errsD [OF sig] only_errsD [OF only_errs_verify_cose_signature])
  moreover have "chain_error e" if "\<And>r. ?run \<noteq> Ok r"
    using assms(1) that
    by (auto simp: verify_def steps and_then_Err_iff Let_def
        dest: only_errsD [OF only_errs_verify_chain])
  ultimately show ?thesis
    by (auto simp: verify_chain_Ok_iff)
qed

text \<open>
  Property C16: the error of a rejected report names the first stage it fails: parsing, then the
  M-02 content checks, then certificate parsing, then the chain, then the COSE signature. A
  content error, say, means that the envelope parsed, whatever the certificates are.
\<close>

theorem verify_error_stage:
  assumes "verify deps input = Err e"
  shows "case parse_report (dep_cbor deps) (vi_attestationReport input) of
      Ok report \<Rightarrow>
        if \<not> doc_ok (rep_doc report) then is_ContentValidation e
        else (case chain_from_der (dep_x509 deps) (cert_chain_der report) of
            Ok chain \<Rightarrow>
              if chain_ok (dep_p384 deps) (certs chain) (unat (vi_trustedCertsPrefixLen input))
                   (timestamp (rep_doc report))
              then is_Cbor e \<or> is_SignatureVerification e
              else chain_error e
          | _ \<Rightarrow> is_X509Parse e)
    | _ \<Rightarrow> is_Cbor e \<or> is_CoseFormat e \<or> is_AttestationFormat e"
proof (cases "parse_report (dep_cbor deps) (vi_attestationReport input)")
  case (Err e')
  then show ?thesis
    using assms only_errs_parse_report [of "dep_cbor deps" "vi_attestationReport input"]
    by (auto simp: verify_def)
next
  case (Ok report)
  note report = Ok
  show ?thesis
  proof (cases "doc_ok (rep_doc report)")
    case False
    then obtain e' where "validate_attestation_content (rep_doc report) = Err e'"
      using m02.rejects_iff by blast
    then show ?thesis
      using assms report False only_errs_validate_attestation_content [of "rep_doc report"]
      by (auto simp: verify_def)
  next
    case True
    then have content: "validate_attestation_content (rep_doc report) = Ok ()"
      by (simp add: outcome_iffs)
    show ?thesis
    proof (cases "chain_from_der (dep_x509 deps) (cert_chain_der report)")
      case (Err e')
      then show ?thesis
        using assms report True content
          only_errs_chain_from_der [of "dep_x509 deps" "cert_chain_der report"]
        by (auto simp: verify_def)
    next
      case (Ok chain)
      with verify_error_chain [OF assms report content Ok] True report show ?thesis
        by simp
    qed (use no_panic_chain_from_der [of "dep_x509 deps" "cert_chain_der report"] in simp)
  qed
qed (use no_panic_parse_report [of "dep_cbor deps" "vi_attestationReport input"] in simp)

end
