(* ===== verification/Chain_Cache.thy ===== *)
theory Chain_Cache
  imports Journal
begin

text \<open>
  What a trusted prefix contributes to a run, and the use it is made for: a consumer of journals
  that has seen a prefix verified once lets later runs skip it. The theorems say what of the
  prefix a run depends on, and under which conditions skipping it gives the journal that a full
  verification would give.
\<close>

section \<open>What a run uses of the trusted prefix\<close>

text \<open>What the first untrusted certificate is checked against.\<close>

definition same_issuer_data :: "'n X509Certificate \<Rightarrow> 'n X509Certificate \<Rightarrow> bool" where
  "same_issuer_data c d \<longleftrightarrow>
     subject c = subject d \<and> subject_public_key c = subject_public_key d
     \<and> basic_constraints c = basic_constraints d"

text \<open>
  Two chains of equal length with the same certificates from \<open>tp\<close> on, whose prefixes pass the
  checks that no prefix is exempt from, and end in certificates with the same issuer data.
\<close>

definition same_beyond ::
  "nat \<Rightarrow> 'n ParsedCert list \<Rightarrow> 'n ParsedCert list \<Rightarrow> bool" where
  "same_beyond tp cs ds \<longleftrightarrow>
     length cs = length ds
     \<and> (\<forall>i < length cs. tp \<le> i \<longrightarrow> pc_cert (cs ! i) = pc_cert (ds ! i))
     \<and> (\<forall>i < length cs. i < tp \<longrightarrow>
          basic_ok i (pc_cert (cs ! i)) \<and> basic_ok i (pc_cert (ds ! i)))
     \<and> (0 < tp \<longrightarrow> tp < length cs \<longrightarrow>
          same_issuer_data (pc_cert (cs ! (tp - 1))) (pc_cert (ds ! (tp - 1))))"

lemma same_beyond_sym: "same_beyond tp cs ds \<Longrightarrow> same_beyond tp ds cs"
  by (auto simp: same_beyond_def same_issuer_data_def)

lemma same_beyond_parent:
  assumes "same_beyond tp cs ds" and "0 < i" and "tp \<le> i" and "i < length cs"
  shows "same_issuer_data (pc_cert (cs ! (i - 1))) (pc_cert (ds ! (i - 1)))"
proof (cases "tp = i")
  case True
  with assms show ?thesis by (simp add: same_beyond_def)
next
  case False
  with assms have "tp \<le> i - 1" and "i - 1 < length cs" by simp_all
  with assms(1) show ?thesis by (simp add: same_beyond_def same_issuer_data_def)
qed

lemma verify_cert_beyond:
  assumes same: "same_beyond tp cs ds" and i: "tp \<le> i" "i < length cs"
  shows "verify_cert ec cs tp ts i (cs ! i) = verify_cert ec ds tp ts i (ds ! i)"
proof -
  have cert: "pc_cert (cs ! i) = pc_cert (ds ! i)" and len: "length ds = length cs"
    using assms by (simp_all add: same_beyond_def)
  show ?thesis
  proof (cases "i = 0")
    case True
    then show ?thesis
      using cert len i by (simp add: verify_cert_def check_issuer_def)
  next
    case False
    then have parent: "same_issuer_data (pc_cert (cs ! (i - 1))) (pc_cert (ds ! (i - 1)))"
      and "i - 1 < length cs" and sub: "usize_sub i 1 = (Ok (i - 1) :: nat verifier_result)"
      using same_beyond_parent [OF same _ i] i by auto
    then have "check_issuer cs i (cs ! i) = check_issuer ds i (ds ! i)"
      using cert len by (simp add: check_issuer_def same_issuer_data_def del: One_nat_def)
    moreover have "verify_signature ec (pc_cert (cs ! (i - 1))) (pc_cert (cs ! i)) i =
        verify_signature ec (pc_cert (ds ! (i - 1))) (pc_cert (ds ! i)) i"
      using parent cert by (simp add: verify_signature_def same_issuer_data_def del: One_nat_def)
    ultimately show ?thesis
      using cert len i sub \<open>i - 1 < length cs\<close>
      by (simp add: verify_cert_def False Let_def cong: if_cong del: One_nat_def)
  qed
qed

lemma cert_ok_beyond:
  assumes "same_beyond tp cs ds" and "i < length cs"
  shows "cert_ok ec cs tp ts i \<longleftrightarrow> cert_ok ec ds tp ts i"
proof (cases "tp \<le> i")
  case True
  have "i < length ds" using assms by (simp add: same_beyond_def)
  have "cert_ok ec cs tp ts i \<longleftrightarrow>
      verify_cert ec cs tp ts i (cs ! i) = Ok (not_after (pc_cert (cs ! i)))"
    using assms(2) by (simp add: verify_cert_Ok_iff)
  also have "\<dots> \<longleftrightarrow> verify_cert ec ds tp ts i (ds ! i) = Ok (not_after (pc_cert (ds ! i)))"
    using verify_cert_beyond [OF assms(1) True assms(2), of ec ts] assms True
    by (simp add: same_beyond_def)
  also have "\<dots> \<longleftrightarrow> cert_ok ec ds tp ts i"
    using \<open>i < length ds\<close> by (simp add: verify_cert_Ok_iff)
  finally show ?thesis .
next
  case False
  with assms show ?thesis by (auto simp: same_beyond_def cert_ok_def)
qed

lemma verify_chain_beyond_Err:
  assumes same: "same_beyond tp (certs c) (certs d)" and tp: "tp \<le> length (certs c)"
    and err: "verify_chain sha ec c tp ts = Err e"
  shows "verify_chain sha ec d tp ts = Err e"
proof -
  obtain i where i: "i < length (certs c)"
    and e: "verify_cert ec (certs c) tp ts i (certs c ! i) = Err e"
    and before: "\<forall>j < i. cert_ok ec (certs c) tp ts j"
    using err by (auto simp: verify_chain_Err_iff [OF tp])
  have "tp \<le> i"
  proof (rule ccontr)
    assume "\<not> tp \<le> i"
    then have "cert_ok ec (certs c) tp ts i"
      using same i by (simp add: same_beyond_def cert_ok_def)
    then show False using e i verify_cert_Ok_iff [OF i, of ec tp ts] by auto
  qed
  have len: "length (certs d) = length (certs c)"
    using same by (simp add: same_beyond_def)
  have "verify_cert ec (certs d) tp ts i (certs d ! i) = Err e"
    using verify_cert_beyond [OF same \<open>tp \<le> i\<close> i, of ec ts] e by simp
  moreover have "\<forall>j < i. cert_ok ec (certs d) tp ts j"
    using before i cert_ok_beyond [OF same, of _ ec ts] by auto
  moreover have "tp \<le> length (certs d)" and "i < length (certs d)"
    using tp i len by simp_all
  ultimately show ?thesis by (auto simp: verify_chain_Err_iff)
qed

text \<open>
  Property C23: what a run uses of its trusted prefix: two chains that agree from the prefix on,
  whose last trusted certificates have the same subject, public key and basic constraints, and
  all of whose trusted certificates pass the two checks that no prefix is exempt from (a
  \<open>notAfter\<close> that is not negative and, after the root, an issuer other than the subject), get the
  same verdict, the same error included. Nothing else of a trusted certificate is looked at: no
  signature, validity period, key usage or algorithm, not even of the root that the command line
  trusts. That the prefix is the right one is for the consumer of the digests to check.
\<close>

theorem verify_chain_uses_of_prefix:
  assumes "same_beyond tp (certs c) (certs d)" and "tp \<le> length (certs c)"
  shows "(verify_chain sha ec c tp ts = Err e \<longleftrightarrow> verify_chain sha ec d tp ts = Err e)
    \<and> ((\<exists>r. verify_chain sha ec c tp ts = Ok r) \<longleftrightarrow> (\<exists>r. verify_chain sha ec d tp ts = Ok r))"
proof -
  have len: "tp \<le> length (certs d)"
    using assms by (simp add: same_beyond_def)
  have err: "verify_chain sha ec c tp ts = Err e \<longleftrightarrow> verify_chain sha ec d tp ts = Err e" for e
    using verify_chain_beyond_Err [OF assms] verify_chain_beyond_Err [OF same_beyond_sym [OF assms(1)] len]
    by blast
  moreover have "(\<exists>r. verify_chain sha ec d tp ts = Ok r) \<longleftrightarrow>
      \<not> (\<exists>e. verify_chain sha ec d tp ts = Err e)" for d
    by (simp add: no_panic_Err_iff del: split_paired_Ex split_paired_All)
  ultimately show ?thesis by blast
qed

section \<open>What a cached prefix must satisfy\<close>

lemma valid_at_later:
  assumes "valid_at c t" and "0 \<le> sint (not_after c)" and "t \<le> t'"
    and "unat t' div 1000 \<le> unat (not_after c)"
  shows "valid_at c t'"
proof -
  have "unat t div 1000 \<le> unat t' div 1000"
    using assms(3) by (simp add: word_le_nat_alt div_le_mono)
  then have "sint (not_before c) \<le> int (unat t' div 1000)"
    using assms(1) unfolding valid_at_def by linarith
  moreover have "int (unat t' div 1000) \<le> sint (not_after c)"
    unfolding nonneg_i64_eq [OF assms(2)] of_nat_le_iff by (rule assms(4))
  ultimately show ?thesis
    by (simp add: valid_at_def)
qed

lemma path_len_ok_shorter:
  "path_len_ok n i c \<Longrightarrow> m \<le> n \<Longrightarrow> n < 2 ^ 32 \<Longrightarrow> path_len_ok m i c"
  by (fastforce simp: path_len_ok_def)

text \<open>
  A chain whose prefix was verified as part of a longer chain, at an earlier time, passes the
  checks it was exempt from, if no certificate of the prefix has expired in between.
\<close>

lemma chain_ok_cached:
  assumes long: "chain_ok ec cs k ts" and short: "chain_ok ec ds tp ts'"
    and prefix: "take tp cs = take tp ds" "tp < length ds" "k \<le> tp"
    and longer: "length ds \<le> length cs" "length cs < 2 ^ 32"
    and times: "ts \<le> ts'" "\<forall>i < tp. unat ts' div 1000 \<le> unat (not_after (pc_cert (cs ! i)))"
  shows "chain_ok ec ds k ts'"
proof -
  have "cert_ok ec ds k ts' i" if i: "i < length ds" for i
  proof (cases "i < tp")
    case False
    have "cert_ok ec ds tp ts' i"
      using short i by (simp add: chain_ok_def)
    with False show ?thesis by (simp add: cert_ok_def)
  next
    case True
    have same: "cs ! j = ds ! j" if "j < tp" for j
      using arg_cong [OF prefix(1), of "\<lambda>xs. xs ! j"] that by simp
    have ok: "cert_ok ec cs k ts i"
      using long i longer by (simp add: chain_ok_def)
    have "signer cs i = signer ds i"
      using True same by (simp add: signer_def)
    moreover have "issuance_ok ec ds ts' i" if cs: "issuance_ok ec cs ts i"
    proof -
      have "valid_at (pc_cert (ds ! i)) ts'"
        using valid_at_later [of "pc_cert (cs ! i)" ts ts'] cs ok times True same
        by (simp add: issuance_ok_def cert_ok_def basic_ok_def)
      moreover have "i \<noteq> length cs - 1" and "i \<noteq> length ds - 1"
        using True prefix longer by simp_all
      ultimately show ?thesis
        using cs same [OF True] \<open>signer cs i = signer ds i\<close> longer
        by (auto simp: issuance_ok_def intro: path_len_ok_shorter)
    qed
    ultimately show ?thesis
      using ok same [OF True] by (simp add: cert_ok_def)
  qed
  then show ?thesis
    using prefix by (simp add: chain_ok_def)
qed

text \<open>Equal digests at the end of two prefixes mean equal prefixes.\<close>

lemma hashed_inputs_take: "set (hashed_inputs sha (take n ders)) \<subseteq> set (hashed_inputs sha ders)"
proof (cases "take n ders")
  case Nil
  then show ?thesis by auto
next
  case (Cons d ds)
  moreover have "ders = take n ders @ drop n ders" by simp
  ultimately have "ders = d # ds @ drop n ders" by (metis append_Cons)
  then have "hashed_inputs sha ders = hashed_inputs sha (d # ds @ drop n ders)" by (rule arg_cong)
  then show ?thesis
    by (simp add: Cons link_inputs_append subset_insertI2)
qed

lemma parses_to_take:
  assumes "parses_to x ders c" and "parses_to x ders' d" and "take n ders = take n ders'"
  shows "take n (certs c) = take n (certs d)"
proof -
  have "parses_to x (take n ders) \<lparr>certs = take n (certs c)\<rparr>"
    and "parses_to x (take n ders') \<lparr>certs = take n (certs d)\<rparr>"
    using assms(1,2) by (auto simp: parses_to_def take_map dest: in_set_takeD)
  with assms(3) show ?thesis
    by (auto dest: parses_to_unique)
qed

lemma same_digest_same_prefix:
  assumes inj: "inj_on sha I" "set (hashed_inputs sha xs) \<subseteq> I" "set (hashed_inputs sha ys) \<subseteq> I"
    and hd: "length (hd xs) \<noteq> 64" "length (hd ys) \<noteq> 64"
    and n: "0 < n" "n \<le> length xs" "n \<le> length ys"
    and eq: "compute_path_digests sha xs ! (n - 1) = compute_path_digests sha ys ! (n - 1)"
  shows "take n xs = take n ys"
proof (rule path_digest_eqD [OF inj(1)])
  show "path_digest sha (take n xs) = path_digest sha (take n ys)"
    using n eq path_digest_take [of n xs sha] path_digest_take [of n ys sha] by simp
  show "set (hashed_inputs sha (take n xs)) \<subseteq> I" and "set (hashed_inputs sha (take n ys)) \<subseteq> I"
    using inj hashed_inputs_take [of sha n] by blast+
qed (use hd n in \<open>auto simp: hd_take\<close>)

section \<open>A consumer that caches\<close>

text \<open>
  When a journal may be used in place of a full verification of another journal's prefix: the
  digests agree at the end of the prefix, the prefix stops before the leaf, the chain is no
  longer than the one the prefix was verified in, time has not gone back, and the expiries
  recorded for the prefix have not passed.
\<close>

definition served_by :: "VerifierJournal \<Rightarrow> VerifierJournal \<Rightarrow> bool" where
  "served_by j0 j \<longleftrightarrow>
     (let tp = unat (vj_trustedCertsPrefixLen j) in
      0 < tp \<and> tp < length (vj_certs j)
      \<and> length (vj_certs j) \<le> length (vj_certs j0) \<and> length (vj_certs j0) < 2 ^ 32
      \<and> vj_certs j0 ! (tp - 1) = vj_certs j ! (tp - 1)
      \<and> vj_timestamp j0 \<le> vj_timestamp j
      \<and> (\<forall>i < tp. unat (vj_timestamp j) div 1000 \<le> unat (vj_certExpiries j0 ! i)))"

text \<open>
  The runs a consumer has accepted, newest first: with the root alone as trusted prefix, as the
  command line does it, or with a prefix that an earlier journal of the list serves.
\<close>

inductive consumer :: "('o, 'n, 'k, 's) deps \<Rightarrow> (VerifierInput \<times> VerifierJournal) list \<Rightarrow> bool"
  for deps where
  empty_history: "consumer deps []"
| root_trusted: "consumer deps h \<Longrightarrow> verify deps input = Ok j \<Longrightarrow>
    vi_trustedCertsPrefixLen input = 1 \<Longrightarrow> consumer deps ((input, j) # h)"
| prefix_served: "consumer deps h \<Longrightarrow> verify deps input = Ok j \<Longrightarrow>
    (input0, j0) \<in> set h \<Longrightarrow> served_by j0 j \<Longrightarrow> consumer deps ((input, j) # h)"

inductive_simps consumer_Cons: "consumer deps ((input, j) # h)"

text \<open>The hypothesis on SHA-256: injective on every string hashed for a report of the history.\<close>

definition collision_free ::
  "('o, 'n, 'k, 's) deps \<Rightarrow> bytes set \<Rightarrow> (VerifierInput \<times> VerifierJournal) list \<Rightarrow> bool" where
  "collision_free deps I h \<longleftrightarrow>
     inj_on (dep_sha256 deps) I
     \<and> (\<forall>(input, j) \<in> set h. \<forall>report.
          parse_report (dep_cbor deps) (vi_attestationReport input) = Ok report \<longrightarrow>
          set (hashed_inputs (dep_sha256 deps) (cert_chain_der report)) \<subseteq> I
          \<and> length (hd (cert_chain_der report)) \<noteq> 64)"

lemma collision_free_subset:
  "collision_free deps I h \<Longrightarrow> set g \<subseteq> set h \<Longrightarrow> collision_free deps I g"
  unfolding collision_free_def by blast

abbreviation full_input :: "VerifierInput \<Rightarrow> VerifierInput" where
  "full_input input \<equiv> input\<lparr>vi_trustedCertsPrefixLen := 1\<rparr>"

abbreviation full_journal :: "VerifierJournal \<Rightarrow> VerifierJournal" where
  "full_journal j \<equiv> j\<lparr>vj_trustedCertsPrefixLen := 1\<rparr>"

lemma served_run_is_full:
  assumes full: "verify deps (full_input input0) = Ok (full_journal j0)"
    and run: "verify deps input = Ok j" and served: "served_by j0 j"
    and free: "collision_free deps I [(input, j), (input0, j0)]"
  shows "verify deps (full_input input) = Ok (full_journal j)"
proof -
  let ?sha = "dep_sha256 deps" and ?tp = "unat (vj_trustedCertsPrefixLen j)"
  obtain r0 c0 where acc0: "accepts deps (full_input input0) r0 c0"
    and j0: "full_journal j0 = journal_of deps (full_input input0) r0 c0"
    using full by (auto simp: verify_Ok_iff)
  obtain r c where acc: "accepts deps input r c" and j: "j = journal_of deps input r c"
    using run by (auto simp: verify_Ok_iff)
  have j0': "vj_certs j0 = compute_path_digests ?sha (cert_chain_der r0)"
    "vj_timestamp j0 = timestamp (rep_doc r0)" "vj_certExpiries j0 = expiries (certs c0)"
    using arg_cong [OF j0, of vj_certs] arg_cong [OF j0, of vj_timestamp]
      arg_cong [OF j0, of vj_certExpiries] by (simp_all add: journal_of_def)
  have len: "length (cert_chain_der r0) = length (certs c0)"
    "length (cert_chain_der r) = length (certs c)"
    using acc0 acc by (auto intro: accepts_length)
  note facts = served [unfolded served_by_def Let_def j0'] len j
  have "take ?tp (cert_chain_der r0) = take ?tp (cert_chain_der r)"
  proof (rule same_digest_same_prefix)
    show "inj_on ?sha I" and "set (hashed_inputs ?sha (cert_chain_der r0)) \<subseteq> I"
      and "set (hashed_inputs ?sha (cert_chain_der r)) \<subseteq> I"
      and "length (hd (cert_chain_der r0)) \<noteq> 64" and "length (hd (cert_chain_der r)) \<noteq> 64"
      using free accepts_parse [OF acc0] accepts_parse [OF acc]
      by (simp_all add: collision_free_def)
  qed (use facts in \<open>simp_all add: journal_of_def\<close>)
  then have prefix: "take ?tp (certs c0) = take ?tp (certs c)"
    using acc0 acc by (auto simp: accepts_def intro: parses_to_take)
  have "chain_ok (dep_p384 deps) (certs c) 1 (timestamp (rep_doc r))"
  proof (rule chain_ok_cached [OF _ _ prefix])
    show "chain_ok (dep_p384 deps) (certs c0) 1 (timestamp (rep_doc r0))"
      using acc0 by (simp add: accepts_def)
    show "chain_ok (dep_p384 deps) (certs c) ?tp (timestamp (rep_doc r))"
      using acc j by (simp add: accepts_def journal_of_def)
    show "\<forall>i<?tp. unat (timestamp (rep_doc r)) div 1000 \<le> unat (not_after (pc_cert (certs c0 ! i)))"
      using facts by (auto simp: journal_of_def expiries_def)
  qed (use facts in \<open>simp_all add: journal_of_def\<close>)
  then have "accepts deps (full_input input) r c"
    using acc by (simp add: accepts_def)
  moreover have "full_journal j = journal_of deps (full_input input) r c"
    by (simp add: j journal_of_def)
  ultimately show ?thesis
    by (auto simp: verify_Ok_iff)
qed

text \<open>
  Property C4: caching is sound: a consumer that accepts a trusted prefix other than the root only
  where an earlier journal serves it accepts no run that a full verification from the root
  would have rejected: each accepted input also verifies with the root alone trusted, and
  gives the same journal but for the echoed prefix length. This holds through any number of
  steps, each prefix resting on a journal that itself rested on an earlier one.
\<close>

theorem cached_runs_equal_full_runs:
  assumes "consumer deps h" and "collision_free deps I h" and "(input, j) \<in> set h"
  shows "verify deps (input\<lparr>vi_trustedCertsPrefixLen := 1\<rparr>) = Ok (j\<lparr>vj_trustedCertsPrefixLen := 1\<rparr>)"
  using assms
proof (induction arbitrary: input j rule: consumer.induct)
  case empty_history
  then show ?case by simp
next
  case (root_trusted h input' j')
  have "full_input input' = input'"
    using root_trusted.hyps(3) by (cases input') simp
  moreover have "full_journal j' = j'"
    using root_trusted.hyps by (auto simp: verify_Ok_iff journal_of_def)
  ultimately have "verify deps (full_input input') = Ok (full_journal j')"
    using root_trusted.hyps(2) by simp
  moreover have "collision_free deps I h"
    using root_trusted.prems(1) by (rule collision_free_subset) auto
  ultimately show ?case
    using root_trusted.IH root_trusted.prems(2) by auto
next
  case (prefix_served h input' j' input0 j0)
  have "collision_free deps I h"
    using prefix_served.prems(1) by (rule collision_free_subset) auto
  then have earlier: "verify deps (full_input a) = Ok (full_journal b)" if "(a, b) \<in> set h" for a b
    using prefix_served.IH that by simp
  moreover have "collision_free deps I [(input', j'), (input0, j0)]"
    using prefix_served.prems(1) by (rule collision_free_subset) (use prefix_served.hyps in auto)
  ultimately have "verify deps (full_input input') = Ok (full_journal j')"
    using prefix_served.hyps by (blast intro: served_run_is_full)
  with earlier prefix_served.prems(2) show ?case by auto
qed

section \<open>The leaf must stay outside the cache\<close>

lemma leaf_not_ca: "leaf_certificate c \<Longrightarrow> \<not> ca_certificate c"
  by (auto simp: leaf_certificate_def ca_certificate_def)

lemma chain_ok_leaf:
  assumes "chain_ok ec cs k ts" and "2 \<le> length cs" and "k < length cs"
  shows "leaf_certificate (pc_cert (last cs))"
proof -
  have "cert_ok ec cs k ts (length cs - 1)"
    using assms by (simp add: chain_ok_def)
  moreover have "last cs = cs ! (length cs - 1)"
    using assms by (intro last_conv_nth) auto
  ultimately show ?thesis
    using assms by (auto simp: cert_ok_def issuance_ok_def content_ok_def)
qed

lemma cert_ok_append:
  assumes "chain_ok ec cs k ts" and "i < length cs"
  shows "cert_ok ec (cs @ [p]) (length cs) ts i"
  using assms by (simp add: chain_ok_def cert_ok_def nth_append)

lemma chain_ok_extend_leaf:
  assumes cs: "chain_ok ec cs k ts" "2 \<le> length cs" "k < length cs"
    and p: "leaf_certificate (pc_cert p)" "valid_at (pc_cert p) ts" "basic_ok 1 (pc_cert p)"
    and issued: "issuer (pc_cert p) = subject (pc_cert (last cs))"
      "signs ec (pc_cert (last cs)) (pc_cert p)"
  shows "chain_ok ec (cs @ [p]) (length cs) ts"
proof -
  let ?n = "length cs"
  have parent: "signer (cs @ [p]) ?n = pc_cert (last cs)"
    using cs(2) by (auto simp: signer_def nth_append last_conv_nth)
  have "leaf_certificate (pc_cert (last cs))"
    using cs by (rule chain_ok_leaf)
  then have "path_len_ok (Suc ?n) ?n (signer (cs @ [p]) ?n)"
    by (auto simp: path_len_ok_def leaf_certificate_def parent)
  then have "issuance_ok ec (cs @ [p]) ts ?n"
    using cs(2) p issued by (auto simp: issuance_ok_def content_ok_def parent)
  then have "cert_ok ec (cs @ [p]) ?n ts ?n"
    using p cs(2) by (auto simp: cert_ok_def basic_ok_def)
  then show ?thesis
    using cert_ok_append [OF cs(1), of _ p] by (auto simp: chain_ok_def less_Suc_eq)
qed

lemma extended_leaf_rejected:
  assumes "leaf_certificate (pc_cert (last cs))" and "tp < length cs"
  shows "\<exists>e. verify_chain sha ec \<lparr>certs = cs @ [p]\<rparr> tp ts = Err e"
proof -
  have "(cs @ [p]) ! (length cs - 1) = last cs"
    using assms(2) by (cases cs rule: rev_cases) simp_all
  moreover have "Suc (length cs - 1) < length (cs @ [p])" and "tp \<le> length cs - 1"
    using assms(2) by simp_all
  ultimately have "\<not> chain_ok ec (cs @ [p]) tp ts"
    using chain_ok_ca leaf_not_ca [OF assms(1)] by metis
  then show ?thesis
    by (simp add: no_panic_Err_iff verify_chain_Ok_iff)
qed

lemma compute_path_digests_snoc:
  "xs \<noteq> [] \<Longrightarrow> compute_path_digests sha (xs @ [x]) =
     compute_path_digests sha xs @ [link sha (path_digest sha xs) x]"
  by (cases xs) (simp_all add: path_digest_def links_from_append)

text \<open>
  Property C24: why a cached prefix has to stop before the leaf: take any chain whose leaf the
  verifier has checked, and a certificate issued with the leaf's key. With the whole old chain
  as trusted prefix the verifier accepts the chain extended by that certificate, and its
  digests continue the old ones, although the leaf is no CA; with any shorter prefix it rejects
  the extended chain, at every time. A consumer that caches leaves lets every attested key
  holder certify attestation keys of its own.
\<close>

theorem cached_leaf_acts_as_ca:
  assumes "verify_chain sha ec c k ts = Ok (ds, es)" and "2 \<le> length (certs c)"
    and "k < length (certs c)"
    and "leaf_certificate (pc_cert p)" and "valid_at (pc_cert p) ts" and "basic_ok 1 (pc_cert p)"
    and "issuer (pc_cert p) = subject (pc_cert (last (certs c)))"
    and "signs ec (pc_cert (last (certs c))) (pc_cert p)"
  shows "(\<exists>d e. verify_chain sha ec \<lparr>certs = certs c @ [p]\<rparr> (length (certs c)) ts =
        Ok (ds @ [d], es @ [e]))
    \<and> (\<forall>tp ts'. tp < length (certs c) \<longrightarrow>
        (\<exists>err. verify_chain sha ec \<lparr>certs = certs c @ [p]\<rparr> tp ts' = Err err))"
proof
  let ?ders = "map pc_der (certs c)"
  have ok: "chain_ok ec (certs c) k ts" and ds: "ds = compute_path_digests sha ?ders"
    and es: "es = expiries (certs c)"
    using assms(1) by (simp_all add: verify_chain_Ok_iff)
  have "?ders \<noteq> []" using assms(2) by auto
  then have "compute_path_digests sha (?ders @ [pc_der p]) =
      ds @ [link sha (path_digest sha ?ders) (pc_der p)]"
    unfolding ds by (rule compute_path_digests_snoc)
  moreover have "chain_ok ec (certs c @ [p]) (length (certs c)) ts"
    using ok assms(2-) by (intro chain_ok_extend_leaf)
  ultimately show "\<exists>d e. verify_chain sha ec \<lparr>certs = certs c @ [p]\<rparr> (length (certs c)) ts =
      Ok (ds @ [d], es @ [e])"
    by (auto simp: verify_chain_Ok_iff es expiries_def)
  show "\<forall>tp ts'. tp < length (certs c) \<longrightarrow>
      (\<exists>err. verify_chain sha ec \<lparr>certs = certs c @ [p]\<rparr> tp ts' = Err err)"
    using extended_leaf_rejected [OF chain_ok_leaf [OF ok assms(2,3)]] by blast
qed

end
