(* ===== verification/Guest.thy ===== *)
theory Guest
  imports Journal
begin

text \<open>
  The SP1 guest program verifier/src/bin/nitro-verifier-guest.rs: ABI bytes in, the ABI
  encoding of the verified journal out. The zkVM's \<open>read_vec\<close> and \<open>commit_slice\<close> are the
  argument and the result; a panic ends the run without a proof.
\<close>

section \<open>The guest\<close>

record ('o, 'n, 'k, 's) guest_deps = "('o, 'n, 'k, 's) deps" +
  abi_input :: "VerifierInput sol_value"
  abi_journal :: "VerifierJournal sol_value"

definition verifier_deps :: "('o, 'n, 'k, 's) guest_deps \<Rightarrow> ('o, 'n, 'k, 's) deps" where
  "verifier_deps g = deps.truncate g"

definition guest_main :: "('o, 'n, 'k, 's) guest_deps \<Rightarrow> bytes \<Rightarrow> (unit, bytes) outcome" where
  "guest_main g input_bytes =
     and_then (expect_ok ''guest input should be an ABI-encoded VerifierInput''
                 (decode (abi_input g) input_bytes)) (\<lambda>input.
     and_then (expect_ok ''attestation verification failed''
                 (verify (verifier_deps g) input)) (\<lambda>journal.
     Ok (encode (abi_journal g) journal)))"

lemma guest_main_Ok_iff [outcome_iffs]:
  "guest_main g bs = Ok out \<longleftrightarrow>
     (\<exists>input j. decode (abi_input g) bs = Ok input \<and> verify (verifier_deps g) input = Ok j
        \<and> out = encode (abi_journal g) j)"
  by (auto simp: guest_main_def outcome_iffs)

lemma guest_main_no_Err: "guest_main g bs \<noteq> Err e"
  by (auto simp: guest_main_def and_then_Err_iff)

text \<open>
  Property C15: the guest fails closed: it commits bytes exactly when its input decodes and the
  attestation verifies, the bytes are then the encoding of that journal, and in every other
  case the run panics, so there is nothing to prove.
\<close>

theorem guest_fail_closed:
  "(guest_main g bs = Ok out \<longleftrightarrow>
      (\<exists>input j. decode (abi_input g) bs = Ok input \<and> verify (verifier_deps g) input = Ok j
         \<and> out = encode (abi_journal g) j))
   \<and> ((\<exists>m. guest_main g bs = Panic m) \<longleftrightarrow>
      \<not> (\<exists>input j. decode (abi_input g) bs = Ok input \<and> verify (verifier_deps g) input = Ok j))"
proof -
  have "(\<exists>m. guest_main g bs = Panic m) \<longleftrightarrow> \<not> (\<exists>out. guest_main g bs = Ok out)"
    using guest_main_no_Err [of g bs] by (cases "guest_main g bs") auto
  then show ?thesis by (auto simp: guest_main_Ok_iff)
qed

text \<open>
  What a consumer of the public values decodes is a well-formed journal with result
  \<open>Success\<close>: no run of the guest commits a journal that records a failure.
\<close>

theorem guest_commits_success:
  assumes "abi_lossless (abi_journal g)" and "guest_main g bs = Ok out"
  shows "\<exists>j. decode (abi_journal g) out = Ok j \<and> journal_wf j"
  using assms by (auto simp: guest_main_Ok_iff decode_encode dest: verify_Ok_wf)

end
