(* ===== verification/Provider.thy ===== *)
theory Provider
  imports Sol_Types
begin

text \<open>
  src/types.rs: the proof type and the trait \<open>AttestationProofProvider\<close> with its default methods
  and its implementation for \<open>Box<dyn AttestationProofProvider>\<close>. A provider is the record of its
  methods over the state \<open>'s\<close> behind \<open>&self\<close>; an awaited method is the pair of its result and
  the state it leaves. A cancellation token is read as a truth value.
\<close>

section \<open>The trait\<close>

record AttestationProof =
  proof_output :: bytes
  proof_bytes :: bytes

type_synonym 's generate = "'s \<Rightarrow> bytes \<Rightarrow> bool \<Rightarrow> AttestationProof prover_result \<times> 's"

record 's AttestationProofProvider =
  generate_proof :: "'s \<Rightarrow> bytes \<Rightarrow> bool \<Rightarrow> AttestationProof prover_result \<times> 's"
  generate_proof_for_signer ::
    "'s \<Rightarrow> bytes \<Rightarrow> Address \<Rightarrow> bool \<Rightarrow> AttestationProof prover_result \<times> 's"
  block_recovery_for_signer :: "'s \<Rightarrow> Address \<Rightarrow> 's"

text \<open>The default bodies of the two optional methods.\<close>

definition default_generate_proof_for_signer ::
  "'s generate \<Rightarrow> 's \<Rightarrow> bytes \<Rightarrow> Address \<Rightarrow> bool \<Rightarrow> AttestationProof prover_result \<times> 's" where
  "default_generate_proof_for_signer gp self attestation_bytes signer_address cancel =
     gp self attestation_bytes cancel"

definition default_block_recovery_for_signer :: "'s \<Rightarrow> Address \<Rightarrow> 's" where
  "default_block_recovery_for_signer self signer = self"

text \<open>An \<open>impl\<close> block that gives \<open>generate_proof\<close> only.\<close>

definition impl_with_defaults :: "'s generate \<Rightarrow> 's AttestationProofProvider" where
  "impl_with_defaults gp =
     \<lparr>generate_proof = gp,
      generate_proof_for_signer = default_generate_proof_for_signer gp,
      block_recovery_for_signer = default_block_recovery_for_signer\<rparr>"

text \<open>
  A \<open>Box<dyn AttestationProofProvider>\<close>: the methods of the concrete provider and its state, which
  only these methods can reach. \<open>Box::new\<close> makes one.
\<close>

record 's trait_object =
  vtable :: "'s AttestationProofProvider"
  pointee :: 's

definition box_new :: "'s AttestationProofProvider \<Rightarrow> 's \<Rightarrow> 's trait_object" where
  "box_new p s = \<lparr>vtable = p, pointee = s\<rparr>"

text \<open>
  The one \<open>impl\<close> for \<open>Box<dyn AttestationProofProvider>\<close>: every method calls the method of the
  same name that the box carries, on \<open>**self\<close>.
\<close>

definition boxed :: "'s trait_object AttestationProofProvider" where
  "boxed =
     \<lparr>generate_proof = (\<lambda>self attestation_bytes cancel.
        let (r, s) = generate_proof (vtable self) (pointee self) attestation_bytes cancel
        in (r, self\<lparr>pointee := s\<rparr>)),
      generate_proof_for_signer = (\<lambda>self attestation_bytes signer_address cancel.
        let (r, s) = generate_proof_for_signer (vtable self) (pointee self)
                       attestation_bytes signer_address cancel
        in (r, self\<lparr>pointee := s\<rparr>)),
      block_recovery_for_signer = (\<lambda>self signer.
        self\<lparr>pointee := block_recovery_for_signer (vtable self) (pointee self) signer\<rparr>)\<rparr>"

section \<open>Providers of the test module\<close>

definition STUB_SEAL :: bytes where
  "STUB_SEAL = map (\<lambda>c. of_nat (of_char c)) ''stub-seal''"

definition stub_generate_proof :: "unit generate" where
  "stub_generate_proof self attestation_bytes cancel =
     (Ok \<lparr>proof_output = attestation_bytes, proof_bytes = STUB_SEAL\<rparr>, self)"

definition stub_provider :: "unit AttestationProofProvider" where
  "stub_provider = impl_with_defaults stub_generate_proof"

definition signer_aware_provider :: "unit AttestationProofProvider" where
  "signer_aware_provider =
     \<lparr>generate_proof = (\<lambda>self attestation_bytes cancel.
        (Panic ''generate_proof should not be called when generate_proof_for_signer is overridden'',
         self)),
      generate_proof_for_signer = (\<lambda>self attestation_bytes signer_address cancel.
        (Ok \<lparr>proof_output = attestation_bytes @ as_slice signer_address, proof_bytes = STUB_SEAL\<rparr>,
         self)),
      block_recovery_for_signer = default_block_recovery_for_signer\<rparr>"

section \<open>The contract of a backend without recovery\<close>

text \<open>
  A backend that keeps the default methods: the signer has no influence on the proof and
  blocking recovery does nothing. A driver that blocks and retries then gets the answers it
  would have had without a signer, in the same order.
\<close>

locale signer_agnostic =
  fixes p :: "'s AttestationProofProvider"
  assumes for_signer: "generate_proof_for_signer p s bs a c = generate_proof p s bs c"
    and block_no_op: "block_recovery_for_signer p s a = s"
begin

text \<open>The driver's retry: generate, and after an on-chain rejection block and generate anew.\<close>

lemma retry_after_block:
  "generate_proof_for_signer p (block_recovery_for_signer p s a) bs a c = generate_proof p s bs c"
  by (simp add: for_signer block_no_op)

lemma signer_irrelevant:
  "generate_proof_for_signer p s bs a c = generate_proof_for_signer p s bs b c"
  by (simp add: for_signer)

end

text \<open>A backend that honours a token that is cancelled before the call.\<close>

locale cancellable = signer_agnostic +
  assumes cancelled: "\<exists>e s'. generate_proof p s bs True = (Err e, s')"
begin

lemma cancelled_for_signer: "\<exists>e s'. generate_proof_for_signer p s bs a True = (Err e, s')"
  using cancelled by (simp add: for_signer)

end

lemma impl_with_defaults_signer_agnostic: "signer_agnostic (impl_with_defaults gp)"
  by unfold_locales
    (simp_all add: impl_with_defaults_def default_generate_proof_for_signer_def
      default_block_recovery_for_signer_def)

lemma generate_proof_defaults: "generate_proof (impl_with_defaults gp) = gp"
  by (simp add: impl_with_defaults_def)

interpretation defaults: signer_agnostic "impl_with_defaults gp" for gp
  by (rule impl_with_defaults_signer_agnostic)

interpretation stub: signer_agnostic stub_provider
  unfolding stub_provider_def by (rule impl_with_defaults_signer_agnostic)

section \<open>A driver's session\<close>

text \<open>
  The requests that a driver makes of one provider, one after the other, and the answers it
  gets. A panic of a call is an answer like any other: the driver reaps the task and goes on.
\<close>

datatype request =
    Generate bytes bool
  | GenerateFor bytes Address bool
  | BlockRecovery Address

fun serve ::
  "'s AttestationProofProvider \<Rightarrow> request list \<Rightarrow> 's \<Rightarrow> AttestationProof prover_result list \<times> 's"
where
  "serve p [] s = ([], s)"
| "serve p (Generate bs c # rs) s =
     (let (r, s1) = generate_proof p s bs c; (out, s2) = serve p rs s1 in (r # out, s2))"
| "serve p (GenerateFor bs a c # rs) s =
     (let (r, s1) = generate_proof_for_signer p s bs a c; (out, s2) = serve p rs s1
      in (r # out, s2))"
| "serve p (BlockRecovery a # rs) s = serve p rs (block_recovery_for_signer p s a)"

text \<open>The same session without signers: each request for a proof is a \<open>generate_proof\<close>.\<close>

fun without_signers :: "request list \<Rightarrow> (bytes \<times> bool) list" where
  "without_signers [] = []"
| "without_signers (Generate bs c # rs) = (bs, c) # without_signers rs"
| "without_signers (GenerateFor bs a c # rs) = (bs, c) # without_signers rs"
| "without_signers (BlockRecovery a # rs) = without_signers rs"

fun generate_all ::
  "'s generate \<Rightarrow> (bytes \<times> bool) list \<Rightarrow> 's \<Rightarrow> AttestationProof prover_result list \<times> 's" where
  "generate_all gp [] s = ([], s)"
| "generate_all gp ((bs, c) # rs) s =
     (let (r, s1) = gp s bs c; (out, s2) = generate_all gp rs s1 in (r # out, s2))"

lemma serve_boxed: "serve boxed rs (box_new p s) = map_prod id (box_new p) (serve p rs s)"
  by (induction p rs s rule: serve.induct)
    (simp_all add: boxed_def box_new_def split: prod.splits)

context signer_agnostic
begin

lemma serve_without_signers: "serve p rs s = generate_all (generate_proof p) (without_signers rs) s"
  by (induction rs arbitrary: s rule: without_signers.induct)
    (simp_all add: for_signer block_no_op split: prod.splits)

end

text \<open>
  Property C39: a driver's session through \<open>Box<dyn AttestationProofProvider>\<close> gets, request by
  request, the answers of the boxed provider, and leaves it in the same state, whatever methods
  the provider overrides; and where the provider gives \<open>generate_proof\<close> only, the session is the
  one of its \<open>generate_proof\<close> on the same attestations and tokens: neither the signers nor the
  blocked recoveries change an answer or the state.
\<close>

theorem boxed_session:
  "serve boxed rs (box_new p s) = map_prod id (box_new p) (serve p rs s)
   \<and> serve boxed rs (box_new (impl_with_defaults gp) s)
       = map_prod id (box_new (impl_with_defaults gp)) (generate_all gp (without_signers rs) s)"
  by (simp add: serve_boxed defaults.serve_without_signers generate_proof_defaults)

text \<open>
  A driver that blocks recovery for a signer and asks again gets from a backend with
  the default methods exactly what \<open>generate_proof\<close> gives for the same bytes and state, for
  every signer and any number of blocked signers in between.
\<close>

theorem default_retry:
  "generate_proof_for_signer (impl_with_defaults gp)
     (fold (\<lambda>a s. block_recovery_for_signer (impl_with_defaults gp) s a) signers s) bs a c
   = gp s bs c"
proof -
  have "fold (\<lambda>a s. block_recovery_for_signer (impl_with_defaults gp) s a) signers s = s" for s
    by (induction signers) (simp_all add: defaults.block_no_op)
  then show ?thesis
    by (simp add: defaults.for_signer) (simp add: impl_with_defaults_def)
qed

end
