(* ===== verification/Direct.thy ===== *)
theory Direct
  imports Guest Provider
begin

text \<open>
  \<open>DirectProver\<close> of src/direct.rs: construction from a guest ELF, the verifying key, and
  \<open>generate_proof\<close>, which verifies the attestation on the host before it proves the guest on
  the same input. The SP1 SDK is a parameter.
\<close>

section \<open>The SP1 SDK\<close>

record sp1_proof =
  public_values :: bytes
  seal :: bytes

text \<open>
  Clients \<open>'c\<close> and proving keys \<open>'p\<close> are opaque. An \<open>SP1Stdin\<close> is the list of the buffers
  written to it; \<open>prove_groth16\<close> is \<open>client.prove(&pk, stdin).groth16().await\<close>.
\<close>

record ('c, 'p) sp1_sdk =
  cpu_client :: 'c
  sdk_setup :: "'c \<Rightarrow> bytes \<Rightarrow> string + 'p"
  vkey_bytes32 :: "'p \<Rightarrow> string"
  prove_groth16 :: "'c \<Rightarrow> 'p \<Rightarrow> bytes list \<Rightarrow> string + sp1_proof"

section \<open>DirectProver\<close>

record ('c, 'p) DirectProver =
  client :: 'c
  pk :: 'p
  trusted_certs_prefix_len :: u8

definition direct_new ::
  "('c, 'p) sp1_sdk \<Rightarrow> bytes \<Rightarrow> u8 \<Rightarrow> ('c, 'p) DirectProver prover_result" where
  "direct_new sdk elf prefix_len =
     (let client = cpu_client sdk in
      and_then (map_err (\<lambda>e. Sp1 (''failed to set up proving key: '' @ e)) (sdk_setup sdk client elf))
        (\<lambda>pk. Ok \<lparr>client = client, pk = pk, trusted_certs_prefix_len = prefix_len\<rparr>))"

definition vkey :: "('c, 'p) sp1_sdk \<Rightarrow> ('c, 'p) DirectProver \<Rightarrow> string" where
  "vkey sdk self = vkey_bytes32 sdk (pk self)"

definition prover_input :: "('c, 'p) DirectProver \<Rightarrow> bytes \<Rightarrow> VerifierInput" where
  "prover_input self attestation_bytes =
     \<lparr>vi_trustedCertsPrefixLen = trusted_certs_prefix_len self,
      vi_attestationReport = attestation_bytes\<rparr>"

text \<open>What runs before the only \<open>await\<close> of \<open>generate_proof\<close>: its value is the guest's stdin.\<close>

definition prepare_stdin ::
  "('o, 'n, 'k, 's) guest_deps \<Rightarrow> ('c, 'p) DirectProver \<Rightarrow> bytes \<Rightarrow> bool
     \<Rightarrow> bytes list prover_result" where
  "prepare_stdin g self attestation_bytes is_cancelled =
     (if is_cancelled then Err (Sp1 ''proof generation cancelled before start'')
      else
        let input = prover_input self attestation_bytes in
        and_then (expect_ok ''host verifier should accept the Nitro attestation''
                    (verify (verifier_deps g) input)) (\<lambda>journal.
        and_then (assert_that (vj_result journal = Success) ''assertion `left == right` failed'')
          (\<lambda>_. Ok [encode (abi_input g) input])))"

text \<open>What runs when the proof has arrived.\<close>

definition finish_proof :: "string + sp1_proof \<Rightarrow> AttestationProof prover_result" where
  "finish_proof r =
     and_then (map_err (\<lambda>e. Sp1 (''proving failed: '' @ e)) r)
       (\<lambda>proof. Ok \<lparr>proof_output = public_values proof, proof_bytes = seal proof\<rparr>)"

definition direct_generate_proof ::
  "('o, 'n, 'k, 's) guest_deps \<Rightarrow> ('c, 'p) sp1_sdk \<Rightarrow> ('c, 'p) DirectProver \<Rightarrow> bytes \<Rightarrow> bool
     \<Rightarrow> AttestationProof prover_result" where
  "direct_generate_proof g sdk self attestation_bytes is_cancelled =
     and_then (prepare_stdin g self attestation_bytes is_cancelled)
       (\<lambda>stdin. finish_proof (prove_groth16 sdk (client self) (pk self) stdin))"

text \<open>The trait implementation: only \<open>generate_proof\<close> is given, and the prover keeps no state.\<close>

definition direct_prover ::
  "('o, 'n, 'k, 's) guest_deps \<Rightarrow> ('c, 'p) sp1_sdk
     \<Rightarrow> ('c, 'p) DirectProver AttestationProofProvider" where
  "direct_prover g sdk =
     impl_with_defaults (\<lambda>self bs cancel. (direct_generate_proof g sdk self bs cancel, self))"

interpretation direct: cancellable "direct_prover g sdk" for g sdk
  unfolding direct_prover_def
  by (intro cancellable.intro impl_with_defaults_signer_agnostic cancellable_axioms.intro)
    (simp add: impl_with_defaults_def direct_generate_proof_def prepare_stdin_def)

section \<open>Behaviour\<close>

lemma verify_result_Success: "verify deps input = Ok j \<Longrightarrow> vj_result j = Success"
  using verify_Ok_wf by (fastforce simp: journal_wf_def)

lemma verify_echoes_prefix:
  "verify deps input = Ok j \<Longrightarrow> vj_trustedCertsPrefixLen j = vi_trustedCertsPrefixLen input"
  by (auto simp: verify_Ok_iff journal_of_def)

lemma prepare_stdin_cases:
  "prepare_stdin g self bs c =
     (if c then Err (Sp1 ''proof generation cancelled before start'')
      else if \<exists>j. verify (verifier_deps g) (prover_input self bs) = Ok j
      then Ok [encode (abi_input g) (prover_input self bs)]
      else Panic ''host verifier should accept the Nitro attestation'')"
  using verify_result_Success [of "verifier_deps g" "prover_input self bs"]
    no_panic_verify [of "verifier_deps g" "prover_input self bs"]
  by (cases "verify (verifier_deps g) (prover_input self bs)")
    (auto simp: prepare_stdin_def assert_that_def Let_def)

lemma finish_proof_Ok_iff [outcome_iffs]:
  "finish_proof r = Ok p \<longleftrightarrow> (\<exists>proof. r = Inr proof \<and>
     p = \<lparr>proof_output = public_values proof, proof_bytes = seal proof\<rparr>)"
  by (auto simp: finish_proof_def outcome_iffs)

text \<open>
  Property C35: \<open>generate_proof\<close> on every path: a token cancelled beforehand gives the cancellation
  error; an attestation that the host verifier rejects ends in a panic, so no error of the
  variant \<open>ProverError::Verifier\<close> is ever returned; otherwise the result is that of proving
  the guest on the ABI-encoded input, and the assertion on the journal never fires.
\<close>

theorem direct_generate_proof_cases:
  "direct_generate_proof g sdk self bs c =
     (if c then Err (Sp1 ''proof generation cancelled before start'')
      else if \<exists>j. verify (verifier_deps g) (prover_input self bs) = Ok j
      then finish_proof (prove_groth16 sdk (client self) (pk self)
             [encode (abi_input g) (prover_input self bs)])
      else Panic ''host verifier should accept the Nitro attestation'')
   \<and> direct_generate_proof g sdk self bs c \<noteq> Err (Verifier e)"
proof -
  have "finish_proof r \<noteq> Err (Verifier e)" for r
    by (cases r) (simp_all add: finish_proof_def)
  then show ?thesis
    by (simp add: direct_generate_proof_def prepare_stdin_cases)
qed

section \<open>What a proof attests\<close>

text \<open>
  The documented guarantee of the zkVM for a proving key set up from the guest program: a proof
  exists only for a run of the guest that did not panic, and its public values are what that
  run committed. The guest reads one buffer of its stdin.
\<close>

definition guest_run :: "('o, 'n, 'k, 's) guest_deps \<Rightarrow> bytes list \<Rightarrow> (unit, bytes) outcome" where
  "guest_run g stdin =
     (case stdin of [] \<Rightarrow> Panic ''read from empty stdin'' | buf # _ \<Rightarrow> guest_main g buf)"

definition proves_guest ::
  "('o, 'n, 'k, 's) guest_deps \<Rightarrow> ('c, 'p) sp1_sdk \<Rightarrow> 'c \<Rightarrow> 'p \<Rightarrow> bool" where
  "proves_guest g sdk c p \<longleftrightarrow>
     (\<forall>stdin proof. prove_groth16 sdk c p stdin = Inr proof \<longrightarrow>
        guest_run g stdin = Ok (public_values proof))"

lemma direct_output:
  assumes "proves_guest g sdk (client self) (pk self)" and "abi_lossless (abi_input g)"
    and "direct_generate_proof g sdk self bs c = Ok p"
  shows "\<not> c \<and> (\<exists>j. verify (verifier_deps g) (prover_input self bs) = Ok j
    \<and> proof_output p = encode (abi_journal g) j)"
proof -
  obtain pf where not_c: "\<not> c"
    and "prove_groth16 sdk (client self) (pk self)
      [encode (abi_input g) (prover_input self bs)] = Inr pf"
    and p: "p = \<lparr>proof_output = public_values pf, proof_bytes = seal pf\<rparr>"
    using assms(3)
    by (auto simp: direct_generate_proof_def prepare_stdin_cases outcome_iffs split: if_splits)
  then have "guest_main g (encode (abi_input g) (prover_input self bs)) = Ok (public_values pf)"
    using assms(1) by (fastforce simp: proves_guest_def guest_run_def)
  then show ?thesis
    using not_c decode_encode [OF assms(2)] by (auto simp: guest_main_Ok_iff p)
qed

text \<open>
  Property C9: host and guest agree: when the prover returns a proof, its public output is the
  ABI encoding of exactly the journal that the host verifier computed for the same attestation
  and prefix length, so it decodes to a well-formed journal with result \<open>Success\<close>.
\<close>

theorem direct_proof_attests_journal:
  assumes "proves_guest g sdk (client self) (pk self)"
    and "abi_lossless (abi_input g)" and "abi_lossless (abi_journal g)"
    and "direct_generate_proof g sdk self bs c = Ok p"
  shows "\<exists>j. verify (verifier_deps g) (prover_input self bs) = Ok j
    \<and> decode (abi_journal g) (proof_output p) = Ok j \<and> journal_wf j
    \<and> vj_trustedCertsPrefixLen j = trusted_certs_prefix_len self"
proof -
  obtain j where "verify (verifier_deps g) (prover_input self bs) = Ok j"
    and "proof_output p = encode (abi_journal g) j"
    using direct_output [OF assms(1,2,4)] by blast
  then show ?thesis
    using verify_Ok_wf verify_echoes_prefix decode_encode [OF assms(3)]
    by (intro exI [of _ j]) (force simp: prover_input_def)
qed

end
