(* ===== verification/Direct_Async.thy ===== *)
theory Direct_Async
  imports Direct Step_Systems
begin

text \<open>
  \<open>generate_proof\<close> of src/direct.rs as the future it is: nothing runs before the first poll,
  the token is read once, the only suspension point is the \<open>await\<close> on SP1's worker pool, and
  the caller may cancel the token or drop the future at any time. Executions are sequences of
  steps; the theorems are invariants of the reachable states.
\<close>

section \<open>The future and its environment\<close>

datatype phase =
    Unresumed
  | Proving "bytes list"
  | Returned "AttestationProof prover_result"
  | Dropped

text \<open>\<open>jobs\<close> are the stdins handed to the worker pool, oldest first: they survive a drop.\<close>

record gen_state =
  fut_phase :: phase
  token_cancelled :: bool
  jobs :: "bytes list list"

definition gen_init :: "bool \<Rightarrow> gen_state" where
  "gen_init c = \<lparr>fut_phase = Unresumed, token_cancelled = c, jobs = []\<rparr>"

text \<open>
  At the \<open>await\<close>: \<open>ready\<close> says whether the pool has finished the job by this poll. The outcome of
  a job is a function of client, key and stdin, as in the sequential reading.
\<close>

definition await_proof ::
  "('c, 'p) sp1_sdk \<Rightarrow> ('c, 'p) DirectProver \<Rightarrow> bool \<Rightarrow> bytes list \<Rightarrow> gen_state \<Rightarrow> gen_state" where
  "await_proof sdk self ready stdin s =
     (if ready then
        s\<lparr>fut_phase := Returned (finish_proof (prove_groth16 sdk (client self) (pk self) stdin))\<rparr>
      else s)"

text \<open>
  One poll. The code before the \<open>await\<close> and the first poll of the proof request run in the same
  poll, and the request may be ready, with a proof or an error, at once. A finished future is
  not polled again.
\<close>

definition poll ::
  "('o, 'n, 'k, 's) guest_deps \<Rightarrow> ('c, 'p) sp1_sdk \<Rightarrow> ('c, 'p) DirectProver \<Rightarrow> bytes \<Rightarrow> bool
     \<Rightarrow> gen_state \<Rightarrow> gen_state" where
  "poll g sdk self bs ready s =
     (case fut_phase s of
        Unresumed \<Rightarrow>
          (case prepare_stdin g self bs (token_cancelled s) of
             Ok stdin \<Rightarrow>
               await_proof sdk self ready stdin
                 (s\<lparr>fut_phase := Proving stdin, jobs := jobs s @ [stdin]\<rparr>)
           | Err e \<Rightarrow> s\<lparr>fut_phase := Returned (Err e)\<rparr>
           | Panic m \<Rightarrow> s\<lparr>fut_phase := Returned (Panic m)\<rparr>)
      | Proving stdin \<Rightarrow> await_proof sdk self ready stdin s
      | Returned r \<Rightarrow> s
      | Dropped \<Rightarrow> s)"

text \<open>Dropping an unfinished future ends it; the pool keeps its jobs.\<close>

definition drop_future :: "gen_state \<Rightarrow> gen_state" where
  "drop_future s = (case fut_phase s of Returned r \<Rightarrow> s | _ \<Rightarrow> s\<lparr>fut_phase := Dropped\<rparr>)"

inductive gen_step ::
  "('o, 'n, 'k, 's) guest_deps \<Rightarrow> ('c, 'p) sp1_sdk \<Rightarrow> ('c, 'p) DirectProver \<Rightarrow> bytes
     \<Rightarrow> gen_state \<Rightarrow> gen_state \<Rightarrow> bool"
  for g :: "('o, 'n, 'k, 's) guest_deps" and sdk :: "('c, 'p) sp1_sdk"
    and self :: "('c, 'p) DirectProver" and bs :: bytes where
  step_poll: "gen_step g sdk self bs s (poll g sdk self bs ready s)"
| step_cancel: "gen_step g sdk self bs s (s\<lparr>token_cancelled := True\<rparr>)"
| step_drop: "gen_step g sdk self bs s (drop_future s)"

inductive_cases gen_stepE: "gen_step g sdk self bs s t"

abbreviation gen_steps ::
  "('o, 'n, 'k, 's) guest_deps \<Rightarrow> ('c, 'p) sp1_sdk \<Rightarrow> ('c, 'p) DirectProver \<Rightarrow> bytes
     \<Rightarrow> gen_state \<Rightarrow> gen_state \<Rightarrow> bool" where
  "gen_steps g sdk self bs \<equiv> (gen_step g sdk self bs)\<^sup>*\<^sup>*"

section \<open>The invariant\<close>

text \<open>
  What a reachable state looks like: a pending job is the one encoded input, submitted after
  the host verifier accepted; the result is that of the synchronous reading of the code for
  the value the token had at the first poll.
\<close>

definition job_input ::
  "('o, 'n, 'k, 's) guest_deps \<Rightarrow> ('c, 'p) DirectProver \<Rightarrow> bytes \<Rightarrow> bytes list" where
  "job_input g self bs = [encode (abi_input g) (prover_input self bs)]"

definition host_accepts ::
  "('o, 'n, 'k, 's) guest_deps \<Rightarrow> ('c, 'p) DirectProver \<Rightarrow> bytes \<Rightarrow> bool" where
  "host_accepts g self bs \<longleftrightarrow> (\<exists>j. verify (verifier_deps g) (prover_input self bs) = Ok j)"

text \<open>\<open>c\<close> is the value of the token before the call.\<close>

definition jobs_ok ::
  "('o, 'n, 'k, 's) guest_deps \<Rightarrow> ('c, 'p) DirectProver \<Rightarrow> bytes \<Rightarrow> bool \<Rightarrow> gen_state \<Rightarrow> bool" where
  "jobs_ok g self bs c s \<longleftrightarrow>
     jobs s = [] \<or> jobs s = [job_input g self bs] \<and> host_accepts g self bs \<and> \<not> c"

definition phase_ok ::
  "('o, 'n, 'k, 's) guest_deps \<Rightarrow> ('c, 'p) sp1_sdk \<Rightarrow> ('c, 'p) DirectProver \<Rightarrow> bytes \<Rightarrow> bool
     \<Rightarrow> gen_state \<Rightarrow> bool" where
  "phase_ok g sdk self bs c s \<longleftrightarrow>
     (case fut_phase s of
        Unresumed \<Rightarrow> jobs s = []
      | Proving stdin \<Rightarrow> stdin = job_input g self bs \<and> host_accepts g self bs \<and> \<not> c
      | Returned r \<Rightarrow>
          (\<exists>c'. r = direct_generate_proof g sdk self bs c' \<and> (c \<longrightarrow> c') \<and> (c' \<longrightarrow> token_cancelled s))
      | Dropped \<Rightarrow> True)"

definition gen_inv ::
  "('o, 'n, 'k, 's) guest_deps \<Rightarrow> ('c, 'p) sp1_sdk \<Rightarrow> ('c, 'p) DirectProver \<Rightarrow> bytes \<Rightarrow> bool
     \<Rightarrow> gen_state \<Rightarrow> bool" where
  "gen_inv g sdk self bs c s \<longleftrightarrow>
     (c \<longrightarrow> token_cancelled s) \<and> jobs_ok g self bs c s \<and> phase_ok g sdk self bs c s"

lemmas gen_inv_defs = gen_inv_def jobs_ok_def phase_ok_def

lemma direct_generate_proof_accepts:
  "host_accepts g self bs \<Longrightarrow> direct_generate_proof g sdk self bs False =
     finish_proof (prove_groth16 sdk (client self) (pk self) (job_input g self bs))"
  by (simp add: direct_generate_proof_def prepare_stdin_cases host_accepts_def job_input_def)

lemma prepare_stdin_Ok_iff:
  "prepare_stdin g self bs c = Ok stdin \<longleftrightarrow>
     \<not> c \<and> host_accepts g self bs \<and> stdin = job_input g self bs"
  by (auto simp: prepare_stdin_cases host_accepts_def job_input_def)

lemma gen_inv_init: "gen_inv g sdk self bs c (gen_init c)"
  by (simp add: gen_inv_defs gen_init_def)

lemma gen_inv_poll:
  assumes "gen_inv g sdk self bs c s"
  shows "gen_inv g sdk self bs c (poll g sdk self bs ready s)"
proof (cases "fut_phase s")
  case Unresumed
  show ?thesis
  proof (cases "prepare_stdin g self bs (token_cancelled s)")
    case (Ok stdin)
    then have "\<not> token_cancelled s" "host_accepts g self bs" "stdin = job_input g self bs"
      by (simp_all add: prepare_stdin_Ok_iff)
    with assms Unresumed Ok direct_generate_proof_accepts [of g self bs sdk] show ?thesis
      by (auto simp: gen_inv_defs poll_def await_proof_def intro!: exI [of _ False])
  next
    case (Err e)
    then have "direct_generate_proof g sdk self bs (token_cancelled s) = Err e"
      by (simp add: direct_generate_proof_def)
    with assms Unresumed Err show ?thesis
      by (auto simp: gen_inv_defs poll_def intro!: exI [of _ "token_cancelled s"])
  next
    case (Panic m)
    then have "direct_generate_proof g sdk self bs (token_cancelled s) = Panic m"
      by (simp add: direct_generate_proof_def)
    with assms Unresumed Panic show ?thesis
      by (auto simp: gen_inv_defs poll_def intro!: exI [of _ "token_cancelled s"])
  qed
next
  case (Proving stdin)
  with assms direct_generate_proof_accepts [of g self bs sdk] show ?thesis
    by (auto simp: gen_inv_defs poll_def await_proof_def intro!: exI [of _ False])
qed (use assms in \<open>simp_all add: gen_inv_defs poll_def\<close>)

lemma gen_inv_step:
  assumes "gen_inv g sdk self bs c s" and "gen_step g sdk self bs s t"
  shows "gen_inv g sdk self bs c t"
  using assms(2)
proof (rule gen_stepE)
  fix ready
  assume "t = poll g sdk self bs ready s"
  with assms(1) show ?thesis by (simp add: gen_inv_poll)
next
  assume "t = s\<lparr>token_cancelled := True\<rparr>"
  with assms(1) show ?thesis by (auto simp: gen_inv_defs split: phase.splits)
next
  assume "t = drop_future s"
  with assms(1) show ?thesis
    by (auto simp: gen_inv_defs drop_future_def split: phase.splits)
qed

interpretation gen_safe: step_invariant "gen_step g sdk self bs" "gen_inv g sdk self bs c"
  for g sdk self bs c
  by unfold_locales (rule gen_inv_step)

lemma gen_inv_reachable:
  "gen_steps g sdk self bs (gen_init c) s \<Longrightarrow> gen_inv g sdk self bs c s"
  using gen_inv_init by (rule gen_safe.inv_steps [rotated])

section \<open>Safety, refinement and progress\<close>

text \<open>
  The asynchronous run refines the sequential reading: whatever the interleaving of
  polls, cancellation and drop, a result is the one \<open>direct_generate_proof\<close> gives for the value
  the token had at the first poll, which was set if it was set before the call, and not set
  if it is not set now.
\<close>

theorem async_refines_sequential:
  assumes "gen_steps g sdk self bs (gen_init c) s" and "fut_phase s = Returned r"
  shows "\<exists>c'. r = direct_generate_proof g sdk self bs c' \<and> (c \<longrightarrow> c') \<and> (c' \<longrightarrow> token_cancelled s)"
  using gen_inv_reachable [OF assms(1)] assms(2) by (simp add: gen_inv_def phase_ok_def)

text \<open>
  One call submits at most one proving job, the ABI-encoded input, and only if the
  host verifier accepted the attestation and the token was not set before the call; this
  holds of the jobs that a dropped future leaves behind.
\<close>

theorem async_jobs:
  assumes "gen_steps g sdk self bs (gen_init c) s"
  shows "jobs s = [] \<or>
    (jobs s = [[encode (abi_input g) (prover_input self bs)]] \<and> \<not> c
     \<and> (\<exists>j. verify (verifier_deps g) (prover_input self bs) = Ok j))"
  using gen_inv_reachable [OF assms]
  by (auto simp: gen_inv_def jobs_ok_def job_input_def host_accepts_def)

text \<open>The states that a call whose job is in flight can reach.\<close>

definition in_flight ::
  "('c, 'p) sp1_sdk \<Rightarrow> ('c, 'p) DirectProver \<Rightarrow> bytes list \<Rightarrow> bytes list list \<Rightarrow> gen_state \<Rightarrow> bool"
  where
  "in_flight sdk self stdin submitted s \<longleftrightarrow>
     jobs s = submitted
     \<and> fut_phase s \<in> {Proving stdin, Dropped,
         Returned (finish_proof (prove_groth16 sdk (client self) (pk self) stdin))}"

interpretation flight: step_invariant "gen_step g sdk self bs" "in_flight sdk self stdin submitted"
  for g sdk self bs stdin submitted
  by unfold_locales
    (auto elim!: gen_stepE simp: in_flight_def poll_def await_proof_def drop_future_def split: if_splits)

text \<open>
  Property C28: once the job is in flight the token is not read again: whatever happens, the
  call ends with the outcome of that job or is dropped, and nothing is submitted any more.
\<close>

theorem async_in_flight:
  assumes "gen_steps g sdk self bs s t" and "fut_phase s = Proving stdin"
    and "fut_phase t = Returned r"
  shows "r = finish_proof (prove_groth16 sdk (client self) (pk self) stdin) \<and> jobs t = jobs s"
  using flight.inv_steps [where sdk = sdk and stdin = stdin and submitted = "jobs s", OF assms(1)] assms(2,3) by (simp add: in_flight_def)

text \<open>
  Progress: a future that is polled, and polled again when the pool is done, has
  returned, with the sequential result for the token's value at the first poll.
\<close>

theorem async_completes:
  "fut_phase (poll g sdk self bs True (poll g sdk self bs ready (gen_init c))) =
     Returned (direct_generate_proof g sdk self bs c)"
proof (cases "prepare_stdin g self bs c")
  case (Ok stdin)
  then show ?thesis by (simp add: gen_init_def poll_def await_proof_def direct_generate_proof_def)
qed (simp_all add: gen_init_def poll_def direct_generate_proof_def)

end
