(* ===== verification/Direct_Concurrent.thy ===== *)
theory Direct_Concurrent
  imports Direct_Async "HOL-Library.Multiset"
begin

text \<open>
  Several calls of \<open>generate_proof\<close> on one \<open>DirectProver\<close>, as a driver that spawns, reaps and
  retries makes them. The prover is borrowed immutably, so the calls share only the worker pool
  and, where the driver passes clones of one token, their cancellation. The theory says what
  each call ends with under every schedule, and bounds the jobs of all calls together.
\<close>

section \<open>Several calls on one prover\<close>

text \<open>
  A state of the system is the list of the calls' states; call \<open>i\<close> was made for \<open>bss ! i\<close>. In
  one step a call takes a step of its own, or a token is cancelled that the calls with indices
  in \<open>I\<close> share.
\<close>

definition cancel_shared :: "nat set \<Rightarrow> gen_state list \<Rightarrow> gen_state list" where
  "cancel_shared I ss =
     map (\<lambda>(i, s). if i \<in> I then s\<lparr>token_cancelled := True\<rparr> else s) (enumerate 0 ss)"

inductive sys_step ::
  "('o, 'n, 'k, 's) guest_deps \<Rightarrow> ('c, 'p) sp1_sdk \<Rightarrow> ('c, 'p) DirectProver \<Rightarrow> bytes list
     \<Rightarrow> gen_state list \<Rightarrow> gen_state list \<Rightarrow> bool"
  for g :: "('o, 'n, 'k, 's) guest_deps" and sdk :: "('c, 'p) sp1_sdk"
    and self :: "('c, 'p) DirectProver" and bss :: "bytes list" where
  sys_call: "i < length ss \<Longrightarrow> gen_step g sdk self (bss ! i) (ss ! i) t
    \<Longrightarrow> sys_step g sdk self bss ss (ss[i := t])"
| sys_cancel: "sys_step g sdk self bss ss (cancel_shared I ss)"

inductive_cases sys_stepE: "sys_step g sdk self bss ss ss'"

abbreviation sys_steps ::
  "('o, 'n, 'k, 's) guest_deps \<Rightarrow> ('c, 'p) sp1_sdk \<Rightarrow> ('c, 'p) DirectProver \<Rightarrow> bytes list
     \<Rightarrow> gen_state list \<Rightarrow> gen_state list \<Rightarrow> bool" where
  "sys_steps g sdk self bss \<equiv> (sys_step g sdk self bss)\<^sup>*\<^sup>*"

lemma length_cancel_shared [simp]: "length (cancel_shared I ss) = length ss"
  by (simp add: cancel_shared_def)

lemma nth_cancel_shared: "i < length ss \<Longrightarrow>
  cancel_shared I ss ! i = (if i \<in> I then (ss ! i)\<lparr>token_cancelled := True\<rparr> else ss ! i)"
  by (simp add: cancel_shared_def nth_enumerate_eq)

lemma sys_step_length: "sys_step g sdk self bss ss ss' \<Longrightarrow> length ss' = length ss"
  by (auto elim!: sys_stepE)

text \<open>Seen from one call, a step of the system is a step of the call or nothing.\<close>

lemma sys_step_project:
  "sys_step g sdk self bss ss ss' \<Longrightarrow> i < length ss \<Longrightarrow>
     gen_step g sdk self (bss ! i) (ss ! i) (ss' ! i) \<or> ss' ! i = ss ! i"
  by (auto elim!: sys_stepE simp: nth_list_update nth_cancel_shared intro: step_cancel)

text \<open>The invariant of the system is that of each call.\<close>

definition sys_inv ::
  "('o, 'n, 'k, 's) guest_deps \<Rightarrow> ('c, 'p) sp1_sdk \<Rightarrow> ('c, 'p) DirectProver \<Rightarrow> bytes list
     \<Rightarrow> bool list \<Rightarrow> gen_state list \<Rightarrow> bool" where
  "sys_inv g sdk self bss cs ss \<longleftrightarrow>
     length ss = length cs \<and> (\<forall>i < length cs. gen_inv g sdk self (bss ! i) (cs ! i) (ss ! i))"

interpretation sys_safe: step_invariant "sys_step g sdk self bss" "sys_inv g sdk self bss cs"
  for g sdk self bss cs
proof
  fix ss ss'
  assume "sys_inv g sdk self bss cs ss" and step: "sys_step g sdk self bss ss ss'"
  moreover have "length ss' = length ss"
    using step by (rule sys_step_length)
  ultimately show "sys_inv g sdk self bss cs ss'"
    using sys_step_project [OF step] gen_inv_step by (fastforce simp: sys_inv_def)
qed

lemma sys_reachable_inv:
  "sys_steps g sdk self bss (map gen_init cs) ss \<Longrightarrow> sys_inv g sdk self bss cs ss"
proof -
  have "sys_inv g sdk self bss cs (map gen_init cs)"
    by (simp add: sys_inv_def gen_inv_init)
  then show "sys_steps g sdk self bss (map gen_init cs) ss \<Longrightarrow> ?thesis"
    by (rule sys_safe.inv_steps [rotated])
qed

section \<open>Schedules\<close>

text \<open>
  What the executor and the driver do, as a list of events: poll a call, with the pool ready for
  it or not, cancel a token that some calls share, drop a call's future.
\<close>

datatype event = Poll nat bool | Cancel "nat set" | Drop nat

primrec apply_event ::
  "('o, 'n, 'k, 's) guest_deps \<Rightarrow> ('c, 'p) sp1_sdk \<Rightarrow> ('c, 'p) DirectProver \<Rightarrow> bytes list
     \<Rightarrow> event \<Rightarrow> gen_state list \<Rightarrow> gen_state list" where
  "apply_event g sdk self bss (Poll i ready) ss =
     ss[i := poll g sdk self (bss ! i) ready (ss ! i)]"
| "apply_event g sdk self bss (Cancel I) ss = cancel_shared I ss"
| "apply_event g sdk self bss (Drop i) ss = ss[i := drop_future (ss ! i)]"

primrec run_schedule ::
  "('o, 'n, 'k, 's) guest_deps \<Rightarrow> ('c, 'p) sp1_sdk \<Rightarrow> ('c, 'p) DirectProver \<Rightarrow> bytes list
     \<Rightarrow> event list \<Rightarrow> gen_state list \<Rightarrow> gen_state list" where
  "run_schedule g sdk self bss [] ss = ss"
| "run_schedule g sdk self bss (ev # evs) ss =
     run_schedule g sdk self bss evs (apply_event g sdk self bss ev ss)"

lemma run_schedule_append:
  "run_schedule g sdk self bss (evs @ evs') ss =
     run_schedule g sdk self bss evs' (run_schedule g sdk self bss evs ss)"
  by (induction evs arbitrary: ss) simp_all

lemma length_apply_event [simp]: "length (apply_event g sdk self bss ev ss) = length ss"
  by (cases ev) simp_all

lemma apply_event_step: "(sys_step g sdk self bss)\<^sup>=\<^sup>= ss (apply_event g sdk self bss ev ss)"
proof (cases ev)
  case (Poll i ready)
  then show ?thesis
    by (cases "i < length ss") (auto simp: list_update_beyond intro: sys_call step_poll)
next
  case (Cancel I)
  then show ?thesis by (auto intro: sys_cancel)
next
  case (Drop i)
  then show ?thesis
    by (cases "i < length ss") (auto simp: list_update_beyond intro: sys_call step_drop)
qed

lemma sys_step_event: "sys_step g sdk self bss ss ss' \<Longrightarrow> \<exists>ev. ss' = apply_event g sdk self bss ev ss"
proof (erule sys_stepE)
  fix i t
  assume i: "i < length ss" and ss': "ss' = ss[i := t]"
    and "gen_step g sdk self (bss ! i) (ss ! i) t"
  from this(3) show ?thesis
  proof (rule gen_stepE)
    fix ready
    assume "t = poll g sdk self (bss ! i) ready (ss ! i)"
    then show ?thesis using ss' by (intro exI [of _ "Poll i ready"]) simp
  next
    assume "t = (ss ! i)\<lparr>token_cancelled := True\<rparr>"
    then have "ss' = cancel_shared {i} ss"
      using i ss' by (auto intro!: nth_equalityI simp: nth_list_update nth_cancel_shared)
    then show ?thesis by (intro exI [of _ "Cancel {i}"]) simp
  next
    assume "t = drop_future (ss ! i)"
    then show ?thesis using ss' by (intro exI [of _ "Drop i"]) simp
  qed
next
  fix I
  assume "ss' = cancel_shared I ss"
  then show ?thesis by (intro exI [of _ "Cancel I"]) simp
qed

text \<open>Schedules reach exactly the states that steps reach.\<close>

lemma sys_steps_schedule:
  "sys_steps g sdk self bss ss ss' \<longleftrightarrow> (\<exists>evs. ss' = run_schedule g sdk self bss evs ss)"
proof
  show "\<exists>evs. ss' = run_schedule g sdk self bss evs ss" if "sys_steps g sdk self bss ss ss'"
    using that
  proof (induction rule: rtranclp_induct)
    case base
    show ?case by (rule exI [of _ "[]"]) simp
  next
    case (step t u)
    then obtain evs ev where "t = run_schedule g sdk self bss evs ss"
      and "u = apply_event g sdk self bss ev t"
      using sys_step_event by blast
    then show ?case
      by (intro exI [of _ "evs @ [ev]"]) (simp add: run_schedule_append)
  qed
next
  have "sys_steps g sdk self bss ss (run_schedule g sdk self bss evs ss)" for evs
  proof (induction evs arbitrary: ss)
    case (Cons ev evs)
    have "sys_steps g sdk self bss ss (apply_event g sdk self bss ev ss)"
      using apply_event_step [of g sdk self bss ss ev] by auto
    then show ?case
      using Cons.IH [of "apply_event g sdk self bss ev ss"] by (simp add: rtranclp_trans)
  qed simp
  then show "sys_steps g sdk self bss ss ss'" if "\<exists>evs. ss' = run_schedule g sdk self bss evs ss"
    using that by blast
qed

section \<open>One call under a schedule\<close>

text \<open>What the call with index \<open>i\<close> sees of an event.\<close>

primrec call_event ::
  "('o, 'n, 'k, 's) guest_deps \<Rightarrow> ('c, 'p) sp1_sdk \<Rightarrow> ('c, 'p) DirectProver \<Rightarrow> bytes
     \<Rightarrow> nat \<Rightarrow> event \<Rightarrow> gen_state \<Rightarrow> gen_state" where
  "call_event g sdk self bs i (Poll j ready) s = (if j = i then poll g sdk self bs ready s else s)"
| "call_event g sdk self bs i (Cancel I) s = (if i \<in> I then s\<lparr>token_cancelled := True\<rparr> else s)"
| "call_event g sdk self bs i (Drop j) s = (if j = i then drop_future s else s)"

lemma nth_apply_event:
  "i < length ss \<Longrightarrow>
     apply_event g sdk self bss ev ss ! i = call_event g sdk self (bss ! i) i ev (ss ! i)"
  by (cases ev) (simp_all add: nth_cancel_shared nth_list_update)

text \<open>The value of the call's token when it is first polled; \<open>c\<close> is its value before.\<close>

fun token_at_first_poll :: "nat \<Rightarrow> bool \<Rightarrow> event list \<Rightarrow> bool" where
  "token_at_first_poll i c [] = c"
| "token_at_first_poll i c (Poll j ready # evs) =
     (if j = i then c else token_at_first_poll i c evs)"
| "token_at_first_poll i c (Cancel I # evs) = token_at_first_poll i (c \<or> i \<in> I) evs"
| "token_at_first_poll i c (Drop j # evs) = token_at_first_poll i c evs"

text \<open>A returned call stays as it is, and a call in flight ends with the outcome of its job.\<close>

lemma returned_stays:
  assumes "i < length ss" and "fut_phase (ss ! i) = Returned r"
  shows "fut_phase (run_schedule g sdk self bss evs ss ! i) = Returned r
    \<and> jobs (run_schedule g sdk self bss evs ss ! i) = jobs (ss ! i)"
  using assms
proof (induction evs arbitrary: ss)
  case (Cons ev evs)
  have "fut_phase (apply_event g sdk self bss ev ss ! i) = Returned r
      \<and> jobs (apply_event g sdk self bss ev ss ! i) = jobs (ss ! i)"
    unfolding nth_apply_event [OF Cons.prems(1)]
    using Cons.prems(2) by (cases ev) (simp_all add: poll_def drop_future_def)
  then show ?case
    using Cons.IH [of "apply_event g sdk self bss ev ss"] Cons.prems(1) by simp
qed simp

lemma in_flight_completes:
  assumes "i < length ss" and "fut_phase (ss ! i) = Proving stdin"
    and "Poll i True \<in> set evs" and "Drop i \<notin> set evs"
  shows "fut_phase (run_schedule g sdk self bss evs ss ! i) =
      Returned (finish_proof (prove_groth16 sdk (client self) (pk self) stdin))
    \<and> jobs (run_schedule g sdk self bss evs ss ! i) = jobs (ss ! i)"
  using assms
proof (induction evs arbitrary: ss)
  case (Cons ev evs)
  let ?ss = "apply_event g sdk self bss ev ss"
  have state: "?ss ! i = call_event g sdk self (bss ! i) i ev (ss ! i)"
    using Cons.prems(1) by (rule nth_apply_event)
  show ?case
  proof (cases "ev = Poll i True")
    case True
    then have "fut_phase (?ss ! i) =
        Returned (finish_proof (prove_groth16 sdk (client self) (pk self) stdin))"
      and "jobs (?ss ! i) = jobs (ss ! i)"
      unfolding state using Cons.prems(2) by (simp_all add: poll_def await_proof_def)
    then show ?thesis
      using returned_stays [of i ?ss _ g sdk self bss evs] Cons.prems(1) by simp
  next
    case False
    then have "fut_phase (?ss ! i) = Proving stdin" and "jobs (?ss ! i) = jobs (ss ! i)"
      unfolding state using Cons.prems
      by (cases ev; auto simp: poll_def await_proof_def)+
    then show ?thesis
      using Cons.IH [of ?ss] Cons.prems False by simp
  qed
qed simp

lemma first_poll_completes:
  assumes "ss' = apply_event g sdk self bss (Poll i ready) ss"
    and "i < length ss" and "fut_phase (ss ! i) = Unresumed" and "c = token_cancelled (ss ! i)"
    and "ready \<or> Poll i True \<in> set evs" and "Drop i \<notin> set evs"
  shows "fut_phase (run_schedule g sdk self bss evs ss' ! i) =
      Returned (direct_generate_proof g sdk self (bss ! i) c)
    \<and> jobs (run_schedule g sdk self bss evs ss' ! i) =
      jobs (ss ! i) @ (case prepare_stdin g self (bss ! i) c of Ok stdin \<Rightarrow> [stdin] | _ \<Rightarrow> [])"
proof -
  have len: "i < length ss'" and polled: "ss' ! i = poll g sdk self (bss ! i) ready (ss ! i)"
    using assms(1,2) by simp_all
  show ?thesis
  proof (cases "\<exists>stdin. prepare_stdin g self (bss ! i) c = Ok stdin \<and> \<not> ready")
    case True
    then obtain stdin where stdin: "prepare_stdin g self (bss ! i) c = Ok stdin" and "\<not> ready"
      by blast
    then have "fut_phase (ss' ! i) = Proving stdin" and "jobs (ss' ! i) = jobs (ss ! i) @ [stdin]"
      unfolding polled using assms(3,4) by (simp_all add: poll_def await_proof_def)
    then show ?thesis
      using in_flight_completes [OF len, of stdin evs g sdk self bss] assms(5,6) \<open>\<not> ready\<close>
      by (simp add: stdin direct_generate_proof_def)
  next
    case False
    then have "fut_phase (ss' ! i) = Returned (direct_generate_proof g sdk self (bss ! i) c)
        \<and> jobs (ss' ! i) = jobs (ss ! i) @
            (case prepare_stdin g self (bss ! i) c of Ok stdin \<Rightarrow> [stdin] | _ \<Rightarrow> [])"
      unfolding polled using assms(3,4)
      by (cases "prepare_stdin g self (bss ! i) c")
        (simp_all add: poll_def await_proof_def direct_generate_proof_def)
    then show ?thesis
      using returned_stays [OF len, of _ g sdk self bss evs] by simp
  qed
qed

lemma unresumed_completes:
  assumes "i < length ss" and "fut_phase (ss ! i) = Unresumed"
    and "Poll i True \<in> set evs" and "Drop i \<notin> set evs"
    and "c = token_at_first_poll i (token_cancelled (ss ! i)) evs"
  shows "fut_phase (run_schedule g sdk self bss evs ss ! i) =
      Returned (direct_generate_proof g sdk self (bss ! i) c)
    \<and> jobs (run_schedule g sdk self bss evs ss ! i) =
      jobs (ss ! i) @ (case prepare_stdin g self (bss ! i) c of Ok stdin \<Rightarrow> [stdin] | _ \<Rightarrow> [])"
  using assms
proof (induction evs arbitrary: ss)
  case (Cons ev evs)
  let ?ss = "apply_event g sdk self bss ev ss"
  have state: "?ss ! i = call_event g sdk self (bss ! i) i ev (ss ! i)"
    using Cons.prems(1) by (rule nth_apply_event)
  show ?case
  proof (cases "\<exists>ready. ev = Poll i ready")
    case True
    then obtain ready where ev: "ev = Poll i ready" by blast
    then show ?thesis
      using first_poll_completes [OF refl, of i ss c ready evs g sdk self bss] Cons.prems by auto
  next
    case False
    then have "fut_phase (?ss ! i) = Unresumed" and "jobs (?ss ! i) = jobs (ss ! i)"
      and "c = token_at_first_poll i (token_cancelled (?ss ! i)) evs"
      unfolding state using Cons.prems by (cases ev; auto)+
    moreover have "Poll i True \<in> set evs" and "Drop i \<notin> set evs"
      using Cons.prems(3,4) False by auto
    ultimately show ?thesis
      using Cons.IH [of ?ss] Cons.prems(1) by simp
  qed
qed simp

text \<open>
  Property C12: every call returns, and with what: whatever else is scheduled on the prover, a call
  that is not dropped and is polled at least once with the pool ready has returned. If its token
  was set when it was first polled, it returns the cancellation error and has submitted nothing;
  otherwise, if the host verifier accepts its attestation, it has submitted the one encoded
  input and returns the public values and seal of that proof, or the SDK's error; otherwise it
  has panicked and submitted nothing. Cancelling later, polling early or often, and what other
  calls do change nothing of this.
\<close>

theorem concurrent_call_outcome:
  assumes "i < length cs" and "Poll i True \<in> set evs" and "Drop i \<notin> set evs"
    and "s = run_schedule g sdk self bss evs (map gen_init cs) ! i"
    and "input = \<lparr>vi_trustedCertsPrefixLen = trusted_certs_prefix_len self,
                  vi_attestationReport = bss ! i\<rparr>"
  shows "(fut_phase s, jobs s) =
    (if token_at_first_poll i (cs ! i) evs
     then (Returned (Err (Sp1 ''proof generation cancelled before start'')), [])
     else if \<exists>j. verify (verifier_deps g) input = Ok j
     then (Returned (case prove_groth16 sdk (client self) (pk self) [encode (abi_input g) input] of
             Inl e \<Rightarrow> Err (Sp1 (''proving failed: '' @ e))
           | Inr p \<Rightarrow> Ok \<lparr>proof_output = public_values p, proof_bytes = seal p\<rparr>),
           [[encode (abi_input g) input]])
     else (Returned (Panic ''host verifier should accept the Nitro attestation''), []))"
proof -
  have init: "map gen_init cs ! i = gen_init (cs ! i)"
    using assms(1) by simp
  then have "fut_phase s =
        Returned (direct_generate_proof g sdk self (bss ! i) (token_at_first_poll i (cs ! i) evs))"
    and "jobs s = (case prepare_stdin g self (bss ! i) (token_at_first_poll i (cs ! i) evs) of
        Ok stdin \<Rightarrow> [stdin] | _ \<Rightarrow> [])"
    using unresumed_completes [of i "map gen_init cs" evs _ g sdk self bss] assms(1-4)
    by (simp_all add: gen_init_def)
  moreover have "input = prover_input self (bss ! i)"
    by (simp add: assms(5) prover_input_def)
  ultimately show ?thesis
    by (simp add: direct_generate_proof_def prepare_stdin_cases finish_proof_def split: sum.split)
qed

section \<open>The jobs of all calls\<close>

text \<open>The calls that may submit a job, as pairs of an input and its token before the call.\<close>

definition may_submit ::
  "('o, 'n, 'k, 's) guest_deps \<Rightarrow> ('c, 'p) DirectProver \<Rightarrow> bytes \<times> bool \<Rightarrow> bool" where
  "may_submit g self call \<longleftrightarrow> host_accepts g self (fst call) \<and> \<not> snd call"

lemma mset_jobs_subset:
  "list_all2 (\<lambda>call s. jobs_ok g self (fst call) (snd call) s) calls ss \<Longrightarrow>
     mset (concat (map jobs ss)) \<subseteq>#
       mset (map (\<lambda>call. job_input g self (fst call)) (filter (may_submit g self) calls))"
proof (induction rule: list_all2_induct)
  case (Cons call calls s ss)
  then have "jobs s = [] \<or> jobs s = [job_input g self (fst call)] \<and> may_submit g self call"
    by (auto simp: jobs_ok_def may_submit_def)
  with Cons show ?case
    by (auto intro: subset_mset.order_trans [OF _ subset_mset.less_imp_le [OF multi_psub_of_add_self]])
qed simp

text \<open>
  Property C29: spawning and retrying is bounded: the proving jobs of all calls together, also of
  those that were cancelled or dropped, are at most one per call, each the encoding of that
  call's input, and only for calls whose input the host verifier accepts and whose token was
  not cancelled before the call.
\<close>

theorem concurrent_jobs:
  assumes "sys_steps g sdk self bss (map gen_init cs) ss" and "length bss = length cs"
  shows "mset (concat (map jobs ss)) \<subseteq>#
      mset (map (\<lambda>(bs, c). [encode (abi_input g) (prover_input self bs)])
        (filter (\<lambda>(bs, c). \<not> c \<and> (\<exists>j. verify (verifier_deps g) (prover_input self bs) = Ok j))
          (zip bss cs)))
    \<and> length (concat (map jobs ss)) \<le> length (filter Not cs)"
proof -
  have "list_all2 (\<lambda>call s. jobs_ok g self (fst call) (snd call) s) (zip bss cs) ss"
    using sys_reachable_inv [OF assms(1)] assms(2)
    by (auto simp: list_all2_conv_all_nth sys_inv_def gen_inv_def)
  then have sub: "mset (concat (map jobs ss)) \<subseteq>#
      mset (map (\<lambda>call. job_input g self (fst call)) (filter (may_submit g self) (zip bss cs)))"
    by (rule mset_jobs_subset)
  then have "length (concat (map jobs ss)) \<le> length (filter (may_submit g self) (zip bss cs))"
    using size_mset_mono [OF sub] by (simp only: size_mset length_map)
  also have "filter (may_submit g self) (zip bss cs) =
      filter (\<lambda>call. host_accepts g self (fst call)) (filter (\<lambda>call. \<not> snd call) (zip bss cs))"
    by (simp add: may_submit_def [abs_def] conj_commute)
  also have "length \<dots> \<le> length (filter (\<lambda>call. \<not> snd call) (zip bss cs))"
    by (rule length_filter_le)
  also have "\<dots> = length (filter Not (map snd (zip bss cs)))"
    by (simp add: filter_map comp_def)
  finally show ?thesis
    using sub assms(2)
    by (simp add: job_input_def host_accepts_def may_submit_def case_prod_unfold conj_commute)
qed

end
