(* ===== verification/Cli.thy ===== *)
theory Cli
  imports Direct
begin

text \<open>
  The command-line prover, src/main.rs: where the guest program and the attestation come from,
  the order in which proving, saving and checking happen, and what is on disk afterwards. The
  process's environment and files are an explicit state; \<open>hex\<close>, \<open>serde_json\<close> and
  \<open>sp1_verifier\<close> are parameters. Progress messages are in Console; the tracing set-up is left
  out.
\<close>

section \<open>The process\<close>

text \<open>
  \<open>world_files\<close> holds the readable files. \<open>dir_fault\<close> and \<open>write_fault\<close> say which operations
  of the file system fail, with the error's text; a failed write leaves the file as it was
  or, once it has been truncated, with the given bytes.
\<close>

record world =
  world_env :: "string \<Rightarrow> string option"
  world_files :: "string \<Rightarrow> bytes option"
  dir_fault :: "string \<Rightarrow> string option"
  write_fault :: "string \<Rightarrow> (string \<times> bytes option) option"

text \<open>\<open>Box<dyn std::error::Error>\<close>: the error types that reach it.\<close>

datatype main_error =
    IoError string
  | JsonError string
  | Prover ProverError

type_synonym ('a, 'w) action = "'w \<Rightarrow> (main_error, 'a) outcome \<times> 'w"

text \<open>Sequencing of actions: an error or a panic ends the process in the state it has.\<close>

definition run_then :: "('a, 'w) action \<Rightarrow> ('a \<Rightarrow> ('b, 'w) action) \<Rightarrow> ('b, 'w) action" where
  "run_then m f w =
     (case m w of
        (Ok x, w') \<Rightarrow> f x w'
      | (Err e, w') \<Rightarrow> (Err e, w')
      | (Panic s, w') \<Rightarrow> (Panic s, w'))"

definition pure :: "(main_error, 'a) outcome \<Rightarrow> ('a, 'w) action" where
  "pure r w = (r, w)"

definition fs_read :: "string \<Rightarrow> (bytes, world) action" where
  "fs_read path w =
     ((case world_files w path of
         Some bs \<Rightarrow> Ok bs
       | None \<Rightarrow> Panic (''failed to read '' @ path)), w)"

definition fs_create_dir_all :: "string \<Rightarrow> (unit, world) action" where
  "fs_create_dir_all path w =
     ((case dir_fault w path of Some e \<Rightarrow> Err (IoError e) | None \<Rightarrow> Ok ()), w)"

definition fs_write :: "string \<Rightarrow> bytes \<Rightarrow> (unit, world) action" where
  "fs_write path contents w =
     (case write_fault w path of
        None \<Rightarrow> (Ok (), w\<lparr>world_files := (world_files w)(path \<mapsto> contents)\<rparr>)
      | Some (e, None) \<Rightarrow> (Err (IoError e), w)
      | Some (e, Some partial) \<Rightarrow>
          (Err (IoError e), w\<lparr>world_files := (world_files w)(path \<mapsto> partial)\<rparr>))"

text \<open>\<open>Path::join\<close>\<close>

definition path_join :: "string \<Rightarrow> string \<Rightarrow> string" where
  "path_join base p =
     (if p \<noteq> [] \<and> hd p = CHR ''/'' then p
      else if base = [] \<or> last base = CHR ''/'' then base @ p
      else base @ ''/'' @ p)"

text \<open>\<open>str::trim\<close> on characters below 256.\<close>

definition is_whitespace :: "char \<Rightarrow> bool" where
  "is_whitespace c \<longleftrightarrow> (of_char c :: nat) \<in> {9, 10, 11, 12, 13, 32, 0x85, 0xA0}"

definition trim :: "string \<Rightarrow> string" where
  "trim s = rev (dropWhile is_whitespace (rev (dropWhile is_whitespace s)))"

section \<open>The program\<close>

text \<open>
  \<open>cargo_manifest_dir\<close> and \<open>test_attestation_hex\<close> are compiled into the binary; a JSON object
  is the list of its string members.
\<close>

record ('o, 'n, 'k, 's, 'c, 'p) cli_deps =
  cli_guest :: "('o, 'n, 'k, 's) guest_deps"
  cli_sdk :: "('c, 'p) sp1_sdk"
  cargo_manifest_dir :: string
  test_attestation_hex :: string
  hex_decode :: "string \<Rightarrow> string + bytes"
  hex_encode_prefixed :: "bytes \<Rightarrow> string"
  to_vec_pretty :: "(string \<times> string) list \<Rightarrow> string + bytes"
  groth16_vk_bytes :: bytes
  groth16_verify :: "bytes \<Rightarrow> bytes \<Rightarrow> string \<Rightarrow> bytes \<Rightarrow> string + unit"

definition DEFAULT_TRUSTED_PREFIX :: u8 where
  "DEFAULT_TRUSTED_PREFIX = 1"

definition GUEST_PROGRAM_ENV :: string where
  "GUEST_PROGRAM_ENV = ''NITRO_GUEST_PROGRAM''"

definition DEFAULT_GUEST_PROGRAM :: "('o, 'n, 'k, 's, 'c, 'p) cli_deps \<Rightarrow> string" where
  "DEFAULT_GUEST_PROGRAM d = cargo_manifest_dir d @ ''/verifier/elf/nitro-verifier-guest''"

definition ATTESTATION_ENV :: string where
  "ATTESTATION_ENV = ''NITRO_ATTESTATION''"

definition PROOF_OUTPUT_DIR :: string where
  "PROOF_OUTPUT_DIR = ''./proof''"

definition attestation_bytes :: "('o, 'n, 'k, 's, 'c, 'p) cli_deps \<Rightarrow> (bytes, world) action" where
  "attestation_bytes d w =
     (case world_env w ATTESTATION_ENV of
        None \<Rightarrow>
          (expect_ok ''bundled Nitro attestation fixture should be valid hex''
             (map_err id (hex_decode d (trim (test_attestation_hex d)))), w)
      | Some path \<Rightarrow> fs_read path w)"

definition proof_json_bytes ::
  "('o, 'n, 'k, 's, 'c, 'p) cli_deps \<Rightarrow> AttestationProof \<Rightarrow> string + bytes" where
  "proof_json_bytes d proof =
     to_vec_pretty d
       [(''proof'', hex_encode_prefixed d (proof_bytes proof)),
        (''public_values'', hex_encode_prefixed d (proof_output proof))]"

definition vkey_json_bytes ::
  "('o, 'n, 'k, 's, 'c, 'p) cli_deps \<Rightarrow> string \<Rightarrow> string + bytes" where
  "vkey_json_bytes d vkey_text = to_vec_pretty d [(''vkey'', vkey_text)]"

definition save_proof_artifacts ::
  "('o, 'n, 'k, 's, 'c, 'p) cli_deps \<Rightarrow> string \<Rightarrow> AttestationProof \<Rightarrow> string
     \<Rightarrow> (unit, world) action" where
  "save_proof_artifacts d output_dir proof vkey_text =
     run_then (fs_create_dir_all output_dir) (\<lambda>_.
     run_then (pure (map_err JsonError (proof_json_bytes d proof))) (\<lambda>contents.
     run_then (fs_write (path_join output_dir ''proof.json'') contents) (\<lambda>_.
     run_then (pure (map_err JsonError (vkey_json_bytes d vkey_text))) (\<lambda>contents.
     fs_write (path_join output_dir ''vkey.json'') contents))))"

text \<open>What \<open>main\<close> does once the proof exists.\<close>

definition check_proof ::
  "('o, 'n, 'k, 's, 'c, 'p) cli_deps \<Rightarrow> AttestationProof \<Rightarrow> string
     \<Rightarrow> (main_error, unit) outcome" where
  "check_proof d proof vkey_text =
     and_then (assert_that (proof_bytes proof \<noteq> []) ''Groth16 proof should not be empty'') (\<lambda>_.
     and_then (expect_ok ''prover output should contain a valid verifier journal''
                 (decode (abi_journal (cli_guest d)) (proof_output proof))) (\<lambda>journal.
     and_then (assert_that (vj_result journal = Success) ''assertion `left == right` failed'') (\<lambda>_.
     map_err (\<lambda>e. Prover (Sp1 (''local Groth16 verification failed: '' @ e)))
       (groth16_verify d (proof_bytes proof) (proof_output proof) vkey_text (groth16_vk_bytes d)))))"

definition main :: "('o, 'n, 'k, 's, 'c, 'p) cli_deps \<Rightarrow> (unit, world) action" where
  "main d w =
     (let elf_path = (case world_env w GUEST_PROGRAM_ENV of
            None \<Rightarrow> DEFAULT_GUEST_PROGRAM d | Some path \<Rightarrow> path)
      in run_then (fs_read elf_path) (\<lambda>elf.
         run_then (attestation_bytes d) (\<lambda>attestation.
         run_then (pure (convert_err Prover (direct_new (cli_sdk d) elf DEFAULT_TRUSTED_PREFIX)))
           (\<lambda>prover.
         let vkey_text = vkey (cli_sdk d) prover in
         run_then (pure (convert_err Prover
             (direct_generate_proof (cli_guest d) (cli_sdk d) prover attestation False))) (\<lambda>proof.
         run_then (save_proof_artifacts d PROOF_OUTPUT_DIR proof vkey_text) (\<lambda>_.
         pure (check_proof d proof vkey_text)))))) w)"

section \<open>The interface of the file system\<close>

text \<open>What the program relies on when it writes: success stores, and no other file changes.\<close>

locale file_store =
  fixes look :: "'w \<Rightarrow> string \<Rightarrow> bytes option"
    and store :: "string \<Rightarrow> bytes \<Rightarrow> (unit, 'w) action"
  assumes store_Ok: "store p bs w = (Ok u, w') \<Longrightarrow> look w' = (look w)(p \<mapsto> bs)"
    and store_frame: "q \<noteq> p \<Longrightarrow> look (snd (store p bs w)) q = look w q"
begin

lemma store_twice:
  assumes "store p bs w = (Ok u, w')" and "store q cs w' = (Ok v, w'')"
  shows "look w'' = (look w)(p \<mapsto> bs, q \<mapsto> cs)"
  using store_Ok [OF assms(1)] store_Ok [OF assms(2)] by simp

lemma store_twice_frame:
  "r \<notin> {p, q} \<Longrightarrow> look (snd (store q cs (snd (store p bs w)))) r = look w r"
  by (simp add: store_frame)

end

interpretation fs: file_store world_files fs_write
  by unfold_locales (auto simp: fs_write_def split: option.splits prod.splits if_splits)

lemma run_then_Ok_iff [outcome_iffs]:
  "run_then m f w = (Ok y, w') \<longleftrightarrow> (\<exists>x w1. m w = (Ok x, w1) \<and> f x w1 = (Ok y, w'))"
  by (auto simp: run_then_def split: prod.splits outcome.splits)

lemma run_then_pure [simp]: "run_then (pure (Ok x)) f = f x"
  by (simp add: run_then_def pure_def fun_eq_iff)

lemma run_then_pure_fail [simp]:
  "run_then (pure (Err e)) f = pure (Err e)" "run_then (pure (Panic m)) f = pure (Panic m)"
  by (simp_all add: run_then_def pure_def fun_eq_iff)

lemma pure_Ok_iff [outcome_iffs]: "pure r w = (Ok x, w') \<longleftrightarrow> r = Ok x \<and> w' = w"
  by (auto simp: pure_def)

lemma snd_run_then:
  "snd (run_then m f w) = (case m w of (Ok x, w') \<Rightarrow> snd (f x w') | (_, w') \<Rightarrow> w')"
  by (auto simp: run_then_def split: prod.splits outcome.splits)

section \<open>Saving\<close>

abbreviation proof_json_path :: "string \<Rightarrow> string" where
  "proof_json_path dir \<equiv> path_join dir ''proof.json''"

abbreviation vkey_json_path :: "string \<Rightarrow> string" where
  "vkey_json_path dir \<equiv> path_join dir ''vkey.json''"

lemma fs_create_dir_all_Ok_iff [outcome_iffs]:
  "fs_create_dir_all dir w = (Ok u, w') \<longleftrightarrow> dir_fault w dir = None \<and> w' = w"
  by (auto simp: fs_create_dir_all_def split: option.splits)

lemma save_Ok:
  assumes "save_proof_artifacts d dir proof vk w = (Ok u, w')"
  shows "\<exists>pj vj. proof_json_bytes d proof = Inr pj \<and> vkey_json_bytes d vk = Inr vj
    \<and> world_files w' =
        (world_files w)(proof_json_path dir \<mapsto> pj, vkey_json_path dir \<mapsto> vj)"
  using assms
  by (auto simp: save_proof_artifacts_def outcome_iffs dest: fs.store_twice)

lemma save_frame:
  assumes "q \<notin> {proof_json_path dir, vkey_json_path dir}"
  shows "world_files (snd (save_proof_artifacts d dir proof vk w)) q = world_files w q"
  using assms fs.store_frame [of q "proof_json_path dir" _ w]
    fs.store_frame [of q "vkey_json_path dir" _ "snd (fs_write (proof_json_path dir) _ w)"]
  by (auto simp: save_proof_artifacts_def snd_run_then fs_create_dir_all_def pure_def
      split: prod.splits outcome.splits option.splits) (metis snd_conv)+

section \<open>The whole run\<close>

text \<open>The part of a run that only reads: the guest program, the attestation, the proof.\<close>

definition elf_path :: "('o, 'n, 'k, 's, 'c, 'p) cli_deps \<Rightarrow> world \<Rightarrow> string" where
  "elf_path d w =
     (case world_env w GUEST_PROGRAM_ENV of None \<Rightarrow> DEFAULT_GUEST_PROGRAM d | Some path \<Rightarrow> path)"

definition cli_proof ::
  "('o, 'n, 'k, 's, 'c, 'p) cli_deps \<Rightarrow> world
     \<Rightarrow> (main_error, bytes \<times> ('c, 'p) DirectProver \<times> AttestationProof) outcome" where
  "cli_proof d w =
     and_then (fst (fs_read (elf_path d w) w)) (\<lambda>elf.
     and_then (fst (attestation_bytes d w)) (\<lambda>attestation.
     and_then (convert_err Prover (direct_new (cli_sdk d) elf 1)) (\<lambda>prover.
     and_then (convert_err Prover
         (direct_generate_proof (cli_guest d) (cli_sdk d) prover attestation False)) (\<lambda>proof.
     Ok (attestation, prover, proof)))))"

text \<open>What remains to be done with a proof.\<close>

definition finish_main ::
  "('o, 'n, 'k, 's, 'c, 'p) cli_deps \<Rightarrow> ('c, 'p) DirectProver \<Rightarrow> AttestationProof
     \<Rightarrow> (unit, world) action" where
  "finish_main d prover proof =
     run_then (save_proof_artifacts d PROOF_OUTPUT_DIR proof (vkey (cli_sdk d) prover)) (\<lambda>_.
     pure (check_proof d proof (vkey (cli_sdk d) prover)))"

lemma run_then_read:
  "snd (m w) = w \<Longrightarrow> run_then m f w =
     (case fst (m w) of Ok x \<Rightarrow> f x w | Err e \<Rightarrow> (Err e, w) | Panic s \<Rightarrow> (Panic s, w))"
  by (cases "m w") (auto simp: run_then_def split: outcome.splits)

lemma reads_only [simp]:
  "snd (fs_read p w) = w" "snd (attestation_bytes d w) = w" "snd (pure r w) = w"
  by (simp_all add: attestation_bytes_def fs_read_def pure_def split: option.splits)

lemma fst_pure [simp]: "fst (pure r w) = r"
  by (simp add: pure_def)

lemma main_eq:
  "main d w =
     (case cli_proof d w of
        Ok (attestation, prover, proof) \<Rightarrow> finish_main d prover proof w
      | Err e \<Rightarrow> (Err e, w)
      | Panic m \<Rightarrow> (Panic m, w))"
  unfolding main_def cli_proof_def finish_main_def elf_path_def Let_def DEFAULT_TRUSTED_PREFIX_def
  by (simp add: run_then_read split: outcome.split)

text \<open>The faults of the file system play no part until something is written.\<close>

lemma cli_proof_reads:
  "world_env v = world_env w \<Longrightarrow> world_files v = world_files w \<Longrightarrow> cli_proof d v = cli_proof d w"
  by (simp add: cli_proof_def attestation_bytes_def fs_read_def elf_path_def split: option.split)

lemma cli_proofE:
  assumes "cli_proof d w = Ok (att, prover, proof)"
  obtains elf where "direct_new (cli_sdk d) elf 1 = Ok prover"
    and "direct_generate_proof (cli_guest d) (cli_sdk d) prover att False = Ok proof"
  using assms by (auto simp: cli_proof_def outcome_iffs)

lemma check_proof_Ok_iff [outcome_iffs]:
  "check_proof d proof vk = Ok u \<longleftrightarrow>
     proof_bytes proof \<noteq> []
     \<and> (\<exists>j. decode (abi_journal (cli_guest d)) (proof_output proof) = Ok j \<and> vj_result j = Success)
     \<and> groth16_verify d (proof_bytes proof) (proof_output proof) vk (groth16_vk_bytes d) = Inr ()"
  by (auto simp: check_proof_def outcome_iffs)

lemma check_proof_Err: "check_proof d pf vk = Err e \<Longrightarrow> \<exists>m. e = Prover (Sp1 m)"
proof -
  have "only_errs (\<lambda>e. \<exists>m. e = Prover (Sp1 m)) (check_proof d pf vk)"
    unfolding check_proof_def assert_that_def by (auto intro!: only_errs_intros)
  then show "check_proof d pf vk = Err e \<Longrightarrow> ?thesis" by (rule only_errsD)
qed

lemma artifact_paths:
  "proof_json_path PROOF_OUTPUT_DIR = ''./proof/proof.json''"
  "vkey_json_path PROOF_OUTPUT_DIR = ''./proof/vkey.json''"
  by (simp_all add: path_join_def PROOF_OUTPUT_DIR_def)

lemma main_OkE:
  assumes "main d w = (Ok u, w')"
  obtains att prover pf where "cli_proof d w = Ok (att, prover, pf)"
    and "save_proof_artifacts d PROOF_OUTPUT_DIR pf (vkey (cli_sdk d) prover) w = (Ok (), w')"
    and "check_proof d pf (vkey (cli_sdk d) prover) = Ok ()"
  using assms by (auto simp: main_eq finish_main_def outcome_iffs split: outcome.splits prod.splits)

text \<open>
  Property C30: a successful run: the proof that was generated is the one saved, exactly the two
  artifacts are written, with the key of the prover that made it, and the saved proof is not
  empty, decodes to a journal with result \<open>Success\<close> and passes the local Groth16 check.
\<close>

theorem main_success:
  assumes "main d w = (Ok (), w')"
  shows "\<exists>att prover pf pj vj j.
    cli_proof d w = Ok (att, prover, pf)
    \<and> proof_json_bytes d pf = Inr pj \<and> vkey_json_bytes d (vkey (cli_sdk d) prover) = Inr vj
    \<and> world_files w' = (world_files w)(''./proof/proof.json'' \<mapsto> pj, ''./proof/vkey.json'' \<mapsto> vj)
    \<and> proof_bytes pf \<noteq> []
    \<and> decode (abi_journal (cli_guest d)) (proof_output pf) = Ok j \<and> vj_result j = Success
    \<and> groth16_verify d (proof_bytes pf) (proof_output pf) (vkey (cli_sdk d) prover)
        (groth16_vk_bytes d) = Inr ()"
proof -
  obtain att prover pf where "cli_proof d w = Ok (att, prover, pf)"
    and save: "save_proof_artifacts d PROOF_OUTPUT_DIR pf (vkey (cli_sdk d) prover) w = (Ok (), w')"
    and "check_proof d pf (vkey (cli_sdk d) prover) = Ok ()"
    using assms by (rule main_OkE)
  with save_Ok [OF save] show ?thesis
    unfolding check_proof_Ok_iff artifact_paths by blast
qed

text \<open>
  The artifacts are saved before the proof is checked: once saving has succeeded the
  files stay as they are and the checks decide only the exit, so a proof that fails the local
  Groth16 verification is left on disk.
\<close>

theorem main_saves_before_check:
  assumes "cli_proof d w = Ok (att, prover, pf)"
    and "save_proof_artifacts d PROOF_OUTPUT_DIR pf (vkey (cli_sdk d) prover) w = (Ok (), w')"
  shows "main d w = (check_proof d pf (vkey (cli_sdk d) prover), w')"
  using assms by (simp add: main_eq finish_main_def run_then_def pure_def)

text \<open>
  The states in which saving can leave the files when it has changed any, with the result of the
  run; \<open>checked\<close> is the result once both artifacts are there.
\<close>

definition artifact_state ::
  "('o, 'n, 'k, 's, 'c, 'p) cli_deps \<Rightarrow> string \<Rightarrow> AttestationProof \<Rightarrow> string
     \<Rightarrow> (main_error, unit) outcome \<Rightarrow> world \<Rightarrow> (main_error, unit) outcome
     \<Rightarrow> (string \<Rightarrow> bytes option) \<Rightarrow> bool" where
  "artifact_state d dir pf vk checked w r files \<longleftrightarrow>
     (\<exists>pj. proof_json_bytes d pf = Inr pj
      \<and> ((\<exists>e torn. write_fault w (proof_json_path dir) = Some (e, Some torn)
            \<and> r = Err (IoError e)
            \<and> files = (world_files w)(proof_json_path dir \<mapsto> torn))
        \<or> (\<exists>e. vkey_json_bytes d vk = Inl e \<and> r = Err (JsonError e)
            \<and> files = (world_files w)(proof_json_path dir \<mapsto> pj))
        \<or> (\<exists>e. write_fault w (vkey_json_path dir) = Some (e, None) \<and> r = Err (IoError e)
            \<and> files = (world_files w)(proof_json_path dir \<mapsto> pj))
        \<or> (\<exists>e torn. write_fault w (vkey_json_path dir) = Some (e, Some torn)
            \<and> r = Err (IoError e)
            \<and> files = (world_files w)(proof_json_path dir \<mapsto> pj, vkey_json_path dir \<mapsto> torn))
        \<or> (\<exists>vj. vkey_json_bytes d vk = Inr vj \<and> r = checked
            \<and> files = (world_files w)(proof_json_path dir \<mapsto> pj, vkey_json_path dir \<mapsto> vj))))"

lemma save_states:
  assumes "save_proof_artifacts d dir pf vk w = (r, w')" and "world_files w' \<noteq> world_files w"
  shows "artifact_state d dir pf vk (Ok ()) w r (world_files w')"
  using assms
  by (cases "proof_json_bytes d pf"; cases "vkey_json_bytes d vk")
    (auto simp: artifact_state_def save_proof_artifacts_def run_then_def fs_create_dir_all_def
      fs_write_def pure_def split: option.splits)

lemma artifact_state_then:
  "artifact_state d dir pf vk (Ok ()) w r files \<Longrightarrow>
     artifact_state d dir pf vk checked w (and_then r (\<lambda>_. checked)) files"
  by (auto simp: artifact_state_def)

lemma finish_main_save:
  "finish_main d prover pf w =
     (let (r, w') = save_proof_artifacts d PROOF_OUTPUT_DIR pf (vkey (cli_sdk d) prover) w
      in (and_then r (\<lambda>_. check_proof d pf (vkey (cli_sdk d) prover)), w'))"
  by (auto simp: finish_main_def run_then_def pure_def split: prod.splits outcome.splits)

text \<open>
  Property C31: what a run can leave on disk: a run that changes any file has generated a proof and
  serialised it, and ends in one of these states: a torn \<open>proof.json\<close>; the new \<open>proof.json\<close>
  beside the old \<open>vkey.json\<close>, if the key is not serialised or its file not opened; the new
  \<open>proof.json\<close> beside a torn \<open>vkey.json\<close>; or both new. In all but the last it returns the error
  of the operation that failed, and only in the last does it check the proof, whose outcome is
  then that of the run. No other file ever changes.
\<close>

theorem main_disk_states:
  assumes "main d w = (r, w')" and "world_files w' \<noteq> world_files w"
  shows "\<exists>att prover pf. cli_proof d w = Ok (att, prover, pf)
    \<and> artifact_state d ''./proof'' pf (vkey (cli_sdk d) prover)
        (check_proof d pf (vkey (cli_sdk d) prover)) w r (world_files w')"
proof -
  obtain att prover pf where gen: "cli_proof d w = Ok (att, prover, pf)"
    and "finish_main d prover pf w = (r, w')"
    using assms by (cases "cli_proof d w") (auto simp: main_eq)
  then obtain r' where
    save: "save_proof_artifacts d PROOF_OUTPUT_DIR pf (vkey (cli_sdk d) prover) w = (r', w')"
    and r: "r = and_then r' (\<lambda>_. check_proof d pf (vkey (cli_sdk d) prover))"
    by (auto simp: finish_main_save Let_def split: prod.splits)
  show ?thesis
    using gen artifact_state_then [OF save_states [OF save assms(2)]]
    unfolding r PROOF_OUTPUT_DIR_def by blast
qed

section \<open>What the saved proof attests\<close>

text \<open>The guest program file holds the verifier's guest, and the SDK keeps its guarantee for it.\<close>

definition elf_is_guest :: "('o, 'n, 'k, 's, 'c, 'p) cli_deps \<Rightarrow> world \<Rightarrow> bool" where
  "elf_is_guest d w \<longleftrightarrow>
     (\<forall>elf pk. world_files w (elf_path d w) = Some elf \<longrightarrow>
        sdk_setup (cli_sdk d) (cpu_client (cli_sdk d)) elf = Inr pk \<longrightarrow>
        proves_guest (cli_guest d) (cli_sdk d) (cpu_client (cli_sdk d)) pk)"

lemma cli_proof_output:
  assumes "elf_is_guest d w" and "abi_lossless (abi_input (cli_guest d))"
    and "cli_proof d w = Ok (att, prover, pf)"
  shows "fst (attestation_bytes d w) = Ok att
    \<and> (\<exists>j. verify (verifier_deps (cli_guest d))
              \<lparr>vi_trustedCertsPrefixLen = 1, vi_attestationReport = att\<rparr> = Ok j
         \<and> proof_output pf = encode (abi_journal (cli_guest d)) j)"
proof -
  obtain elf where read: "world_files w (elf_path d w) = Some elf"
    and att: "fst (attestation_bytes d w) = Ok att"
    and new: "direct_new (cli_sdk d) elf 1 = Ok prover"
    and gen: "direct_generate_proof (cli_guest d) (cli_sdk d) prover att False = Ok pf"
    using assms(3) by (auto simp: cli_proof_def outcome_iffs fs_read_def split: option.splits)
  have "proves_guest (cli_guest d) (cli_sdk d) (client prover) (pk prover)"
    and "trusted_certs_prefix_len prover = 1"
    using assms(1) read new by (auto simp: elf_is_guest_def direct_new_def outcome_iffs Let_def)
  then show ?thesis
    using direct_output [OF _ assms(2) gen] att by (simp add: prover_input_def)
qed

text \<open>
  Property C10: end to end: with the verifier's guest as the proved program, the public values
  that a successful run saves are the encoding of the journal of the very attestation it read,
  verified with the root as the only trusted certificate.
\<close>

theorem main_attests:
  assumes "elf_is_guest d w" and "abi_lossless (abi_input (cli_guest d))"
    and "main d w = (Ok (), w')"
  shows "\<exists>att j pf pj. fst (attestation_bytes d w) = Ok att
    \<and> verify (verifier_deps (cli_guest d))
        \<lparr>vi_trustedCertsPrefixLen = 1, vi_attestationReport = att\<rparr> = Ok j
    \<and> journal_wf j
    \<and> proof_output pf = encode (abi_journal (cli_guest d)) j
    \<and> proof_json_bytes d pf = Inr pj \<and> world_files w' ''./proof/proof.json'' = Some pj"
proof -
  obtain att prover pf where gen: "cli_proof d w = Ok (att, prover, pf)"
    and save: "save_proof_artifacts d PROOF_OUTPUT_DIR pf (vkey (cli_sdk d) prover) w = (Ok (), w')"
    using assms(3) by (rule main_OkE)
  from save_Ok [OF save] obtain pj where "proof_json_bytes d pf = Inr pj"
    and "world_files w' ''./proof/proof.json'' = Some pj"
    unfolding artifact_paths by auto
  then show ?thesis
    using cli_proof_output [OF assms(1,2) gen] verify_Ok_wf by blast
qed

lemma check_proof_attested:
  assumes "elf_is_guest d w" and "abi_lossless (abi_input (cli_guest d))"
    and "abi_lossless (abi_journal (cli_guest d))"
    and "cli_proof d w = Ok (att, prover, pf)"
  shows "check_proof d pf vk =
    (if proof_bytes pf = [] then Panic ''Groth16 proof should not be empty''
     else map_err (\<lambda>e. Prover (Sp1 (''local Groth16 verification failed: '' @ e)))
       (groth16_verify d (proof_bytes pf) (proof_output pf) vk (groth16_vk_bytes d)))"
proof -
  obtain j where "decode (abi_journal (cli_guest d)) (proof_output pf) = Ok j"
    and "vj_result j = Success"
    using cli_proof_output [OF assms(1,2,4)] decode_encode [OF assms(3)]
    by (auto dest: verify_result_Success)
  then show ?thesis by (simp add: check_proof_def assert_that_def)
qed

text \<open>Saving fails with an error of the file system or of the JSON writer, and never panics.\<close>

lemma save_cases:
  "\<exists>w'. save_proof_artifacts d dir pf vk w = (Ok (), w')
    \<or> (\<exists>m. save_proof_artifacts d dir pf vk w = (Err (IoError m), w')
         \<or> save_proof_artifacts d dir pf vk w = (Err (JsonError m), w'))"
  by (cases "proof_json_bytes d pf"; cases "vkey_json_bytes d vk")
    (auto simp: save_proof_artifacts_def run_then_def fs_create_dir_all_def fs_write_def pure_def
      split: option.splits)

text \<open>
  Property C33: what can still go wrong once there is a proof: with the verifier's guest as the
  proved program, a run that has a proof fails only because saving fails, with the error of the
  file system or of the JSON writer; because the saved proof is empty; or because the Groth16
  verifier rejects it. Neither the \<open>expect\<close> on the decoded journal nor the assertion on its
  result can fail, and a run that meets none of the three returns \<open>Ok\<close>.
\<close>

theorem main_failures_after_proving:
  assumes "elf_is_guest d w" and "abi_lossless (abi_input (cli_guest d))"
    and "abi_lossless (abi_journal (cli_guest d))"
    and "cli_proof d w = Ok (att, prover, pf)" and "vk = vkey (cli_sdk d) prover"
  shows "\<exists>saved w'. save_proof_artifacts d ''./proof'' pf vk w = (saved, w')
    \<and> (saved = Ok () \<or> (\<exists>m. saved = Err (IoError m) \<or> saved = Err (JsonError m)))
    \<and> main d w =
        (if saved \<noteq> Ok () then saved
         else if proof_bytes pf = [] then Panic ''Groth16 proof should not be empty''
         else case groth16_verify d (proof_bytes pf) (proof_output pf) vk (groth16_vk_bytes d) of
             Inl e \<Rightarrow> Err (Prover (Sp1 (''local Groth16 verification failed: '' @ e)))
           | Inr u \<Rightarrow> Ok (), w')"
proof -
  have check: "check_proof d pf vk =
      (if proof_bytes pf = [] then Panic ''Groth16 proof should not be empty''
       else case groth16_verify d (proof_bytes pf) (proof_output pf) vk (groth16_vk_bytes d) of
           Inl e \<Rightarrow> Err (Prover (Sp1 (''local Groth16 verification failed: '' @ e)))
         | Inr u \<Rightarrow> Ok ())"
    using check_proof_attested [OF assms(1-4), of vk] by (auto split: sum.split)
  obtain saved w' where save: "save_proof_artifacts d ''./proof'' pf vk w = (saved, w')"
    by fastforce
  have kind: "saved = Ok () \<or> (\<exists>m. saved = Err (IoError m) \<or> saved = Err (JsonError m))"
    using save_cases [of d "''./proof''" pf vk w] save by auto
  have "main d w = (if saved \<noteq> Ok () then saved else check_proof d pf vk, w')"
    using kind save assms(4,5)
    by (auto simp: main_eq finish_main_def run_then_def PROOF_OUTPUT_DIR_def pure_def)
  then show ?thesis
    using save kind check by simp
qed

end
