(* ===== verification/Console.thy ===== *)
theory Console
  imports Cli "HOL-Library.Sublist"
begin

text \<open>
  What the program prints: the \<open>println!\<close> of \<open>verify_chain\<close> (verifier/src/x509.rs), the
  \<open>eprintln!\<close>s of \<open>generate_proof\<close> (src/direct.rs) and of src/main.rs, and the stub that the
  guest's source is off the zkVM. The operations of the other theories are given again with
  their messages, and the theorems relate the two: messages never influence a run, and what
  has been printed tells how far the run got. The message of a panic and of an error returned
  by \<open>main\<close> are printed by the runtime and left out.
\<close>

section \<open>Operations that print\<close>

text \<open>A line on one of the two streams, without its final newline.\<close>

datatype message = Stdout string | Stderr string

type_synonym ('e, 'a) logged = "('e, 'a) outcome \<times> message list"

definition silent :: "('e, 'a) outcome \<Rightarrow> ('e, 'a) logged" where
  "silent r = (r, [])"

definition print_line :: "message \<Rightarrow> ('e, unit) logged" where
  "print_line m = (Ok (), [m])"

definition log_then :: "('e, 'a) logged \<Rightarrow> ('a \<Rightarrow> ('e, 'b) logged) \<Rightarrow> ('e, 'b) logged" where
  "log_then l f =
     (case fst l of
        Ok x \<Rightarrow> (fst (f x), snd l @ snd (f x))
      | Err e \<Rightarrow> (Err e, snd l)
      | Panic m \<Rightarrow> (Panic m, snd l))"

definition expect_logged :: "string \<Rightarrow> ('e, 'a) logged \<Rightarrow> ('f, 'a) logged" where
  "expect_logged msg l = (expect_ok msg (fst l), snd l)"

lemma fst_logged [simp]:
  "fst (silent r) = r" "fst (print_line m) = Ok ()"
  "fst (log_then l f) = and_then (fst l) (\<lambda>x. fst (f x))"
  "fst (expect_logged msg l) = expect_ok msg (fst l)"
  by (simp_all add: silent_def print_line_def log_then_def expect_logged_def split: outcome.split)

lemma snd_logged [simp]:
  "snd (silent r) = []" "snd (print_line m) = [m]"
  "snd (expect_logged msg l) = snd l"
  "snd (log_then l f) = snd l @ (case fst l of Ok x \<Rightarrow> snd (f x) | _ \<Rightarrow> [])"
  by (simp_all add: silent_def print_line_def log_then_def expect_logged_def split: outcome.split)

section \<open>The verifier\<close>

definition chain_line :: "nat \<Rightarrow> nat \<Rightarrow> message" where
  "chain_line n trusted_prefix_len =
     Stdout (''verifying certificate chain ('' @ show_nat n @ '' certs, trusted prefix length '' @
       show_nat trusted_prefix_len @ '')'')"

definition verify_chain_io ::
  "(bytes \<Rightarrow> B256) \<Rightarrow> ('k, 's) p384 \<Rightarrow> 'n CertChain \<Rightarrow> nat \<Rightarrow> u64
     \<Rightarrow> (VerifierError, B256 list \<times> u64 list) logged" where
  "verify_chain_io sha ec chain trusted_prefix_len ts =
     log_then (print_line (chain_line (length (certs chain)) trusted_prefix_len)) (\<lambda>_.
     silent (verify_chain sha ec chain trusted_prefix_len ts))"

definition verify_io ::
  "('o, 'n, 'k, 's) deps \<Rightarrow> VerifierInput \<Rightarrow> (VerifierError, VerifierJournal) logged" where
  "verify_io deps input =
     log_then (silent (parse_report (dep_cbor deps) (vi_attestationReport input))) (\<lambda>report.
     log_then (silent (validate_attestation_content (rep_doc report))) (\<lambda>_.
     log_then (silent (chain_from_der (dep_x509 deps) (cert_chain_der report))) (\<lambda>chain.
     let trusted_prefix_len = unat (vi_trustedCertsPrefixLen input) in
     log_then (verify_chain_io (dep_sha256 deps) (dep_p384 deps) chain trusted_prefix_len
                 (timestamp (rep_doc report))) (\<lambda>(certs, cert_expiries).
     log_then (silent (leaf_public_key chain)) (\<lambda>leaf_pk_bytes.
     log_then (silent (sig_structure (dep_cbor deps) (rep_cose report))) (\<lambda>tbs.
     log_then (silent (verify_cose_signature (dep_p384 deps) leaf_pk_bytes tbs
                 (signature (rep_cose report)))) (\<lambda>_.
     log_then (silent (collect_enumerated (\<lambda>_. pcr_of_entry) 0 (entries (pcrs (rep_doc report)))))
       (\<lambda>pcr_list.
     silent (Ok
       \<lparr>vj_result = Success,
        vj_trustedCertsPrefixLen = vi_trustedCertsPrefixLen input,
        vj_timestamp = timestamp (rep_doc report),
        vj_certs = certs,
        vj_certExpiries = cert_expiries,
        vj_userData = optional_bytes (user_data (rep_doc report)),
        vj_nonce = optional_bytes (nonce (rep_doc report)),
        vj_publicKey = optional_bytes (public_key (rep_doc report)),
        vj_pcrs = pcr_list,
        vj_moduleId = module_id (rep_doc report)\<rparr>)))))))))"

lemma fst_verify_chain_io [simp]:
  "fst (verify_chain_io sha ec chain tp ts) = verify_chain sha ec chain tp ts"
  by (simp add: verify_chain_io_def)

lemma snd_verify_chain_io [simp]:
  "snd (verify_chain_io sha ec chain tp ts) = [chain_line (length (certs chain)) tp]"
  by (simp add: verify_chain_io_def)

text \<open>Printing changes no result.\<close>

lemma fst_verify_io [simp]: "fst (verify_io deps input) = verify deps input"
  by (simp add: verify_io_def verify_def case_prod_unfold Let_def)

text \<open>The chain whose verification is announced, if the run gets that far.\<close>

definition announced_chain ::
  "('o, 'n, 'k, 's) deps \<Rightarrow> VerifierInput \<Rightarrow> (VerifierError, 'n CertChain) outcome" where
  "announced_chain deps input =
     and_then (parse_report (dep_cbor deps) (vi_attestationReport input)) (\<lambda>report.
     and_then (validate_attestation_content (rep_doc report)) (\<lambda>_.
     chain_from_der (dep_x509 deps) (cert_chain_der report)))"

lemma announced_chain_Ok_iff:
  "announced_chain deps input = Ok chain \<longleftrightarrow>
     (\<exists>report. report_of deps (vi_attestationReport input) report \<and> doc_ok (rep_doc report)
        \<and> parses_to (dep_x509 deps) (cert_chain_der report) chain)"
  by (auto simp: announced_chain_def outcome_iffs parse_report_Ok_iff report_of_def
      validate_attestation_content_Ok_iff chain_from_der_Ok_iff)

lemma snd_verify_io:
  "snd (verify_io deps input) =
     (case announced_chain deps input of
        Ok chain \<Rightarrow> [chain_line (length (certs chain)) (unat (vi_trustedCertsPrefixLen input))]
      | _ \<Rightarrow> [])"
  by (auto simp: verify_io_def announced_chain_def Let_def split: outcome.split)

text \<open>
  The verifier is not silent: it prints one line to stdout exactly when the report parses, its
  document passes the M-02 checks and its certificates parse, whatever the verdict on the chain.
\<close>

theorem verify_prints:
  "snd (verify_io deps input) \<in> {[]} \<union> range (\<lambda>n. [chain_line n (unat (vi_trustedCertsPrefixLen input))])
   \<and> (snd (verify_io deps input) \<noteq> [] \<longleftrightarrow>
        (\<exists>report chain. report_of deps (vi_attestationReport input) report \<and> doc_ok (rep_doc report)
           \<and> parses_to (dep_x509 deps) (cert_chain_der report) chain))"
proof -
  have "snd (verify_io deps input) \<noteq> [] \<longleftrightarrow> (\<exists>chain. announced_chain deps input = Ok chain)"
    by (simp add: snd_verify_io split: outcome.split)
  then show ?thesis
    by (auto simp: announced_chain_Ok_iff snd_verify_io split: outcome.split)
qed

lemma verify_Ok_announced:
  fixes deps :: "('o, 'n, 'k, 's) deps"
  assumes "verify deps input = Ok j"
  obtains chain :: "'n CertChain" where "announced_chain deps input = Ok chain"
    and "length (certs chain) = length (vj_certs j)"
proof -
  obtain report chain where acc: "accepts deps input report chain"
    and j: "j = journal_of deps input report chain"
    using assms by (auto simp: verify_Ok_iff)
  show ?thesis
  proof
    show "announced_chain deps input = Ok chain"
      using acc by (auto simp: announced_chain_Ok_iff accepts_def)
    show "length (certs chain) = length (vj_certs j)"
      using accepts_length [OF acc] by (simp add: j journal_of_def)
  qed
qed

section \<open>The guest\<close>

definition guest_main_io :: "('o, 'n, 'k, 's) guest_deps \<Rightarrow> bytes \<Rightarrow> (unit, bytes) logged" where
  "guest_main_io g input_bytes =
     log_then (expect_logged ''guest input should be an ABI-encoded VerifierInput''
                 (silent (decode (abi_input g) input_bytes))) (\<lambda>input.
     log_then (expect_logged ''attestation verification failed''
                 (verify_io (verifier_deps g) input)) (\<lambda>journal.
     silent (Ok (encode (abi_journal g) journal))))"

text \<open>What the binary is when it is not built for the zkVM.\<close>

definition guest_stub_main :: "(unit, unit) logged" where
  "guest_stub_main = print_line (Stderr
     (''nitro-verifier-guest is an SP1 guest program; build it with '' @
      ''`cargo prove build` (target riscv64im-succinct-zkvm-elf)''))"

text \<open>The public values are the committed bytes; what the verifier prints is no part of them.\<close>

lemma fst_guest_main_io [simp]: "fst (guest_main_io g bs) = guest_main g bs"
  by (simp add: guest_main_io_def guest_main_def)

section \<open>The prover\<close>

definition host_line :: message where
  "host_line = Stderr ''==========> attestation verified successfully on host''"

definition prepare_stdin_io ::
  "('o, 'n, 'k, 's) guest_deps \<Rightarrow> ('c, 'p) DirectProver \<Rightarrow> bytes \<Rightarrow> bool
     \<Rightarrow> (ProverError, bytes list) logged" where
  "prepare_stdin_io g self report_bytes is_cancelled =
     (if is_cancelled then silent (Err (Sp1 ''proof generation cancelled before start''))
      else
        let input = prover_input self report_bytes in
        log_then (expect_logged ''host verifier should accept the Nitro attestation''
                    (verify_io (verifier_deps g) input)) (\<lambda>journal.
        log_then (silent (assert_that (vj_result journal = Success)
                            ''assertion `left == right` failed'')) (\<lambda>_.
        log_then (print_line host_line) (\<lambda>_.
        silent (Ok [encode (abi_input g) input])))))"

definition direct_generate_proof_io ::
  "('o, 'n, 'k, 's) guest_deps \<Rightarrow> ('c, 'p) sp1_sdk \<Rightarrow> ('c, 'p) DirectProver \<Rightarrow> bytes \<Rightarrow> bool
     \<Rightarrow> (ProverError, AttestationProof) logged" where
  "direct_generate_proof_io g sdk self report_bytes is_cancelled =
     log_then (prepare_stdin_io g self report_bytes is_cancelled)
       (\<lambda>stdin. silent (finish_proof (prove_groth16 sdk (client self) (pk self) stdin)))"

lemma fst_prepare_stdin_io [simp]: "fst (prepare_stdin_io g self bs c) = prepare_stdin g self bs c"
  by (simp add: prepare_stdin_io_def prepare_stdin_def Let_def)

lemma fst_direct_generate_proof_io [simp]:
  "fst (direct_generate_proof_io g sdk self bs c) = direct_generate_proof g sdk self bs c"
  by (simp add: direct_generate_proof_io_def direct_generate_proof_def)

text \<open>The call prints what the host verification prints and, if that accepts, its own line.\<close>

lemma snd_direct_generate_proof_io:
  "snd (direct_generate_proof_io g sdk self bs c) =
     (if c then []
      else snd (verify_io (verifier_deps g) (prover_input self bs)) @
        (if \<exists>j. verify (verifier_deps g) (prover_input self bs) = Ok j then [host_line] else []))"
  using verify_result_Success [of "verifier_deps g" "prover_input self bs"]
  by (cases "verify (verifier_deps g) (prover_input self bs)")
    (auto simp: direct_generate_proof_io_def prepare_stdin_io_def Let_def assert_that_def)

section \<open>The command line\<close>

definition size_line :: "AttestationProof \<Rightarrow> message" where
  "size_line proof = Stderr
     (''Groth16 proof size: '' @ show_nat (length (proof_bytes proof)) @
      '' bytes (public values: '' @ show_nat (length (proof_output proof)) @ '' bytes)'')"

definition verified_line :: message where
  "verified_line = Stderr ''Groth16 proof verified locally against the SP1 vkey''"

definition check_proof_io ::
  "('o, 'n, 'k, 's, 'c, 'p) cli_deps \<Rightarrow> AttestationProof \<Rightarrow> string \<Rightarrow> (main_error, unit) logged" where
  "check_proof_io d proof vkey_text =
     log_then (silent (assert_that (proof_bytes proof \<noteq> []) ''Groth16 proof should not be empty'')) (\<lambda>_.
     log_then (silent (expect_ok ''prover output should contain a valid verifier journal''
                 (decode (abi_journal (cli_guest d)) (proof_output proof)))) (\<lambda>journal.
     log_then (silent (assert_that (vj_result journal = Success)
                         ''assertion `left == right` failed'')) (\<lambda>_.
     log_then (print_line (size_line proof)) (\<lambda>_.
     log_then (silent (map_err (\<lambda>e. Prover (Sp1 (''local Groth16 verification failed: '' @ e)))
       (groth16_verify d (proof_bytes proof) (proof_output proof) vkey_text (groth16_vk_bytes d))))
       (\<lambda>_.
     print_line verified_line)))))"

text \<open>An action of the world that prints nothing, and a printing step that leaves the world alone.\<close>

definition quietly :: "('a, 'w) action \<Rightarrow> ('a, 'w \<times> message list) action" where
  "quietly m s = (let (r, w) = m (fst s) in (r, (w, snd s)))"

definition emit :: "(main_error, 'a) logged \<Rightarrow> ('a, 'w \<times> message list) action" where
  "emit l s = (fst l, (fst s, snd s @ snd l))"

text \<open>
  \<open>elapsed\<close> is the text of the measured time, seconds with three decimals. The state is the
  world with the lines printed so far.
\<close>

definition main_io ::
  "('o, 'n, 'k, 's, 'c, 'p) cli_deps \<Rightarrow> string \<Rightarrow> (unit, world \<times> message list) action" where
  "main_io d elapsed s =
     (let elf_path = (case world_env (fst s) GUEST_PROGRAM_ENV of
            None \<Rightarrow> DEFAULT_GUEST_PROGRAM d | Some path \<Rightarrow> path)
      in run_then (quietly (fs_read elf_path)) (\<lambda>elf.
         run_then (quietly (attestation_bytes d)) (\<lambda>attestation.
         run_then (quietly (pure (convert_err Prover
             (direct_new (cli_sdk d) elf DEFAULT_TRUSTED_PREFIX)))) (\<lambda>prover.
         let vkey_text = vkey (cli_sdk d) prover in
         run_then (emit (print_line (Stderr (''=========> Guest program vkey: '' @ vkey_text)))) (\<lambda>_.
         run_then (emit (print_line (Stderr
             (CHR 0x0A # ''Starting Groth16 proof generation...'')))) (\<lambda>_.
         let generated =
           direct_generate_proof_io (cli_guest d) (cli_sdk d) prover attestation False in
         run_then (emit (convert_err Prover (fst generated), snd generated)) (\<lambda>proof.
         run_then (emit (print_line (Stderr
             (''==========> Groth16 proof generated in '' @ elapsed @ ''s'')))) (\<lambda>_.
         run_then (quietly (save_proof_artifacts d PROOF_OUTPUT_DIR proof vkey_text)) (\<lambda>_.
         run_then (emit (print_line (Stderr
             (''Proof artifacts saved to '' @ PROOF_OUTPUT_DIR)))) (\<lambda>_.
         emit (check_proof_io d proof vkey_text)))))))))) s)"

section \<open>What has been printed\<close>

text \<open>The steps of \<open>main\<close> before the first line.\<close>

definition prover_ready ::
  "('o, 'n, 'k, 's, 'c, 'p) cli_deps \<Rightarrow> world
     \<Rightarrow> (main_error, bytes \<times> ('c, 'p) DirectProver) outcome" where
  "prover_ready d w =
     and_then (fst (fs_read (elf_path d w) w)) (\<lambda>elf.
     and_then (fst (attestation_bytes d w)) (\<lambda>attestation.
     and_then (convert_err Prover (direct_new (cli_sdk d) elf 1)) (\<lambda>prover.
     Ok (attestation, prover))))"

lemma cli_proof_ready:
  "cli_proof d w =
     and_then (prover_ready d w) (\<lambda>(attestation, prover).
     and_then (convert_err Prover
         (direct_generate_proof (cli_guest d) (cli_sdk d) prover attestation False)) (\<lambda>proof.
     Ok (attestation, prover, proof)))"
  by (simp add: cli_proof_def prover_ready_def and_then_assoc)

definition greeting :: "string \<Rightarrow> message list" where
  "greeting vkey_text =
     [Stderr (''=========> Guest program vkey: '' @ vkey_text),
      Stderr (CHR 0x0A # ''Starting Groth16 proof generation...'')]"

definition generation_lines ::
  "('o, 'n, 'k, 's, 'c, 'p) cli_deps \<Rightarrow> ('c, 'p) DirectProver \<Rightarrow> bytes \<Rightarrow> message list" where
  "generation_lines d prover attestation =
     snd (direct_generate_proof_io (cli_guest d) (cli_sdk d) prover attestation False)"

definition elapsed_line :: "string \<Rightarrow> message" where
  "elapsed_line elapsed = Stderr (''==========> Groth16 proof generated in '' @ elapsed @ ''s'')"

definition saved_line :: message where
  "saved_line = Stderr ''Proof artifacts saved to ./proof''"

lemma run_then_quietly:
  "run_then (quietly m) f (w, ms) =
     (case m w of
        (Ok x, w') \<Rightarrow> f x (w', ms) | (Err e, w') \<Rightarrow> (Err e, (w', ms)) | (Panic p, w') \<Rightarrow> (Panic p, (w', ms)))"
  by (auto simp: run_then_def quietly_def split: prod.split outcome.split)

lemma run_then_emit:
  "run_then (emit l) f (w, ms) =
     (case fst l of
        Ok x \<Rightarrow> f x (w, ms @ snd l) | Err e \<Rightarrow> (Err e, (w, ms @ snd l)) | Panic p \<Rightarrow> (Panic p, (w, ms @ snd l)))"
  by (auto simp: run_then_def emit_def split: outcome.split)

text \<open>What \<open>main\<close> does and prints once there is a proof.\<close>

definition finish_main_io ::
  "('o, 'n, 'k, 's, 'c, 'p) cli_deps \<Rightarrow> string \<Rightarrow> ('c, 'p) DirectProver \<Rightarrow> AttestationProof
     \<Rightarrow> (unit, world \<times> message list) action" where
  "finish_main_io d elapsed prover proof =
     run_then (emit (print_line (elapsed_line elapsed))) (\<lambda>_.
     run_then (quietly (save_proof_artifacts d PROOF_OUTPUT_DIR proof (vkey (cli_sdk d) prover))) (\<lambda>_.
     run_then (emit (print_line saved_line)) (\<lambda>_.
     emit (check_proof_io d proof (vkey (cli_sdk d) prover)))))"

lemma quiet_read:
  "snd (m w) = w \<Longrightarrow> run_then (quietly m) f (w, ms) =
     (case fst (m w) of Ok x \<Rightarrow> f x (w, ms) | Err e \<Rightarrow> (Err e, (w, ms)) | Panic p \<Rightarrow> (Panic p, (w, ms)))"
  by (cases "m w") (auto simp: run_then_quietly split: outcome.split)

lemma main_io_eq:
  "main_io d t (w, ms) =
     (case prover_ready d w of
        Err e \<Rightarrow> (Err e, (w, ms))
      | Panic p \<Rightarrow> (Panic p, (w, ms))
      | Ok (att, prover) \<Rightarrow>
          let ms' = ms @ greeting (vkey (cli_sdk d) prover) @ generation_lines d prover att in
          (case direct_generate_proof (cli_guest d) (cli_sdk d) prover att False of
             Err e \<Rightarrow> (Err (Prover e), (w, ms'))
           | Panic p \<Rightarrow> (Panic p, (w, ms'))
           | Ok proof \<Rightarrow> finish_main_io d t prover proof (w, ms')))"
  unfolding main_io_def prover_ready_def finish_main_io_def elf_path_def Let_def
    DEFAULT_TRUSTED_PREFIX_def greeting_def generation_lines_def elapsed_line_def saved_line_def
    PROOF_OUTPUT_DIR_def
  by (simp add: quiet_read run_then_emit split: outcome.split)

lemma fst_check_proof_io [simp]: "fst (check_proof_io d proof vk) = check_proof d proof vk"
  by (simp add: check_proof_io_def check_proof_def and_then_unit)

definition success_proof ::
  "('o, 'n, 'k, 's, 'c, 'p) cli_deps \<Rightarrow> AttestationProof \<Rightarrow> bool" where
  "success_proof d pf \<longleftrightarrow>
     proof_bytes pf \<noteq> []
     \<and> (\<exists>j. decode (abi_journal (cli_guest d)) (proof_output pf) = Ok j \<and> vj_result j = Success)"

lemma snd_check_proof_io:
  "snd (check_proof_io d pf vk) = [] \<and> \<not> success_proof d pf \<and> check_proof d pf vk \<noteq> Ok ()
   \<or> snd (check_proof_io d pf vk) = [size_line pf] \<and> success_proof d pf \<and> check_proof d pf vk \<noteq> Ok ()
   \<or> snd (check_proof_io d pf vk) = [size_line pf, verified_line] \<and> success_proof d pf
     \<and> check_proof d pf vk = Ok ()"
  by (auto simp: check_proof_io_def check_proof_def success_proof_def assert_that_def
      expect_ok_Ok_iff split: outcome.split sum.split)

lemma finish_main_io_eq:
  "finish_main_io d t prover pf (w, ms) =
     (case save_proof_artifacts d PROOF_OUTPUT_DIR pf (vkey (cli_sdk d) prover) w of
        (Ok u, w') \<Rightarrow>
          (check_proof d pf (vkey (cli_sdk d) prover),
           (w', ms @ [elapsed_line t, saved_line] @ snd (check_proof_io d pf (vkey (cli_sdk d) prover))))
      | (Err e, w') \<Rightarrow> (Err e, (w', ms @ [elapsed_line t]))
      | (Panic p, w') \<Rightarrow> (Panic p, (w', ms @ [elapsed_line t])))"
  by (auto simp: finish_main_io_def run_then_emit run_then_quietly emit_def
      split: prod.split outcome.split)

text \<open>Erasing the messages leaves the run of \<open>Cli\<close>.\<close>

lemma main_io_erasure:
  "main d w = (fst (main_io d t (w, ms)), fst (snd (main_io d t (w, ms))))"
  unfolding main_eq cli_proof_ready main_io_eq Let_def
  by (auto simp: finish_main_io_eq finish_main_save split: outcome.split prod.split)

text \<open>
  The lines of a complete run, in order and written out: the verifying key, the number of
  certificates, the elapsed time, and the lengths of the proof and of its public values.
\<close>

definition main_script :: "string \<Rightarrow> nat \<Rightarrow> string \<Rightarrow> nat \<Rightarrow> nat \<Rightarrow> message list" where
  "main_script vkey_text n elapsed proof_len values_len =
     [Stderr (''=========> Guest program vkey: '' @ vkey_text),
      Stderr (CHR 0x0A # ''Starting Groth16 proof generation...''),
      Stdout (''verifying certificate chain ('' @ show_nat n @ '' certs, trusted prefix length 1)''),
      Stderr ''==========> attestation verified successfully on host'',
      Stderr (''==========> Groth16 proof generated in '' @ elapsed @ ''s''),
      Stderr ''Proof artifacts saved to ./proof'',
      Stderr (''Groth16 proof size: '' @ show_nat proof_len @ '' bytes (public values: '' @
        show_nat values_len @ '' bytes)''),
      Stderr ''Groth16 proof verified locally against the SP1 vkey'']"

lemma show_nat_1: "show_nat 1 = ''1''"
  by (simp add: show_nat.simps digit_def char_of_def bit_0)

lemma main_script_lines:
  "main_script v n t (length (proof_bytes pf)) (length (proof_output pf)) =
     greeting v @
     [chain_line n 1, host_line, elapsed_line t, saved_line, size_line pf, verified_line]"
  unfolding main_script_def greeting_def chain_line_def host_line_def elapsed_line_def
    saved_line_def size_line_def verified_line_def show_nat_1
  by simp

text \<open>
  The messages of a run with result \<open>r\<close> are true: they are the first lines of the script for the
  key of the prover, the certificates of the report and the lengths of the proof, all those of
  this run, and each step that has a line has succeeded exactly if its line is there.
\<close>

definition messages_truthful ::
  "('o, 'n, 'k, 's, 'c, 'p) cli_deps \<Rightarrow> world \<Rightarrow> string \<Rightarrow> (main_error, unit) outcome
     \<Rightarrow> message list \<Rightarrow> bool" where
  "messages_truthful d w t r ms \<longleftrightarrow>
     (case prover_ready d w of
        Ok (att, prover) \<Rightarrow>
          let g = cli_guest d; v = vkey_bytes32 (cli_sdk d) (pk prover);
              input = \<lparr>vi_trustedCertsPrefixLen = 1, vi_attestationReport = att\<rparr>;
              chain = announced_chain (verifier_deps g) input;
              generated = direct_generate_proof g (cli_sdk d) prover att False
          in \<exists>n pl vl. prefix ms (main_script v n t pl vl)
             \<and> 2 \<le> length ms
             \<and> (3 \<le> length ms \<longleftrightarrow> (\<exists>c. chain = Ok c))
             \<and> (\<forall>c. chain = Ok c \<longrightarrow> n = length (certs c))
             \<and> (4 \<le> length ms \<longleftrightarrow> (\<exists>j. verify (verifier_deps g) input = Ok j))
             \<and> (5 \<le> length ms \<longleftrightarrow> (\<exists>pf. generated = Ok pf))
             \<and> (\<forall>pf. generated = Ok pf \<longrightarrow>
                  pl = length (proof_bytes pf) \<and> vl = length (proof_output pf)
                  \<and> (6 \<le> length ms \<longleftrightarrow> (\<exists>w'. save_proof_artifacts d ''./proof'' pf v w = (Ok (), w')))
                  \<and> (7 \<le> length ms \<longleftrightarrow>
                       (\<exists>w'. save_proof_artifacts d ''./proof'' pf v w = (Ok (), w'))
                       \<and> success_proof d pf))
             \<and> (8 \<le> length ms \<longleftrightarrow> r = Ok ())
      | _ \<Rightarrow> ms = [])"

lemma prover_ready_prefix:
  "prover_ready d w = Ok (att, prover) \<Longrightarrow> trusted_certs_prefix_len prover = 1"
  by (auto simp: prover_ready_def outcome_iffs direct_new_def Let_def)

lemma prover_ready_input:
  "prover_ready d w = Ok (att, prover) \<Longrightarrow>
     prover_input prover att = \<lparr>vi_trustedCertsPrefixLen = 1, vi_attestationReport = att\<rparr>"
  by (simp add: prover_input_def prover_ready_prefix)

lemma generation_lines_eq:
  assumes "prover_ready d w = Ok (att, prover)"
    and "input = \<lparr>vi_trustedCertsPrefixLen = 1, vi_attestationReport = att\<rparr>"
  shows "generation_lines d prover att =
    (case announced_chain (verifier_deps (cli_guest d)) input of
       Ok c \<Rightarrow> [chain_line (length (certs c)) 1] | _ \<Rightarrow> [])
    @ (if \<exists>j. verify (verifier_deps (cli_guest d)) input = Ok j then [host_line] else [])"
  using prover_ready_input [OF assms(1)] assms(2)
  by (simp add: generation_lines_def snd_direct_generate_proof_io snd_verify_io
      split: outcome.split)

text \<open>Three stages at which a run can end: before the prover, before the proof, after it.\<close>

lemma truthful_unready:
  "\<nexists>x. prover_ready d w = Ok x \<Longrightarrow> messages_truthful d w t r []"
  by (auto simp: messages_truthful_def split: outcome.split)

lemma generate_Ok_accepted:
  "direct_generate_proof g sdk self bs c = Ok pf \<Longrightarrow>
     \<exists>j. verify (verifier_deps g) (prover_input self bs) = Ok j"
  by (auto simp: direct_generate_proof_def prepare_stdin_cases outcome_iffs split: if_splits)

lemma script_prefix:
  assumes "prefix ls [chain_line n 1, host_line, elapsed_line t, saved_line, size_line pf, verified_line]"
  shows "prefix (greeting v @ ls)
    (main_script v n t (length (proof_bytes pf)) (length (proof_output pf)))"
  using assms by (simp add: main_script_lines)

lemma length_greeting [simp]: "length (greeting v) = 2"
  by (simp add: greeting_def)

lemma messages_truthfulI:
  fixes d :: "('o, 'n, 'k, 's, 'c, 'p) cli_deps"
  assumes ready: "prover_ready d w = Ok (att, prover)"
    and input: "input = \<lparr>vi_trustedCertsPrefixLen = 1, vi_attestationReport = att\<rparr>"
    and deps: "deps = verifier_deps (cli_guest d)"
    and script: "prefix ms (main_script (vkey (cli_sdk d) prover) n t pl vl)" "2 \<le> length ms"
    and lines: "3 \<le> length ms \<longleftrightarrow> (\<exists>c. announced_chain deps input = Ok c)"
      "\<forall>c. announced_chain deps input = Ok c \<longrightarrow> n = length (certs c)"
      "4 \<le> length ms \<longleftrightarrow> (\<exists>j. verify deps input = Ok j)"
      "5 \<le> length ms \<longleftrightarrow>
         (\<exists>pf. direct_generate_proof (cli_guest d) (cli_sdk d) prover att False = Ok pf)"
      "\<And>pf. direct_generate_proof (cli_guest d) (cli_sdk d) prover att False = Ok pf \<Longrightarrow>
         pl = length (proof_bytes pf) \<and> vl = length (proof_output pf)
         \<and> (6 \<le> length ms \<longleftrightarrow> (\<exists>w'. save_proof_artifacts d ''./proof'' pf
              (vkey (cli_sdk d) prover) w = (Ok (), w')))
         \<and> (7 \<le> length ms \<longleftrightarrow> (\<exists>w'. save_proof_artifacts d ''./proof'' pf
              (vkey (cli_sdk d) prover) w = (Ok (), w')) \<and> success_proof d pf)"
      "8 \<le> length ms \<longleftrightarrow> r = Ok ()"
  shows "messages_truthful d w t r ms"
  unfolding messages_truthful_def ready Let_def
  using script lines unfolding input deps vkey_def
  by (simp only: outcome.case prod.case) blast

lemma verify_announced:
  "verify deps input = Ok j \<Longrightarrow> \<exists>c. announced_chain deps input = Ok c"
  by (auto elim: verify_Ok_announced)

lemma truthful_unproved:
  assumes ready: "prover_ready d w = Ok (att, prover)" and r: "r \<noteq> Ok ()"
    and gen: "\<nexists>pf. direct_generate_proof (cli_guest d) (cli_sdk d) prover att False = Ok pf"
  shows "messages_truthful d w t r
    (greeting (vkey (cli_sdk d) prover) @ generation_lines d prover att)"
proof -
  let ?deps = "verifier_deps (cli_guest d)"
  define input where "input = \<lparr>vi_trustedCertsPrefixLen = (1 :: u8), vi_attestationReport = att\<rparr>"
  obtain ls n where ls: "generation_lines d prover att = ls"
    and lines: "(ls = [] \<and> (\<nexists>c. announced_chain ?deps input = Ok c) \<and> (\<nexists>j. verify ?deps input = Ok j))
      \<or> (\<exists>c. announced_chain ?deps input = Ok c \<and> n = length (certs c)
          \<and> ls = chain_line n 1 # (if \<exists>j. verify ?deps input = Ok j then [host_line] else []))"
    unfolding generation_lines_eq [OF ready input_def]
    using verify_announced [of ?deps input] by (cases "announced_chain ?deps input") auto
  have "prefix ls [chain_line n 1, host_line, elapsed_line t, saved_line, size_line pf, verified_line]"
    for pf
    using lines by auto
  note script = script_prefix [OF this, of "vkey (cli_sdk d) prover"]
  show ?thesis
    unfolding ls
    by (rule messages_truthfulI [OF ready input_def refl script])
      (use r gen lines in \<open>auto split: if_splits\<close>)
qed

lemma truthful_finish:
  assumes ready: "prover_ready d w = Ok (att, prover)"
    and gen: "direct_generate_proof (cli_guest d) (cli_sdk d) prover att False = Ok pf"
    and run: "finish_main_io d t prover pf
      (w, greeting (vkey (cli_sdk d) prover) @ generation_lines d prover att) = (r, (w', ms))"
  shows "messages_truthful d w t r ms"
proof -
  let ?deps = "verifier_deps (cli_guest d)"
  let ?saved = "\<exists>w'. save_proof_artifacts d ''./proof'' pf (vkey (cli_sdk d) prover) w = (Ok (), w')"
  define input where "input = \<lparr>vi_trustedCertsPrefixLen = (1 :: u8), vi_attestationReport = att\<rparr>"
  obtain j where host: "verify ?deps input = Ok j"
    using generate_Ok_accepted [OF gen] prover_ready_input [OF ready] by (auto simp: input_def)
  obtain c where chain: "announced_chain ?deps input = Ok c"
    using verify_announced [OF host] by blast
  have generation: "generation_lines d prover att = [chain_line (length (certs c)) 1, host_line]"
    unfolding generation_lines_eq [OF ready input_def] by (simp add: host chain)
  obtain ls where ms: "ms = greeting (vkey (cli_sdk d) prover) @
      [chain_line (length (certs c)) 1, host_line, elapsed_line t] @ ls"
    and ls: "ls = [] \<and> \<not> ?saved \<and> r \<noteq> Ok ()
      \<or> ?saved \<and> (ls = [saved_line] \<and> \<not> success_proof d pf \<and> r \<noteq> Ok ()
          \<or> ls = [saved_line, size_line pf] \<and> success_proof d pf \<and> r \<noteq> Ok ()
          \<or> ls = [saved_line, size_line pf, verified_line] \<and> success_proof d pf \<and> r = Ok ())"
    using run snd_check_proof_io [of d pf "vkey (cli_sdk d) prover"]
    by (auto simp: finish_main_io_eq generation PROOF_OUTPUT_DIR_def
        split: prod.splits outcome.splits)
  have "prefix ([chain_line (length (certs c)) 1, host_line, elapsed_line t] @ ls)
      [chain_line (length (certs c)) 1, host_line, elapsed_line t, saved_line, size_line pf,
       verified_line]"
    using ls by auto
  note script = script_prefix [OF this, of "vkey (cli_sdk d) prover"]
  show ?thesis
    unfolding ms
    by (rule messages_truthfulI [OF ready input_def refl script])
      (use ls in \<open>auto simp: gen chain host\<close>)
qed

text \<open>
  Property C32: the messages of a run are true: printing changes neither the result nor the files,
  and the lines printed are the first lines of a fixed script, with the verifying key of this
  run's prover, the number of certificates of its report and the lengths of its proof. The line
  on the chain is there exactly if the report reached the chain's verification, the one on the
  host exactly if the host accepted the attestation, the one with the time exactly if a proof was
  generated, the one on saving exactly if both artifacts were written, the one with the sizes
  exactly if moreover the proof is not empty and decodes to a success, and the last exactly if
  the run returns \<open>Ok\<close>. Nothing is printed before the prover is set up.
\<close>

theorem main_messages:
  "\<exists>r w' ms. main_io d t (w, []) = (r, (w', ms)) \<and> main d w = (r, w') \<and> messages_truthful d w t r ms"
proof -
  obtain r w' ms where run: "main_io d t (w, []) = (r, (w', ms))"
    by (cases "main_io d t (w, [])") auto
  have "main d w = (r, w')"
    using main_io_erasure [of d w t "[]"] run by simp
  moreover have "messages_truthful d w t r ms"
  proof (cases "prover_ready d w")
    case (Ok x)
    then obtain att prover where ready: "prover_ready d w = Ok (att, prover)" by (cases x) auto
    show ?thesis
    proof (cases "direct_generate_proof (cli_guest d) (cli_sdk d) prover att False")
      case (Ok pf)
      with run ready show ?thesis
        by (intro truthful_finish [OF ready Ok]) (simp add: main_io_eq)
    qed (use run ready in \<open>auto simp: main_io_eq Let_def intro!: truthful_unproved\<close>)
  qed (use run in \<open>auto simp: main_io_eq intro!: truthful_unready\<close>)
  ultimately show ?thesis using run by blast
qed

end
