(* ===== verification/Debug_Format.thy ===== *)
theory Debug_Format
  imports Direct
begin

text \<open>
  The \<open>Debug\<close> implementations: the derived one of \<open>AttestationProof\<close> (src/types.rs) and the
  written one of \<open>DirectProver\<close> (src/direct.rs), with the part of the standard library's
  \<open>debug_struct\<close> and of \<open>str\<close>'s \<open>Debug\<close> that they use. \<open>Debug\<close> of \<open>Bytes\<close> is code of the
  alloy crates and a parameter.
\<close>

section \<open>Building blocks\<close>

text \<open>\<open>f.debug_struct(name).field(..)..finish()\<close> and \<open>finish_non_exhaustive()\<close> for \<open>{:?}\<close>.\<close>

fun debug_fields :: "(string \<times> string) list \<Rightarrow> string" where
  "debug_fields [] = []"
| "debug_fields [(n, v)] = n @ '': '' @ v"
| "debug_fields ((n, v) # fs) = n @ '': '' @ v @ '', '' @ debug_fields fs"

definition debug_struct_finish :: "string \<Rightarrow> (string \<times> string) list \<Rightarrow> string" where
  "debug_struct_finish name named =
     (if named = [] then name else name @ '' { '' @ debug_fields named @ '' }'')"

definition debug_struct_finish_non_exhaustive :: "string \<Rightarrow> (string \<times> string) list \<Rightarrow> string" where
  "debug_struct_finish_non_exhaustive name named =
     (if named = [] then name @ '' { .. }'' else name @ '' { '' @ debug_fields named @ '', .. }'')"

text \<open>
  \<open>Debug\<close> of a \<open>str\<close>: quotes, backslashes and control characters of ASCII are escaped. The
  strings shown here, verifying keys in hexadecimal, have none of them.
\<close>

definition hex_digit :: "nat \<Rightarrow> char" where
  "hex_digit d = (if d < 10 then char_of (48 + d) else char_of (87 + d))"

definition escape_debug :: "char \<Rightarrow> string" where
  "escape_debug c =
     (let n = of_char c :: nat in
      if n = 0 then [CHR 0x5C, CHR ''0'']
      else if n = 9 then [CHR 0x5C, CHR ''t'']
      else if n = 10 then [CHR 0x5C, CHR ''n'']
      else if n = 13 then [CHR 0x5C, CHR ''r'']
      else if n = 0x22 then [CHR 0x5C, CHR 0x22]
      else if n = 0x5C then [CHR 0x5C, CHR 0x5C]
      else if n < 16 then [CHR 0x5C, CHR ''u'', CHR 0x7B, hex_digit n, CHR 0x7D]
      else if n < 32 \<or> n = 127 then
        [CHR 0x5C, CHR ''u'', CHR 0x7B, hex_digit (n div 16), hex_digit (n mod 16), CHR 0x7D]
      else [c])"

definition debug_str :: "string \<Rightarrow> string" where
  "debug_str s = CHR 0x22 # concat (map escape_debug s) @ [CHR 0x22]"

section \<open>The implementations\<close>

definition debug_attestation_proof :: "(bytes \<Rightarrow> string) \<Rightarrow> AttestationProof \<Rightarrow> string" where
  "debug_attestation_proof debug_bytes p =
     debug_struct_finish ''AttestationProof''
       [(''output'', debug_bytes (proof_output p)), (''proof_bytes'', debug_bytes (proof_bytes p))]"

definition debug_direct_prover :: "('c, 'p) sp1_sdk \<Rightarrow> ('c, 'p) DirectProver \<Rightarrow> string" where
  "debug_direct_prover sdk self =
     debug_struct_finish_non_exhaustive ''DirectProver''
       [(''vkey'', debug_str (vkey sdk self)),
        (''trusted_certs_prefix_len'', show_nat (unat (trusted_certs_prefix_len self)))]"

text \<open>The client and the proving key show only through the verifying key.\<close>

lemma debug_direct_prover_cong:
  "vkey sdk p = vkey sdk q \<Longrightarrow> trusted_certs_prefix_len p = trusted_certs_prefix_len q \<Longrightarrow>
     debug_direct_prover sdk p = debug_direct_prover sdk q"
  by (simp add: debug_direct_prover_def)

end
