(* ===== verification/Test_Support.thy ===== *)
theory Test_Support
  imports Errors
begin

text \<open>
  The vocabulary of the repository's unit tests: a test is a computation that ends in \<open>Ok ()\<close> or
  panics, built from \<open>unwrap\<close>, \<open>unwrap_err\<close>, \<open>assert!\<close>, \<open>assert_eq!\<close> and \<open>str::contains\<close>.
\<close>

type_synonym test = "(unit, unit) outcome"

definition passes :: "test \<Rightarrow> bool" where
  "passes t \<longleftrightarrow> t = Ok ()"

definition unwrap :: "('e, 'a) outcome \<Rightarrow> ('f, 'a) outcome" where
  "unwrap r = expect_ok ''called `Result::unwrap()` on an `Err` value'' r"

primrec unwrap_err :: "('e, 'a) outcome \<Rightarrow> ('f, 'e) outcome" where
  "unwrap_err (Ok x) = Panic ''called `Result::unwrap_err()` on an `Ok` value''"
| "unwrap_err (Err e) = Ok e"
| "unwrap_err (Panic m) = Panic m"

text \<open>\<open>Result::is_ok\<close> and \<open>Result::is_err\<close> on a call that may itself panic.\<close>

primrec is_ok :: "('e, 'a) outcome \<Rightarrow> ('f, bool) outcome" where
  "is_ok (Ok x) = Ok True"
| "is_ok (Err e) = Ok False"
| "is_ok (Panic m) = Panic m"

definition is_err :: "('e, 'a) outcome \<Rightarrow> ('f, bool) outcome" where
  "is_err r = and_then (is_ok r) (\<lambda>b. Ok (\<not> b))"

definition assert_true :: "bool \<Rightarrow> test" where
  "assert_true c = assert_that c ''assertion failed''"

definition assert_eq :: "'a \<Rightarrow> 'a \<Rightarrow> test" where
  "assert_eq l r = assert_that (l = r) ''assertion `left == right` failed''"

fun contains :: "string \<Rightarrow> string \<Rightarrow> bool" where
  "contains [] sub \<longleftrightarrow> sub = []"
| "contains (c # s) sub \<longleftrightarrow> take (length sub) (c # s) = sub \<or> contains s sub"

text \<open>Statements of a test, in sequence.\<close>

fun run_all :: "test list \<Rightarrow> test" where
  "run_all [] = Ok ()"
| "run_all (t # ts) = and_then t (\<lambda>_. run_all ts)"

section \<open>Passing\<close>

lemma passes_Ok [simp]: "passes (Ok u)"
  by (simp add: passes_def)

lemma unwrap_simps [simp]: "unwrap (Ok x) = Ok x"
  by (simp add: unwrap_def)

lemma passes_assert_true [simp]: "passes (assert_true c) \<longleftrightarrow> c"
  by (simp add: passes_def assert_true_def outcome_iffs)

lemma passes_assert_eq [simp]: "passes (assert_eq l r) \<longleftrightarrow> l = r"
  by (simp add: passes_def assert_eq_def outcome_iffs)

lemma passes_run_all [simp]: "passes (run_all ts) \<longleftrightarrow> list_all passes ts"
  by (induction ts) (auto simp: passes_def outcome_iffs)

lemma passes_and_then [simp]:
  fixes t :: test
  shows "passes (and_then t f) \<longleftrightarrow> passes t \<and> passes (f ())"
  by (cases t) (simp_all add: passes_def)

lemma is_err_simps [simp]: "is_err (Ok x) = Ok False" "is_err (Err e) = Ok True"
  by (simp_all add: is_err_def)

lemma contains_Nil [simp]: "contains s []"
  by (cases s) simp_all

lemma take_appendD: "take n s = sub \<Longrightarrow> length sub = n \<Longrightarrow> take n (s @ t) = sub"
  by (metis append_Nil2 append_take_drop_id diff_is_0_eq' length_take min_def nat_le_linear
      take_0 take_append)

lemma contains_append_left: "contains s sub \<Longrightarrow> contains (s @ t) sub"
proof (induction s)
  case (Cons c s)
  then show ?case using take_appendD [of "length sub" "c # s" sub t] by auto
qed simp

lemma contains_append_right: "contains t sub \<Longrightarrow> contains (s @ t) sub"
  by (induction s) simp_all

lemma contains_self: "contains s s"
  by (cases s) simp_all

text \<open>A text with a literal in the middle contains it.\<close>

lemma contains_middle: "contains (s @ sub @ t) sub"
  by (intro contains_append_right contains_append_left contains_self)

end
