(* ===== verification/Content_Tests.thy ===== *)
theory Content_Tests
  imports Content Test_Support
begin

text \<open>
  The unit tests of the M-02 validation, verifier/src/verify.rs, each as the computation it is,
  and the theorem that the model passes all of them.
\<close>

section \<open>The tests\<close>

definition valid_doc :: AttestationDocument where
  "valid_doc =
     \<lparr>module_id = ''test-module'', timestamp = 1700000000000, digest = ''SHA384'',
      pcrs = btree_insert 0 (repeat_byte 1) btree_new,
      certificate = [0x30], cabundle = [[0x30]],
      public_key = None, user_data = None, nonce = None\<rparr>"

text \<open>The two shapes of assertion.\<close>

definition m02_accepts :: "AttestationDocument \<Rightarrow> test" where
  "m02_accepts doc = and_then (is_ok (validate_attestation_content doc)) assert_true"

definition m02_rejects :: "AttestationDocument \<Rightarrow> string \<Rightarrow> test" where
  "m02_rejects doc text =
     and_then (unwrap_err (validate_attestation_content doc))
       (\<lambda>err. assert_true (contains (display_verifier_error err) text))"

definition m02_valid_doc_passes :: test where
  "m02_valid_doc_passes = m02_accepts valid_doc"

definition m02_empty_module_id_rejected :: test where
  "m02_empty_module_id_rejected = m02_rejects (valid_doc\<lparr>module_id := []\<rparr>) ''module_id''"

definition m02_zero_timestamp_rejected :: test where
  "m02_zero_timestamp_rejected = m02_rejects (valid_doc\<lparr>timestamp := 0\<rparr>) ''timestamp''"

definition m02_wrong_digest_rejected :: test where
  "m02_wrong_digest_rejected = m02_rejects (valid_doc\<lparr>digest := ''SHA256''\<rparr>) ''SHA384''"

definition m02_empty_cabundle_rejected :: test where
  "m02_empty_cabundle_rejected = m02_rejects (valid_doc\<lparr>cabundle := []\<rparr>) ''cabundle''"

definition m02_empty_pcrs_rejected :: test where
  "m02_empty_pcrs_rejected = m02_rejects (valid_doc\<lparr>pcrs := btree_new\<rparr>) ''PCR count''"

definition m02_all_zero_pcrs_rejected :: test where
  "m02_all_zero_pcrs_rejected =
     (let m = btree_insert 0 (repeat_byte 0) (pcrs valid_doc);
          m = btree_insert 1 (repeat_byte 0) m
      in m02_rejects (valid_doc\<lparr>pcrs := m\<rparr>) ''debug mode'')"

definition m02_pcr_index_out_of_range_rejected :: test where
  "m02_pcr_index_out_of_range_rejected =
     m02_rejects (valid_doc\<lparr>pcrs := btree_insert 32 (repeat_byte 0) (pcrs valid_doc)\<rparr>) ''PCR index''"

definition m02_pcr_index_31_accepted :: test where
  "m02_pcr_index_31_accepted =
     m02_accepts (valid_doc\<lparr>pcrs := btree_insert 31 (repeat_byte 0) (pcrs valid_doc)\<rparr>)"

definition m02_public_key_empty_rejected :: test where
  "m02_public_key_empty_rejected = m02_rejects (valid_doc\<lparr>public_key := Some []\<rparr>) ''public_key''"

definition m02_public_key_too_large_rejected :: test where
  "m02_public_key_too_large_rejected =
     m02_rejects (valid_doc\<lparr>public_key := Some (replicate 1025 0)\<rparr>) ''public_key''"

definition m02_user_data_too_large_rejected :: test where
  "m02_user_data_too_large_rejected =
     m02_rejects (valid_doc\<lparr>user_data := Some (replicate 513 0)\<rparr>) ''user_data''"

definition m02_nonce_too_large_rejected :: test where
  "m02_nonce_too_large_rejected =
     m02_rejects (valid_doc\<lparr>nonce := Some (replicate 513 0)\<rparr>) ''nonce''"

definition m02_valid_optional_fields_accepted :: test where
  "m02_valid_optional_fields_accepted =
     m02_accepts (valid_doc
       \<lparr>public_key := Some (replicate 65 0x04), user_data := Some (replicate 512 0),
        nonce := Some (replicate 256 0)\<rparr>)"

definition m02_tests :: "test list" where
  "m02_tests =
     [m02_valid_doc_passes, m02_empty_module_id_rejected, m02_zero_timestamp_rejected,
      m02_wrong_digest_rejected, m02_empty_cabundle_rejected, m02_empty_pcrs_rejected,
      m02_all_zero_pcrs_rejected, m02_pcr_index_out_of_range_rejected, m02_pcr_index_31_accepted,
      m02_public_key_empty_rejected, m02_public_key_too_large_rejected,
      m02_user_data_too_large_rejected, m02_nonce_too_large_rejected,
      m02_valid_optional_fields_accepted]"

section \<open>They pass\<close>

lemma m02_accepts_iff: "passes (m02_accepts d) \<longleftrightarrow> doc_ok d"
  using no_panic_validate_attestation_content [of d] validate_attestation_content_Ok_iff [of d "()"]
  by (cases "validate_attestation_content d") (auto simp: m02_accepts_def)

lemma m02_rejectsI:
  "validate_attestation_content d = Err (ContentValidation m) \<Longrightarrow> contains m text \<Longrightarrow>
     passes (m02_rejects d text)"
  by (simp add: m02_rejects_def contains_append_right del: append.simps)

lemma valid_doc_fields [simp]:
  "module_id valid_doc = ''test-module''" "timestamp valid_doc = 1700000000000"
  "digest valid_doc = ''SHA384''" "cabundle valid_doc = [[0x30]]" "public_key valid_doc = None"
  "user_data valid_doc = None" "nonce valid_doc = None"
  "entries (pcrs valid_doc) = [(0, repeat_byte 1)]"
  by (simp_all add: valid_doc_def)

lemma check_pcrs_valid_doc [simp]: "check_pcrs (pcrs valid_doc) = Ok ()"
  by (simp add: outcome_iffs pcrs_ok_def)

lemma m02_accepted:
  "passes m02_valid_doc_passes" "passes m02_pcr_index_31_accepted"
  "passes m02_valid_optional_fields_accepted"
  unfolding m02_valid_doc_passes_def m02_pcr_index_31_accepted_def
    m02_valid_optional_fields_accepted_def m02_accepts_iff
  by (simp_all add: doc_ok_def pcrs_ok_def length_within_def)

lemma m02_early_checks:
  "passes m02_empty_module_id_rejected" "passes m02_zero_timestamp_rejected"
  "passes m02_wrong_digest_rejected" "passes m02_empty_cabundle_rejected"
  unfolding m02_empty_module_id_rejected_def m02_zero_timestamp_rejected_def
    m02_wrong_digest_rejected_def m02_empty_cabundle_rejected_def
  by (rule m02_rejectsI, simp add: validate_attestation_content_def, simp)+

lemma m02_pcr_checks:
  "passes m02_empty_pcrs_rejected" "passes m02_all_zero_pcrs_rejected"
  "passes m02_pcr_index_out_of_range_rejected"
  unfolding m02_empty_pcrs_rejected_def m02_all_zero_pcrs_rejected_def
    m02_pcr_index_out_of_range_rejected_def Let_def
  by (rule m02_rejectsI, simp add: validate_attestation_content_def check_pcrs_def btree_len_def
      btree_keys_def btree_values_def list_all_iff Let_def, simp)+

lemma m02_optional_checks:
  "passes m02_public_key_empty_rejected" "passes m02_public_key_too_large_rejected"
  "passes m02_user_data_too_large_rejected" "passes m02_nonce_too_large_rejected"
  unfolding m02_public_key_empty_rejected_def m02_public_key_too_large_rejected_def
    m02_user_data_too_large_rejected_def m02_nonce_too_large_rejected_def
  by (rule m02_rejectsI, simp add: validate_attestation_content_def check_optional_fields_def,
      simp)+

text \<open>
  The model passes every unit test of the M-02 validation in verifier/src/verify.rs: the
  valid document, the boundary values that are accepted (index 31, the largest optional
  fields), and eleven documents with one defect each, which are rejected with the text the
  test looks for.
\<close>

theorem m02_tests_pass: "list_all passes m02_tests"
  by (simp add: m02_tests_def m02_accepted m02_early_checks m02_pcr_checks m02_optional_checks)

end
