(* ===== verification/Cose_Tests.thy ===== *)
theory Cose_Tests
  imports Cose Test_Support
begin

text \<open>
  The unit tests of verifier/src/attestation.rs. They write CBOR values and parse the bytes, so
  they run on a codec; \<open>empty_map\<close> is \<open>CborValue::Map(vec![])\<close>, one of the variants that the
  model of CBOR values does not look into.
\<close>

section \<open>The tests\<close>

text \<open>\<open>into_writer(&value, &mut buf).unwrap()\<close> on an empty buffer.\<close>

definition write_value :: "'o ciborium \<Rightarrow> 'o CborValue \<Rightarrow> (unit, bytes) outcome" where
  "write_value c v = unwrap (map_err id (into_writer c v))"

definition assert_rejected :: "'o ciborium \<Rightarrow> bytes \<Rightarrow> test" where
  "assert_rejected c bs = and_then (is_err (from_bytes c bs)) assert_true"

definition cose_from_bytes_rejects_empty_input :: "'o ciborium \<Rightarrow> test" where
  "cose_from_bytes_rejects_empty_input c = assert_rejected c []"

definition cose_from_bytes_rejects_non_array :: "'o ciborium \<Rightarrow> test" where
  "cose_from_bytes_rejects_non_array c = assert_rejected c [0x18, 0x2a]"

definition cose_from_bytes_rejects_wrong_length_array :: "'o ciborium \<Rightarrow> test" where
  "cose_from_bytes_rejects_wrong_length_array c =
     and_then (write_value c (CborArray [CborBytes [], CborBytes [], CborBytes []]))
       (assert_rejected c)"

definition cose_from_bytes_parses_valid_4_element_array :: "'o ciborium \<Rightarrow> 'o \<Rightarrow> test" where
  "cose_from_bytes_parses_valid_4_element_array c empty_map =
     and_then (write_value c (CborArray [CborBytes [0x01], CborOther empty_map,
                                         CborBytes [0x02, 0x03], CborBytes [0x04]])) (\<lambda>buf.
     and_then (unwrap (from_bytes c buf)) (\<lambda>cose.
     run_all [assert_eq (protected cose) [0x01], assert_eq (payload cose) [0x02, 0x03],
              assert_eq (signature cose) [0x04]]))"

definition cose_from_bytes_handles_tag_18 :: "'o ciborium \<Rightarrow> 'o \<Rightarrow> test" where
  "cose_from_bytes_handles_tag_18 c empty_map =
     (let inner = CborArray [CborBytes [0x01], CborOther empty_map, CborBytes [0x02], CborBytes [0x03]]
      in and_then (write_value c (CborTag 18 inner)) (\<lambda>buf.
         and_then (unwrap (from_bytes c buf)) (\<lambda>cose.
         assert_eq (protected cose) [0x01])))"

definition cose_from_bytes_rejects_wrong_tag :: "'o ciborium \<Rightarrow> 'o \<Rightarrow> test" where
  "cose_from_bytes_rejects_wrong_tag c empty_map =
     (let inner = CborArray [CborBytes [], CborOther empty_map, CborBytes [], CborBytes []]
      in and_then (write_value c (CborTag 99 inner)) (assert_rejected c))"

definition sig_structure_produces_valid_cbor :: "'o ciborium \<Rightarrow> test" where
  "sig_structure_produces_valid_cbor c =
     (let cose = \<lparr>protected = [0xa1, 0x01, 0x38, 0x22], payload = [0x01, 0x02], signature = [0x03]\<rparr>
      in and_then (unwrap (sig_structure c cose)) (\<lambda>tbs.
         and_then (unwrap (map_err id (value_from_reader c tbs))) (\<lambda>decoded.
         case decoded of
           CborArray elems \<Rightarrow>
             and_then (assert_eq (length elems) 4) (\<lambda>_.
             and_then (index elems 0) (\<lambda>elem. assert_eq elem (CborText ''Signature1'')))
         | _ \<Rightarrow> Panic ''expected CBOR array'')))"

definition cose_tests :: "'o ciborium \<Rightarrow> 'o \<Rightarrow> test list" where
  "cose_tests c empty_map =
     [cose_from_bytes_rejects_empty_input c, cose_from_bytes_rejects_non_array c,
      cose_from_bytes_rejects_wrong_length_array c,
      cose_from_bytes_parses_valid_4_element_array c empty_map,
      cose_from_bytes_handles_tag_18 c empty_map, cose_from_bytes_rejects_wrong_tag c empty_map,
      sig_structure_produces_valid_cbor c]"

section \<open>They pass on a CBOR codec\<close>

text \<open>
  What the tests rely on: each of the five values they write is written and reads back; empty
  input is an error; and 0x182a is the integer 42, neither array nor tag.
\<close>

definition written_values :: "'o \<Rightarrow> 'o CborValue list" where
  "written_values empty_map =
     [CborArray [CborBytes [], CborBytes [], CborBytes []],
      CborArray [CborBytes [0x01], CborOther empty_map, CborBytes [0x02, 0x03], CborBytes [0x04]],
      CborTag 18 (CborArray [CborBytes [0x01], CborOther empty_map, CborBytes [0x02], CborBytes [0x03]]),
      CborTag 99 (CborArray [CborBytes [], CborOther empty_map, CborBytes [], CborBytes []]),
      CborArray [CborText ''Signature1'', CborBytes [0xa1, 0x01, 0x38, 0x22], CborBytes [],
                 CborBytes [0x01, 0x02]]]"

definition reads_back :: "'o ciborium \<Rightarrow> 'o CborValue \<Rightarrow> bool" where
  "reads_back c v \<longleftrightarrow>
     (case into_writer c v of Inl e \<Rightarrow> False | Inr bs \<Rightarrow> value_from_reader c bs = Inr v)"

definition cbor_codec :: "'o ciborium \<Rightarrow> 'o \<Rightarrow> bool" where
  "cbor_codec c empty_map \<longleftrightarrow>
     list_all (reads_back c) (written_values empty_map)
     \<and> (\<exists>e. value_from_reader c [] = Inl e)
     \<and> (\<exists>n. value_from_reader c [0x18, 0x2a] = Inr (CborOther n))"

lemma write_value_reads_back:
  assumes "cbor_codec c m" and "v \<in> set (written_values m)"
  obtains bs where "write_value c v = Ok bs" and "value_from_reader c bs = Inr v"
    and "into_writer c v = Inr bs"
proof -
  have "reads_back c v"
    using assms by (auto simp: cbor_codec_def list_all_iff)
  then show thesis
    using that by (auto simp: reads_back_def write_value_def split: sum.splits)
qed

lemma assert_rejected_value:
  "value_from_reader c bs = Inr v \<Longrightarrow> (\<exists>e. cose_from_value v = Err e) \<Longrightarrow> passes (assert_rejected c bs)"
  by (auto simp: assert_rejected_def from_bytes_def)

lemma cose_rejecting_tests:
  assumes "cbor_codec c m"
  shows "passes (cose_from_bytes_rejects_empty_input c)"
    and "passes (cose_from_bytes_rejects_non_array c)"
    and "passes (cose_from_bytes_rejects_wrong_length_array c)"
    and "passes (cose_from_bytes_rejects_wrong_tag c m)"
proof -
  note rejected = assert_rejected_value cose_from_value_def unwrap_tag18_def
  show "passes (cose_from_bytes_rejects_empty_input c)"
    using assms by (auto simp: cbor_codec_def cose_from_bytes_rejects_empty_input_def
        assert_rejected_def from_bytes_def)
  show "passes (cose_from_bytes_rejects_non_array c)"
    using assms by (auto simp: cbor_codec_def cose_from_bytes_rejects_non_array_def rejected)
  show "passes (cose_from_bytes_rejects_wrong_length_array c)"
    by (rule write_value_reads_back [OF assms, of "CborArray [CborBytes [], CborBytes [], CborBytes []]"])
      (auto simp: cose_from_bytes_rejects_wrong_length_array_def rejected written_values_def)
  show "passes (cose_from_bytes_rejects_wrong_tag c m)"
    by (rule write_value_reads_back [OF assms,
          of "CborTag 99 (CborArray [CborBytes [], CborOther m, CborBytes [], CborBytes []])"])
      (auto simp: written_values_def cose_from_bytes_rejects_wrong_tag_def rejected)
qed

lemma cose_accepting_tests:
  assumes "cbor_codec c m"
  shows "passes (cose_from_bytes_parses_valid_4_element_array c m)"
    and "passes (cose_from_bytes_handles_tag_18 c m)"
    and "passes (sig_structure_produces_valid_cbor c)"
proof -
  note parsed = from_bytes_def cose_from_value_def unwrap_tag18_def extract_bytes_def
  show "passes (cose_from_bytes_parses_valid_4_element_array c m)"
    by (rule write_value_reads_back [OF assms, of "CborArray [CborBytes [0x01], CborOther m,
            CborBytes [0x02, 0x03], CborBytes [0x04]]"])
      (auto simp: written_values_def cose_from_bytes_parses_valid_4_element_array_def parsed)
  show "passes (cose_from_bytes_handles_tag_18 c m)"
    by (rule write_value_reads_back [OF assms, of "CborTag 18 (CborArray [CborBytes [0x01],
            CborOther m, CborBytes [0x02], CborBytes [0x03]])"])
      (auto simp: written_values_def cose_from_bytes_handles_tag_18_def parsed)
  show "passes (sig_structure_produces_valid_cbor c)"
    by (rule write_value_reads_back [OF assms, of "CborArray [CborText ''Signature1'',
            CborBytes [0xa1, 0x01, 0x38, 0x22], CborBytes [], CborBytes [0x01, 0x02]]"])
      (auto simp: written_values_def sig_structure_produces_valid_cbor_def sig_structure_def sig_structure_value_def)
qed

text \<open>
  The model passes every unit test of verifier/src/attestation.rs, on every codec that
  reads back what the tests write: four malformed envelopes are rejected, the bare and the tagged
  envelope parse to the parts that were written, and the \<open>Sig_structure\<close> decodes to an array
  of four elements that starts with the context string.
\<close>

theorem cose_tests_pass: "cbor_codec c empty_map \<Longrightarrow> list_all passes (cose_tests c empty_map)"
  by (simp add: cose_tests_def cose_rejecting_tests cose_accepting_tests)

end
