(* ===== verification/Error_Tests.thy ===== *)
theory Error_Tests
  imports Test_Support
begin

text \<open>
  The unit tests of src/error.rs, and what \<open>str::contains\<close> decides.
\<close>

lemma contains_iff: "contains s sub \<longleftrightarrow> (\<exists>pre post. s = pre @ sub @ post)"
proof (induction s)
  case (Cons c s)
  have "take (length sub) (c # s) = sub \<longleftrightarrow> (\<exists>post. c # s = sub @ post)"
    by (metis append_eq_conv_conj append_take_drop_id)
  then show ?case
    using Cons.IH by (auto simp: Cons_eq_append_conv)
qed simp

section \<open>The tests\<close>

definition from_verifier_error :: test where
  "from_verifier_error =
     (let verifier_err = ContentValidation ''bad field'';
          prover_err = prover_error_from verifier_err
      in run_all [assert_true (is_Verifier prover_err),
                  assert_true (contains (display_prover_error prover_err) ''bad field'')])"

definition display_formatting :: "ProverError \<Rightarrow> string \<Rightarrow> test" where
  "display_formatting error expected = assert_eq (display_prover_error error) expected"

definition display_formatting_cases :: "test list" where
  "display_formatting_cases =
     [display_formatting (Verifier (Cbor ''decode failed''))
        ''verifier error: CBOR error: decode failed'',
      display_formatting (Sp1 ''segment fault'') ''sp1 error: segment fault'',
      display_formatting (Boundless ''timeout'') ''boundless error: timeout'',
      display_formatting (Config ''bad option'') ''config error: bad option'',
      display_formatting (ImageId ''not an ELF'') ''image ID error: not an ELF'']"

definition result_alias_defaults_to_prover_error :: test where
  "result_alias_defaults_to_prover_error =
     (let err = (Err (Sp1 ''fail'') :: u32 prover_result)
      in assert_true (case err of Err e \<Rightarrow> is_Sp1 e | _ \<Rightarrow> False))"

definition error_tests :: "test list" where
  "error_tests =
     from_verifier_error # display_formatting_cases @ [result_alias_defaults_to_prover_error]"

text \<open>
  The model passes every unit test of src/error.rs, and the \<open>Display\<close> text of any
  prover error that wraps a verifier error contains the verifier's whole text, as the first of
  these tests samples.
\<close>

theorem error_tests_pass:
  "list_all passes error_tests
   \<and> contains (display_prover_error (prover_error_from v)) (display_verifier_error v)"
proof -
  have "passes from_verifier_error"
    by (simp add: from_verifier_error_def prover_error_from_def)
  moreover have "list_all passes display_formatting_cases"
    by (simp add: display_formatting_cases_def display_formatting_def)
  moreover have "passes result_alias_defaults_to_prover_error"
    by (simp add: result_alias_defaults_to_prover_error_def)
  ultimately show ?thesis
    using contains_append_right [OF contains_self [of "display_verifier_error v"],
        of "''verifier error: ''"]
    by (simp add: error_tests_def prover_error_from_def del: contains.simps append.simps)
qed

end
