(* ===== verification/Provider_Tests.thy ===== *)
theory Provider_Tests
  imports Debug_Format Test_Support
begin

text \<open>
  The unit tests of src/types.rs on the trait's default methods, its boxed implementation and
  the proof type. The state of both test providers is the unit value.
\<close>

section \<open>The tests\<close>

definition SIGNER_A :: Address where
  "SIGNER_A = repeat_byte 0xAA"

definition SIGNER_B :: Address where
  "SIGNER_B = repeat_byte 0xBB"

definition ascii :: "string \<Rightarrow> bytes" where
  "ascii s = map (\<lambda>c. of_nat (of_char c)) s"

definition STUB_ATTESTATION :: bytes where
  "STUB_ATTESTATION = ascii ''attestation-data''"

definition proof_fields_accessible :: test where
  "proof_fields_accessible =
     (let journal = ascii ''journal-data''; seal = ascii ''seal-data'';
          pf = \<lparr>proof_output = journal, proof_bytes = seal\<rparr>
      in run_all [assert_eq (proof_output pf) journal, assert_eq (proof_bytes pf) seal])"

text \<open>\<open>clone\<close> of a value without interior mutability is the value.\<close>

definition proof_clone :: test where
  "proof_clone =
     (let pf = \<lparr>proof_output = ascii ''j'', proof_bytes = ascii ''s''\<rparr>; cloned = pf
      in run_all [assert_eq (proof_output pf) (proof_output cloned),
                  assert_eq (proof_bytes pf) (proof_bytes cloned)])"

definition proof_debug_format :: "(bytes \<Rightarrow> string) \<Rightarrow> test" where
  "proof_debug_format debug_bytes =
     (let pf = \<lparr>proof_output = [], proof_bytes = []\<rparr>;
          debug = debug_attestation_proof debug_bytes pf
      in assert_true (contains debug ''AttestationProof''))"

text \<open>\<open>provider.generate_proof_for_signer(STUB_ATTESTATION, signer, &cancel).await.unwrap()\<close>\<close>

definition prove_for ::
  "'s AttestationProofProvider \<Rightarrow> 's \<Rightarrow> Address \<Rightarrow> bool \<Rightarrow> (unit, AttestationProof) outcome" where
  "prove_for provider self signer_address cancelled =
     unwrap
       (fst (generate_proof_for_signer provider self STUB_ATTESTATION signer_address cancelled))"

definition default_generate_proof_for_signer_delegates_to_generate_proof :: "Address \<Rightarrow> test" where
  "default_generate_proof_for_signer_delegates_to_generate_proof signer_address =
     and_then (prove_for stub_provider () signer_address False) (\<lambda>pf.
     run_all [assert_eq (proof_output pf) STUB_ATTESTATION, assert_eq (proof_bytes pf) STUB_SEAL])"

definition boxed_provider_delegates_generate_proof_for_signer :: "Address \<Rightarrow> test" where
  "boxed_provider_delegates_generate_proof_for_signer signer_address =
     and_then (prove_for boxed (box_new stub_provider ()) signer_address False) (\<lambda>pf.
     run_all [assert_eq (proof_output pf) STUB_ATTESTATION, assert_eq (proof_bytes pf) STUB_SEAL])"

definition custom_override_is_called_instead_of_default :: test where
  "custom_override_is_called_instead_of_default =
     and_then (prove_for signer_aware_provider () SIGNER_A False) (\<lambda>pf.
     assert_eq (proof_output pf) (STUB_ATTESTATION @ as_slice SIGNER_A))"

definition boxed_custom_override_dispatches_correctly :: test where
  "boxed_custom_override_dispatches_correctly =
     and_then (prove_for boxed (box_new signer_aware_provider ()) SIGNER_B False) (\<lambda>pf.
     assert_eq (proof_output pf) (STUB_ATTESTATION @ as_slice SIGNER_B))"

definition cancelled_token_is_cooperative_not_mandatory :: test where
  "cancelled_token_is_cooperative_not_mandatory =
     and_then (prove_for stub_provider () SIGNER_A True) (\<lambda>pf.
     assert_eq (proof_output pf) STUB_ATTESTATION)"

definition provider_tests :: "(bytes \<Rightarrow> string) \<Rightarrow> test list" where
  "provider_tests debug_bytes =
     [proof_fields_accessible, proof_clone, proof_debug_format debug_bytes]
     @ map default_generate_proof_for_signer_delegates_to_generate_proof
         [SIGNER_A, SIGNER_B, repeat_byte 0]
     @ map boxed_provider_delegates_generate_proof_for_signer [SIGNER_A, repeat_byte 0]
     @ [custom_override_is_called_instead_of_default, boxed_custom_override_dispatches_correctly,
        cancelled_token_is_cooperative_not_mandatory]"

section \<open>They pass\<close>

lemma prove_for_stub:
  "prove_for stub_provider s a c = Ok \<lparr>proof_output = STUB_ATTESTATION, proof_bytes = STUB_SEAL\<rparr>"
  by (simp add: prove_for_def stub.for_signer)
    (simp add: stub_provider_def impl_with_defaults_def stub_generate_proof_def)

lemma prove_for_signer_aware:
  "prove_for signer_aware_provider s a c =
     Ok \<lparr>proof_output = STUB_ATTESTATION @ as_slice a, proof_bytes = STUB_SEAL\<rparr>"
  by (simp add: prove_for_def signer_aware_provider_def)

lemma prove_for_boxed: "prove_for boxed (box_new p s) a c = prove_for p s a c"
  by (simp add: prove_for_def boxed_def box_new_def split: prod.splits)

lemma debug_test: "passes (proof_debug_format debug_bytes)"
  by (simp add: proof_debug_format_def debug_attestation_proof_def debug_struct_finish_def)

text \<open>
  The model passes every unit test of src/types.rs, for every \<open>Debug\<close> of \<open>Bytes\<close>:
  default delegation for three signers, delegation and override through a box, and a provider
  that finishes its work although the token is cancelled.
\<close>

theorem provider_tests_pass: "list_all passes (provider_tests debug_bytes)"
  by (simp add: provider_tests_def proof_fields_accessible_def proof_clone_def debug_test
      default_generate_proof_for_signer_delegates_to_generate_proof_def
      boxed_provider_delegates_generate_proof_for_signer_def
      custom_override_is_called_instead_of_default_def
      boxed_custom_override_dispatches_correctly_def
      cancelled_token_is_cooperative_not_mandatory_def
      prove_for_boxed prove_for_stub prove_for_signer_aware Let_def)

end
