(* ===== verification/Nitro_Chain.thy ===== *)
theory Nitro_Chain
  imports Cert_Trust Test_Support
begin

text \<open>
  The real AWS Nitro certificate chain of the tests in verifier/src/x509.rs: the hexadecimal
  constants, the certificates they hold, field by field, and what the tests rely on in the
  third-party code: that the decoder and the parser find these certificates and that the four
  signatures of the chain, and the root's own, verify.
\<close>

section \<open>Hexadecimal\<close>

definition hex_val :: "char \<Rightarrow> byte" where
  "hex_val c =
     (let n = of_char c :: nat in
      of_nat (if n < 58 then n - 48 else if n < 97 then n - 55 else n - 87))"

text \<open>What a hex decoder returns for a string of an even number of hexadecimal digits.\<close>

fun hex_bytes :: "string \<Rightarrow> bytes" where
  "hex_bytes (a # b # s) = (16 * hex_val a + hex_val b) # hex_bytes s"
| "hex_bytes s = []"

definition slice_of :: "bytes \<Rightarrow> nat \<Rightarrow> nat \<Rightarrow> bytes" where
  "slice_of bs off len = take len (drop off bs)"

section \<open>The certificates\<close>

definition ROOT_HEX :: string where
  "ROOT_HEX =
     ''3082021130820196a003020102021100f93175681b90afe11d46ccb4e4e7f856300a06082a8648ce3d04'' @
     ''03033049310b3009060355040613025553310f300d060355040a0c06416d617a6f6e310c300a06035504'' @
     ''0b0c03415753311b301906035504030c126177732e6e6974726f2d656e636c61766573301e170d313931'' @
     ''3032383133323830355a170d3439313032383134323830355a3049310b3009060355040613025553310f'' @
     ''300d060355040a0c06416d617a6f6e310c300a060355040b0c03415753311b301906035504030c126177'' @
     ''732e6e6974726f2d656e636c617665733076301006072a8648ce3d020106052b8104002203620004fc02'' @
     ''54eba608c1f36870e29ada90be46383292736e894bfff672d989444b5051e534a4b1f6dbe3c0bc581a32'' @
     ''b7b176070ede12d69a3fea211b66e752cf7dd1dd095f6f1370f4170843d9dc100121e4cf630128096644'' @
     ''87c9796284304dc53ff4a3423040300f0603551d130101ff040530030101ff301d0603551d0e04160414'' @
     ''9025b50dd90547e796c396fa729dcf99a9df4b96300e0603551d0f0101ff040403020186300a06082a86'' @
     ''48ce3d0403030369003066023100a37f2f91a1c9bd5ee7b8627c1698d255038e1f0343f95b63a9628c3d'' @
     ''39809545a11ebcbf2e3b55d8aeee71b4c3d6adf3023100a2f39b1605b27028a5dd4ba069b5016e65b4fb'' @
     ''de8fe0061d6a53197f9cdaf5d943bc61fc2beb03cb6fee8d2302f3dff6''"

definition INTER1_HEX :: string where
  "INTER1_HEX =
     ''308202be30820244a003020102021056bfc987fd05ac99c475061b1a65eedc300a06082a8648ce3d0403'' @
     ''033049310b3009060355040613025553310f300d060355040a0c06416d617a6f6e310c300a060355040b'' @
     ''0c03415753311b301906035504030c126177732e6e6974726f2d656e636c61766573301e170d32343131'' @
     ''32383036303734355a170d3234313231383037303734355a3064310b3009060355040613025553310f30'' @
     ''0d060355040a0c06416d617a6f6e310c300a060355040b0c034157533136303406035504030c2d636264'' @
     ''383238303866646138623434642e75732d656173742d312e6177732e6e6974726f2d656e636c61766573'' @
     ''3076301006072a8648ce3d020106052b81040022036200040713751f4391a24bf27d688c9fdde4b7eec0'' @
     ''c4922af63f242186269602eca12354e79356170287baa07dd84fa89834726891f9b4b27032b3e86000d3'' @
     ''2471a79fbf1a30c1982ad4ed069ad96a7e11d9ae2b5cd6a93ad613ee559ed7f6385a9a89a381d53081d2'' @
     ''30120603551d130101ff040830060101ff020102301f0603551d230418301680149025b50dd90547e796'' @
     ''c396fa729dcf99a9df4b96301d0603551d0e04160414bfbd54a168f57f7391b66ca60a2836f30acfb9a1'' @
     ''300e0603551d0f0101ff040403020186306c0603551d1f046530633061a05fa05d865b687474703a2f2f'' @
     ''6177732d6e6974726f2d656e636c617665732d63726c2e73332e616d617a6f6e6177732e636f6d2f6372'' @
     ''6c2f61623439363063632d376436332d343262642d396539662d3539333338636236376638342e63726c'' @
     ''300a06082a8648ce3d0403030368003065023100c05dfd13378b1eecd926b0c3ba8da01eec89ec5502ae'' @
     ''7ca73cb958557ca323057962fff2681993a0ab223b6eacf11033023035664252d7f9e2c89c988cc4164d'' @
     ''390f898a5e8ac2e99dc58595aa4c624e93face7964026a99b4bcca7088b51250ccc4''"

definition INTER2_HEX :: string where
  "INTER2_HEX =
     ''308203163082029ba003020102021100cb286a4a4a09207f8b0c14950dcd6861300a06082a8648ce3d04'' @
     ''03033064310b3009060355040613025553310f300d060355040a0c06416d617a6f6e310c300a06035504'' @
     ''0b0c034157533136303406035504030c2d636264383238303866646138623434642e75732d656173742d'' @
     ''312e6177732e6e6974726f2d656e636c61766573301e170d3234313133303033313435345a170d323431'' @
     ''3230363031313435345a308189313c303a06035504030c33343762313739376131663031386266302e7a'' @
     ''6f6e616c2e75732d656173742d312e6177732e6e6974726f2d656e636c61766573310c300a060355040b'' @
     ''0c03415753310f300d060355040a0c06416d617a6f6e310b3009060355040613025553310b3009060355'' @
     ''04080c0257413110300e06035504070c0753656174746c653076301006072a8648ce3d020106052b8104'' @
     ''00220362000423959f700ef87dcbdba686449d944f2a89ad22aa03d73cf93d28853f2fb6a80b0cc714d3'' @
     ''090e34cda8234eef8f804e46c0dcb216062afba3e2b36a693660d9965e2370308b8e1ffad8542ddbe3e7'' @
     ''33077481b0cbc747d8c7beb7612820d4fe95a381ea3081e730120603551d130101ff040830060101ff02'' @
     ''0101301f0603551d23041830168014bfbd54a168f57f7391b66ca60a2836f30acfb9a1301d0603551d0e'' @
     ''04160414bbf52a3a42fdc4f301f72536b90e65aaa1b70a99300e0603551d0f0101ff0404030201863081'' @
     ''800603551d1f047930773075a073a071866f687474703a2f2f63726c2d75732d656173742d312d617773'' @
     ''2d6e6974726f2d656e636c617665732e73332e75732d656173742d312e616d617a6f6e6177732e636f6d'' @
     ''2f63726c2f30366434386638652d326330382d343738312d613634352d6231646534303261656662382e'' @
     ''63726c300a06082a8648ce3d0403030369003066023100fa31509230632a002939201eb5686b52d79f02'' @
     ''76db5c2b954bed324caa5c3271a60d25e2e05a5e6700e488a074af4ecd02310084770462c2ef86dcdb11'' @
     ''fa8a31dcf770866cbd28822b682a112b98c09a30e35e94affd3482bf8b01b59a0a7775b4af18''"

definition INTER3_HEX :: string where
  "INTER3_HEX =
     ''308202bf30820245a003020102021500c8925d382506d820d93d2c704a7523c4ba2ddfaa300a06082a86'' @
     ''48ce3d040303308189313c303a06035504030c33343762313739376131663031386266302e7a6f6e616c'' @
     ''2e75732d656173742d312e6177732e6e6974726f2d656e636c61766573310c300a060355040b0c034157'' @
     ''53310f300d060355040a0c06416d617a6f6e310b3009060355040613025553310b300906035504080c02'' @
     ''57413110300e06035504070c0753656174746c65301e170d3234313133303132343133315a170d323431'' @
     ''3230313132343133315a30818e310b30090603550406130255533113301106035504080c0a5761736869'' @
     ''6e67746f6e3110300e06035504070c0753656174746c65310f300d060355040a0c06416d617a6f6e310c'' @
     ''300a060355040b0c034157533139303706035504030c30692d3064653338623262363835336363396538'' @
     ''2e75732d656173742d312e6177732e6e6974726f2d656e636c617665733076301006072a8648ce3d0201'' @
     ''06052b8104002203620004466754b5718024df3564bcd722361e7c65a4922eda7b1f826758e30afac40b'' @
     ''04a281062897d085311fd509b70a6bbc5f8280f86ae2ff255ad147146fc97b7afb16064f0712d335c1d4'' @
     ''73b716be320be625e91c5870973084b3a0005bc020c7b2a366306430120603551d130101ff0408300601'' @
     ''01ff020100300e0603551d0f0101ff040403020204301d0603551d0e04160414345c86a9ec55bc30cafd'' @
     ''923d6b73111d9c57abc0301f0603551d23041830168014bbf52a3a42fdc4f301f72536b90e65aaa1b70a'' @
     ''99300a06082a8648ce3d0403030368003065023100aba82c02f40acb9846012bf070578217eeb2ebbfd1'' @
     ''6414948438cf67eeab6f64cdc5a152998766c88b2cdebd5a97ebd402307421611ed511567bc8e6a0a280'' @
     ''5b981ef38dc3bd6a6c661522802b5c5d658cc4fcc9b5e8df148b161d36692689673683''"

definition LEAF_HEX :: string where
  "LEAF_HEX =
     ''3082027c30820201a00302010202100193685e7fee7d8500000000674b3bd8300a06082a8648ce3d0403'' @
     ''0330818e310b30090603550406130255533113301106035504080c0a57617368696e67746f6e3110300e'' @
     ''06035504070c0753656174746c65310f300d060355040a0c06416d617a6f6e310c300a060355040b0c03'' @
     ''4157533139303706035504030c30692d30646533386232623638353363633965382e75732d656173742d'' @
     ''312e6177732e6e6974726f2d656e636c61766573301e170d3234313133303136323234355a170d323431'' @
     ''3133303139323234385a308193310b30090603550406130255533113301106035504080c0a5761736869'' @
     ''6e67746f6e3110300e06035504070c0753656174746c65310f300d060355040a0c06416d617a6f6e310c'' @
     ''300a060355040b0c03415753313e303c06035504030c35692d3064653338623262363835336363396538'' @
     ''2d656e63303139333638356537666565376438352e75732d656173742d312e6177733076301006072a86'' @
     ''48ce3d020106052b810400220362000461d930c61be969237398264901d6a37282cfd42c0694d012d914'' @
     ''3cc86a339d567913dae552bad2f10d47c50d4e670247f0344983cbdc2d2e0045d4ccbdff59ef7a26ebf1'' @
     ''be83a81e24a651c92008fe9f465757792a0877fba02c8b5e1eb2ed90a31d301b300c0603551d130101ff'' @
     ''04023000300b0603551d0f0404030206c0300a06082a8648ce3d0403030369003066023100e48f39a39b'' @
     ''444a6e5ea7a38b808198a2318dd531ed62faf4a9223f71f27dff4a5e495e32dd10f250bbaf1f892a4d32'' @
     ''8f023100d09fc8e48e233b9e972eecb94798865664dbeb0d75b29041f482777a4b7cae133483dcc9d355'' @
     ''09c4967be51db37a7454''"

text \<open>The DER bytes, and the certificates the parser finds in them.\<close>

definition root_der :: bytes where
  "root_der = hex_bytes ROOT_HEX"

definition root_cert :: "string X509Certificate" where
  "root_cert =
     \<lparr>issuer = ''C=US, O=Amazon, OU=AWS, CN=aws.nitro-enclaves'',
      subject = ''C=US, O=Amazon, OU=AWS, CN=aws.nitro-enclaves'',
      not_before = 1572269285, not_after = 2519044085,
      signature_algorithm = OID_SIG_ECDSA_WITH_SHA384,
      pk_algorithm = OID_KEY_TYPE_EC_PUBLIC_KEY, pk_parameters = Some (Inr OID_NIST_EC_P384),
      subject_public_key = slice_of root_der 249 97,
      basic_constraints = Inr (Some \<lparr>bc_ca = True, path_len_constraint = None\<rparr>),
      key_usage = Inr (Some \<lparr>digital_signature = True, key_cert_sign = True\<rparr>),
      signature_value = slice_of root_der 429 104,
      tbs_certificate = slice_of root_der 4 410\<rparr>"

definition inter1_der :: bytes where
  "inter1_der = hex_bytes INTER1_HEX"

definition inter1_cert :: "string X509Certificate" where
  "inter1_cert =
     \<lparr>issuer = ''C=US, O=Amazon, OU=AWS, CN=aws.nitro-enclaves'',
      subject = ''C=US, O=Amazon, OU=AWS, CN=cbd82808fda8b44d.us-east-1.aws.nitro-enclaves'',
      not_before = 1732774065, not_after = 1734505665,
      signature_algorithm = OID_SIG_ECDSA_WITH_SHA384,
      pk_algorithm = OID_KEY_TYPE_EC_PUBLIC_KEY, pk_parameters = Some (Inr OID_NIST_EC_P384),
      subject_public_key = slice_of inter1_der 275 97,
      basic_constraints = Inr (Some \<lparr>bc_ca = True, path_len_constraint = Some 2\<rparr>),
      key_usage = Inr (Some \<lparr>digital_signature = True, key_cert_sign = True\<rparr>),
      signature_value = slice_of inter1_der 603 103,
      tbs_certificate = slice_of inter1_der 4 584\<rparr>"

definition inter2_der :: bytes where
  "inter2_der = hex_bytes INTER2_HEX"

definition inter2_cert :: "string X509Certificate" where
  "inter2_cert =
     \<lparr>issuer = ''C=US, O=Amazon, OU=AWS, CN=cbd82808fda8b44d.us-east-1.aws.nitro-enclaves'',
      subject = ''CN=47b1797a1f018bf0.zonal.us-east-1.aws.nitro-enclaves, OU=AWS, O=Amazon, C=US, ST=WA, L=Seattle'',
      not_before = 1732936494, not_after = 1733447694,
      signature_algorithm = OID_SIG_ECDSA_WITH_SHA384,
      pk_algorithm = OID_KEY_TYPE_EC_PUBLIC_KEY, pk_parameters = Some (Inr OID_NIST_EC_P384),
      subject_public_key = slice_of inter2_der 341 97,
      basic_constraints = Inr (Some \<lparr>bc_ca = True, path_len_constraint = Some 1\<rparr>),
      key_usage = Inr (Some \<lparr>digital_signature = True, key_cert_sign = True\<rparr>),
      signature_value = slice_of inter2_der 690 104,
      tbs_certificate = slice_of inter2_der 4 671\<rparr>"

definition inter3_der :: bytes where
  "inter3_der = hex_bytes INTER3_HEX"

definition inter3_cert :: "string X509Certificate" where
  "inter3_cert =
     \<lparr>issuer = ''CN=47b1797a1f018bf0.zonal.us-east-1.aws.nitro-enclaves, OU=AWS, O=Amazon, C=US, ST=WA, L=Seattle'',
      subject = ''C=US, ST=Washington, L=Seattle, O=Amazon, OU=AWS, CN=i-0de38b2b6853cc9e8.us-east-1.aws.nitro-enclaves'',
      not_before = 1732970491, not_after = 1733056891,
      signature_algorithm = OID_SIG_ECDSA_WITH_SHA384,
      pk_algorithm = OID_KEY_TYPE_EC_PUBLIC_KEY, pk_parameters = Some (Inr OID_NIST_EC_P384),
      subject_public_key = slice_of inter3_der 388 97,
      basic_constraints = Inr (Some \<lparr>bc_ca = True, path_len_constraint = Some 0\<rparr>),
      key_usage = Inr (Some \<lparr>digital_signature = False, key_cert_sign = True\<rparr>),
      signature_value = slice_of inter3_der 604 103,
      tbs_certificate = slice_of inter3_der 4 585\<rparr>"

definition leaf_der :: bytes where
  "leaf_der = hex_bytes LEAF_HEX"

definition leaf_cert :: "string X509Certificate" where
  "leaf_cert =
     \<lparr>issuer = ''C=US, ST=Washington, L=Seattle, O=Amazon, OU=AWS, CN=i-0de38b2b6853cc9e8.us-east-1.aws.nitro-enclaves'',
      subject = ''C=US, ST=Washington, L=Seattle, O=Amazon, OU=AWS, CN=i-0de38b2b6853cc9e8-enc0193685e7fee7d85.us-east-1.aws'',
      not_before = 1732983765, not_after = 1732994568,
      signature_algorithm = OID_SIG_ECDSA_WITH_SHA384,
      pk_algorithm = OID_KEY_TYPE_EC_PUBLIC_KEY, pk_parameters = Some (Inr OID_NIST_EC_P384),
      subject_public_key = slice_of leaf_der 393 97,
      basic_constraints = Inr (Some \<lparr>bc_ca = False, path_len_constraint = None\<rparr>),
      key_usage = Inr (Some \<lparr>digital_signature = True, key_cert_sign = False\<rparr>),
      signature_value = slice_of leaf_der 536 104,
      tbs_certificate = slice_of leaf_der 4 517\<rparr>"

definition VALID_TIMESTAMP_MS :: u64 where
  "VALID_TIMESTAMP_MS = 0x000001937de1c543"

definition EXPECTED_EXPIRIES :: "u64 list" where
  "EXPECTED_EXPIRIES = [2519044085, 1734505665, 1733447694, 1733056891, 1732994568]"

text \<open>The fixtures: the decoded chain, and what parsing it gives.\<close>

definition nitro_ders :: "bytes list" where
  "nitro_ders = [root_der, inter1_der, inter2_der, inter3_der, leaf_der]"

definition nitro_certs :: "string X509Certificate list" where
  "nitro_certs = [root_cert, inter1_cert, inter2_cert, inter3_cert, leaf_cert]"

definition parsed_pair :: "bytes \<Rightarrow> string X509Certificate \<Rightarrow> string ParsedCert" where
  "parsed_pair der cert = \<lparr>pc_cert = cert, pc_der = der\<rparr>"

definition nitro_chain :: "string CertChain" where
  "nitro_chain = \<lparr>certs = map2 parsed_pair nitro_ders nitro_certs\<rparr>"

text \<open>Short names for the facts that a proof about one of these certificates needs.\<close>

lemmas nitro_cert_defs = root_cert_def inter1_cert_def inter2_cert_def inter3_cert_def leaf_cert_def

lemma hex_bytes_length: "length (hex_bytes s) = length s div 2"
  by (induction s rule: hex_bytes.induct) auto

lemma leaf_pk: "length (subject_public_key leaf_cert) = 97" "subject_public_key leaf_cert ! 0 = 4"
proof -
  have len: "length leaf_der = 640"
    by (simp add: leaf_der_def hex_bytes_length LEAF_HEX_def)
  then show "length (subject_public_key leaf_cert) = 97"
    by (simp add: leaf_cert_def slice_of_def)
  have "hex_bytes LEAF_HEX ! 393 = 4"
    by code_simp
  with len show "subject_public_key leaf_cert ! 0 = 4"
    by (simp add: leaf_cert_def slice_of_def leaf_der_def)
qed

section \<open>What is relied on\<close>

text \<open>The third-party code a test runs on.\<close>

record ('k, 's) x509_env =
  env_hex :: "string \<Rightarrow> string + bytes"
  env_x509 :: "string x509_from_der"
  env_p384 :: "('k, 's) p384"
  env_sha256 :: "bytes \<Rightarrow> B256"

definition nitro_signatures :: "('k, 's) p384 \<Rightarrow> bool" where
  "nitro_signatures ec \<longleftrightarrow>
     signs ec root_cert root_cert \<and> signs ec root_cert inter1_cert
     \<and> signs ec inter1_cert inter2_cert \<and> signs ec inter2_cert inter3_cert
     \<and> signs ec inter3_cert leaf_cert"

definition nitro_env :: "('k, 's) x509_env \<Rightarrow> bool" where
  "nitro_env env \<longleftrightarrow>
     list_all (\<lambda>h. env_hex env h = Inr (hex_bytes h))
       [ROOT_HEX, INTER1_HEX, INTER2_HEX, INTER3_HEX, LEAF_HEX]
     \<and> list_all2 (\<lambda>der cert. env_x509 env der = Inr ([], cert)) nitro_ders nitro_certs
     \<and> nitro_signatures (env_p384 env)"

section \<open>The chain is acceptable\<close>

lemma nitro_contents:
  "content_ok False root_cert" "content_ok False inter1_cert" "content_ok False inter2_cert"
  "content_ok False inter3_cert" "content_ok True leaf_cert"
  by (simp_all add: content_ok_def ca_certificate_def leaf_certificate_def p384_certificate_def
      nitro_cert_defs)

lemma nitro_valid:
  "list_all (\<lambda>c. valid_at c VALID_TIMESTAMP_MS) nitro_certs"
  by (simp add: nitro_certs_def valid_at_def VALID_TIMESTAMP_MS_def nitro_cert_defs)

lemma nitro_issuers:
  "issuer root_cert = subject root_cert" "issuer inter1_cert = subject root_cert"
  "issuer inter2_cert = subject inter1_cert" "issuer inter3_cert = subject inter2_cert"
  "issuer leaf_cert = subject inter3_cert"
  by (simp_all add: nitro_cert_defs)

lemma nitro_not_self_issued:
  "\<not> self_issued inter1_cert" "\<not> self_issued inter2_cert" "\<not> self_issued inter3_cert"
  "\<not> self_issued leaf_cert"
  by (simp_all add: self_issued_def nitro_cert_defs)

lemma nitro_not_after:
  "map not_after nitro_certs = EXPECTED_EXPIRIES" "list_all (\<lambda>c. 0 \<le> sint (not_after c)) nitro_certs"
  by (simp_all add: nitro_certs_def EXPECTED_EXPIRIES_def nitro_cert_defs)

lemma nitro_path_len:
  "path_len_ok 5 1 root_cert" "path_len_ok 5 2 inter1_cert" "path_len_ok 5 3 inter2_cert"
  "path_len_ok 5 4 inter3_cert"
  by (simp_all add: path_len_ok_def nitro_cert_defs)

lemma nitro_chain_certs:
  "certs nitro_chain = [parsed_pair root_der root_cert, parsed_pair inter1_der inter1_cert,
     parsed_pair inter2_der inter2_cert, parsed_pair inter3_der inter3_cert,
     parsed_pair leaf_der leaf_cert]"
  by (simp add: nitro_chain_def nitro_ders_def nitro_certs_def)

lemma parsed_pair_simps [simp]: "pc_cert (parsed_pair der c) = c" "pc_der (parsed_pair der c) = der"
  by (simp_all add: parsed_pair_def)

lemma nitro_chain_nth:
  "length (certs nitro_chain) = 5"
  "pc_cert (certs nitro_chain ! 0) = root_cert" "pc_cert (certs nitro_chain ! 1) = inter1_cert"
  "pc_cert (certs nitro_chain ! 2) = inter2_cert" "pc_cert (certs nitro_chain ! 3) = inter3_cert"
  "pc_cert (certs nitro_chain ! 4) = leaf_cert"
  by (simp_all add: nitro_chain_certs)

lemma nitro_chain_ders: "map pc_der (certs nitro_chain) = nitro_ders"
  by (simp add: nitro_chain_certs nitro_ders_def)

lemma nitro_expiries: "expiries (certs nitro_chain) = EXPECTED_EXPIRIES"
  using nitro_not_after(1) by (simp add: expiries_def nitro_chain_certs nitro_certs_def)

lemma nitro_basic_ok: "i < 5 \<Longrightarrow> basic_ok i (pc_cert (certs nitro_chain ! i))"
proof -
  assume "i < 5"
  then consider "i = 0" | "i = 1" | "i = 2" | "i = 3" | "i = 4" by arith
  then show ?thesis
    using nitro_not_after(2) nitro_not_self_issued
    by cases (simp_all add: basic_ok_def nitro_chain_certs nitro_certs_def)
qed

lemma nitro_issuance_ok:
  assumes "nitro_signatures ec" and "i < 5"
  shows "issuance_ok ec (certs nitro_chain) VALID_TIMESTAMP_MS i"
proof -
  note facts = nitro_chain_nth nitro_contents nitro_issuers nitro_path_len
  have valid: "valid_at root_cert VALID_TIMESTAMP_MS" "valid_at inter1_cert VALID_TIMESTAMP_MS"
    "valid_at inter2_cert VALID_TIMESTAMP_MS" "valid_at inter3_cert VALID_TIMESTAMP_MS"
    "valid_at leaf_cert VALID_TIMESTAMP_MS"
    using nitro_valid by (simp_all add: nitro_certs_def)
  from assms(2) consider "i = 0" | "i = 1" | "i = 2" | "i = 3" | "i = 4" by arith
  then show ?thesis
    using assms(1)
    by cases (use facts valid in \<open>simp_all add: issuance_ok_def signer_def nitro_signatures_def\<close>)
qed

lemma nitro_chain_ok: "nitro_signatures ec \<Longrightarrow> tp \<le> 5 \<Longrightarrow>
  chain_ok ec (certs nitro_chain) tp VALID_TIMESTAMP_MS"
  by (simp add: chain_ok_def cert_ok_def nitro_chain_nth(1) nitro_basic_ok nitro_issuance_ok)

end
