(* ===== verification/X509_Tests.thy ===== *)
theory X509_Tests
  imports Nitro_Chain
begin

text \<open>
  The unit tests of verifier/src/x509.rs, run on the real AWS Nitro chain of \<open>Nitro_Chain\<close>. Each
  test is a definition over the third-party code it runs on, and passes when that code reads the
  fixtures as it must.
\<close>

section \<open>Fixtures\<close>

definition full_chain_der :: "('k, 's) x509_env \<Rightarrow> (unit, bytes list) outcome" where
  "full_chain_der env =
     collect_enumerated (\<lambda>_ h. unwrap (map_err id (env_hex env h))) 0
       [ROOT_HEX, INTER1_HEX, INTER2_HEX, INTER3_HEX, LEAF_HEX]"

definition root_der_fixture :: "('k, 's) x509_env \<Rightarrow> (unit, bytes) outcome" where
  "root_der_fixture env = unwrap (map_err id (env_hex env ROOT_HEX))"

text \<open>\<open>CertChain::from_der\<close> and \<open>verify_chain\<close> on the test's environment.\<close>

definition test_from_der :: "('k, 's) x509_env \<Rightarrow> bytes list \<Rightarrow> string CertChain verifier_result" where
  "test_from_der env ders = chain_from_der (env_x509 env) ders"

definition test_verify ::
  "('k, 's) x509_env \<Rightarrow> string CertChain \<Rightarrow> nat \<Rightarrow> u64 \<Rightarrow> (B256 list \<times> u64 list) verifier_result" where
  "test_verify env chain tp ts = verify_chain (env_sha256 env) (env_p384 env) chain tp ts"

text \<open>
  How most tests begin: the fixture, the references picked from it by index, and
  \<open>CertChain::from_der(&refs).unwrap()\<close>.
\<close>

definition with_refs ::
  "('k, 's) x509_env \<Rightarrow> nat list \<Rightarrow> (string CertChain \<Rightarrow> test) \<Rightarrow> test" where
  "with_refs env picks body =
     and_then (full_chain_der env) (\<lambda>ders.
     and_then (collect_enumerated (\<lambda>_. index ders) 0 picks) (\<lambda>refs.
     and_then (unwrap (test_from_der env refs)) body))"

definition with_full_chain :: "('k, 's) x509_env \<Rightarrow> (string CertChain \<Rightarrow> test) \<Rightarrow> test" where
  "with_full_chain env body =
     and_then (full_chain_der env) (\<lambda>ders. and_then (unwrap (test_from_der env ders)) body)"

definition with_root :: "('k, 's) x509_env \<Rightarrow> (bytes \<Rightarrow> string CertChain \<Rightarrow> test) \<Rightarrow> test" where
  "with_root env body =
     and_then (root_der_fixture env) (\<lambda>root.
     and_then (unwrap (test_from_der env [root])) (body root))"

definition assert_error_contains ::
  "string list \<Rightarrow> 'a verifier_result \<Rightarrow> test" where
  "assert_error_contains subs r =
     and_then (unwrap_err r) (\<lambda>err.
     assert_true (list_ex (contains (display_verifier_error err)) subs))"

section \<open>Happy path\<close>

definition root_ca_self_signed_verifies :: "('k, 's) x509_env \<Rightarrow> test" where
  "root_ca_self_signed_verifies env =
     with_root env (\<lambda>root chain.
     and_then (unwrap (test_verify env chain 0 1700000000000)) (\<lambda>(ds, es).
     run_all
       [assert_eq (length ds) 1, assert_eq (length es) 1,
        and_then (index ds 0) (\<lambda>d. assert_eq d (env_sha256 env root)),
        and_then (index es 0) (\<lambda>e. and_then (index EXPECTED_EXPIRIES 0) (assert_eq e))]))"

definition full_chain_verifies_all_untrusted :: "('k, 's) x509_env \<Rightarrow> test" where
  "full_chain_verifies_all_untrusted env =
     with_full_chain env (\<lambda>chain.
     and_then (unwrap (test_verify env chain 0 VALID_TIMESTAMP_MS)) (\<lambda>(ds, es).
     run_all [assert_eq (length ds) 5, assert_eq (length es) 5]))"

definition full_chain_with_trusted_prefix :: "('k, 's) x509_env \<Rightarrow> nat \<Rightarrow> test" where
  "full_chain_with_trusted_prefix env prefix_len =
     with_full_chain env (\<lambda>chain.
     and_then (unwrap (test_verify env chain prefix_len VALID_TIMESTAMP_MS)) (\<lambda>(ds, es).
     run_all
       [assert_eq (length ds) 5, assert_eq (length es) 5,
        run_all (map (\<lambda>i. and_then (index es i) (\<lambda>expiry.
                         and_then (index es (i - 1)) (\<lambda>parent_expiry.
                         assert_true (expiry \<le> parent_expiry))))
                   [1..<length es])]))"

definition duplicate_root_rejected :: "('k, 's) x509_env \<Rightarrow> nat \<Rightarrow> test" where
  "duplicate_root_rejected env trusted_prefix_len =
     with_refs env [0, 0, 1, 2, 3, 4] (\<lambda>chain.
     assert_error_contains [''self-issued'']
       (test_verify env chain trusted_prefix_len VALID_TIMESTAMP_MS))"

definition digests_are_accumulated_path_hashes :: "('k, 's) x509_env \<Rightarrow> test" where
  "digests_are_accumulated_path_hashes env =
     and_then (full_chain_der env) (\<lambda>ders.
     and_then (unwrap (test_from_der env ders)) (\<lambda>chain.
     and_then (unwrap (test_verify env chain 5 0)) (\<lambda>(ds, _).
     and_then (index ders 0) (\<lambda>root.
     let root_hash = env_sha256 env root in
     and_then (and_then (index ds 0) (\<lambda>d. assert_eq d root_hash)) (\<lambda>_.
     and_then (index ders 1) (\<lambda>inter1.
     let inter1_hash = env_sha256 env inter1;
         expected = env_sha256 env (as_slice root_hash @ as_slice inter1_hash)
     in and_then (index ds 1) (\<lambda>d. assert_eq d expected)))))))"

definition leaf_public_key_is_extractable :: "('k, 's) x509_env \<Rightarrow> test" where
  "leaf_public_key_is_extractable env =
     with_full_chain env (\<lambda>chain.
     and_then (unwrap (leaf_public_key chain)) (\<lambda>key.
     run_all [assert_eq (length key) 97, and_then (index key 0) (\<lambda>b. assert_eq b 0x04)]))"

section \<open>Parsing errors\<close>

definition empty_chain_rejected :: "('k, 's) x509_env \<Rightarrow> test" where
  "empty_chain_rejected env = and_then (is_err (test_from_der env [])) assert_true"

definition invalid_der_rejected :: "('k, 's) x509_env \<Rightarrow> test" where
  "invalid_der_rejected env =
     (let garbage = [0xDE, 0xAD, 0xBE, 0xEF] in
      and_then (is_err (test_from_der env [garbage])) assert_true)"

text \<open>The bytes of \<open>b"chain-4256-trailing-der"\<close>.\<close>

definition trailing_der :: bytes where
  "trailing_der = map (\<lambda>c. of_nat (of_char c)) ''chain-4256-trailing-der''"

definition trailing_der_certificate_alias_rejected :: "('k, 's) x509_env \<Rightarrow> test" where
  "trailing_der_certificate_alias_rejected env =
     and_then (full_chain_der env) (\<lambda>ders.
     and_then (unwrap (test_from_der env ders)) (\<lambda>_.
     and_then (index ders 1) (\<lambda>inter1.
     let aliased = ders[1 := inter1 @ trailing_der] in
     and_then (unwrap_err (test_from_der env aliased)) (\<lambda>err.
     let msg = display_verifier_error err in
     run_all [assert_true (contains msg ''certificate 1''),
              assert_true (contains msg ''trailing DER data'')]))))"

section \<open>Trusted prefix boundaries\<close>

definition trusted_prefix_skips_validation :: "('k, 's) x509_env \<Rightarrow> test" where
  "trusted_prefix_skips_validation env =
     with_root env (\<lambda>_ chain.
     and_then (unwrap (test_verify env chain 1 0)) (\<lambda>(ds, es).
     run_all [assert_eq (length ds) 1, assert_eq (length es) 1]))"

definition trusted_prefix_exceeding_chain_length_fails :: "('k, 's) x509_env \<Rightarrow> test" where
  "trusted_prefix_exceeding_chain_length_fails env =
     with_root env (\<lambda>_ chain. and_then (is_err (test_verify env chain 5 0)) assert_true)"

section \<open>M-01: validity, ordering, tampering\<close>

definition expired_cert_rejected :: "('k, 's) x509_env \<Rightarrow> test" where
  "expired_cert_rejected env =
     with_full_chain env (\<lambda>chain.
     let far_future_ms = 2000000000000 in
     assert_error_contains [''expired''] (test_verify env chain 0 far_future_ms))"

definition not_yet_valid_cert_rejected :: "('k, 's) x509_env \<Rightarrow> test" where
  "not_yet_valid_cert_rejected env =
     with_full_chain env (\<lambda>chain.
     let far_past_ms = 1000000000000 in
     assert_error_contains [''not yet valid''] (test_verify env chain 1 far_past_ms))"

definition wrong_chain_order_rejected :: "('k, 's) x509_env \<Rightarrow> test" where
  "wrong_chain_order_rejected env =
     with_refs env [0, 2, 1, 3, 4] (\<lambda>chain.
     assert_error_contains [''issuer'', ''signature''] (test_verify env chain 0 VALID_TIMESTAMP_MS))"

text \<open>\<open>v[mid] ^= 0xFF\<close>\<close>

definition flip_middle :: "bytes \<Rightarrow> (unit, bytes) outcome" where
  "flip_middle v =
     (let mid = length v div 2 in
      and_then (index v mid) (\<lambda>b. Ok (v[mid := xor b 0xFF])))"

definition tampered_cert_signature_fails :: "('k, 's) x509_env \<Rightarrow> test" where
  "tampered_cert_signature_fails env =
     and_then (full_chain_der env) (\<lambda>ders.
     and_then (and_then (index ders 1) flip_middle) (\<lambda>inter1.
     case test_from_der env (ders[1 := inter1]) of
       Ok chain \<Rightarrow> and_then (is_err (test_verify env chain 0 VALID_TIMESTAMP_MS)) assert_true
     | Err _ \<Rightarrow> Ok ()
     | Panic m \<Rightarrow> Panic m))"

section \<open>Expiries\<close>

definition expiries_match_known_cert_validity :: "('k, 's) x509_env \<Rightarrow> test" where
  "expiries_match_known_cert_validity env =
     with_full_chain env (\<lambda>chain.
     and_then (unwrap (test_verify env chain 5 0)) (\<lambda>(_, es).
     run_all
       [assert_eq (length es) (length EXPECTED_EXPIRIES),
        run_all (map (\<lambda>(actual, expected). assert_eq actual expected) (zip es EXPECTED_EXPIRIES))]))"

definition expiries_returned_even_for_trusted_prefix :: "('k, 's) x509_env \<Rightarrow> test" where
  "expiries_returned_even_for_trusted_prefix env =
     with_full_chain env (\<lambda>chain.
     and_then (unwrap (test_verify env chain 4 VALID_TIMESTAMP_MS)) (\<lambda>(_, expiries_prefix4).
     and_then (unwrap (test_verify env chain 5 0)) (\<lambda>(_, expiries_all).
     assert_eq expiries_prefix4 expiries_all)))"

definition expiries_length_matches_digests_length :: "('k, 's) x509_env \<Rightarrow> test" where
  "expiries_length_matches_digests_length env =
     with_full_chain env (\<lambda>chain.
     and_then (unwrap (test_verify env chain 0 VALID_TIMESTAMP_MS)) (\<lambda>(ds, es).
     assert_eq (length ds) (length es)))"

definition x509_tests :: "('k, 's) x509_env \<Rightarrow> test list" where
  "x509_tests env =
     [root_ca_self_signed_verifies env, full_chain_verifies_all_untrusted env]
     @ map (full_chain_with_trusted_prefix env) [1, 2, 3, 4, 5]
     @ map (duplicate_root_rejected env) [1, 2]
     @ [digests_are_accumulated_path_hashes env, leaf_public_key_is_extractable env,
        empty_chain_rejected env, invalid_der_rejected env,
        trailing_der_certificate_alias_rejected env, trusted_prefix_skips_validation env,
        trusted_prefix_exceeding_chain_length_fails env, expired_cert_rejected env,
        not_yet_valid_cert_rejected env, wrong_chain_order_rejected env,
        tampered_cert_signature_fails env, expiries_match_known_cert_validity env,
        expiries_returned_even_for_trusted_prefix env, expiries_length_matches_digests_length env]"

section \<open>What the fixtures promise\<close>

text \<open>
  Beside the real chain: four bytes of garbage are not a certificate, the parser leaves bytes
  after a certificate unread, and whatever it makes of the tampered certificate is not signed
  by the root.
\<close>

definition x509_tests_env :: "('k, 's) x509_env \<Rightarrow> bool" where
  "x509_tests_env env \<longleftrightarrow>
     nitro_env env
     \<and> (\<exists>e. env_x509 env [0xDE, 0xAD, 0xBE, 0xEF] = Inl e)
     \<and> env_x509 env (inter1_der @ trailing_der) = Inr (trailing_der, inter1_cert)
     \<and> (\<forall>bs rest c. flip_middle inter1_der = Ok bs \<longrightarrow> env_x509 env bs = Inr (rest, c) \<longrightarrow>
          \<not> signs (env_p384 env) root_cert c)"

lemma nitro_parses:
  assumes "nitro_env env"
  shows "env_x509 env root_der = Inr ([], root_cert)"
    "env_x509 env inter1_der = Inr ([], inter1_cert)"
    "env_x509 env inter2_der = Inr ([], inter2_cert)"
    "env_x509 env inter3_der = Inr ([], inter3_cert)"
    "env_x509 env leaf_der = Inr ([], leaf_cert)"
  using assms by (simp_all add: nitro_env_def nitro_ders_def nitro_certs_def)

lemma nitro_fixtures:
  assumes "nitro_env env"
  shows "full_chain_der env = Ok nitro_ders" "root_der_fixture env = Ok root_der"
  using assms
  by (simp_all add: nitro_env_def full_chain_der_def root_der_fixture_def nitro_ders_def
      root_der_def inter1_der_def inter2_der_def inter3_der_def leaf_der_def)

text \<open>The chain that parsing a list of the five certificates gives.\<close>

lemma from_der_chain:
  assumes "nitro_env env"
    and "list_all (\<lambda>p. p \<in> set (certs nitro_chain)) ps" and "ps \<noteq> []"
  shows "test_from_der env (map pc_der ps) = Ok \<lparr>certs = ps\<rparr>"
  using assms(2,3) nitro_parses [OF assms(1)]
  by (auto simp: test_from_der_def chain_from_der_Ok_iff parses_to_def list_all_iff
      nitro_chain_certs)

lemma from_der_full: "nitro_env env \<Longrightarrow> test_from_der env nitro_ders = Ok nitro_chain"
proof -
  have "certs nitro_chain \<noteq> []" by (simp add: nitro_chain_certs)
  then show "nitro_env env \<Longrightarrow> ?thesis"
    using from_der_chain [of env "certs nitro_chain"]
    by (simp add: list_all_iff nitro_chain_ders)
qed

lemma with_full_chain_eq: "nitro_env env \<Longrightarrow> with_full_chain env body = body nitro_chain"
  by (simp add: with_full_chain_def nitro_fixtures from_der_full)

definition root_chain :: "string CertChain" where
  "root_chain = \<lparr>certs = [parsed_pair root_der root_cert]\<rparr>"

lemma with_root_eq: "nitro_env env \<Longrightarrow> with_root env body = body root_der root_chain"
  using from_der_chain [of env "[parsed_pair root_der root_cert]"]
  by (simp add: with_root_def nitro_fixtures nitro_chain_certs root_chain_def)

text \<open>The chain of the certificates with these indices.\<close>

definition picked :: "nat list \<Rightarrow> string CertChain" where
  "picked picks = \<lparr>certs = map (\<lambda>i. certs nitro_chain ! i) picks\<rparr>"

lemma with_refs_eq:
  assumes "nitro_env env" and "picks \<noteq> []" and "list_all (\<lambda>i. i < 5) picks"
  shows "with_refs env picks body = body (picked picks)"
proof -
  have der: "index nitro_ders i = (Ok (pc_der (certs nitro_chain ! i)) :: (unit, bytes) outcome)"
    if "i < 5" for i
    using that by (simp add: nitro_chain_ders [symmetric] nitro_chain_nth(1))
  have "collect_enumerated (\<lambda>_. index nitro_ders) 0 picks =
      (Ok (map pc_der (certs (picked picks))) :: (unit, bytes list) outcome)"
    using assms(3) der
    by (simp add: collect_enumerated_Ok_iff list_all_length picked_def)
  moreover have "test_from_der env (map pc_der (certs (picked picks))) = Ok (picked picks)"
    using from_der_chain [OF assms(1), of "certs (picked picks)"] assms(2,3)
    by (simp add: picked_def list_all_iff nitro_chain_nth(1))
  ultimately show ?thesis
    by (simp add: with_refs_def nitro_fixtures [OF assms(1)])
qed

section \<open>Accepting tests\<close>

abbreviation nitro_digests :: "('k, 's) x509_env \<Rightarrow> B256 list" where
  "nitro_digests env \<equiv> compute_path_digests (env_sha256 env) nitro_ders"

lemma verify_nitro:
  assumes "nitro_env env" and "tp \<le> 5"
  shows "test_verify env nitro_chain tp VALID_TIMESTAMP_MS = Ok (nitro_digests env, EXPECTED_EXPIRIES)"
  using assms nitro_chain_ok [of "env_p384 env" tp]
  by (simp add: test_verify_def verify_chain_Ok_iff nitro_chain_ders nitro_expiries nitro_env_def)

lemma verify_nitro_trusted:
  "test_verify env nitro_chain 5 ts = Ok (nitro_digests env, EXPECTED_EXPIRIES)"
  by (simp add: test_verify_def verify_chain_Ok_iff nitro_chain_ders nitro_expiries chain_ok_def
      cert_ok_def nitro_basic_ok nitro_chain_nth(1))

lemma root_basic_ok: "basic_ok 0 root_cert"
  using nitro_basic_ok [of 0] by (simp add: nitro_chain_nth)

lemma verify_root:
  assumes "nitro_env env"
  shows "test_verify env root_chain 0 1700000000000 = Ok ([env_sha256 env root_der], [2519044085])"
    and "test_verify env root_chain 1 0 = Ok ([env_sha256 env root_der], [2519044085])"
proof -
  have "valid_at root_cert 1700000000000"
    by (simp add: valid_at_def nitro_cert_defs)
  moreover have "signs (env_p384 env) root_cert root_cert"
    using assms by (simp add: nitro_env_def nitro_signatures_def)
  moreover have "not_after root_cert = 2519044085"
    by (simp add: nitro_cert_defs)
  ultimately show "test_verify env root_chain 0 1700000000000 =
      Ok ([env_sha256 env root_der], [2519044085])"
    "test_verify env root_chain 1 0 = Ok ([env_sha256 env root_der], [2519044085])"
    using root_basic_ok nitro_contents(1)
    by (simp_all add: test_verify_def verify_chain_Ok_iff root_chain_def chain_ok_def cert_ok_def
        issuance_ok_def signer_def expiries_def)
qed

lemma length_digests: "length nitro_ders = 5" "length EXPECTED_EXPIRIES = 5"
  by (simp_all add: nitro_ders_def EXPECTED_EXPIRIES_def)

lemma root_tests:
  assumes "nitro_env env"
  shows "passes (root_ca_self_signed_verifies env)" "passes (trusted_prefix_skips_validation env)"
  using verify_root [OF assms]
  by (simp_all add: root_ca_self_signed_verifies_def trusted_prefix_skips_validation_def
      with_root_eq [OF assms] EXPECTED_EXPIRIES_def)

lemma full_chain_tests:
  assumes "nitro_env env"
  shows "passes (full_chain_verifies_all_untrusted env)"
    "passes (expiries_match_known_cert_validity env)"
    "passes (expiries_returned_even_for_trusted_prefix env)"
    "passes (expiries_length_matches_digests_length env)"
  using verify_nitro [OF assms, of 0] verify_nitro [OF assms, of 4] verify_nitro_trusted [of env 0]
  by (simp_all add: full_chain_verifies_all_untrusted_def expiries_match_known_cert_validity_def
      expiries_returned_even_for_trusted_prefix_def expiries_length_matches_digests_length_def
      with_full_chain_eq [OF assms] length_digests list_all_iff zip_same_conv_map)

lemma trusted_prefix_test:
  "nitro_env env \<Longrightarrow> tp \<le> 5 \<Longrightarrow> passes (full_chain_with_trusted_prefix env tp)"
  by (simp add: full_chain_with_trusted_prefix_def with_full_chain_eq verify_nitro length_digests)
    (simp add: EXPECTED_EXPIRIES_def upt_rec)

lemma digests_test: "nitro_env env \<Longrightarrow> passes (digests_are_accumulated_path_hashes env)"
  by (simp add: digests_are_accumulated_path_hashes_def nitro_fixtures from_der_full
      verify_nitro_trusted) (simp add: nitro_ders_def link_def Let_def)

lemma leaf_key_test: "nitro_env env \<Longrightarrow> passes (leaf_public_key_is_extractable env)"
proof -
  have "leaf_public_key nitro_chain = Ok (subject_public_key leaf_cert)"
    by (simp add: leaf_public_key_Ok_iff nitro_chain_certs)
  then show "nitro_env env \<Longrightarrow> ?thesis"
    by (simp add: leaf_public_key_is_extractable_def with_full_chain_eq leaf_pk)
qed

section \<open>Rejecting tests\<close>

lemma parsing_tests:
  assumes "x509_tests_env env"
  shows "passes (empty_chain_rejected env)" "passes (invalid_der_rejected env)"
  using assms
  by (auto simp: x509_tests_env_def empty_chain_rejected_def invalid_der_rejected_def
      test_from_der_def chain_from_der_def parse_cert_def)

lemma trailing_der_test:
  assumes "x509_tests_env env"
  shows "passes (trailing_der_certificate_alias_rejected env)"
proof -
  have env: "nitro_env env"
    and trailing: "env_x509 env (inter1_der @ trailing_der) = Inr (trailing_der, inter1_cert)"
    using assms by (simp_all add: x509_tests_env_def)
  define reason where "reason = ''trailing DER data ('' @ show_nat (length trailing_der) @ '' bytes)''"
  have "parse_cert (env_x509 env) 0 root_der = Ok (parsed_pair root_der root_cert)"
    using nitro_parses [OF env] by (simp add: parse_cert_Ok_iff)
  moreover have "parse_cert (env_x509 env) 1 (inter1_der @ trailing_der) =
      Err (X509Parse (cert_msg 1 reason))"
    using trailing by (simp add: parse_cert_def reason_def trailing_der_def)
  ultimately have "test_from_der env (nitro_ders[1 := inter1_der @ trailing_der]) =
      Err (X509Parse (cert_msg 1 reason))"
    by (simp add: test_from_der_def chain_from_der_def nitro_ders_def)
  moreover have "contains (display_verifier_error (X509Parse (cert_msg 1 reason))) ''certificate 1''"
    by (simp add: cert_msg_def show_nat.simps digit_def char_of_def bit_0)
  moreover have "contains (display_verifier_error (X509Parse (cert_msg 1 reason)))
      ''trailing DER data''"
    using contains_middle [of "''x509 parse error: certificate '' @ show_nat 1 @ '': ''"
        "''trailing DER data''" "'' ('' @ show_nat (length trailing_der) @ '' bytes)''"]
    by (simp add: cert_msg_def reason_def)
  ultimately show ?thesis
    using env
    by (simp add: trailing_der_certificate_alias_rejected_def nitro_fixtures from_der_full)
      (simp add: nitro_ders_def Let_def)
qed

text \<open>A test of a rejection: certificate \<open>i\<close> gives the error, those before it pass.\<close>

lemma error_test:
  assumes "tp \<le> length (certs chain)" and "i < length (certs chain)"
    and "verify_cert (env_p384 env) (certs chain) tp ts i (certs chain ! i) =
           Err (CertificateVerification (pre @ sub @ suf))"
    and "\<forall>j < i. cert_ok (env_p384 env) (certs chain) tp ts j" and "sub \<in> set subs"
  shows "passes (assert_error_contains subs (test_verify env chain tp ts))"
proof -
  have "test_verify env chain tp ts = Err (CertificateVerification (pre @ sub @ suf))"
    unfolding test_verify_def using assms by (intro verify_chain_Err_iff [THEN iffD2]) auto
  moreover have "contains (display_verifier_error (CertificateVerification (pre @ sub @ suf))) sub"
    using contains_middle [of "''certificate verification error: '' @ pre" sub suf] by simp
  ultimately show ?thesis
    using assms(5) by (auto simp: assert_error_contains_def list_ex_iff)
qed

lemma root_cert_ok:
  assumes "nitro_env env" and "certs chain = parsed_pair root_der root_cert # p # ps"
    and "valid_at root_cert ts"
  shows "cert_ok (env_p384 env) (certs chain) tp ts 0"
  using assms nitro_contents(1) root_basic_ok
  by (simp add: cert_ok_def issuance_ok_def signer_def nitro_env_def nitro_signatures_def)

lemma nitro_valid_each:
  "valid_at root_cert VALID_TIMESTAMP_MS" "valid_at inter2_cert VALID_TIMESTAMP_MS"
  using nitro_valid by (simp_all add: nitro_certs_def)

lemma nitro_not_after_secs:
  "not_after_secs i (not_after root_cert) = Ok (not_after root_cert)"
  "not_after_secs i (not_after inter1_cert) = Ok (not_after inter1_cert)"
  "not_after_secs i (not_after inter2_cert) = Ok (not_after inter2_cert)"
  using nitro_not_after(2) by (simp_all add: not_after_secs_def nitro_certs_def)

lemma nitro_contents_Ok:
  "validate_cert_content inter1_cert False = Ok ()" "validate_cert_content inter2_cert False = Ok ()"
  by (simp_all add: validate_cert_content_Ok_iff nitro_contents)

lemma duplicate_root_test:
  assumes "nitro_env env" and "tp \<le> 2"
  shows "passes (duplicate_root_rejected env tp)"
proof -
  define chain where "chain = picked [0, 0, 1, 2, 3, 4]"
  have cs: "certs chain = parsed_pair root_der root_cert # parsed_pair root_der root_cert #
      tl (certs nitro_chain)"
    by (simp add: chain_def picked_def nitro_chain_certs)
  have "verify_cert (env_p384 env) (certs chain) tp VALID_TIMESTAMP_MS 1 ((certs chain) ! 1) =
      Err (CertificateVerification ((''certificate '' @ show_nat 1 @ '': '') @ ''self-issued''
        @ '' certificate is only allowed at the trust anchor''))"
    by (simp add: cs verify_cert_def nitro_not_after_secs nitro_issuers cert_msg_def)
  then have "passes (assert_error_contains [''self-issued'']
      (test_verify env chain tp VALID_TIMESTAMP_MS))"
    by (rule error_test [rotated 2])
      (use assms root_cert_ok [OF assms(1) cs nitro_valid_each(1)] in \<open>auto simp: cs\<close>)
  then show ?thesis
    by (simp add: duplicate_root_rejected_def with_refs_eq [OF assms(1)] chain_def)
qed

lemma wrong_order_test:
  assumes "nitro_env env"
  shows "passes (wrong_chain_order_rejected env)"
proof -
  define chain where "chain = picked [0, 2, 1, 3, 4]"
  have cs: "certs chain = parsed_pair root_der root_cert # parsed_pair inter2_der inter2_cert #
      [parsed_pair inter1_der inter1_cert, parsed_pair inter3_der inter3_cert,
       parsed_pair leaf_der leaf_cert]"
    by (simp add: chain_def picked_def nitro_chain_certs)
  have "issuer inter2_cert \<noteq> subject root_cert" "issuer inter2_cert \<noteq> subject inter2_cert"
    by (simp_all add: nitro_cert_defs)
  moreover have "check_validity inter2_cert VALID_TIMESTAMP_MS 1 = Ok ()"
    by (simp add: check_validity_Ok_iff nitro_valid_each)
  ultimately have "verify_cert (env_p384 env) (certs chain) 0 VALID_TIMESTAMP_MS 1 ((certs chain) ! 1) =
      Err (CertificateVerification ((''certificate '' @ show_nat 1 @ '': '') @ ''issuer''
        @ '' does not match parent subject''))"
    by (simp add: cs verify_cert_def nitro_not_after_secs nitro_contents_Ok check_issuer_def
        cert_msg_def)
  then have "passes (assert_error_contains [''issuer'', ''signature'']
      (test_verify env chain 0 VALID_TIMESTAMP_MS))"
    by (rule error_test [rotated 2])
      (use root_cert_ok [OF assms cs nitro_valid_each(1)] in \<open>auto simp: cs\<close>)
  then show ?thesis
    by (simp add: wrong_chain_order_rejected_def with_refs_eq [OF assms] chain_def)
qed

text \<open>The two tests of the validity period fail at the first intermediate.\<close>

lemma inter1_invalid:
  assumes "check_validity inter1_cert ts 1 = Err (CertificateVerification (cert_msg 1 reason))"
    and "tp \<le> 1"
  shows "verify_cert ec (certs nitro_chain) tp ts 1 (certs nitro_chain ! 1) =
    Err (CertificateVerification (cert_msg 1 reason))"
  using assms nitro_not_self_issued(1)
  by (simp add: verify_cert_def nitro_chain_certs nitro_not_after_secs nitro_contents_Ok
      self_issued_def)

lemma validity_tests:
  assumes "nitro_env env"
  shows "passes (expired_cert_rejected env)" "passes (not_yet_valid_cert_rejected env)"
proof -
  have "check_validity inter1_cert 2000000000000 1 =
      Err (CertificateVerification (cert_msg 1 (''expired'' @ '' (notAfter='' @ show_int 1734505665
        @ '', timestamp='' @ show_int 2000000000 @ '')'')))"
    by (simp add: check_validity_def timestamp_secs_def inter1_cert_def)
  note expired = inter1_invalid [OF this, of 0, unfolded cert_msg_def, simplified append_assoc]
  have "check_validity inter1_cert 1000000000000 1 =
      Err (CertificateVerification (cert_msg 1 (''not yet valid'' @ '' (notBefore=''
        @ show_int 1732774065 @ '', timestamp='' @ show_int 1000000000 @ '')'')))"
    by (simp add: check_validity_def timestamp_secs_def inter1_cert_def)
  note early = inter1_invalid [OF this, of 1, unfolded cert_msg_def, simplified append_assoc]
  have root: "cert_ok (env_p384 env) (certs nitro_chain) 0 2000000000000 0"
    by (rule root_cert_ok [OF assms nitro_chain_certs]) (simp add: valid_at_def nitro_cert_defs)
  show "passes (expired_cert_rejected env)"
    unfolding expired_cert_rejected_def with_full_chain_eq [OF assms] Let_def
    by (rule error_test [where pre = "''certificate '' @ show_nat 1 @ '': ''" and i = 1])
      (use expired root in \<open>auto simp: nitro_chain_nth(1)\<close>)
  show "passes (not_yet_valid_cert_rejected env)"
    unfolding not_yet_valid_cert_rejected_def with_full_chain_eq [OF assms] Let_def
    by (rule error_test [where pre = "''certificate '' @ show_nat 1 @ '': ''" and i = 1])
      (use early root_basic_ok in \<open>auto simp: nitro_chain_nth cert_ok_def\<close>)
qed

text \<open>Whatever certificate stands in place 1, the root has to have signed it.\<close>

lemma not_signed_by_root:
  assumes "cs = p # q # ps" and "\<not> signs ec (pc_cert p) (pc_cert q)"
  shows "\<not> chain_ok ec cs 0 ts"
proof
  assume "chain_ok ec cs 0 ts"
  then have "issuance_ok ec cs ts 1"
    using assms(1) by (simp add: chain_ok_def cert_ok_def)
  then show False
    using assms by (simp add: issuance_ok_def signer_def)
qed

lemma tampered_test:
  assumes "x509_tests_env env"
  shows "passes (tampered_cert_signature_fails env)"
proof -
  have env: "nitro_env env" using assms by (simp add: x509_tests_env_def)
  have "length inter1_der = 706"
    by (simp add: inter1_der_def hex_bytes_length INTER1_HEX_def)
  then obtain bs where bs: "flip_middle inter1_der = Ok bs"
    by (simp add: flip_middle_def)
  have rejected: "passes (and_then (is_err (test_verify env chain 0 VALID_TIMESTAMP_MS)) assert_true)"
    if chain: "test_from_der env (nitro_ders[1 := bs]) = Ok chain" for chain
  proof -
    obtain q ps where q: "certs chain = parsed_pair root_der root_cert # q # ps" "pc_der q = bs"
      "env_x509 env bs = Inr ([], pc_cert q)"
      using chain nitro_parses(1) [OF env]
      by (auto simp: test_from_der_def chain_from_der_Ok_iff parses_to_def nitro_ders_def
          map_eq_Cons_conv parsed_pair_def)
    then have "\<not> signs (env_p384 env) root_cert (pc_cert q)"
      using assms bs by (auto simp: x509_tests_env_def)
    then have "\<not> chain_ok (env_p384 env) (certs chain) 0 VALID_TIMESTAMP_MS"
      using not_signed_by_root [OF q(1)] by simp
    then have "\<exists>e. test_verify env chain 0 VALID_TIMESTAMP_MS = Err e"
      unfolding test_verify_def
      by (metis no_panic_cases no_panic_verify_chain surj_pair verify_chain_Ok_iff)
    then show ?thesis by auto
  qed
  have "index nitro_ders 1 = (Ok inter1_der :: (unit, bytes) outcome)"
    by (simp add: nitro_ders_def)
  moreover have "no_panic (test_from_der env (nitro_ders[1 := bs]))"
    by (simp add: test_from_der_def)
  ultimately show ?thesis
    using bs rejected by (cases "test_from_der env (nitro_ders[1 := bs])")
      (simp_all add: tampered_cert_signature_fails_def nitro_fixtures [OF env])
qed

text \<open>
  The model passes every unit test of verifier/src/x509.rs on the real AWS Nitro
  chain, where the parser reads the five certificates, the chain's signatures verify and the
  tampered certificate is not signed by the root: the chain is accepted with every trusted
  prefix, with the known expiries; a duplicated root, a swapped order, an expired and a not yet
  valid certificate, a tampered one and trailing bytes are rejected, with the expected texts.
\<close>

theorem x509_tests_pass: "x509_tests_env env \<Longrightarrow> list_all passes (x509_tests env)"
proof -
  assume tests: "x509_tests_env env"
  then have env: "nitro_env env" by (simp add: x509_tests_env_def)
  have "passes (trusted_prefix_exceeding_chain_length_fails env)"
    by (simp add: trusted_prefix_exceeding_chain_length_fails_def with_root_eq [OF env]
        test_verify_def verify_chain_def root_chain_def)
  then show ?thesis
    by (simp add: x509_tests_def root_tests full_chain_tests trusted_prefix_test digests_test
        leaf_key_test parsing_tests trailing_der_test duplicate_root_test wrong_order_test
        validity_tests tampered_test env tests)
qed

end
