(* ===== verification/Nitro_Report.thy ===== *)
theory Nitro_Report
  imports Nitro_Chain Cli
begin

text \<open>
  The real attestation report of verifier/testdata/attestation.hex, which the tests of
  verifier/src/verify.rs and src/direct.rs, and the command line by default, verify. Its text
  contains the five certificates of the tests of x509.rs; the document that the CBOR codec finds
  in it is written out here, and the whole verification of the report is computed from what the
  third-party code makes of these bytes.
\<close>

section \<open>The report\<close>

text \<open>The text of the file, up to the leaf certificate and after the last CA certificate.\<close>

definition REPORT_HEAD :: string where
  "REPORT_HEAD =
     ''8444a1013822a0591144a9696d6f64756c655f69647827692d3064653338623262363835336363396538'' @
     ''2d656e633031393336383565376665653764383566646967657374665348413338346974696d65737461'' @
     ''6d701b000001937de1c5436470637273b0005830ec74bfbe7f7445a6c7610e152935e028276f638042b7'' @
     ''4797b119648e13f7a3675796b721034c320f140ea001b41aeae2015830fa2593b59f3e4fc7daba5cbddd'' @
     ''fd3449d67cd02d43bb1128885e8f38b914d081dccdb68fff6d5b7a76bcb866a18a74a302583056ba201a'' @
     ''72e36cd051e95e5c4724c899039b711770f4d9d4fe7a1de007119a10b364badcd35e90f728a5bdc91090'' @
     ''57230358303c9cadd84f0d027d6a5370c3de4af9179824fd6f3f02ebab723ee4439c75d8f5183e1c55f5'' @
     ''23415d44e9e6580b06655204583098bdf1bde262272618ccd73279e8ee00dd2c36974bd253de55413a25'' @
     ''ceb2cd7221421207c2c09dde609f87481b6f6c9405583000000000000000000000000000000000000000'' @
     ''000000000000000000000000000000000000000000000000000000000006583000000000000000000000'' @
     ''000000000000000000000000000000000000000000000000000000000000000000000000000007583000'' @
     ''000000000000000000000000000000000000000000000000000000000000000000000000000000000000'' @
     ''000000000008583000000000000000000000000000000000000000000000000000000000000000000000'' @
     ''000000000000000000000000000009583000000000000000000000000000000000000000000000000000'' @
     ''00000000000000000000000000000000000000000000000a583000000000000000000000000000000000'' @
     ''00000000000000000000000000000000000000000000000000000000000000000b583000000000000000'' @
     ''00000000000000000000000000000000000000000000000000000000000000000000000000000000000c'' @
     ''583000000000000000000000000000000000000000000000000000000000000000000000000000000000'' @
     ''00000000000000000d583000000000000000000000000000000000000000000000000000000000000000'' @
     ''00000000000000000000000000000000000e583000000000000000000000000000000000000000000000'' @
     ''00000000000000000000000000000000000000000000000000000f583000000000000000000000000000'' @
     ''00000000000000000000000000000000000000000000000000000000000000000000006b636572746966'' @
     ''6963617465590280''"

definition REPORT_TAIL :: string where
  "REPORT_TAIL =
     ''6a7075626c69635f6b657958410433a4701fa871b188983d570e2c2d8cf98fd66eb19ba8ca7617bc8e20'' @
     ''e152a5d7f0205eae76e608ce855077e4565be69db4471ef72857253742f9602c11ff04e569757365725f'' @
     ''64617461f6656e6f6e6365f65860874e67088943e85654beb78443c747def2c3736bf93e2b52d033b3e9'' @
     ''36a04ead91f7b5a1229a1615f237f138f64399418b8046b6e40cd93e750b58f5e1aded45ebf3f103b9ea'' @
     ''19a9b874142b576638dad2da142254ae913664649be22e0b83f9''"

definition ATTESTATION_HEX :: string where
  "ATTESTATION_HEX =
     REPORT_HEAD @ LEAF_HEX @ ''68636162756e646c6584590215'' @ ROOT_HEX @ ''5902c2'' @ INTER1_HEX @
     ''59031a'' @ INTER2_HEX @ ''5902c3'' @ INTER3_HEX @ REPORT_TAIL @ [CHR 0x0A]"

text \<open>The bytes of the report, and the three parts of the envelope.\<close>

definition nitro_attestation :: bytes where
  "nitro_attestation = hex_bytes (trim ATTESTATION_HEX)"

definition nitro_cose :: CoseSign1 where
  "nitro_cose =
     \<lparr>protected = [0xa1, 0x01, 0x38, 0x22], payload = slice_of nitro_attestation 10 4420,
      signature = slice_of nitro_attestation 4432 96\<rparr>"

text \<open>The document in the payload.\<close>

definition pcr_of_hex :: "string \<Rightarrow> 48 byte_array" where
  "pcr_of_hex h = Byte_Array (hex_bytes h)"

definition nitro_pcrs :: pcr_map where
  "nitro_pcrs =
     foldl (\<lambda>m (k, v). btree_insert k v m) btree_new
       ([(0, pcr_of_hex
        (''ec74bfbe7f7445a6c7610e152935e028276f638042b74797b119648e13f7'' @
         ''a3675796b721034c320f140ea001b41aeae2'')),
        (1, pcr_of_hex
        (''fa2593b59f3e4fc7daba5cbdddfd3449d67cd02d43bb1128885e8f38b914'' @
         ''d081dccdb68fff6d5b7a76bcb866a18a74a3'')),
        (2, pcr_of_hex
        (''56ba201a72e36cd051e95e5c4724c899039b711770f4d9d4fe7a1de00711'' @
         ''9a10b364badcd35e90f728a5bdc910905723'')),
        (3, pcr_of_hex
        (''3c9cadd84f0d027d6a5370c3de4af9179824fd6f3f02ebab723ee4439c75'' @
         ''d8f5183e1c55f523415d44e9e6580b066552'')),
        (4, pcr_of_hex
        (''98bdf1bde262272618ccd73279e8ee00dd2c36974bd253de55413a25ceb2'' @
         ''cd7221421207c2c09dde609f87481b6f6c94''))]
        @ map (\<lambda>i. (i, repeat_byte 0)) [5, 6, 7, 8, 9, 10, 11, 12, 13, 14, 15])"

definition nitro_public_key :: bytes where
  "nitro_public_key =
     hex_bytes (''0433a4701fa871b188983d570e2c2d8cf98fd66eb19ba8ca7617bc8e20e152a5d7'' @
       ''f0205eae76e608ce855077e4565be69db4471ef72857253742f9602c11ff04e5'')"

definition nitro_doc :: AttestationDocument where
  "nitro_doc =
     \<lparr>module_id = ''i-0de38b2b6853cc9e8-enc0193685e7fee7d85'', timestamp = 0x000001937de1c543,
      digest = ''SHA384'', pcrs = nitro_pcrs,
      certificate = leaf_der, cabundle = [root_der, inter1_der, inter2_der, inter3_der],
      public_key = Some nitro_public_key,
      user_data = None, nonce = None\<rparr>"

definition nitro_report :: AttestationReport where
  "nitro_report = \<lparr>rep_cose = nitro_cose, rep_doc = nitro_doc\<rparr>"

section \<open>The bytes\<close>

lemma hex_bytes_append: "even (length s) \<Longrightarrow> hex_bytes (s @ t) = hex_bytes s @ hex_bytes t"
  by (induction s rule: hex_bytes.induct) auto

text \<open>The file ends with a newline, and starts and ends otherwise with a digit.\<close>

lemma trim_newline:
  "\<not> is_whitespace c \<Longrightarrow> \<not> is_whitespace d \<Longrightarrow> trim (c # s @ [d, CHR 0x0A]) = c # s @ [d]"
  by (simp add: trim_def) (simp add: is_whitespace_def)

lemma report_ends:
  "REPORT_HEAD = CHR ''8'' # tl REPORT_HEAD" "REPORT_TAIL = butlast REPORT_TAIL @ ''9''"
  by (simp_all add: REPORT_HEAD_def REPORT_TAIL_def)

lemma trim_ATTESTATION_HEX:
  "trim ATTESTATION_HEX =
     REPORT_HEAD @ LEAF_HEX @ ''68636162756e646c6584590215'' @ ROOT_HEX @ ''5902c2'' @ INTER1_HEX @
     ''59031a'' @ INTER2_HEX @ ''5902c3'' @ INTER3_HEX @ REPORT_TAIL"
proof -
  have "trim (CHR ''8'' # tl REPORT_HEAD @ s @ butlast REPORT_TAIL @ [CHR ''9'', CHR 0x0A]) =
      CHR ''8'' # tl REPORT_HEAD @ s @ butlast REPORT_TAIL @ ''9''" for s
    using trim_newline [of "CHR ''8''" "CHR ''9''" "tl REPORT_HEAD @ s @ butlast REPORT_TAIL"]
    by (simp add: is_whitespace_def)
  then have "trim (REPORT_HEAD @ s @ REPORT_TAIL @ [CHR 0x0A]) = REPORT_HEAD @ s @ REPORT_TAIL" for s
    using report_ends by (metis append.assoc append_Cons append_Nil)
  from this [of "LEAF_HEX @ ''68636162756e646c6584590215'' @ ROOT_HEX @ ''5902c2'' @ INTER1_HEX @
      ''59031a'' @ INTER2_HEX @ ''5902c3'' @ INTER3_HEX"]
  show ?thesis by (simp add: ATTESTATION_HEX_def)
qed

lemma report_lengths:
  "length REPORT_HEAD = 1864" "length LEAF_HEX = 1280" "length ROOT_HEX = 1066"
  "length INTER1_HEX = 1412" "length INTER2_HEX = 1588" "length INTER3_HEX = 1414"
  "length REPORT_TAIL = 388"
  by (simp_all add: REPORT_HEAD_def REPORT_TAIL_def LEAF_HEX_def ROOT_HEX_def INTER1_HEX_def
      INTER2_HEX_def INTER3_HEX_def)

text \<open>
  The report contains the leaf certificate and, after the text \<open>cabundle\<close> and the head of an
  array of four, the CA certificates, each after its length.
\<close>

lemma nitro_attestation_split:
  "nitro_attestation =
     hex_bytes REPORT_HEAD @ leaf_der
     @ [0x68, 0x63, 0x61, 0x62, 0x75, 0x6e, 0x64, 0x6c, 0x65, 0x84]
     @ [0x59, 0x02, 0x15] @ root_der @ [0x59, 0x02, 0xc2] @ inter1_der
     @ [0x59, 0x03, 0x1a] @ inter2_der @ [0x59, 0x02, 0xc3] @ inter3_der @ hex_bytes REPORT_TAIL"
  unfolding nitro_attestation_def trim_ATTESTATION_HEX
  by (simp add: hex_bytes_append report_lengths hex_val_def leaf_der_def root_der_def
      inter1_der_def inter2_der_def inter3_der_def Let_def)

lemma length_nitro_attestation: "length nitro_attestation = 4528"
  by (simp add: nitro_attestation_def trim_ATTESTATION_HEX hex_bytes_length report_lengths)

section \<open>Its verification\<close>

text \<open>
  What is relied on: the codec finds the envelope and the document, the parser the five
  certificates, the chain's signatures verify, and the leaf's key verifies the signature of the
  report.
\<close>

definition nitro_deps :: "('o, string, 'k, 's) deps \<Rightarrow> bool" where
  "nitro_deps deps \<longleftrightarrow>
     report_of deps nitro_attestation nitro_report
     \<and> list_all2 (\<lambda>der cert. dep_x509 deps der = Inr ([], cert)) nitro_ders nitro_certs
     \<and> nitro_signatures (dep_p384 deps)
     \<and> cose_signed_by deps (subject_public_key leaf_cert) nitro_cose"

definition nitro_input :: "u8 \<Rightarrow> VerifierInput" where
  "nitro_input tp = \<lparr>vi_trustedCertsPrefixLen = tp, vi_attestationReport = nitro_attestation\<rparr>"

text \<open>The journal it gives.\<close>

definition nitro_journal :: "(bytes \<Rightarrow> B256) \<Rightarrow> u8 \<Rightarrow> VerifierJournal" where
  "nitro_journal sha tp =
     \<lparr>vj_result = Success, vj_trustedCertsPrefixLen = tp, vj_timestamp = VALID_TIMESTAMP_MS,
      vj_certs = compute_path_digests sha nitro_ders, vj_certExpiries = EXPECTED_EXPIRIES,
      vj_userData = [], vj_nonce = [], vj_publicKey = nitro_public_key,
      vj_pcrs = map (\<lambda>(i, v). \<lparr>pcr_index = i, pcr_value = split48 v\<rparr>) (entries nitro_pcrs),
      vj_moduleId = ''i-0de38b2b6853cc9e8-enc0193685e7fee7d85''\<rparr>"

lemma nitro_pcrs_keys:
  "map fst (entries nitro_pcrs) = [0, 1, 2, 3, 4, 5, 6, 7, 8, 9, 10, 11, 12, 13, 14, 15]"
  by (simp add: nitro_pcrs_def)

lemma nitro_pcrs_length: "length (entries nitro_pcrs) = 16"
  using arg_cong [OF nitro_pcrs_keys, of length] by simp

lemma nitro_pcr0: "\<exists>v. (0, v) \<in> set (entries nitro_pcrs) \<and> v \<noteq> repeat_byte 0"
proof -
  define h where "h = ''ec74bfbe7f7445a6c7610e152935e028276f638042b74797b119648e13f7'' @
    ''a3675796b721034c320f140ea001b41aeae2''"
  have "(0, pcr_of_hex h) \<in> set (entries nitro_pcrs)"
    by (simp add: nitro_pcrs_def h_def)
  moreover have "as_slice (pcr_of_hex h) = hex_bytes h"
    by (simp add: pcr_of_hex_def hex_bytes_length h_def)
  then have "as_slice (pcr_of_hex h) ! 0 = 0xec"
    by (simp add: h_def hex_val_def Let_def)
  then have "pcr_of_hex h \<noteq> repeat_byte 0" by auto
  ultimately show ?thesis by blast
qed

lemma nitro_pcrs_ok: "pcrs_ok nitro_pcrs"
proof -
  have "\<forall>i \<in> fst ` set (entries nitro_pcrs). i \<le> 31"
    unfolding set_map [symmetric] nitro_pcrs_keys by simp
  then show ?thesis
    using nitro_pcr0 by (force simp: pcrs_ok_def)
qed

lemma length_nitro_public_key: "length nitro_public_key = 65"
  by (simp add: nitro_public_key_def hex_bytes_length)

lemma nitro_doc_fields:
  "public_key nitro_doc = Some nitro_public_key" "user_data nitro_doc = None"
  "nonce nitro_doc = None" "pcrs nitro_doc = nitro_pcrs" "timestamp nitro_doc = VALID_TIMESTAMP_MS"
  "module_id nitro_doc = ''i-0de38b2b6853cc9e8-enc0193685e7fee7d85''"
  by (simp_all add: nitro_doc_def VALID_TIMESTAMP_MS_def)

lemma nitro_doc_ok: "doc_ok nitro_doc"
  using nitro_pcrs_ok length_nitro_public_key
  by (simp add: doc_ok_def length_within_def nitro_doc_def)

lemma nitro_report_chain_der: "cert_chain_der nitro_report = nitro_ders"
  by (simp add: cert_chain_der_def nitro_report_def nitro_doc_def nitro_ders_def)

lemma nitro_accepts:
  assumes "nitro_deps deps" and "unat tp \<le> 5"
  shows "accepts deps (nitro_input tp) nitro_report nitro_chain"
proof -
  have "parses_to (dep_x509 deps) nitro_ders nitro_chain"
    using assms(1)
    by (simp add: nitro_deps_def parses_to_def nitro_chain_ders) (simp add: nitro_chain_certs
        nitro_ders_def nitro_certs_def)
  moreover have "last (certs nitro_chain) = parsed_pair leaf_der leaf_cert"
    by (simp add: nitro_chain_certs)
  moreover have "rep_cose nitro_report = nitro_cose" "rep_doc nitro_report = nitro_doc"
    by (simp_all add: nitro_report_def)
  ultimately show ?thesis
    using assms nitro_doc_ok nitro_chain_ok [of "dep_p384 deps" "unat tp"]
    by (simp add: accepts_def nitro_deps_def nitro_input_def nitro_report_chain_der
        nitro_doc_fields)
qed

lemma nitro_journal_of:
  "journal_of deps (nitro_input tp) nitro_report nitro_chain = nitro_journal (dep_sha256 deps) tp"
  by (simp add: journal_of_def nitro_journal_def nitro_input_def nitro_report_chain_der
      nitro_expiries)
    (simp add: nitro_report_def nitro_doc_fields optional_bytes_def)

lemma verify_nitro_report:
  "nitro_deps deps \<Longrightarrow> unat tp \<le> 5 \<Longrightarrow>
     verify deps (nitro_input tp) = Ok (nitro_journal (dep_sha256 deps) tp)"
  unfolding verify_Ok_iff nitro_journal_of [symmetric, of deps] by (blast intro: nitro_accepts)

text \<open>
  Property C8: the real report is accepted with every trusted prefix up to the whole chain, and
  the journal holds its time, module, public key and sixteen PCRs, the path digests of its five
  certificates and their expiries; the prefix only shows in the field that echoes it. A longer
  prefix is rejected.
\<close>

theorem nitro_report_verified:
  assumes "nitro_deps deps"
  shows "verify deps \<lparr>vi_trustedCertsPrefixLen = tp, vi_attestationReport = nitro_attestation\<rparr> = Ok j
    \<longleftrightarrow> tp \<le> 5 \<and> j = nitro_journal (dep_sha256 deps) tp"
proof (cases "unat tp \<le> 5")
  case True
  then show ?thesis
    using verify_nitro_report [OF assms True] by (auto simp: nitro_input_def word_le_nat_alt)
next
  case False
  have "\<not> accepts deps (nitro_input tp) report chain" for report chain
  proof
    assume acc: "accepts deps (nitro_input tp) report chain"
    have "parse_report (dep_cbor deps) nitro_attestation = Ok nitro_report"
      using assms by (simp add: nitro_deps_def report_of_def parse_report_Ok_iff)
    then have "report = nitro_report"
      using accepts_parse [OF acc] by (simp add: nitro_input_def)
    then have "length (certs chain) = 5"
      using acc by (auto simp: accepts_def parses_to_def nitro_report_chain_der nitro_ders_def
          dest!: arg_cong [of _ _ length])
    with acc False show False
      by (simp add: accepts_def chain_ok_def nitro_input_def)
  qed
  with False show ?thesis
    by (auto simp: verify_Ok_iff word_le_nat_alt simp flip: nitro_input_def)
qed

section \<open>The default run of the command line\<close>

text \<open>No other attestation is configured, and the bundled one is read as the real one is.\<close>

definition bundled_run ::
  "('o, string, 'k, 's, 'c, 'p) cli_deps \<Rightarrow> world \<Rightarrow> bool" where
  "bundled_run d w \<longleftrightarrow>
     world_env w ATTESTATION_ENV = None
     \<and> test_attestation_hex d = ATTESTATION_HEX
     \<and> hex_decode d (trim ATTESTATION_HEX) = Inr nitro_attestation
     \<and> nitro_deps (verifier_deps (cli_guest d))"

lemma bundled_attestation_bytes:
  "bundled_run d w \<Longrightarrow> fst (attestation_bytes d w) = Ok nitro_attestation"
  by (simp add: bundled_run_def attestation_bytes_def)

lemma bundled_prepare:
  "bundled_run d w \<Longrightarrow> trusted_certs_prefix_len prover = 1 \<Longrightarrow>
     direct_generate_proof (cli_guest d) sdk prover nitro_attestation False =
       finish_proof (prove_groth16 sdk (client prover) (pk prover)
         [encode (abi_input (cli_guest d)) (nitro_input 1)])"
  using verify_nitro_report [of "verifier_deps (cli_guest d)" 1]
  by (simp add: direct_generate_proof_def prepare_stdin_cases prover_input_def bundled_run_def)
    (simp add: nitro_input_def)

text \<open>
  Property C34: a run with the bundled attestation is decided by the SDK alone once the guest
  program is read and set up: host verification never ends it, the SDK is asked to prove the
  bundled report with the root as the only trusted certificate, a failure to prove ends the run
  with nothing written, and a proof goes on to be saved and checked.
\<close>

theorem main_bundled_report:
  assumes "bundled_run d w" and "world_files w (elf_path d w) = Some elf"
    and "sdk_setup (cli_sdk d) (cpu_client (cli_sdk d)) elf = Inr key"
  shows "main d w =
    (case prove_groth16 (cli_sdk d) (cpu_client (cli_sdk d)) key
            [encode (abi_input (cli_guest d))
               \<lparr>vi_trustedCertsPrefixLen = 1, vi_attestationReport = nitro_attestation\<rparr>] of
       Inl e \<Rightarrow> (Err (Prover (Sp1 (''proving failed: '' @ e))), w)
     | Inr proof \<Rightarrow>
         finish_main d
           \<lparr>client = cpu_client (cli_sdk d), pk = key, trusted_certs_prefix_len = 1\<rparr>
           \<lparr>proof_output = public_values proof, proof_bytes = seal proof\<rparr> w)"
proof -
  let ?prover = "\<lparr>client = cpu_client (cli_sdk d), pk = key, trusted_certs_prefix_len = 1\<rparr>"
  have "fst (fs_read (elf_path d w) w) = Ok elf"
    using assms(2) by (simp add: fs_read_def)
  moreover have "direct_new (cli_sdk d) elf 1 = Ok ?prover"
    using assms(3) by (simp add: direct_new_def Let_def)
  ultimately have "cli_proof d w = and_then (convert_err Prover
      (finish_proof (prove_groth16 (cli_sdk d) (cpu_client (cli_sdk d)) key
         [encode (abi_input (cli_guest d)) (nitro_input 1)])))
      (\<lambda>proof. Ok (nitro_attestation, ?prover, proof))"
    using bundled_prepare [OF assms(1), of ?prover]
    by (simp add: cli_proof_def bundled_attestation_bytes [OF assms(1)])
  then show ?thesis
    by (simp add: main_eq finish_proof_def nitro_input_def split: sum.split)
qed

end
