(* ===== verification/Verify_Tests.thy ===== *)
theory Verify_Tests
  imports Nitro_Report
begin

text \<open>
  The end-to-end tests of verifier/src/verify.rs and the host test of src/direct.rs, on the real
  attestation report of verifier/testdata/attestation.hex.
\<close>

section \<open>verifier/src/verify.rs\<close>

record ('o, 'k, 's) report_env =
  re_hex :: "string \<Rightarrow> string + bytes"
  re_deps :: "('o, string, 'k, 's) deps"
  re_abi :: "VerifierJournal sol_value"

definition decoded_report :: "('o, 'k, 's) report_env \<Rightarrow> (unit, bytes) outcome" where
  "decoded_report env = unwrap (map_err id (re_hex env (trim ATTESTATION_HEX)))"

definition attestation_input :: "('o, 'k, 's) report_env \<Rightarrow> (unit, VerifierInput) outcome" where
  "attestation_input env =
     and_then (decoded_report env) (\<lambda>bs.
     Ok \<lparr>vi_trustedCertsPrefixLen = 1, vi_attestationReport = bs\<rparr>)"

definition assert_journal :: "VerifierJournal \<Rightarrow> test list" where
  "assert_journal journal =
     [assert_eq (vj_result journal) Success,
      assert_eq (vj_trustedCertsPrefixLen journal) 1,
      assert_eq (vj_timestamp journal) 0x000001937de1c543,
      assert_eq (vj_moduleId journal) ''i-0de38b2b6853cc9e8-enc0193685e7fee7d85'',
      assert_eq (length (vj_certs journal)) 5,
      assert_eq (length (vj_certExpiries journal)) (length (vj_certs journal)),
      and_then (index (vj_certExpiries journal) 0) (\<lambda>e. assert_eq e 2519044085),
      and_then (index (vj_certExpiries journal) 4) (\<lambda>e. assert_eq e 1732994568),
      assert_eq (length (vj_pcrs journal)) 16,
      assert_true (vj_userData journal = []),
      assert_true (vj_nonce journal = []),
      assert_true (vj_publicKey journal \<noteq> [])]"

definition verify_full_attestation_report :: "('o, 'k, 's) report_env \<Rightarrow> test" where
  "verify_full_attestation_report env =
     and_then (attestation_input env) (\<lambda>input.
     and_then (unwrap (verify (re_deps env) input)) (\<lambda>journal.
     and_then (run_all (assert_journal journal)) (\<lambda>_.
     let encoded = abi_encode (re_abi env) journal in
     and_then (unwrap (decode (re_abi env) encoded)) (\<lambda>decoded.
     run_all
       [assert_eq (vj_moduleId decoded) (vj_moduleId journal),
        assert_eq (vj_timestamp decoded) (vj_timestamp journal),
        assert_eq (vj_certExpiries decoded) (vj_certExpiries journal),
        assert_eq (vj_certs decoded) (vj_certs journal)]))))"

definition verify_with_zero_trusted_prefix :: "('o, 'k, 's) report_env \<Rightarrow> test" where
  "verify_with_zero_trusted_prefix env =
     and_then (decoded_report env) (\<lambda>bs.
     let input = \<lparr>vi_trustedCertsPrefixLen = 0, vi_attestationReport = bs\<rparr> in
     and_then (unwrap (verify (re_deps env) input)) (\<lambda>journal.
     assert_eq (vj_result journal) Success))"

definition corrupted_attestation_rejected :: "('o, 'k, 's) report_env \<Rightarrow> test" where
  "corrupted_attestation_rejected env =
     (let input = \<lparr>vi_trustedCertsPrefixLen = 0, vi_attestationReport = [0xDE, 0xAD]\<rparr> in
      and_then (is_err (verify (re_deps env) input)) assert_true)"

section \<open>src/direct.rs\<close>

definition TEST_ATTESTATION_HEX :: string where
  "TEST_ATTESTATION_HEX = ATTESTATION_HEX"

definition TEST_TRUSTED_PREFIX :: u8 where
  "TEST_TRUSTED_PREFIX = 1"

definition TEST_ATTESTATION_ENV :: string where
  "TEST_ATTESTATION_ENV = ''NITRO_ATTESTATION''"

definition host_attestation_bytes ::
  "('o, 'k, 's) report_env \<Rightarrow> world \<Rightarrow> (unit, bytes) outcome" where
  "host_attestation_bytes env w =
     (case world_env w TEST_ATTESTATION_ENV of
        None \<Rightarrow> expect_ok ''bundled Nitro attestation fixture should be valid hex''
                  (map_err id (re_hex env (trim TEST_ATTESTATION_HEX)))
      | Some path \<Rightarrow>
          (case world_files w path of
             Some bs \<Rightarrow> Ok bs
           | None \<Rightarrow> Panic (''failed to read '' @ path)))"

definition verifies_attestation_on_host :: "('o, 'k, 's) report_env \<Rightarrow> world \<Rightarrow> test" where
  "verifies_attestation_on_host env w =
     and_then (host_attestation_bytes env w) (\<lambda>bs.
     let input = \<lparr>vi_trustedCertsPrefixLen = TEST_TRUSTED_PREFIX, vi_attestationReport = bs\<rparr> in
     and_then (expect_ok ''host verifier should accept the Nitro attestation''
                 (verify (re_deps env) input)) (\<lambda>journal.
     assert_eq (vj_result journal) Success))"

definition report_tests :: "('o, 'k, 's) report_env \<Rightarrow> world \<Rightarrow> test list" where
  "report_tests env w =
     [verify_full_attestation_report env, verify_with_zero_trusted_prefix env,
      corrupted_attestation_rejected env, verifies_attestation_on_host env w]"

section \<open>They pass\<close>

text \<open>
  Beside the report: the ABI codec is lossless, and 0xdead, a tag head with a reserved length, is
  no CBOR value.
\<close>

definition report_env_ok :: "('o, 'k, 's) report_env \<Rightarrow> bool" where
  "report_env_ok env \<longleftrightarrow>
     re_hex env (trim ATTESTATION_HEX) = Inr nitro_attestation
     \<and> nitro_deps (re_deps env)
     \<and> abi_lossless (re_abi env)
     \<and> (\<forall>v. value_from_reader (dep_cbor (re_deps env)) [0xDE, 0xAD] \<noteq> Inr v)"

lemma nitro_inputs:
  "\<lparr>vi_trustedCertsPrefixLen = tp, vi_attestationReport = nitro_attestation\<rparr> = nitro_input tp"
  by (simp add: nitro_input_def)

lemma verify_fixture:
  "report_env_ok env \<Longrightarrow> tp = 0 \<or> tp = 1 \<Longrightarrow>
     verify (re_deps env) (nitro_input tp) = Ok (nitro_journal (dep_sha256 (re_deps env)) tp)"
  by (rule verify_nitro_report) (auto simp: report_env_ok_def)

lemma decoded_report_Ok: "report_env_ok env \<Longrightarrow> decoded_report env = Ok nitro_attestation"
  by (simp add: report_env_ok_def decoded_report_def)

lemma nitro_journal_assertions: "list_all passes (assert_journal (nitro_journal sha 1))"
proof -
  have "nitro_public_key \<noteq> []"
    using length_nitro_public_key by auto
  then show ?thesis
    by (simp add: assert_journal_def nitro_journal_def VALID_TIMESTAMP_MS_def EXPECTED_EXPIRIES_def
        nitro_pcrs_length) (simp add: nitro_ders_def)
qed

lemma full_report_test:
  assumes "report_env_ok env"
  shows "passes (verify_full_attestation_report env)"
proof -
  have "abi_lossless (re_abi env)"
    using assms by (simp add: report_env_ok_def)
  then show ?thesis
    using nitro_journal_assertions verify_fixture [OF assms, of 1]
      decode_encode [of "re_abi env" "nitro_journal (dep_sha256 (re_deps env)) 1"]
    by (simp add: verify_full_attestation_report_def attestation_input_def
        decoded_report_Ok [OF assms] nitro_inputs encode_def del: passes_run_all)
      (simp add: list_all_iff)
qed

lemma corrupted_test:
  assumes "report_env_ok env"
  shows "passes (corrupted_attestation_rejected env)"
proof -
  obtain e where "value_from_reader (dep_cbor (re_deps env)) [0xDE, 0xAD] = Inl e"
    using assms by (cases "value_from_reader (dep_cbor (re_deps env)) [0xDE, 0xAD]")
      (auto simp: report_env_ok_def)
  then show ?thesis
    by (simp add: corrupted_attestation_rejected_def verify_def parse_report_def from_bytes_def)
qed

text \<open>
  The model passes the end-to-end tests of verifier/src/verify.rs, and the host test
  of src/direct.rs in a process without the variable NITRO_ATTESTATION, where the third-party code
  reads the bundled report as the real one does: the report is accepted with a trusted prefix of
  one and of none, with the expected journal, which survives the ABI round trip; two bytes of
  garbage are rejected.
\<close>

theorem report_tests_pass:
  assumes "report_env_ok env" and "world_env w TEST_ATTESTATION_ENV = None"
  shows "list_all passes (report_tests env w)"
proof -
  have "passes (verify_with_zero_trusted_prefix env)"
    using verify_fixture [OF assms(1), of 0]
    by (simp add: verify_with_zero_trusted_prefix_def decoded_report_Ok [OF assms(1)] nitro_inputs)
      (simp add: nitro_journal_def)
  moreover have "host_attestation_bytes env w = Ok nitro_attestation"
    using assms by (simp add: host_attestation_bytes_def TEST_ATTESTATION_HEX_def report_env_ok_def)
  then have "passes (verifies_attestation_on_host env w)"
    using verify_fixture [OF assms(1), of 1]
    by (simp add: verifies_attestation_on_host_def nitro_inputs TEST_TRUSTED_PREFIX_def)
      (simp add: nitro_journal_def)
  ultimately show ?thesis
    using full_report_test [OF assms(1)] corrupted_test [OF assms(1)]
    by (simp add: report_tests_def)
qed

end
