(* ===== verification/Unit_Tests.thy ===== *)
theory Unit_Tests
  imports Content_Tests Cose_Tests Error_Tests Provider_Tests X509_Tests Verify_Tests
begin

text \<open>
  The unit tests of the repository together: the tests of both crates that run without a proving
  backend, which are all of them.
\<close>

definition unit_tests ::
  "'o ciborium \<Rightarrow> 'o \<Rightarrow> (bytes \<Rightarrow> string) \<Rightarrow> ('k, 's) x509_env \<Rightarrow> ('p, 'l, 't) report_env \<Rightarrow> world
     \<Rightarrow> test list" where
  "unit_tests codec empty_map debug_bytes env renv w =
     m02_tests @ cose_tests codec empty_map @ error_tests @ provider_tests debug_bytes
     @ x509_tests env @ report_tests renv w"

text \<open>
  Property C14: the model passes every unit test of the repository: M-02 validation and the
  end-to-end runs (verify.rs), the COSE envelope (attestation.rs), the real AWS Nitro chain
  (x509.rs), the errors (error.rs), the proof provider (types.rs) and the host run (direct.rs).
  The hypotheses say that the third-party code reads the fixtures as the real one does: the codec
  reads back what the tests write, the parsers find the certificates and the document, the
  fixtures' signatures verify, and the tampered certificate is not signed by the root.
\<close>

theorem unit_tests_pass:
  assumes "cbor_codec codec empty_map" and "x509_tests_env env" and "report_env_ok renv"
    and "world_env w TEST_ATTESTATION_ENV = None"
  shows "list_all passes (unit_tests codec empty_map debug_bytes env renv w)"
  using assms
  by (simp add: unit_tests_def m02_tests_pass cose_tests_pass error_tests_pass provider_tests_pass
      x509_tests_pass report_tests_pass)

end
