(* ===== verification/Demo_Codec.thy ===== *)
theory Demo_Codec
  imports Sol_Types
begin

text \<open>
  A concrete codec for the two ABI-encoded structs. The development takes the ABI encoding as a
  parameter that is assumed to be lossless; the self-delimiting encoding of this theory shows,
  for the example runs, that such a parameter exists. It is not the Solidity ABI.
\<close>

section \<open>Self-delimiting encodings and their combinators\<close>

definition prefix_codec :: "('a \<Rightarrow> bytes) \<Rightarrow> (bytes \<Rightarrow> ('a \<times> bytes) option) \<Rightarrow> bool" where
  "prefix_codec enc dec \<longleftrightarrow> (\<forall>x bs. dec (enc x @ bs) = Some (x, bs))"

lemma prefix_codecD: "prefix_codec enc dec \<Longrightarrow> dec (enc x @ bs) = Some (x, bs)"
  by (simp add: prefix_codec_def)

text \<open>A number in unary, closed by a zero byte.\<close>

primrec enc_nat :: "nat \<Rightarrow> bytes" where
  "enc_nat 0 = [0]"
| "enc_nat (Suc n) = 1 # enc_nat n"

fun dec_nat :: "bytes \<Rightarrow> (nat \<times> bytes) option" where
  "dec_nat [] = None"
| "dec_nat (b # bs) = (if b = 0 then Some (0, bs) else map_option (map_prod Suc id) (dec_nat bs))"

lemma prefix_codec_nat: "prefix_codec enc_nat dec_nat"
proof -
  have "dec_nat (enc_nat n @ bs) = Some (n, bs)" for n bs
    by (induction n) simp_all
  then show ?thesis by (simp add: prefix_codec_def)
qed

definition dec_pair ::
  "(bytes \<Rightarrow> ('a \<times> bytes) option) \<Rightarrow> (bytes \<Rightarrow> ('b \<times> bytes) option)
     \<Rightarrow> bytes \<Rightarrow> (('a \<times> 'b) \<times> bytes) option" where
  "dec_pair d1 d2 bs =
     Option.bind (d1 bs) (\<lambda>(x, r). map_option (\<lambda>(y, r'). ((x, y), r')) (d2 r))"

definition enc_pair :: "('a \<Rightarrow> bytes) \<Rightarrow> ('b \<Rightarrow> bytes) \<Rightarrow> 'a \<times> 'b \<Rightarrow> bytes" where
  "enc_pair e1 e2 p = e1 (fst p) @ e2 (snd p)"

lemma prefix_codec_pair:
  "prefix_codec e1 d1 \<Longrightarrow> prefix_codec e2 d2 \<Longrightarrow> prefix_codec (enc_pair e1 e2) (dec_pair d1 d2)"
  by (simp add: prefix_codec_def enc_pair_def dec_pair_def)

fun dec_times :: "(bytes \<Rightarrow> ('a \<times> bytes) option) \<Rightarrow> nat \<Rightarrow> bytes \<Rightarrow> ('a list \<times> bytes) option" where
  "dec_times d 0 bs = Some ([], bs)"
| "dec_times d (Suc n) bs =
     Option.bind (d bs) (\<lambda>(x, r). map_option (map_prod ((#) x) id) (dec_times d n r))"

definition enc_list :: "('a \<Rightarrow> bytes) \<Rightarrow> 'a list \<Rightarrow> bytes" where
  "enc_list e xs = enc_nat (length xs) @ concat (map e xs)"

definition dec_list :: "(bytes \<Rightarrow> ('a \<times> bytes) option) \<Rightarrow> bytes \<Rightarrow> ('a list \<times> bytes) option" where
  "dec_list d bs = Option.bind (dec_nat bs) (\<lambda>(n, r). dec_times d n r)"

lemma prefix_codec_list: "prefix_codec e d \<Longrightarrow> prefix_codec (enc_list e) (dec_list d)"
proof -
  assume codec: "prefix_codec e d"
  have "dec_times d (length xs) (concat (map e xs) @ bs) = Some (xs, bs)" for xs bs
    by (induction xs) (simp_all add: prefix_codecD [OF codec])
  then show ?thesis
    by (simp add: prefix_codec_def enc_list_def dec_list_def prefix_codecD [OF prefix_codec_nat])
qed

definition dec_map :: "('b \<Rightarrow> 'a) \<Rightarrow> (bytes \<Rightarrow> ('b \<times> bytes) option) \<Rightarrow> bytes \<Rightarrow> ('a \<times> bytes) option"
  where "dec_map g d bs = map_option (map_prod g id) (d bs)"

lemma prefix_codec_map:
  "prefix_codec e d \<Longrightarrow> (\<And>x. g (f x) = x) \<Longrightarrow> prefix_codec (\<lambda>x. e (f x)) (dec_map g d)"
  by (simp add: prefix_codec_def dec_map_def)

section \<open>Codecs of the field types\<close>

definition enc_word :: "'n::len word \<Rightarrow> bytes" where
  "enc_word w = enc_nat (unat w)"

definition dec_word :: "bytes \<Rightarrow> ('n::len word \<times> bytes) option" where
  "dec_word = dec_map of_nat dec_nat"

lemma prefix_codec_word: "prefix_codec enc_word dec_word"
  unfolding enc_word_def dec_word_def by (rule prefix_codec_map [OF prefix_codec_nat]) simp

definition enc_array :: "'n::len byte_array \<Rightarrow> bytes" where
  "enc_array a = enc_list enc_word (as_slice a)"

definition dec_array :: "bytes \<Rightarrow> ('n::len byte_array \<times> bytes) option" where
  "dec_array = dec_map Byte_Array (dec_list dec_word)"

lemma prefix_codec_array: "prefix_codec enc_array dec_array"
  unfolding enc_array_def dec_array_def
  by (rule prefix_codec_map [OF prefix_codec_list [OF prefix_codec_word]])
    (simp add: as_slice_inverse)

definition enc_string :: "string \<Rightarrow> bytes" where
  "enc_string s = enc_list enc_nat (map of_char s)"

definition dec_string :: "bytes \<Rightarrow> (string \<times> bytes) option" where
  "dec_string = dec_map (map char_of) (dec_list dec_nat)"

lemma prefix_codec_string: "prefix_codec enc_string dec_string"
  unfolding enc_string_def dec_string_def
  by (rule prefix_codec_map [OF prefix_codec_list [OF prefix_codec_nat]]) (simp add: comp_def)

fun result_of_nat :: "nat \<Rightarrow> VerificationResult" where
  "result_of_nat n = (if n = 1 then Success else if n = 2 then RootCertNotTrusted
     else if n = 3 then IntermediateCertsNotTrusted else if n = 4 then InvalidTimestamp
     else Unknown)"

lemma prefix_codec_result:
  "prefix_codec (\<lambda>r. enc_nat (unat (verification_result_discriminant r)))
     (dec_map result_of_nat dec_nat)"
proof (rule prefix_codec_map [OF prefix_codec_nat])
  fix r
  show "result_of_nat (unat (verification_result_discriminant r)) = r"
    by (cases r) simp_all
qed

lemmas prefix_codecs = prefix_codec_pair prefix_codec_list prefix_codec_word prefix_codec_array
  prefix_codec_string prefix_codec_result

section \<open>The two structs\<close>

definition sol_value_of ::
  "('a \<Rightarrow> bytes) \<Rightarrow> (bytes \<Rightarrow> ('a \<times> bytes) option) \<Rightarrow> 'a sol_value" where
  "sol_value_of enc dec =
     \<lparr>abi_encode = enc,
      abi_decode_validate =
        (\<lambda>bs. case dec bs of Some (x, []) \<Rightarrow> Inr x | _ \<Rightarrow> Inl ''invalid encoding'')\<rparr>"

lemma abi_lossless_sol_value_of: "prefix_codec enc dec \<Longrightarrow> abi_lossless (sol_value_of enc dec)"
  using prefix_codecD [of enc dec _ "[]"] by (simp add: abi_lossless_def sol_value_of_def)

definition demo_abi_input :: "VerifierInput sol_value" where
  "demo_abi_input = sol_value_of
     (\<lambda>i. enc_pair enc_word (enc_list enc_word)
            (vi_trustedCertsPrefixLen i, vi_attestationReport i))
     (dec_map (\<lambda>(p, r). \<lparr>vi_trustedCertsPrefixLen = p, vi_attestationReport = r\<rparr>)
        (dec_pair dec_word (dec_list dec_word)))"

lemma demo_abi_input_lossless: "abi_lossless demo_abi_input"
  unfolding demo_abi_input_def
  by (intro abi_lossless_sol_value_of prefix_codec_map prefix_codecs) simp

type_synonym journal_tuple =
  "VerificationResult \<times> u8 \<times> u64 \<times> B256 list \<times> u64 list \<times> bytes \<times> bytes \<times> bytes
     \<times> (u64 \<times> B256 \<times> B128) list \<times> string"

definition journal_to_tuple :: "VerifierJournal \<Rightarrow> journal_tuple" where
  "journal_to_tuple j =
     (vj_result j, vj_trustedCertsPrefixLen j, vj_timestamp j, vj_certs j, vj_certExpiries j,
      vj_userData j, vj_nonce j, vj_publicKey j,
      map (\<lambda>p. (pcr_index p, first (pcr_value p), second (pcr_value p))) (vj_pcrs j),
      vj_moduleId j)"

fun journal_of_tuple :: "journal_tuple \<Rightarrow> VerifierJournal" where
  "journal_of_tuple (r, p, t, cs, es, u, n, k, ps, m) =
     \<lparr>vj_result = r, vj_trustedCertsPrefixLen = p, vj_timestamp = t, vj_certs = cs,
      vj_certExpiries = es, vj_userData = u, vj_nonce = n, vj_publicKey = k,
      vj_pcrs = map (\<lambda>(i, f, s). \<lparr>pcr_index = i, pcr_value = \<lparr>first = f, second = s\<rparr>\<rparr>) ps,
      vj_moduleId = m\<rparr>"

lemma journal_of_to_tuple: "journal_of_tuple (journal_to_tuple j) = j"
proof -
  have "map (\<lambda>p. \<lparr>pcr_index = pcr_index p, pcr_value = \<lparr>first = first (pcr_value p),
      second = second (pcr_value p)\<rparr>\<rparr>) ps = ps" for ps
    by (rule map_idI) simp
  then show ?thesis
    by (cases j) (simp add: journal_to_tuple_def comp_def)
qed

definition enc_tuple :: "journal_tuple \<Rightarrow> bytes" where
  "enc_tuple =
     enc_pair (\<lambda>r. enc_nat (unat (verification_result_discriminant r)))
    (enc_pair enc_word (enc_pair enc_word (enc_pair (enc_list enc_array)
    (enc_pair (enc_list enc_word) (enc_pair (enc_list enc_word) (enc_pair (enc_list enc_word)
    (enc_pair (enc_list enc_word)
    (enc_pair (enc_list (enc_pair enc_word (enc_pair enc_array enc_array))) enc_string))))))))"

definition dec_tuple :: "bytes \<Rightarrow> (journal_tuple \<times> bytes) option" where
  "dec_tuple =
     dec_pair (dec_map result_of_nat dec_nat)
    (dec_pair dec_word (dec_pair dec_word (dec_pair (dec_list dec_array)
    (dec_pair (dec_list dec_word) (dec_pair (dec_list dec_word) (dec_pair (dec_list dec_word)
    (dec_pair (dec_list dec_word)
    (dec_pair (dec_list (dec_pair dec_word (dec_pair dec_array dec_array))) dec_string))))))))"

definition demo_abi_journal :: "VerifierJournal sol_value" where
  "demo_abi_journal =
     sol_value_of (\<lambda>j. enc_tuple (journal_to_tuple j)) (dec_map journal_of_tuple dec_tuple)"

lemma demo_abi_journal_lossless: "abi_lossless demo_abi_journal"
  unfolding demo_abi_journal_def
proof (rule abi_lossless_sol_value_of, rule prefix_codec_map)
  show "prefix_codec enc_tuple dec_tuple"
    unfolding enc_tuple_def dec_tuple_def by (intro prefix_codecs)
qed (rule journal_of_to_tuple)

end
