(* ===== verification/Examples.thy ===== *)
theory Examples
  imports Direct_Async Cli Demo_Codec
begin

text \<open>
  A concrete run: toy instances of the third-party parameters (a hash, a signature scheme, an
  X.509 and a CBOR parser), a chain of three certificates and an attestation report signed by
  its leaf. Every property with hypotheses is applied here to this run, so its hypotheses
  hold of something.
\<close>

section \<open>Third-party code\<close>

text \<open>The hash keeps the length, the sum and the first 30 bytes of its input.\<close>

definition demo_sha :: "bytes \<Rightarrow> B256" where
  "demo_sha bs = Byte_Array (take 32 (of_nat (length bs) # sum_list bs # bs @ replicate 32 0))"

text \<open>Keys are byte strings; a signature is the key followed by the message.\<close>

definition demo_p384 :: "(bytes, bytes) p384" where
  "demo_p384 =
     \<lparr>from_sec1_bytes = (\<lambda>k. if k = [] then Inl ''invalid key'' else Inr k),
      signature_from_der = Inr,
      signature_from_slice = Inr,
      ecdsa_verify = (\<lambda>k m s. if s = k @ m then Inr () else Inl ''signature error'')\<rparr>"

section \<open>Certificates\<close>

definition demo_cert ::
  "nat \<Rightarrow> nat \<Rightarrow> bytes \<Rightarrow> bytes \<Rightarrow> bool \<Rightarrow> nat X509Certificate" where
  "demo_cert iss sub key tbs is_ca =
     \<lparr>issuer = iss, subject = sub, not_before = 1000, not_after = 2000,
      signature_algorithm = OID_SIG_ECDSA_WITH_SHA384,
      pk_algorithm = OID_KEY_TYPE_EC_PUBLIC_KEY,
      pk_parameters = Some (Inr OID_NIST_EC_P384),
      subject_public_key = key,
      basic_constraints =
        Inr (if is_ca then Some \<lparr>bc_ca = True, path_len_constraint = Some 1\<rparr> else None),
      key_usage = Inr (Some \<lparr>digital_signature = \<not> is_ca, key_cert_sign = is_ca\<rparr>),
      signature_value = [of_nat iss] @ tbs,
      tbs_certificate = tbs\<rparr>"

text \<open>The key of the subject numbered \<open>n\<close> is \<open>[n]\<close>; the root (1) signs itself.\<close>

definition demo_root :: "nat X509Certificate" where
  "demo_root = demo_cert 1 1 [1] [11] True"

definition demo_inter :: "nat X509Certificate" where
  "demo_inter = demo_cert 1 2 [2] [12] True"

definition demo_leaf :: "nat X509Certificate" where
  "demo_leaf = demo_cert 2 3 [3] [13] False"

definition demo_x509 :: "nat x509_from_der" where
  "demo_x509 der =
     (if der = [1] then Inr ([], demo_root)
      else if der = [2] then Inr ([], demo_inter)
      else if der = [3] then Inr ([], demo_leaf)
      else Inl ''invalid DER'')"

definition demo_chain :: "nat CertChain" where
  "demo_chain =
     \<lparr>certs = [\<lparr>pc_cert = demo_root, pc_der = [1]\<rparr>, \<lparr>pc_cert = demo_inter, pc_der = [2]\<rparr>,
               \<lparr>pc_cert = demo_leaf, pc_der = [3]\<rparr>]\<rparr>"

lemmas demo_certs = demo_root_def demo_inter_def demo_leaf_def demo_cert_def

lemma demo_chain_parses: "chain_from_der demo_x509 [[1], [2], [3]] = Ok demo_chain"
  by (simp add: chain_from_der_def parse_cert_def demo_x509_def demo_chain_def)

lemma demo_contents:
  "content_ok False demo_root" "content_ok False demo_inter" "content_ok True demo_leaf"
  by (simp_all add: content_ok_def ca_certificate_def leaf_certificate_def p384_certificate_def
      demo_certs)

lemma demo_valid: "valid_at demo_root 1500000" "valid_at demo_inter 1500000"
  "valid_at demo_leaf 1500000"
  by (simp_all add: valid_at_def demo_certs)

lemma demo_signs:
  "signs demo_p384 demo_root demo_root" "signs demo_p384 demo_root demo_inter"
  "signs demo_p384 demo_inter demo_leaf"
  by (simp_all add: signs_def demo_p384_def demo_certs)

lemma demo_basic_ok:
  "basic_ok 0 demo_root" "basic_ok 1 demo_inter" "basic_ok 2 demo_leaf"
  by (simp_all add: basic_ok_def self_issued_def demo_certs)

lemma demo_path_len: "path_len_ok 3 1 demo_root" "path_len_ok 3 2 demo_inter"
  by (simp_all add: path_len_ok_def demo_certs)

lemma demo_issuers: "issuer demo_inter = subject demo_root" "issuer demo_leaf = subject demo_inter"
  by (simp_all add: demo_certs)

lemma demo_chain_nth:
  "length (certs demo_chain) = 3"
  "pc_cert (certs demo_chain ! 0) = demo_root"
  "pc_cert (certs demo_chain ! 1) = demo_inter"
  "pc_cert (certs demo_chain ! 2) = demo_leaf"
  by (simp_all add: demo_chain_def)

text \<open>The chain is accepted with every prefix length.\<close>

lemma demo_cert_ok:
  assumes "i < 3"
  shows "cert_ok demo_p384 (certs demo_chain) tp 1500000 i"
proof -
  note facts = demo_chain_nth demo_contents demo_valid demo_signs demo_basic_ok demo_path_len
    demo_issuers
  have "cert_ok demo_p384 (certs demo_chain) tp 1500000 0"
    unfolding cert_ok_def issuance_ok_def signer_def by (simp add: facts)
  moreover have "cert_ok demo_p384 (certs demo_chain) tp 1500000 1"
    unfolding cert_ok_def issuance_ok_def signer_def using facts by simp
  moreover have "cert_ok demo_p384 (certs demo_chain) tp 1500000 2"
    unfolding cert_ok_def issuance_ok_def signer_def using facts by simp
  moreover have "i = 0 \<or> i = 1 \<or> i = 2" using assms by arith
  ultimately show ?thesis by blast
qed

lemma demo_chain_ok: "tp \<le> 3 \<Longrightarrow> chain_ok demo_p384 (certs demo_chain) tp 1500000"
  by (simp add: chain_ok_def demo_cert_ok demo_chain_nth)

section \<open>The report\<close>

definition demo_doc :: AttestationDocument where
  "demo_doc =
     \<lparr>module_id = ''i-demo'', timestamp = 1500000, digest = ''SHA384'',
      pcrs = btree_insert 0 (repeat_byte 1) btree_new,
      certificate = [3], cabundle = [[1], [2]],
      public_key = None, user_data = Some [7], nonce = None\<rparr>"

definition demo_cose :: CoseSign1 where
  "demo_cose = \<lparr>protected = [6], payload = [5], signature = [3, 9]\<rparr>"

text \<open>
  \<open>[8]\<close> encodes the bare envelope, \<open>[7]\<close> the tagged one with another unprotected header, \<open>[9]\<close>
  the \<open>Sig_structure\<close>, and \<open>[5]\<close> the document.
\<close>

definition demo_envelope :: "bool \<Rightarrow> bool CborValue" where
  "demo_envelope unprotected =
     CborArray [CborBytes [6], CborOther unprotected, CborBytes [5], CborBytes [3, 9]]"

definition demo_cbor :: "bool ciborium" where
  "demo_cbor =
     \<lparr>value_from_reader = (\<lambda>bs.
        if bs = [8] then Inr (demo_envelope False)
        else if bs = [7] then Inr (CborTag 18 (demo_envelope True))
        else if bs = [9] then Inr (sig_structure_value demo_cose)
        else Inl ''invalid CBOR''),
      document_from_reader = (\<lambda>bs. if bs = [5] then Inr demo_doc else Inl ''invalid document''),
      into_writer = (\<lambda>v. if v = sig_structure_value demo_cose then Inr [9]
                         else Inl ''unsupported value'')\<rparr>"

definition demo_deps :: "(bool, nat, bytes, bytes) deps" where
  "demo_deps =
     \<lparr>dep_cbor = demo_cbor, dep_x509 = demo_x509, dep_p384 = demo_p384, dep_sha256 = demo_sha\<rparr>"

definition demo_report :: AttestationReport where
  "demo_report = \<lparr>rep_cose = demo_cose, rep_doc = demo_doc\<rparr>"

definition demo_input :: "u8 \<Rightarrow> VerifierInput" where
  "demo_input tp = \<lparr>vi_trustedCertsPrefixLen = tp, vi_attestationReport = [8]\<rparr>"

definition demo_journal :: "u8 \<Rightarrow> VerifierJournal" where
  "demo_journal tp = journal_of demo_deps (demo_input tp) demo_report demo_chain"

lemma demo_doc_ok: "doc_ok demo_doc"
  by (simp add: doc_ok_def demo_doc_def pcrs_ok_def length_within_def)

lemma demo_cbor_lossless: "cbor_lossless demo_cbor"
  by (simp add: cbor_lossless_def demo_cbor_def)

lemma demo_cert_chain_der: "cert_chain_der demo_report = [[1], [2], [3]]"
  by (simp add: cert_chain_der_def demo_report_def demo_doc_def)

lemma demo_envelope_cose: "is_cose_sign1 (demo_envelope False) demo_cose"
  by (auto simp: is_cose_sign1_def demo_envelope_def demo_cose_def)

lemma demo_report_of: "report_of demo_deps [8] demo_report"
  by (simp add: report_of_def demo_deps_def demo_cbor_def demo_report_def demo_envelope_cose)
    (simp add: demo_cose_def)

lemma demo_cose_signed: "cose_signed_by demo_deps [3] demo_cose"
  by (simp add: cose_signed_by_def demo_deps_def demo_cbor_def demo_p384_def)
    (simp add: demo_cose_def)

lemma demo_accepts:
  assumes "unat tp \<le> 3"
  shows "accepts demo_deps (demo_input tp) demo_report demo_chain"
proof -
  have "parses_to demo_x509 [[1], [2], [3]] demo_chain"
    using demo_chain_parses by (simp add: chain_from_der_Ok_iff)
  moreover have "subject_public_key (pc_cert (last (certs demo_chain))) = [3]"
    by (simp add: demo_chain_def demo_certs)
  moreover have "timestamp demo_doc = 1500000" by (simp add: demo_doc_def)
  ultimately show ?thesis
    using assms demo_report_of demo_doc_ok demo_chain_ok demo_cose_signed
    by (simp add: accepts_def demo_input_def demo_cert_chain_der)
      (simp add: demo_report_def demo_deps_def)
qed

lemma demo_verify: "unat tp \<le> 3 \<Longrightarrow> verify demo_deps (demo_input tp) = Ok (demo_journal tp)"
  using demo_accepts by (auto simp: verify_Ok_iff demo_journal_def)

section \<open>The guest and the prover on the report\<close>

definition demo_guest :: "(bool, nat, bytes, bytes) guest_deps" where
  "demo_guest = deps.extend demo_deps
     (guest_deps.fields demo_abi_input demo_abi_journal)"

lemma demo_guest_simps [simp]:
  "verifier_deps demo_guest = demo_deps"
  "abi_input demo_guest = demo_abi_input" "abi_journal demo_guest = demo_abi_journal"
  by (simp_all add: demo_guest_def verifier_deps_def deps.defs guest_deps.defs demo_deps_def)

lemma demo_guest_main:
  "guest_main demo_guest (encode demo_abi_input (demo_input 1)) =
     Ok (encode demo_abi_journal (demo_journal 1))"
  by (simp add: guest_main_def decode_encode demo_abi_input_lossless demo_verify)

text \<open>An SDK that proves exactly the runs of the guest that do not panic.\<close>

definition demo_sdk :: "(unit, unit) sp1_sdk" where
  "demo_sdk =
     \<lparr>cpu_client = (), sdk_setup = (\<lambda>_ _. Inr ()), vkey_bytes32 = (\<lambda>_. ''0x00''),
      prove_groth16 = (\<lambda>_ _ stdin. case guest_run demo_guest stdin of
          Ok out \<Rightarrow> Inr \<lparr>public_values = out, seal = STUB_SEAL\<rparr>
        | _ \<Rightarrow> Inl ''guest panicked'')\<rparr>"

definition demo_prover :: "(unit, unit) DirectProver" where
  "demo_prover = \<lparr>client = (), pk = (), trusted_certs_prefix_len = 1\<rparr>"

lemma demo_new: "direct_new demo_sdk elf 1 = Ok demo_prover"
  by (simp add: direct_new_def demo_sdk_def demo_prover_def)

lemma demo_proves: "proves_guest demo_guest demo_sdk () ()"
  by (auto simp: proves_guest_def demo_sdk_def split: outcome.splits)

definition demo_proof :: AttestationProof where
  "demo_proof =
     \<lparr>proof_output = encode demo_abi_journal (demo_journal 1), proof_bytes = STUB_SEAL\<rparr>"

lemma demo_prover_input: "prover_input demo_prover [8] = demo_input 1"
  by (simp add: prover_input_def demo_prover_def demo_input_def)

lemma demo_generate:
  "direct_generate_proof demo_guest demo_sdk demo_prover [8] False = Ok demo_proof"
  using demo_guest_main
  by (simp add: direct_generate_proof_def prepare_stdin_cases demo_prover_input demo_verify)
    (simp add: demo_sdk_def demo_prover_def guest_run_def finish_proof_def demo_proof_def)

section \<open>Witnesses\<close>

lemma demo_verify_chain:
  "tp \<le> 3 \<Longrightarrow> verify_chain demo_sha demo_p384 demo_chain tp 1500000 =
     Ok (compute_path_digests demo_sha [[1], [2], [3]], [2000, 2000, 2000])"
  using demo_chain_ok [of tp]
  by (simp add: verify_chain_Ok_iff)
    (simp add: demo_chain_def expiries_def demo_certs)

text \<open>Whatever envelope has these to-be-signed bytes has this header and this payload.\<close>

lemma sig_structure_binding_witness:
  "{c. sig_structure demo_cbor c = Ok [9]} \<subseteq> {c. protected c = [6] \<and> payload c = [5]}"
proof -
  have "sig_structure demo_cbor demo_cose = Ok [9]"
    by (simp add: sig_structure_Ok_iff demo_cbor_def)
  then show ?thesis
    using sig_structure_binding [OF demo_cbor_lossless, of _ "[9]" demo_cose]
    by (auto simp: demo_cose_def)
qed

lemma path_digests_recurrence_witness:
  "compute_path_digests demo_sha [[1], [2]] ! 0 = demo_sha [1]
   \<and> compute_path_digests demo_sha [[1], [2]] ! 1 =
       demo_sha (as_slice (compute_path_digests demo_sha [[1], [2]] ! 0) @ as_slice (demo_sha [2]))"
  using path_digests_recurrence [of demo_sha "[[1], [2]]"] by simp

lemma as_slice_demo_sha:
  "as_slice (demo_sha bs) = take 32 (of_nat (length bs) # sum_list bs # bs @ replicate 32 0)"
  by (simp add: demo_sha_def)

lemma path_digest_binding_witness:
  "last (compute_path_digests demo_sha [[1], [2]]) \<noteq> last (compute_path_digests demo_sha [[1], [3]])"
proof
  assume eq: "last (compute_path_digests demo_sha [[1], [2]]) =
    last (compute_path_digests demo_sha [[1], [3]])"
  have "inj_on demo_sha (set (hashed_inputs demo_sha [[1], [2]]) \<union>
      set (hashed_inputs demo_sha [[1], [3]]))"
    by (simp add: inj_on_def flip: as_slice_eq_iff) (simp add: as_slice_demo_sha)
  then have "[[1], [2]] = [[1], [3 :: byte]]"
    by (rule path_digest_binding [OF _ _ _ _ _ eq]) simp_all
  then show False by simp
qed

lemma validate_attestation_content_correct_witness:
  "validate_attestation_content demo_doc = Ok () \<and> 1 \<le> btree_len (pcrs demo_doc)"
  using validate_attestation_content_correct [of demo_doc] demo_doc_ok by simp

lemma verify_chain_first_error_witness:
  "verify_chain demo_sha demo_p384 demo_chain 0 3000000 =
     Err (CertificateVerification
       ''certificate 0: expired (notAfter=2000, timestamp=3000)'')"
  (is "_ = Err ?e")
proof -
  have "not_after_secs 0 (not_after demo_root) = Ok 2000"
    by (simp add: not_after_secs_def demo_certs)
  moreover have "validate_cert_content demo_root False = Ok ()"
    using demo_contents(1) by (simp add: validate_cert_content_Ok_iff)
  moreover have "check_validity demo_root 3000000 0 = Err ?e"
    by (simp add: check_validity_def timestamp_secs_def demo_certs cert_msg_def show_int_def
        show_nat.simps digit_def char_of_def bit_0)
  ultimately have "verify_cert demo_p384 (certs demo_chain) 0 3000000 0 (certs demo_chain ! 0) =
      Err ?e"
    using demo_chain_nth(1) by (simp add: verify_cert_def demo_chain_nth(2))
  then show ?thesis
    using verify_chain_first_error [of 0 demo_chain demo_sha demo_p384 3000000 ?e] demo_chain_nth(1)
    by (auto intro!: exI [of _ 0])
qed

lemma verify_chain_prefix_mono_witness:
  "verify_chain demo_sha demo_p384 demo_chain 2 1500000 =
     Ok (compute_path_digests demo_sha [[1], [2], [3]], [2000, 2000, 2000])"
  by (rule verify_chain_prefix_mono [OF demo_verify_chain, of 0])
    (simp_all add: demo_chain_nth)

lemma demo_chain_data:
  "map pc_der (certs demo_chain) = [[1], [2], [3]]" "expiries (certs demo_chain) = [2000, 2000, 2000]"
  by (simp_all add: demo_chain_def expiries_def demo_certs)

lemma verify_chain_fully_trusted_witness:
  "verify_chain demo_sha demo_p384 demo_chain 3 0 =
     Ok (compute_path_digests demo_sha [[1], [2], [3]], [2000, 2000, 2000])"
proof -
  have "\<forall>i < length (certs demo_chain). basic_ok i (pc_cert (certs demo_chain ! i))"
    using demo_chain_ok [of 0] by (simp add: chain_ok_def cert_ok_def)
  then have "verify_chain demo_sha demo_p384 demo_chain (length (certs demo_chain)) 0 =
      Ok (compute_path_digests demo_sha (map pc_der (certs demo_chain)), expiries (certs demo_chain))"
    by (simp add: verify_chain_fully_trusted)
  then show ?thesis
    unfolding demo_chain_data demo_chain_nth(1) .
qed

lemma verify_chain_time_interval_witness:
  "verify_chain demo_sha demo_p384 demo_chain 3 1500000 =
     Ok (compute_path_digests demo_sha [[1], [2], [3]], [2000, 2000, 2000])"
proof -
  have "verify_chain demo_sha demo_p384 demo_chain 3 ts =
      Ok (compute_path_digests demo_sha [[1], [2], [3]], [2000, 2000, 2000])" for ts
    using demo_chain_ok [of 3]
    by (simp add: verify_chain_Ok_iff demo_chain_data chain_ok_def cert_ok_def demo_chain_nth(1))
  from verify_chain_time_interval [OF this [of 1000000] this [of 2000000], of 1500000]
  show ?thesis by simp
qed

lemma cert_chain_type_witness:
  "chain_wf demo_x509 demo_chain \<and> chain_from_der demo_x509 [[1], [2], [3]] = Ok demo_chain
   \<and> leaf_public_key demo_chain = Ok [3]"
proof -
  have "chain_wf demo_x509 demo_chain"
    using cert_chain_type [of demo_x509 "[[1], [2], [3]]" demo_chain] demo_chain_parses by simp
  moreover have "l = demo_leaf" if "demo_x509 [3] = Inr ([], l)" for l
    using that by (simp add: demo_x509_def)
  ultimately show ?thesis
    using cert_chain_type [of demo_x509 "[[1], [2], [3]]" demo_chain] demo_chain_parses
    by (auto simp: demo_chain_data demo_x509_def) (simp add: demo_certs)
qed

text \<open>With an empty prefix the leaf is trusted from the root alone.\<close>

lemma verify_chain_trusted_witness:
  "trusted demo_p384 1500000 {demo_root} demo_leaf \<and> ca_certificate demo_root"
proof -
  have "anchors_of (certs demo_chain) 0 = {demo_root}"
    by (simp add: anchors_of_def demo_chain_def)
  then show ?thesis
    using verify_chain_trusted [OF demo_verify_chain, of 0]
    by (simp add: demo_chain_def)
qed

lemma verify_chain_expiry_bound_witness: "unat (1500000 :: u64) \<le> unat (2000 :: u64) * 1000 + 999"
proof -
  have "unat (1500000 :: u64) \<le> unat ([2000, 2000, 2000 :: u64] ! 2) * 1000 + 999"
    by (rule verify_chain_expiry_bound [OF demo_verify_chain, of 1])
      (simp_all add: demo_chain_nth)
  then show ?thesis by simp
qed

text \<open>The root's path length of 1 leaves room for the one intermediate.\<close>

lemma verify_chain_path_length_witness:
  "length (drop 1 (butlast (certs demo_chain))) \<le> unat (1 :: u32)"
proof -
  have "length (drop (Suc 0) (butlast (certs demo_chain))) \<le> unat (1 :: u32)"
    by (rule verify_chain_path_length
          [OF demo_verify_chain, of 1 _ "\<lparr>bc_ca = True, path_len_constraint = Some 1\<rparr>"])
      (simp_all add: demo_chain_def demo_certs)
  then show ?thesis by simp
qed

lemma verify_journal_wf_witness: "journal_wf (demo_journal 1)"
  by (rule verify_journal_wf [OF demo_verify]) simp

lemma verify_authentic_witness:
  "\<exists>c d chain leaf. document_from_reader (dep_cbor demo_deps) (payload c) = Inr d
     \<and> cose_signed_by demo_deps (subject_public_key (pc_cert leaf)) c
     \<and> parses_to (dep_x509 demo_deps) (cabundle d @ [certificate d]) chain
     \<and> leaf = last (certs chain)
     \<and> trusted (dep_p384 demo_deps) (timestamp d) (anchors_of (certs chain) 0) (pc_cert leaf)
     \<and> vj_moduleId (demo_journal 0) = module_id d"
proof -
  have "unat (vi_trustedCertsPrefixLen (demo_input 0)) = 0" by (simp add: demo_input_def)
  then show ?thesis
    using verify_authentic [OF demo_verify [of 0]] by (simp only: unat_0 zero_le) blast
qed

text \<open>The consumer has cached root and intermediate: the leaf is trusted from these two.\<close>

lemma verify_trusts_cached_prefix_witness:
  "\<exists>chain. parses_to demo_x509 [[1], [2], [3]] chain
     \<and> map pc_der (take 2 (certs chain)) = [[1], [2]]
     \<and> trusted demo_p384 1500000 (pc_cert ` set (take 2 (certs chain))) (pc_cert (last (certs chain)))"
proof -
  have sha: "dep_sha256 demo_deps = demo_sha" by (simp add: demo_deps_def)
  have "\<exists>chain :: nat CertChain. parses_to (dep_x509 demo_deps) (cert_chain_der demo_report) chain
     \<and> map pc_der (take 2 (certs chain)) = [[1], [2]]
     \<and> trusted (dep_p384 demo_deps) (vj_timestamp (demo_journal 2))
         (pc_cert ` set (take 2 (certs chain))) (pc_cert (last (certs chain)))"
  proof (rule verify_trusts_cached_prefix [OF demo_verify])
    show "unat (2 :: u8) \<le> 3" by simp
    show "parse_report (dep_cbor demo_deps) (vi_attestationReport (demo_input 2)) = Ok demo_report"
      using demo_report_of by (simp add: parse_report_Ok_iff report_of_def demo_input_def)
    show "2 = unat (vj_trustedCertsPrefixLen (demo_journal 2))"
      by (simp add: demo_journal_def journal_of_def demo_input_def)
    show "vj_certs (demo_journal 2) ! (2 - 1) =
        last (compute_path_digests (dep_sha256 demo_deps) [[1], [2]])"
      by (simp add: demo_journal_def journal_of_def demo_cert_chain_der)
    show "inj_on (dep_sha256 demo_deps)
        (set (hashed_inputs (dep_sha256 demo_deps) (take 2 (cert_chain_der demo_report)))
         \<union> set (hashed_inputs (dep_sha256 demo_deps) [[1], [2]]))"
      by (simp add: inj_on_def sha demo_cert_chain_der flip: as_slice_eq_iff)
        (simp add: as_slice_demo_sha)
  qed (simp_all add: demo_cert_chain_der)
  moreover have "vj_timestamp (demo_journal 2) = 1500000"
    by (simp add: demo_journal_def journal_of_def demo_report_def demo_doc_def)
  ultimately show ?thesis
    by (simp add: demo_cert_chain_der) (simp add: demo_deps_def)
qed

lemma verify_prefix_mono_witness:
  "verify demo_deps (demo_input 3) = Ok ((demo_journal 0)\<lparr>vj_trustedCertsPrefixLen := 3\<rparr>)"
proof -
  have "length (vj_certs (demo_journal 0)) = 3"
    by (simp add: demo_journal_def journal_of_def demo_cert_chain_der)
  then have "verify demo_deps ((demo_input 0)\<lparr>vi_trustedCertsPrefixLen := 3\<rparr>) =
      Ok ((demo_journal 0)\<lparr>vj_trustedCertsPrefixLen := 3\<rparr>)"
    by (intro verify_prefix_mono demo_verify) (simp_all add: demo_input_def)
  then show ?thesis by (simp add: demo_input_def)
qed

text \<open>The tagged report with another unprotected header.\<close>

lemma verify_ignores_unprotected_witness:
  "verify demo_deps \<lparr>vi_trustedCertsPrefixLen = 1, vi_attestationReport = [7]\<rparr> = Ok (demo_journal 1)"
proof -
  have "verify demo_deps \<lparr>vi_trustedCertsPrefixLen = 1, vi_attestationReport = [8]\<rparr> =
      verify demo_deps \<lparr>vi_trustedCertsPrefixLen = 1, vi_attestationReport = [7]\<rparr>"
    by (rule verify_ignores_unprotected
          [of demo_deps _ "CborBytes [6]" "CborOther False" "CborBytes [5]" "CborBytes [3, 9]"
            _ "CborOther True"])
      (simp_all add: demo_deps_def demo_cbor_def demo_envelope_def)
  then show ?thesis using demo_verify [of 1] by (simp add: demo_input_def)
qed

text \<open>The bare and the tagged report carry the same payload.\<close>

lemma verify_determined_by_payload_witness:
  "\<exists>j. verify demo_deps \<lparr>vi_trustedCertsPrefixLen = 1, vi_attestationReport = [7]\<rparr> = Ok j
     \<and> j = demo_journal 1"
proof -
  let ?tagged = "\<lparr>vi_trustedCertsPrefixLen = 1, vi_attestationReport = [7]\<rparr>"
  have "report_of demo_deps [7] demo_report"
    by (auto simp: report_of_def demo_deps_def demo_cbor_def demo_report_def is_cose_sign1_def
        demo_envelope_def) (simp_all add: demo_cose_def)
  then have "accepts demo_deps ?tagged demo_report demo_chain"
    using demo_accepts [of 1] by (simp add: accepts_def demo_input_def)
  then obtain j where j: "verify demo_deps ?tagged = Ok j"
    by (auto simp: verify_Ok_iff)
  have "parse_report (dep_cbor demo_deps) [7] = Ok demo_report"
    and "parse_report (dep_cbor demo_deps) [8] = Ok demo_report"
    using \<open>report_of demo_deps [7] demo_report\<close> demo_report_of
    by (simp_all add: parse_report_Ok_iff report_of_def)
  then have "j = demo_journal 1"
    by (intro verify_determined_by_payload [OF j demo_verify, of 1 demo_report demo_report])
      (simp_all add: demo_input_def)
  with j show ?thesis by blast
qed

text \<open>A prefix of 4 is longer than the chain: an error of the chain stage.\<close>

lemma demo_prefix_too_long:
  "verify demo_deps (demo_input 4) =
     Err (CertificateVerification ''trusted prefix length 4 exceeds chain length 3'')"
proof -
  have "parse_report demo_cbor [8] = Ok demo_report"
    using demo_report_of by (simp add: parse_report_Ok_iff report_of_def demo_deps_def)
  moreover have "validate_attestation_content (rep_doc demo_report) = Ok ()"
    using demo_doc_ok by (simp add: validate_attestation_content_Ok_iff demo_report_def)
  moreover have "verify_chain demo_sha demo_p384 demo_chain 4 ts =
      Err (CertificateVerification ''trusted prefix length 4 exceeds chain length 3'')" for ts
    by (simp add: verify_chain_def demo_chain_nth show_nat.simps digit_def char_of_def bit_0)
  ultimately show ?thesis
    using demo_chain_parses
    by (simp add: verify_def demo_input_def demo_cert_chain_der demo_deps_def)
qed

lemma verify_error_stage_witness:
  "chain_error (CertificateVerification ''trusted prefix length 4 exceeds chain length 3'')"
proof -
  have "parse_report (dep_cbor demo_deps) (vi_attestationReport (demo_input 4)) = Ok demo_report"
    using demo_report_of by (simp add: parse_report_Ok_iff report_of_def demo_input_def)
  moreover have "doc_ok (rep_doc demo_report)"
    using demo_doc_ok by (simp add: demo_report_def)
  moreover have "chain_from_der (dep_x509 demo_deps) (cert_chain_der demo_report) = Ok demo_chain"
    using demo_chain_parses by (simp add: demo_cert_chain_der) (simp add: demo_deps_def)
  moreover have "\<not> chain_ok ec (certs demo_chain) (unat (vi_trustedCertsPrefixLen (demo_input 4))) ts"
    for ec :: "(bytes, bytes) p384" and ts
    by (simp add: chain_ok_def demo_chain_nth demo_input_def)
  ultimately show ?thesis
    using verify_error_stage [OF demo_prefix_too_long] by simp
qed

lemma guest_commits_success_witness:
  "\<exists>j. decode demo_abi_journal (encode demo_abi_journal (demo_journal 1)) = Ok j \<and> journal_wf j"
  using guest_commits_success [of demo_guest, OF _ demo_guest_main] demo_abi_journal_lossless
  by simp

lemma direct_proof_attests_journal_witness:
  "\<exists>j. verify demo_deps (demo_input 1) = Ok j
     \<and> decode demo_abi_journal (proof_output demo_proof) = Ok j
     \<and> vj_trustedCertsPrefixLen j = 1"
proof -
  have "proves_guest demo_guest demo_sdk (client demo_prover) (pk demo_prover)"
    using demo_proves by simp
  then show ?thesis
    using direct_proof_attests_journal
      [of demo_guest demo_sdk demo_prover "[8]" False demo_proof, OF _ _ _ demo_generate]
      demo_abi_input_lossless demo_abi_journal_lossless
    by (auto simp: demo_prover_input) (simp add: demo_prover_def)
qed

section \<open>The asynchronous call\<close>

definition demo_proving :: gen_state where
  "demo_proving = poll demo_guest demo_sdk demo_prover [8] False (gen_init False)"

definition demo_returned :: gen_state where
  "demo_returned = poll demo_guest demo_sdk demo_prover [8] True demo_proving"

lemma demo_steps:
  "gen_steps demo_guest demo_sdk demo_prover [8] (gen_init False) demo_proving"
  "gen_steps demo_guest demo_sdk demo_prover [8] demo_proving demo_returned"
  unfolding demo_proving_def demo_returned_def by (auto intro: step_poll)

lemma demo_stdin:
  "prepare_stdin demo_guest demo_prover [8] False = Ok [encode demo_abi_input (demo_input 1)]"
  by (simp add: prepare_stdin_cases demo_prover_input demo_verify)

lemma demo_proving_phase:
  "fut_phase demo_proving = Proving [encode demo_abi_input (demo_input 1)]"
  "jobs demo_proving = [[encode demo_abi_input (demo_input 1)]]"
  by (simp_all add: demo_proving_def poll_def await_proof_def gen_init_def demo_stdin)

lemma demo_returned_phase: "fut_phase demo_returned = Returned (Ok demo_proof)"
  using demo_generate
  by (simp add: demo_returned_def poll_def await_proof_def demo_proving_phase
      direct_generate_proof_def demo_stdin)

lemma async_refines_sequential_witness:
  "\<exists>c. direct_generate_proof demo_guest demo_sdk demo_prover [8] c = Ok demo_proof"
proof -
  have "gen_steps demo_guest demo_sdk demo_prover [8] (gen_init False) demo_returned"
    using demo_steps by (rule rtranclp_trans)
  from async_refines_sequential [OF this demo_returned_phase] show ?thesis by metis
qed

lemma async_jobs_witness:
  "jobs demo_proving = [[encode demo_abi_input (prover_input demo_prover [8])]]"
  using async_jobs [OF demo_steps(1)] by (auto simp: demo_proving_phase)

text \<open>The token is cancelled while the job runs.\<close>

lemma async_in_flight_witness:
  "finish_proof (prove_groth16 demo_sdk () () [encode demo_abi_input (demo_input 1)]) = Ok demo_proof"
proof -
  let ?cancelled = "demo_proving\<lparr>token_cancelled := True\<rparr>"
  let ?final = "poll demo_guest demo_sdk demo_prover [8] True ?cancelled"
  have "gen_steps demo_guest demo_sdk demo_prover [8] demo_proving ?cancelled"
    by (rule r_into_rtranclp) (rule step_cancel)
  then have steps: "gen_steps demo_guest demo_sdk demo_prover [8] demo_proving ?final"
    by (rule rtranclp.rtrancl_into_rtrancl) (rule step_poll)
  have "fut_phase ?final = Returned (Ok demo_proof)"
    using demo_returned_phase
    by (simp add: demo_returned_def poll_def await_proof_def demo_proving_phase)
  from async_in_flight [OF steps demo_proving_phase(1) this] show ?thesis
    by (simp add: demo_prover_def)
qed

section \<open>The command line\<close>

text \<open>
  The toy \<open>serde_json\<close> joins the members, the toy \<open>hex\<close> keeps the bytes as characters; every
  non-empty proof passes the Groth16 verifier.
\<close>

definition demo_cli :: "(bool, nat, bytes, bytes, unit, unit) cli_deps" where
  "demo_cli =
     \<lparr>cli_guest = demo_guest, cli_sdk = demo_sdk, cargo_manifest_dir = ''/src'',
      test_attestation_hex = '' 08'' @ [CHR 0x0A],
      hex_decode = (\<lambda>s. if s = ''08'' then Inr [8] else Inl ''invalid hex''),
      hex_encode_prefixed = map (\<lambda>b. char_of (unat b)),
      to_vec_pretty = (\<lambda>members. Inr (map (\<lambda>c. of_nat (of_char c)) (concat (map snd members)))),
      groth16_vk_bytes = [4],
      groth16_verify = (\<lambda>pf out vk key. if pf = [] then Inl ''empty'' else Inr ())\<rparr>"

definition demo_world :: world where
  "demo_world =
     \<lparr>world_env = (\<lambda>_. None),
      world_files = [''/src/verifier/elf/nitro-verifier-guest'' \<mapsto> [0x7F]],
      dir_fault = (\<lambda>_. None), write_fault = (\<lambda>_. None)\<rparr>"

lemma demo_attestation_bytes: "fst (attestation_bytes demo_cli demo_world) = Ok [8]"
  by (simp add: attestation_bytes_def demo_world_def demo_cli_def trim_def is_whitespace_def)

lemma demo_cli_proof: "cli_proof demo_cli demo_world = Ok ([8], demo_prover, demo_proof)"
proof -
  have "fst (fs_read (elf_path demo_cli demo_world) demo_world) = Ok [0x7F]"
    by (simp add: fs_read_def elf_path_def demo_world_def demo_cli_def DEFAULT_GUEST_PROGRAM_def)
  moreover have "cli_guest demo_cli = demo_guest" "cli_sdk demo_cli = demo_sdk"
    by (simp_all add: demo_cli_def)
  ultimately show ?thesis
    by (simp add: cli_proof_def demo_attestation_bytes demo_new demo_generate)
qed

definition demo_saved :: world where
  "demo_saved = snd (save_proof_artifacts demo_cli PROOF_OUTPUT_DIR demo_proof
     (vkey (cli_sdk demo_cli) demo_prover) demo_world)"

lemma demo_save:
  "save_proof_artifacts demo_cli PROOF_OUTPUT_DIR demo_proof
     (vkey (cli_sdk demo_cli) demo_prover) demo_world = (Ok (), demo_saved)"
  by (simp add: demo_saved_def save_proof_artifacts_def run_then_def fs_create_dir_all_def
      fs_write_def pure_def proof_json_bytes_def vkey_json_bytes_def demo_world_def demo_cli_def)

lemma demo_elf_is_guest: "elf_is_guest demo_cli demo_world"
  using demo_proves by (simp add: elf_is_guest_def demo_cli_def)

lemma demo_cli_simps [simp]: "cli_guest demo_cli = demo_guest" "cli_sdk demo_cli = demo_sdk"
  by (simp_all add: demo_cli_def)

lemma demo_check: "check_proof demo_cli demo_proof vk = Ok ()"
proof -
  have "vj_result (demo_journal 1) = Success"
    by (simp add: demo_journal_def journal_of_def)
  then show ?thesis
    unfolding check_proof_Ok_iff
    by (simp add: demo_proof_def decode_encode demo_abi_journal_lossless STUB_SEAL_def)
      (simp add: demo_cli_def)
qed

lemma demo_main: "main demo_cli demo_world = (Ok (), demo_saved)"
  using demo_save by (simp add: main_eq demo_cli_proof finish_main_def run_then_def pure_def demo_check)

lemma main_success_witness:
  "\<exists>pj. world_files demo_saved ''./proof/proof.json'' = Some pj
     \<and> world_files demo_saved ''/src/verifier/elf/nitro-verifier-guest'' = Some [0x7F]"
  using main_success [OF demo_main] by (auto simp: demo_world_def)

text \<open>A disk on which \<open>vkey.json\<close> cannot be opened: the new proof stays beside the old key.\<close>

definition full_disk :: world where
  "full_disk = demo_world\<lparr>write_fault := [''./proof/vkey.json'' \<mapsto> (''disk full'', None)]\<rparr>"

lemma full_disk_main:
  "main demo_cli full_disk = finish_main demo_cli demo_prover demo_proof full_disk"
proof -
  have "cli_proof demo_cli full_disk = cli_proof demo_cli demo_world"
    by (rule cli_proof_reads) (simp_all add: full_disk_def)
  then show ?thesis by (simp add: main_eq demo_cli_proof)
qed

lemma full_disk_run:
  "main demo_cli full_disk =
     (Err (IoError ''disk full''), snd (main demo_cli full_disk))
   \<and> world_files (snd (main demo_cli full_disk)) ''./proof/proof.json'' \<noteq> None"
  unfolding full_disk_main
  by (simp add: finish_main_save save_proof_artifacts_def run_then_def
      fs_create_dir_all_def fs_write_def pure_def proof_json_bytes_def vkey_json_bytes_def
      full_disk_def demo_world_def artifact_paths demo_cli_def)

lemma main_disk_states_witness:
  "\<exists>pf pj. proof_json_bytes demo_cli pf = Inr pj
     \<and> world_files (snd (main demo_cli full_disk)) =
         (world_files full_disk)(''./proof/proof.json'' \<mapsto> pj)"
proof -
  have "world_files full_disk ''./proof/proof.json'' = None"
    by (simp add: full_disk_def demo_world_def)
  then have "world_files (snd (main demo_cli full_disk)) \<noteq> world_files full_disk"
    using full_disk_run by metis
  from main_disk_states [OF conjunct1 [OF full_disk_run] this] show ?thesis
    by (auto simp: artifact_state_def full_disk_def artifact_paths [unfolded PROOF_OUTPUT_DIR_def]
        dest: sym dest!: check_proof_Err)
qed

lemma main_saves_before_check_witness:
  "snd (main demo_cli demo_world) = demo_saved"
  using main_saves_before_check [OF demo_cli_proof demo_save] by simp

lemma main_attests_witness:
  "\<exists>j. verify demo_deps \<lparr>vi_trustedCertsPrefixLen = 1, vi_attestationReport = [8]\<rparr> = Ok j
     \<and> journal_wf j"
  using main_attests [OF demo_elf_is_guest _ demo_main] demo_abi_input_lossless
  by (auto simp: demo_attestation_bytes)

text \<open>On the full disk the run has a proof and fails in saving it; here it fails nowhere.\<close>

lemma main_failures_after_proving_witness: "fst (main demo_cli demo_world) = Ok ()"
proof -
  have "groth16_verify demo_cli (proof_bytes demo_proof) out vk key = Inr ()" for out vk key
    by (simp add: demo_cli_def demo_proof_def STUB_SEAL_def)
  moreover have "proof_bytes demo_proof \<noteq> []"
    by (simp add: demo_proof_def STUB_SEAL_def)
  moreover have "save_proof_artifacts demo_cli ''./proof'' demo_proof (vkey demo_sdk demo_prover)
      demo_world = (Ok (), demo_saved)"
    using demo_save by (simp add: PROOF_OUTPUT_DIR_def)
  ultimately show ?thesis
    using main_failures_after_proving [OF demo_elf_is_guest _ _ demo_cli_proof refl]
      demo_abi_input_lossless demo_abi_journal_lossless
    by auto
qed

end
