(* ===== verification/Examples_Cache.thy ===== *)
theory Examples_Cache
  imports Chain_Cache Examples
begin

text \<open>
  The concrete run of \<open>Examples\<close> seen by a consumer that caches trusted prefixes, a forged
  prefix that is not looked at, and chains that show why each condition on a cached prefix is
  there.
\<close>

section \<open>A forged prefix\<close>

text \<open>The root is not self-signed and the intermediate is expired and signed by nobody.\<close>

definition forged_root :: "nat X509Certificate" where
  "forged_root = demo_root\<lparr>issuer := 9, signature_value := []\<rparr>"

definition forged_inter :: "nat X509Certificate" where
  "forged_inter = demo_inter\<lparr>not_after := 0, signature_value := [], key_usage := Inr None\<rparr>"

definition forged_chain :: "nat CertChain" where
  "forged_chain =
     \<lparr>certs = [\<lparr>pc_cert = forged_root, pc_der = [4]\<rparr>, \<lparr>pc_cert = forged_inter, pc_der = [5]\<rparr>,
               \<lparr>pc_cert = demo_leaf, pc_der = [3]\<rparr>]\<rparr>"

lemma verify_chain_uses_of_prefix_witness:
  "\<exists>r. verify_chain demo_sha demo_p384 forged_chain 2 1500000 = Ok r"
proof -
  have "same_beyond 2 (certs demo_chain) (certs forged_chain)"
    by (simp add: same_beyond_def demo_chain_def forged_chain_def same_issuer_data_def
        forged_root_def forged_inter_def numeral_3_eq_3 numeral_2_eq_2
        basic_ok_def self_issued_def demo_certs All_less_Suc)
  then have "(\<exists>r. verify_chain demo_sha demo_p384 demo_chain 2 1500000 = Ok r) \<longleftrightarrow>
      (\<exists>r. verify_chain demo_sha demo_p384 forged_chain 2 1500000 = Ok r)"
    using verify_chain_uses_of_prefix [of 2 demo_chain forged_chain demo_sha demo_p384 1500000]
    by (simp add: demo_chain_nth(1) del: split_paired_Ex)
  moreover have "\<exists>r. verify_chain demo_sha demo_p384 demo_chain 2 1500000 = Ok r"
    using demo_verify_chain [of 2] by simp
  ultimately show ?thesis by blast
qed

section \<open>A consumer\<close>

text \<open>The report with the root trusted, then with the prefix that its first journal serves.\<close>

definition demo_history :: "(VerifierInput \<times> VerifierJournal) list" where
  "demo_history = [(demo_input 2, demo_journal 2), (demo_input 1, demo_journal 1)]"

lemma demo_journal_data:
  "vj_trustedCertsPrefixLen (demo_journal tp) = tp"
  "vj_certs (demo_journal tp) = compute_path_digests demo_sha [[1], [2], [3]]"
  "vj_timestamp (demo_journal tp) = 1500000"
  "vj_certExpiries (demo_journal tp) = [2000, 2000, 2000]"
  by (simp_all add: demo_journal_def journal_of_def demo_input_def demo_cert_chain_der demo_chain_data)
    (simp_all add: demo_deps_def demo_report_def demo_doc_def)

lemma demo_served: "served_by (demo_journal 1) (demo_journal 2)"
  by (auto simp: served_by_def demo_journal_data Let_def less_2_cases_iff)

lemma demo_consumer: "consumer demo_deps demo_history"
  unfolding demo_history_def
proof (rule consumer.prefix_served)
  show "consumer demo_deps [(demo_input 1, demo_journal 1)]"
    by (intro consumer.root_trusted consumer.empty_history demo_verify) (simp_all add: demo_input_def)
  show "served_by (demo_journal 1) (demo_journal 2)" by (rule demo_served)
qed (simp_all add: demo_verify)

lemma demo_collision_free:
  "collision_free demo_deps (set (hashed_inputs demo_sha [[1], [2], [3]])) demo_history"
proof -
  have sha: "dep_sha256 demo_deps = demo_sha" by (simp add: demo_deps_def)
  have "inj_on demo_sha (set (hashed_inputs demo_sha [[1], [2], [3]]))"
    by (simp add: inj_on_def link_def flip: as_slice_eq_iff) (simp add: as_slice_demo_sha)
  moreover have "parse_report (dep_cbor demo_deps) [8] = Ok demo_report"
    using demo_report_of by (simp add: parse_report_Ok_iff report_of_def)
  ultimately show ?thesis
    by (auto simp: collision_free_def demo_history_def demo_input_def sha demo_cert_chain_der)
qed

lemma cached_runs_equal_full_runs_witness:
  "verify demo_deps ((demo_input 2)\<lparr>vi_trustedCertsPrefixLen := 1\<rparr>) =
     Ok ((demo_journal 2)\<lparr>vj_trustedCertsPrefixLen := 1\<rparr>)"
  by (rule cached_runs_equal_full_runs [OF demo_consumer demo_collision_free])
    (simp add: demo_history_def)

section \<open>Why the conditions\<close>

text \<open>A certificate issued with the leaf's key.\<close>

definition demo_child :: "nat ParsedCert" where
  "demo_child = \<lparr>pc_cert = demo_cert 3 4 [4] [14] False, pc_der = [6]\<rparr>"

lemma cached_leaf_acts_as_ca_witness:
  "\<exists>r. verify_chain demo_sha demo_p384 \<lparr>certs = certs demo_chain @ [demo_child]\<rparr> 3 1500000 = Ok r"
proof -
  let ?p = "pc_cert demo_child" and ?leaf = "pc_cert (last (certs demo_chain))"
  have "leaf_certificate ?p" and "valid_at ?p 1500000" and "basic_ok 1 ?p"
    and "issuer ?p = subject ?leaf" and "signs demo_p384 ?leaf ?p"
    by (simp_all add: demo_child_def demo_chain_def leaf_certificate_def p384_certificate_def
        valid_at_def basic_ok_def self_issued_def signs_def demo_p384_def demo_certs)
  from cached_leaf_acts_as_ca [OF demo_verify_chain, of 0 demo_child, OF _ _ _ this]
  show ?thesis by (auto simp: demo_chain_nth(1))
qed

text \<open>
  A second intermediate: the root's path length is used up at the end of the cached prefix,
  but in the longer chain nobody compares it again.
\<close>

definition long_chain :: "nat CertChain" where
  "long_chain =
     \<lparr>certs = [\<lparr>pc_cert = demo_root, pc_der = [1]\<rparr>, \<lparr>pc_cert = demo_inter, pc_der = [2]\<rparr>,
               \<lparr>pc_cert = demo_cert 2 5 [5] [15] True, pc_der = [7]\<rparr>,
               \<lparr>pc_cert = demo_cert 5 3 [3] [16] False, pc_der = [8]\<rparr>]\<rparr>"

text \<open>The leaf outlives its issuers.\<close>

definition late_chain :: "nat CertChain" where
  "late_chain =
     \<lparr>certs = [\<lparr>pc_cert = demo_root, pc_der = [1]\<rparr>, \<lparr>pc_cert = demo_inter, pc_der = [2]\<rparr>,
               \<lparr>pc_cert = demo_leaf\<lparr>not_after := 9000\<rparr>, pc_der = [9]\<rparr>]\<rparr>"

lemmas chain_ok_eval = chain_ok_def cert_ok_def basic_ok_def issuance_ok_def signer_def
  self_issued_def content_ok_def ca_certificate_def leaf_certificate_def p384_certificate_def
  valid_at_def path_len_ok_def signs_def demo_p384_def demo_certs

lemma length_condition_needed:
  "chain_ok demo_p384 (certs long_chain) 2 1500000
   \<and> \<not> chain_ok demo_p384 (certs long_chain) 1 1500000
   \<and> length (certs demo_chain) < length (certs long_chain)"
  by (simp add: long_chain_def demo_chain_def chain_ok_eval All_less_Suc)

lemma expiry_condition_needed:
  "chain_ok demo_p384 (certs late_chain) 2 2500000
   \<and> \<not> chain_ok demo_p384 (certs late_chain) 1 2500000
   \<and> unat (not_after demo_inter) < unat (2500000 :: u64) div 1000"
  by (simp add: late_chain_def chain_ok_eval All_less_Suc)

end
