(* ===== verification/Examples_Concurrent.thy ===== *)
theory Examples_Concurrent
  imports Examples Direct_Concurrent
begin

text \<open>
  Concrete runs of several calls on one prover: the report of \<open>Examples\<close> is proved by one call,
  while another, for bytes that are no report, panics on the host.
\<close>

section \<open>Two calls\<close>

text \<open>The first call is polled until its proof is there.\<close>

definition two_calls :: "gen_state list" where
  "two_calls = [demo_returned, gen_init False]"

lemma demo_two_calls:
  "sys_steps demo_guest demo_sdk demo_prover [[8], []] (map gen_init [False, False]) two_calls"
proof -
  let ?start = "[gen_init False, gen_init False]"
  have "sys_step demo_guest demo_sdk demo_prover [[8], []] ?start (?start[0 := demo_proving])"
    unfolding demo_proving_def by (rule sys_call) (simp_all add: step_poll)
  moreover have "sys_step demo_guest demo_sdk demo_prover [[8], []] (?start[0 := demo_proving])
      ((?start[0 := demo_proving])[0 := demo_returned])"
    unfolding demo_returned_def by (rule sys_call) (simp_all add: step_poll)
  ultimately show ?thesis
    by (simp add: two_calls_def)
qed

text \<open>A call whose token is cancelled beforehand has submitted nothing after its first poll.\<close>

lemma demo_cancelled_call:
  "sys_steps demo_guest demo_sdk demo_prover [[8]] (map gen_init [True])
     [poll demo_guest demo_sdk demo_prover [8] False (gen_init True)]"
proof -
  have "sys_step demo_guest demo_sdk demo_prover [[8]] [gen_init True]
      ([gen_init True][0 := poll demo_guest demo_sdk demo_prover [8] False (gen_init True)])"
    by (rule sys_call) (simp_all add: step_poll)
  then show ?thesis by simp
qed

lemma concurrent_jobs_witness:
  "length (concat (map jobs two_calls)) \<le> 2
   \<and> jobs (poll demo_guest demo_sdk demo_prover [8] False (gen_init True)) = []"
  using concurrent_jobs [OF demo_two_calls] concurrent_jobs [OF demo_cancelled_call] by simp

text \<open>
  A schedule of three calls: the token of the third is cancelled before its first poll, that of
  the first only while its job is in flight.
\<close>

definition demo_schedule :: "event list" where
  "demo_schedule =
     [Cancel {2}, Poll 0 False, Poll 1 True, Cancel {0, 1}, Poll 2 True, Drop 1, Poll 0 True]"

definition demo_end :: "gen_state list" where
  "demo_end = run_schedule demo_guest demo_sdk demo_prover [[8], [], [8]] demo_schedule
     (map gen_init [False, False, False])"

lemma demo_prove:
  "prove_groth16 demo_sdk () ()
     [encode demo_abi_input (prover_input demo_prover [8])] =
     Inr \<lparr>public_values = proof_output demo_proof, seal = proof_bytes demo_proof\<rparr>"
  using demo_guest_main demo_prover_input
  by (simp add: demo_sdk_def guest_run_def demo_proof_def)

lemma concurrent_call_outcome_witness:
  "fut_phase (demo_end ! 0) = Returned (Ok demo_proof)
   \<and> jobs (demo_end ! 0) = [[encode demo_abi_input (prover_input demo_prover [8])]]
   \<and> fut_phase (demo_end ! 2) = Returned (Err (Sp1 ''proof generation cancelled before start''))
   \<and> jobs (demo_end ! 2) = []"
proof -
  have input: "\<lparr>vi_trustedCertsPrefixLen = trusted_certs_prefix_len demo_prover,
      vi_attestationReport = [8]\<rparr> = prover_input demo_prover [8]"
    by (simp add: prover_input_def)
  have "\<exists>j. verify demo_deps (prover_input demo_prover [8]) = Ok j"
    using demo_verify [of 1] by (simp add: demo_prover_input)
  moreover have "token_at_first_poll 0 False demo_schedule = False"
    and "token_at_first_poll 2 False demo_schedule = True"
    and "Poll 0 True \<in> set demo_schedule" and "Drop 0 \<notin> set demo_schedule"
    and "Poll 2 True \<in> set demo_schedule" and "Drop 2 \<notin> set demo_schedule"
    by (simp_all add: demo_schedule_def)
  ultimately show ?thesis
    using concurrent_call_outcome [of 0 "[False, False, False]" demo_schedule,
        OF _ _ _ fun_cong [OF arg_cong [OF demo_end_def, of nth]] refl]
      concurrent_call_outcome [of 2 "[False, False, False]" demo_schedule,
        OF _ _ _ fun_cong [OF arg_cong [OF demo_end_def, of nth]] refl]
    by (simp add: input demo_prove)
qed

end
