(* ===== verification/Nitro_Examples.thy ===== *)
theory Nitro_Examples
  imports Unit_Tests Demo_Codec
begin

text \<open>
  Instances of the third-party parameters on which the real certificate chain and the real report
  are accepted: tables that hold what the real code finds in these bytes, and nothing else. They
  show that the hypotheses of the properties about the fixtures can hold.
\<close>

section \<open>Tables\<close>

lemma nitro_der_lengths:
  "length root_der = 533" "length inter1_der = 706" "length inter2_der = 794"
  "length inter3_der = 707" "length leaf_der = 640"
  by (simp_all add: root_der_def inter1_der_def inter2_der_def inter3_der_def leaf_der_def
      hex_bytes_length report_lengths)

lemma nitro_ders_distinct: "distinct nitro_ders"
  using nitro_der_lengths by (auto simp: nitro_ders_def)

definition table_x509 :: "string x509_from_der" where
  "table_x509 der =
     (case map_of (zip nitro_ders nitro_certs) der of
        Some c \<Rightarrow> Inr ([], c)
      | None \<Rightarrow>
          if der = inter1_der @ trailing_der then Inr (trailing_der, inter1_cert)
          else Inl ''invalid DER'')"

text \<open>The signed messages: the chain's certificates, the root's own and the report.\<close>

definition table_signatures :: "(bytes \<times> bytes \<times> bytes) list" where
  "table_signatures =
     map (\<lambda>(p, c). (subject_public_key p, tbs_certificate c, signature_value c))
       [(root_cert, root_cert), (root_cert, inter1_cert), (inter1_cert, inter2_cert),
        (inter2_cert, inter3_cert), (inter3_cert, leaf_cert)]
     @ [(subject_public_key leaf_cert, [9], signature nitro_cose)]"

definition table_p384 :: "(bytes, bytes) p384" where
  "table_p384 =
     \<lparr>from_sec1_bytes = Inr, signature_from_der = Inr, signature_from_slice = Inr,
      ecdsa_verify = (\<lambda>k m s. if (k, m, s) \<in> set table_signatures then Inr ()
                              else Inl ''signature error'')\<rparr>"

definition table_cbor :: "unit ciborium" where
  "table_cbor =
     \<lparr>value_from_reader = (\<lambda>bs.
        if bs = nitro_attestation then
          Inr (CborArray [CborBytes (protected nitro_cose), CborOther (),
                          CborBytes (payload nitro_cose), CborBytes (signature nitro_cose)])
        else Inl ''invalid CBOR''),
      document_from_reader = (\<lambda>bs. if bs = payload nitro_cose then Inr nitro_doc
                                   else Inl ''invalid document''),
      into_writer = (\<lambda>v. if v = sig_structure_value nitro_cose then Inr [9]
                         else Inl ''unsupported value'')\<rparr>"

definition table_sha :: "bytes \<Rightarrow> B256" where
  "table_sha bs = Byte_Array (take 32 (bs @ replicate 32 0))"

definition table_env :: "(bytes, bytes) x509_env" where
  "table_env =
     \<lparr>env_hex = (\<lambda>h. Inr (hex_bytes h)), env_x509 = table_x509, env_p384 = table_p384,
      env_sha256 = table_sha\<rparr>"

definition table_deps :: "(unit, string, bytes, bytes) deps" where
  "table_deps =
     \<lparr>dep_cbor = table_cbor, dep_x509 = table_x509, dep_p384 = table_p384, dep_sha256 = table_sha\<rparr>"

definition table_report_env :: "(unit, bytes, bytes) report_env" where
  "table_report_env =
     \<lparr>re_hex = (\<lambda>h. Inr (hex_bytes h)), re_deps = table_deps, re_abi = demo_abi_journal\<rparr>"

section \<open>They are as required\<close>

lemma table_signs: "(subject_public_key p, tbs_certificate c, signature_value c) \<in> set table_signatures \<Longrightarrow>
  signs table_p384 p c"
  by (simp add: signs_def table_p384_def)

lemma table_nitro_signatures: "nitro_signatures table_p384"
  unfolding nitro_signatures_def by (intro conjI table_signs) (simp_all add: table_signatures_def)

lemma table_parses: "list_all2 (\<lambda>der cert. table_x509 der = Inr ([], cert)) nitro_ders nitro_certs"
proof -
  have "length nitro_ders = length nitro_certs"
    by (simp add: nitro_ders_def nitro_certs_def)
  then show ?thesis
    using nitro_ders_distinct
    by (simp add: list_all2_conv_all_nth table_x509_def map_of_zip_nth)
qed

lemma table_nitro_env: "nitro_env table_env"
  using table_parses table_nitro_signatures by (simp add: nitro_env_def table_env_def)

lemma flip_middle_neq: "flip_middle v = Ok bs \<Longrightarrow> bs \<noteq> v \<and> length bs = length v"
proof
  have "xor b 0xFF \<noteq> b" for b :: byte
  proof
    assume "xor b 0xFF = b"
    then have "xor b (xor b 0xFF) = xor b b" by simp
    then have "(0xFF :: byte) = 0" by (simp flip: xor.assoc)
    then show False by simp
  qed
  then show "flip_middle v = Ok bs \<Longrightarrow> bs \<noteq> v"
    by (auto simp: flip_middle_def Let_def index_def outcome_iffs split: if_splits)
      (metis nth_list_update_eq)
  show "flip_middle v = Ok bs \<Longrightarrow> length bs = length v"
    by (auto simp: flip_middle_def Let_def outcome_iffs)
qed

lemma table_unknown: "der \<notin> set nitro_ders \<Longrightarrow> der \<noteq> inter1_der @ trailing_der \<Longrightarrow>
  table_x509 der = Inl ''invalid DER''"
proof -
  assume "der \<notin> set nitro_ders" and other: "der \<noteq> inter1_der @ trailing_der"
  then have "map_of (zip nitro_ders nitro_certs) der = None"
    by (auto simp: map_of_eq_None_iff dest: set_zip_leftD)
  with other show ?thesis by (simp add: table_x509_def)
qed

lemma length_trailing_der: "length trailing_der = 23"
  by (simp add: trailing_der_def)

lemma table_x509_tests_env: "x509_tests_env table_env"
proof -
  have "table_x509 [0xDE, 0xAD, 0xBE, 0xEF] = Inl ''invalid DER''"
    using nitro_der_lengths by (intro table_unknown) (auto simp: nitro_ders_def dest!: arg_cong [of _ _ length])
  moreover have "inter1_der @ trailing_der \<notin> set nitro_ders"
    using nitro_der_lengths length_trailing_der
    by (auto simp: nitro_ders_def dest!: arg_cong [of _ _ length])
  then have "table_x509 (inter1_der @ trailing_der) = Inr (trailing_der, inter1_cert)"
    by (auto simp: table_x509_def map_of_eq_None_iff dest: set_zip_leftD split: option.split
        dest!: map_of_SomeD)
  moreover have "table_x509 bs = Inl ''invalid DER''" if "flip_middle inter1_der = Ok bs" for bs
    using flip_middle_neq [OF that] nitro_der_lengths length_trailing_der
    by (intro table_unknown) (auto simp: nitro_ders_def)
  ultimately show ?thesis
    using table_nitro_env by (auto simp: x509_tests_env_def) (auto simp: table_env_def)
qed

lemma table_report: "report_of table_deps nitro_attestation nitro_report"
  by (auto simp: report_of_def table_deps_def table_cbor_def nitro_report_def is_cose_sign1_def)

lemma table_cose_signed: "cose_signed_by table_deps (subject_public_key leaf_cert) nitro_cose"
  by (simp add: cose_signed_by_def table_deps_def table_cbor_def table_p384_def table_signatures_def)

lemma table_nitro_deps: "nitro_deps table_deps"
  using table_report table_cose_signed table_parses table_nitro_signatures
  by (simp add: nitro_deps_def) (simp add: table_deps_def)

lemma nitro_report_verified_witness:
  "verify table_deps \<lparr>vi_trustedCertsPrefixLen = 1, vi_attestationReport = nitro_attestation\<rparr> =
     Ok (nitro_journal table_sha 1)"
  using nitro_report_verified [OF table_nitro_deps, of 1] by (simp add: table_deps_def)

lemma table_report_env_ok: "report_env_ok table_report_env"
proof -
  have "[0xDE, 0xAD] \<noteq> nitro_attestation"
  proof
    assume "[0xDE, 0xAD] = nitro_attestation"
    then have "length [0xDE :: byte, 0xAD] = length nitro_attestation" by (rule arg_cong)
    then show False by (simp add: length_nitro_attestation)
  qed
  then show ?thesis
    using table_nitro_deps demo_abi_journal_lossless
    by (simp add: report_env_ok_def table_report_env_def nitro_attestation_def [symmetric])
      (simp add: table_deps_def table_cbor_def)
qed

text \<open>A process without environment variables, and a file that stands for the guest program.\<close>

definition table_world :: world where
  "table_world =
     \<lparr>world_env = (\<lambda>_. None),
      world_files = [''/src/verifier/elf/nitro-verifier-guest'' \<mapsto> [0x7F]],
      dir_fault = (\<lambda>_. None), write_fault = (\<lambda>_. None)\<rparr>"

section \<open>The default run\<close>

definition table_guest :: "(unit, string, bytes, bytes) guest_deps" where
  "table_guest = deps.extend table_deps (guest_deps.fields demo_abi_input demo_abi_journal)"

lemma table_guest_deps: "verifier_deps table_guest = table_deps"
  by (simp add: table_guest_def verifier_deps_def deps.defs guest_deps.defs table_deps_def)

text \<open>An SDK without a proving backend.\<close>

definition idle_sdk :: "(unit, unit) sp1_sdk" where
  "idle_sdk =
     \<lparr>cpu_client = (), sdk_setup = (\<lambda>_ _. Inr ()), vkey_bytes32 = (\<lambda>_. ''0x00''),
      prove_groth16 = (\<lambda>_ _ _. Inl ''no backend'')\<rparr>"

definition table_cli :: "(unit, string, bytes, bytes, unit, unit) cli_deps" where
  "table_cli =
     \<lparr>cli_guest = table_guest, cli_sdk = idle_sdk, cargo_manifest_dir = ''/src'',
      test_attestation_hex = ATTESTATION_HEX, hex_decode = (\<lambda>h. Inr (hex_bytes h)),
      hex_encode_prefixed = (\<lambda>_. []), to_vec_pretty = (\<lambda>_. Inr []), groth16_vk_bytes = [4],
      groth16_verify = (\<lambda>pf out vk key. Inr ())\<rparr>"

lemma table_bundled: "bundled_run table_cli table_world"
  using table_nitro_deps
  by (simp add: bundled_run_def table_cli_def table_world_def table_guest_deps nitro_attestation_def)

lemma main_bundled_report_witness:
  "main table_cli table_world = (Err (Prover (Sp1 ''proving failed: no backend'')), table_world)"
proof -
  have "world_files table_world (elf_path table_cli table_world) = Some [0x7F]"
    by (simp add: elf_path_def table_world_def table_cli_def DEFAULT_GUEST_PROGRAM_def)
  from main_bundled_report [OF table_bundled this, of "()"] show ?thesis
    by (simp add: table_cli_def idle_sdk_def)
qed

section \<open>A codec for the envelope tests\<close>

text \<open>The five values of the tests are numbered; a number is written as one byte.\<close>

definition table_codec :: "nat ciborium" where
  "table_codec =
     \<lparr>value_from_reader = (\<lambda>bs.
        if bs = [0x18, 0x2a] then Inr (CborOther 42)
        else (case map_of (zip [[1], [2], [3], [4], [5]] (written_values 0)) bs of
                Some v \<Rightarrow> Inr v | None \<Rightarrow> Inl ''unexpected end of input'')),
      document_from_reader = (\<lambda>_. Inl ''invalid document''),
      into_writer = (\<lambda>v.
        case map_of (zip (written_values 0) [[1], [2], [3], [4], [5]]) v of
          Some bs \<Rightarrow> Inr bs | None \<Rightarrow> Inl ''unsupported value'')\<rparr>"

lemma table_codec_ok: "cbor_codec table_codec 0"
  by (simp add: cbor_codec_def reads_back_def table_codec_def written_values_def)

lemma unit_tests_pass_witness:
  "list_all passes
     (unit_tests table_codec 0 (map (char_of \<circ> unat)) table_env table_report_env table_world)"
  by (rule unit_tests_pass [OF table_codec_ok table_x509_tests_env table_report_env_ok])
    (simp add: table_world_def)

end
