(* ===== verification/Spec2Isabelle.thy ===== *)
theory Spec2Isabelle
  imports Prelude Step_Systems Byte_Arrays Btree_Map Errors Sol_Types Cose Content Path_Digest X509
    Cert_Chain Cert_Trust Verify Journal Chain_Cache Guest Provider Direct Direct_Async
    Direct_Concurrent Cli Console Debug_Format
    Test_Support Content_Tests Cose_Tests Error_Tests Provider_Tests Nitro_Chain X509_Tests
    Nitro_Report Verify_Tests Unit_Tests Demo_Codec Examples Examples_Cache Examples_Concurrent
    Nitro_Examples
begin

text \<open>
  Verification of the Nitro attestation prover: a verifier for AWS Nitro Enclave attestation
  reports (crate base-proof-tee-nitro-verifier, directory verifier/) that runs on the host and,
  as an SP1 guest, inside a zkVM, and a prover (directory src/) that proves the guest's run and
  saves the proof for submission to a chain.

  The program and the model. A report is a CBOR-encoded \<open>COSE_Sign1\<close> envelope; its payload is
  an attestation document with PCR values, a leaf certificate and a bundle of CA certificates.
  \<open>AttestationVerifier::verify\<close> parses the report, checks the document's content (the M-02
  checks), parses the certificates, verifies the chain from the first untrusted certificate on
  (the M-01 checks), verifies the envelope's signature under the leaf's key and returns a
  journal. The guest does this for ABI-encoded input and commits the ABI-encoded journal.
  \<open>DirectProver\<close> does it on the host first, then proves the guest on the same input; the
  command-line program reads the inputs, runs the prover, saves two JSON files and checks the
  proof. The theories follow the code:

  \<^item> Prelude: the result type \<open>outcome\<close>, whose constructors are \<open>Ok\<close>, \<open>Err\<close> and \<open>Panic\<close>, the
    operations that panic (\<open>unwrap\<close>, indexing, \<open>usize\<close> subtraction), collecting of results,
    decimal formatting, and the interface \<open>validator\<close> of a check that returns \<open>Result<()>\<close>.
    Step_Systems: the interface of an invariant of a step relation.
  \<^item> Byte_Arrays: arrays of fixed length (\<open>ByteArray<48>\<close>, \<open>B256\<close>, \<open>B128\<close>, \<open>Address\<close>) and the
    interface of encodings of constant width. Btree_Map: \<open>BTreeMap\<close> as an ordered list of
    entries, and the interface \<open>ordered_map\<close>.
  \<^item> Errors: verifier/src/error.rs and src/error.rs. Sol_Types: verifier/src/types.rs.
  \<^item> Cose: verifier/src/attestation.rs. Content: \<open>validate_attestation_content\<close> of
    verifier/src/verify.rs.
  \<^item> Path_Digest, X509, Cert_Chain: \<open>compute_path_digests\<close>, the per-certificate checks, and
    \<open>CertChain\<close> of verifier/src/x509.rs. Cert_Trust: the abstract relation of trust that
    \<open>verify_chain\<close> refines, and the meaning of its numeric checks.
  \<^item> Verify: \<open>verify\<close> of verifier/src/verify.rs. Journal: what its results guarantee.
    Chain_Cache: what a run depends on of its trusted prefix, and a consumer of journals that
    caches prefixes.
  \<^item> Guest: verifier/src/bin/nitro-verifier-guest.rs.
  \<^item> Provider: the trait of src/types.rs, its default methods, the implementation for boxed
    providers (a box carries the methods and the state of its provider), a driver's session, and
    the two providers of its tests. Direct: src/direct.rs, read sequentially;
    Direct_Async: its \<open>generate_proof\<close> as a future that is polled, cancelled and dropped;
    Direct_Concurrent: several such calls on one prover, under every schedule of polls,
    cancellations and drops. Debug_Format: the \<open>Debug\<close> output of
    \<open>AttestationProof\<close> and \<open>DirectProver\<close>.
  \<^item> Cli: src/main.rs over an explicit state of environment variables and files.
  \<^item> Console: the lines printed by the verifier, the prover, src/main.rs and the stub that the
    guest's source is on other targets; each operation that prints is given again with its
    messages and shown to be the silent one otherwise.
  \<^item> Test_Support, Content_Tests, Cose_Tests, Error_Tests, Provider_Tests, X509_Tests,
    Verify_Tests: the unit tests of both crates, each a definition that ends in \<open>Ok ()\<close> or
    panics; Unit_Tests puts them together. Their fixtures are the real ones: Nitro_Chain holds the
    five certificates of the tests of x509.rs with the fields that are read of them, Nitro_Report
    the report of verifier/testdata/attestation.hex with its document, and the run of the verifier
    and of the command line on it.
  \<^item> Demo_Codec, Examples, Examples_Cache, Examples_Concurrent: concrete parameters and a small
    report; Nitro_Examples: parameters that know the real fixtures. On these the hypotheses of every
    property are shown to hold.

  What is proved. Every check of the verifier is characterised by the predicate it decides and
  shown never to panic; the characterisations compose to an exact one of \<open>verify\<close>, from which
  follow the invariant of journals, the authenticity of their content, the effect of the
  trusted prefix, the independence of the unprotected header, and the stage at which a report
  is rejected. Accepted chains are shown to be trusted in an abstract relation that grows from
  anchors by valid issuance. Path digests are shown to follow the documented recurrence, to be
  stable under extension and, as far as the hash has no collision, to bind the whole prefix, so
  that a consumer who compares a journal's digest with a cached one knows which certificates
  the run trusted unchecked. Of a trusted prefix a run uses the issuer data of its last
  certificate and two checks on each; a consumer that follows the conditions of \<open>served_by\<close>
  accepts nothing that a verification from the root would reject, and without these conditions
  it may: a cached leaf acts as a CA, and lemmas of Examples_Cache show the same for a longer
  chain and for an expired prefix. The contract that keeps the cache is not part of the
  repository; \<open>consumer\<close> states what it would have to observe.
  For the guest and the prover: the guest fails closed; a proof's public output is the encoding
  of the host's journal; in every interleaving at most one job is submitted, after the host
  has verified, and the result is the sequential one; of several calls on one prover, each that
  is not dropped and is polled with the pool ready has returned, with the result and the job
  that its own attestation and the token at its first poll decide, and together they submit at
  most one job each; a session through a boxed provider is that of the provider. The command
  line writes nothing before a proof exists, leaves the artifacts, if it changes them, in one
  of five states, and saves the proof before it checks it; with the verifier's guest as the
  proved program only an empty proof or the Groth16 verifier fails the run after that. The lines it prints are the first of a fixed script, filled
  with the key, the number of certificates and the lengths of this run, and the line of a step
  is there exactly if the step succeeded.
  For the fixtures: the model passes every unit test of the repository; the real report is
  accepted with every trusted prefix up to its five certificates, with the journal written out,
  and a default run of the command line always gets as far as the SDK.

  Parameters and what is assumed of them. Code outside the repository is an argument of the
  definitions: the CBOR codec (\<open>ciborium\<close>), the X.509 parser (\<open>x509_from_der\<close>), ECDSA on P-384
  (\<open>p384\<close>), SHA-256, the ABI codec (\<open>sol_value\<close>), the SP1 SDK (\<open>sp1_sdk\<close>), and for the command
  line \<open>hex\<close>, \<open>serde_json\<close> and \<open>sp1_verifier\<close>. Errors of these libraries are values with their
  display text. The hypotheses used, each named where it is introduced: \<open>cbor_lossless\<close> (what
  was written of a flat array of strings reads back), \<open>abi_lossless\<close> (decoding inverts encoding), \<open>proves_guest\<close> (a proof exists only for a run of
  the guest that did not panic and its public values are what the run committed), and
  injectivity of the hash on the strings actually hashed. The theorems about the fixtures assume
  what the third-party code makes of their bytes, and nothing of other bytes but a few that the
  tests name: \<open>nitro_deps\<close>, \<open>nitro_env\<close> (the codec finds the document, the parser the
  certificates, and the signatures verify; the fields were read off the DER and CBOR encodings,
  and lemma \<open>nitro_attestation_split\<close> shows that the report contains the five certificates),
  \<open>x509_tests_env\<close>, \<open>cbor_codec\<close> and \<open>report_env_ok\<close>. No other theorem assumes anything of a
  parameter.

  Numbers. Words keep their width: \<open>u8\<close>, \<open>u32\<close>, \<open>u64\<close>, and \<open>i64\<close> as a 64-bit word read with
  \<open>sint\<close>; the casts of the code (milliseconds to signed seconds, \<open>notAfter\<close> to \<open>u64\<close>, the
  number of remaining certificates to \<open>u32\<close>) are modelled as casts, and where they cannot lose
  a value this is a theorem. Lengths and indices (\<open>usize\<close>) are natural numbers whose
  subtractions panic on underflow. No definition uses fuel: all loops are structural.

  Not modelled. The measuring of time (its text is an argument), the derived \<open>Debug\<close> output of
  the verifier's types, the tracing set-up, what the unit tests print, the error text that
  \<open>expect\<close>, \<open>assert_eq!\<close> and the file-reading closures append to a panic message, and what the
  runtime prints for a panic or an error of \<open>main\<close>. The crate roots are lists of modules; the
  scripts, container files and built artifacts are not Rust code of the program.
\<close>

end
